(* ===== verification/Prelude.thy ===== *)
theory Prelude
  imports Main "HOL-Library.Sublist" "HOL-Library.AList"
begin

text \<open>
  The Go string and number routines the agent uses, as executable functions on
  byte strings, and the lemmas about them that every component shares.

  A Go string is a sequence of bytes and so is \<^typ>\<open>string\<close>. White space is the ASCII
  white space of \<^verbatim>\<open>strings.TrimSpace\<close> and \<^verbatim>\<open>strings.Fields\<close>; the non-ASCII spaces of
  Unicode are not treated as white space here. A Go \<^verbatim>\<open>int\<close> is an \<^typ>\<open>int\<close>; where the
  64-bit range matters (\<^verbatim>\<open>strconv.Atoi\<close>) the range check is written out.
\<close>

named_theorems str_simps \<open>evaluation of the Go string functions\<close>

type_synonym error = string

section \<open>Prefixes, suffixes, substrings\<close>

fun has_prefix :: "string \<Rightarrow> string \<Rightarrow> bool" where
  "has_prefix s [] = True"
| "has_prefix [] (p # ps) = False"
| "has_prefix (c # cs) (p # ps) = (c = p \<and> has_prefix cs ps)"

definition has_suffix :: "string \<Rightarrow> string \<Rightarrow> bool" where
  "has_suffix s p = has_prefix (rev s) (rev p)"

fun str_contains :: "string \<Rightarrow> string \<Rightarrow> bool" where
  "str_contains [] p = has_prefix [] p"
| "str_contains (c # cs) p = (has_prefix (c # cs) p \<or> str_contains cs p)"

definition trim_prefix :: "string \<Rightarrow> string \<Rightarrow> string" where
  "trim_prefix s p = (if has_prefix s p then drop (length p) s else s)"

definition trim_suffix :: "string \<Rightarrow> string \<Rightarrow> string" where
  "trim_suffix s p = (if has_suffix s p then take (length s - length p) s else s)"

lemma has_prefix_iff: "has_prefix s p \<longleftrightarrow> prefix p s"
  by (induction s p rule: has_prefix.induct) auto

lemma has_prefix_append [simp]: "has_prefix (p @ t) p"
  by (simp add: has_prefix_iff)

lemma has_prefix_refl [simp]: "has_prefix p p"
  by (simp add: has_prefix_iff)

lemma has_suffix_iff: "has_suffix s p \<longleftrightarrow> suffix p s"
  by (simp add: has_suffix_def has_prefix_iff suffix_to_prefix)

lemma has_suffix_append [simp]: "has_suffix (t @ p) p"
  by (simp add: has_suffix_def)

lemma str_contains_iff: "str_contains s p \<longleftrightarrow> sublist p s"
  by (induction s p rule: str_contains.induct)
    (auto simp: has_prefix_iff sublist_Cons_right)

lemma str_containsI [intro]: "s = a @ p @ b \<Longrightarrow> str_contains s p"
  unfolding str_contains_iff by blast

lemma str_contains_append_left: "str_contains a p \<Longrightarrow> str_contains (a @ b) p"
  unfolding str_contains_iff by (metis append_assoc sublist_def)

lemma str_contains_append_right: "str_contains b p \<Longrightarrow> str_contains (a @ b) p"
  unfolding str_contains_iff by (metis append_assoc sublist_def)

lemma str_contains_set: "str_contains s p \<Longrightarrow> set p \<subseteq> set s"
  unfolding str_contains_iff by (auto simp: sublist_def)

lemma str_contains_singleton: "str_contains s [c] \<longleftrightarrow> c \<in> set s"
  unfolding str_contains_iff by (metis append_Cons append_Nil in_set_conv_decomp_first
      insert_iff list.set(2) sublist_def set_append Un_iff)

lemma trim_prefix_append [simp]: "trim_prefix (p @ s) p = s"
  by (simp add: trim_prefix_def)

lemma trim_suffix_append [simp]: "trim_suffix (s @ p) p = s"
  by (simp add: trim_suffix_def)

section \<open>Trimming, splitting and joining\<close>

definition is_space :: "char \<Rightarrow> bool" where
  "is_space c \<longleftrightarrow> c = CHR 0x20 \<or> c = CHR 0x09 \<or> c = CHR 0x0A \<or> c = CHR 0x0B
     \<or> c = CHR 0x0C \<or> c = CHR 0x0D"

definition trim_left :: "(char \<Rightarrow> bool) \<Rightarrow> string \<Rightarrow> string" where
  "trim_left P s = dropWhile P s"

definition trim_right :: "(char \<Rightarrow> bool) \<Rightarrow> string \<Rightarrow> string" where
  "trim_right P s = rev (dropWhile P (rev s))"

definition trim_space :: "string \<Rightarrow> string" where
  "trim_space s = trim_right is_space (trim_left is_space s)"

fun split_by :: "(char \<Rightarrow> bool) \<Rightarrow> string \<Rightarrow> string list" where
  "split_by P [] = [[]]"
| "split_by P (x # xs) =
     (if P x then [] # split_by P xs
      else case split_by P xs of [] \<Rightarrow> [[x]] | w # ws \<Rightarrow> (x # w) # ws)"

abbreviation NL :: char where "NL \<equiv> CHR 0x0A"

definition split_char :: "char \<Rightarrow> string \<Rightarrow> string list" where
  "split_char c s = split_by (\<lambda>x. x = c) s"

definition fields :: "string \<Rightarrow> string list" where
  "fields s = filter (\<lambda>w. w \<noteq> []) (split_by is_space s)"

fun join :: "string \<Rightarrow> string list \<Rightarrow> string" where
  "join sep [] = []"
| "join sep [w] = w"
| "join sep (w # v # ws) = w @ sep @ join sep (v # ws)"

text \<open>\<^verbatim>\<open>strings.SplitN(s, sep, 2)\<close> for a one-byte separator: \<^const>\<open>None\<close> when it does not occur.\<close>

fun cut_char :: "char \<Rightarrow> string \<Rightarrow> (string \<times> string) option" where
  "cut_char c [] = None"
| "cut_char c (x # xs) =
     (if x = c then Some ([], xs)
      else map_option (\<lambda>(a, b). (x # a, b)) (cut_char c xs))"

text \<open>\<^verbatim>\<open>strings.Replace(s, old, new, 1)\<close> for a non-empty \<^verbatim>\<open>old\<close>.\<close>

fun replace_first :: "string \<Rightarrow> string \<Rightarrow> string \<Rightarrow> string" where
  "replace_first [] old new = []"
| "replace_first (c # cs) old new =
     (if has_prefix (c # cs) old then new @ drop (length old) (c # cs)
      else c # replace_first cs old new)"

text \<open>\<^verbatim>\<open>strings.ReplaceAll\<close> for a non-empty \<^verbatim>\<open>old\<close> (an empty one leaves the text alone here; the agent never passes one).\<close>

function replace_all :: "string \<Rightarrow> string \<Rightarrow> string \<Rightarrow> string" where
  "replace_all s old new =
     (if s = [] \<or> old = [] then s
      else if has_prefix s old then new @ replace_all (drop (length old) s) old new
      else hd s # replace_all (tl s) old new)"
  by pat_completeness auto
termination
  by (relation "measure (\<lambda>(s, old, new). length s)") auto

declare replace_all.simps [simp del]

definition lower_char :: "char \<Rightarrow> char" where
  "lower_char c = (let n = (of_char c :: nat) in if 65 \<le> n \<and> n \<le> 90 then char_of (n + 32) else c)"

definition to_lower :: "string \<Rightarrow> string" where
  "to_lower s = map lower_char s"

lemma split_by_nonempty [simp]: "split_by P s \<noteq> []"
  by (induction s) (auto split: list.splits)

lemma split_char_nonempty [simp]: "split_char c s \<noteq> []"
  by (simp add: split_char_def)

lemma split_by_no: "\<forall>x \<in> set s. \<not> P x \<Longrightarrow> split_by P s = [s]"
  by (induction s) auto

lemma split_char_no: "c \<notin> set s \<Longrightarrow> split_char c s = [s]"
  by (auto simp: split_char_def intro: split_by_no)

lemma split_by_cons: "\<forall>x \<in> set w. \<not> P x \<Longrightarrow> P c \<Longrightarrow> split_by P (w @ c # r) = w # split_by P r"
  by (induction w) auto

lemma split_char_cons: "c \<notin> set w \<Longrightarrow> split_char c (w @ c # r) = w # split_char c r"
  unfolding split_char_def by (rule split_by_cons) auto

lemma split_char_parts: "w \<in> set (split_char c s) \<Longrightarrow> c \<notin> set w"
  unfolding split_char_def
  by (induction s arbitrary: w) (fastforce split: if_splits list.splits)+

lemma join_Cons: "ws \<noteq> [] \<Longrightarrow> join sep (w # ws) = w @ sep @ join sep ws"
  by (cases ws) auto

lemma split_char_join:
  "ws \<noteq> [] \<Longrightarrow> \<forall>w \<in> set ws. c \<notin> set w \<Longrightarrow> split_char c (join [c] ws) = ws"
proof (induction ws)
  case Nil
  then show ?case by simp
next
  case (Cons w ws)
  then show ?case
    by (cases ws) (simp_all add: split_char_no split_char_cons)
qed

lemma join_split_char: "join [c] (split_char c s) = s"
proof (induction s)
  case Nil
  then show ?case by (simp add: split_char_def)
next
  case (Cons x xs)
  obtain w ws where sp: "split_char c xs = w # ws"
    by (cases "split_char c xs") auto
  have "split_char c (x # xs) = (if x = c then [] # w # ws else (x # w) # ws)"
    using sp by (simp add: split_char_def)
  then show ?case using Cons sp by (cases ws) auto
qed

lemma set_join: "w \<in> set ws \<Longrightarrow> set w \<subseteq> set (join sep ws)"
proof (induction ws)
  case (Cons v ws)
  then show ?case by (cases "ws = []") (auto simp: join_Cons)
qed simp

lemma cut_char_append: "c \<notin> set a \<Longrightarrow> cut_char c (a @ c # b) = Some (a, b)"
  by (induction a) auto

lemma cut_char_Some: "cut_char c s = Some (a, b) \<Longrightarrow> s = a @ c # b \<and> c \<notin> set a"
  by (induction s arbitrary: a b) (auto split: if_splits)

lemma cut_char_None: "cut_char c s = None \<longleftrightarrow> c \<notin> set s"
  by (induction s) auto

lemma trim_left_id: "s = [] \<or> \<not> P (hd s) \<Longrightarrow> trim_left P s = s"
  by (cases s) (auto simp: trim_left_def)

lemma trim_right_id: "s = [] \<or> \<not> P (last s) \<Longrightarrow> trim_right P s = s"
  by (cases s rule: rev_cases) (auto simp: trim_right_def)

lemma trim_space_id:
  "s = [] \<or> (\<not> is_space (hd s) \<and> \<not> is_space (last s)) \<Longrightarrow> trim_space s = s"
  by (auto simp: trim_space_def trim_left_id trim_right_id)

lemma set_trim_right: "set (trim_right P s) \<subseteq> set s"
  by (metis set_dropWhileD set_rev subsetI trim_right_def)

lemma set_trim_left: "set (trim_left P s) \<subseteq> set s"
  by (metis set_dropWhileD subsetI trim_left_def)

lemma set_trim_space: "set (trim_space s) \<subseteq> set s"
  unfolding trim_space_def using set_trim_left set_trim_right by blast

lemma trim_space_ends:
  "trim_space s \<noteq> [] \<Longrightarrow> \<not> is_space (hd (trim_space s)) \<and> \<not> is_space (last (trim_space s))"
proof -
  let ?l = "trim_left is_space s"
  let ?r = "trim_space s"
  assume ne: "?r \<noteq> []"
  then have dw: "dropWhile is_space (rev ?l) \<noteq> []"
    by (auto simp: trim_space_def trim_right_def)
  then have last: "\<not> is_space (last ?r)"
    by (simp add: trim_space_def trim_right_def last_rev hd_dropWhile)
  have lne: "?l \<noteq> []" using dw by auto
  then have hd: "\<not> is_space (hd ?l)" by (simp add: trim_left_def hd_dropWhile)
  obtain t where "?l = ?r @ t"
    by (metis rev_append rev_rev_ident takeWhile_dropWhile_id trim_right_def trim_space_def)
  with ne have "hd ?l = hd ?r" by simp
  with hd last show ?thesis by simp
qed

lemma trim_space_idem [simp]: "trim_space (trim_space s) = trim_space s"
  using trim_space_ends [of s] by (intro trim_space_id) blast

lemma has_prefix_same: "has_prefix (a @ x) (a @ y) = has_prefix x y"
  by (induction a) auto

lemma str_contains_dropWhile:
  "p \<noteq> [] \<Longrightarrow> \<not> P (hd p) \<Longrightarrow> str_contains (dropWhile P l) p = str_contains l p"
  by (induction l) (auto simp: neq_Nil_conv)

lemma str_contains_rev: "str_contains (rev l) (rev p) = str_contains l p"
  unfolding str_contains_iff by (simp add: sublist_rev)

lemma str_contains_trim:
  assumes "p \<noteq> []" and "\<not> is_space (hd p)" and "\<not> is_space (last p)"
  shows "str_contains (trim_space l) p = str_contains l p"
proof -
  have right: "str_contains (trim_right is_space l) p = str_contains l p" for l
  proof -
    have "str_contains (trim_right is_space l) p = str_contains (dropWhile is_space (rev l)) (rev p)"
      by (simp add: trim_right_def str_contains_rev [of "dropWhile is_space (rev l)" "rev p", symmetric])
    also have "\<dots> = str_contains (rev l) (rev p)"
      using assms by (intro str_contains_dropWhile) (simp_all add: hd_rev)
    finally show ?thesis by (simp add: str_contains_rev)
  qed
  show ?thesis
    using assms(1,2) by (simp add: trim_space_def right) (simp add: trim_left_def str_contains_dropWhile)
qed

lemma split_char_Cons:
  "split_char c (x # xs) =
     (if x = c then [] # split_char c xs else (x # hd (split_char c xs)) # tl (split_char c xs))"
  by (simp add: split_char_def split: list.splits)

lemma split_char_append:
  "split_char c (u @ v) =
     butlast (split_char c u) @ (last (split_char c u) @ hd (split_char c v)) # tl (split_char c v)"
proof (induction u)
  case Nil
  have "split_char c [] = [[]]" by (simp add: split_char_def)
  then show ?case by simp
next
  case (Cons x u)
  then show ?case
    by (cases "split_char c u"; cases "tl (split_char c u)") (auto simp: split_char_Cons)
qed

lemma split_char_prefix:
  "c \<notin> set w \<Longrightarrow> split_char c (w @ r) = (w @ hd (split_char c r)) # tl (split_char c r)"
  by (simp add: split_char_append split_char_no)

lemma replace_first_split:
  "old \<noteq> [] \<Longrightarrow> str_contains s old \<Longrightarrow> \<exists>a b. s = a @ old @ b \<and> replace_first s old new = a @ new @ b"
proof (induction s)
  case Nil
  then show ?case by (cases old) auto
next
  case (Cons c s)
  show ?case
  proof (cases "has_prefix (c # s) old")
    case True
    then have "\<exists>b. c # s = old @ b" by (auto simp: has_prefix_iff prefix_def)
    then obtain b where b: "c # s = old @ b" by blast
    with True have "replace_first (c # s) old new = new @ b"
      by (metis append_eq_conv_conj replace_first.simps(2))
    with b show ?thesis by (metis append_Nil)
  next
    case False
    with Cons.prems have "str_contains s old" by simp
    with Cons.IH Cons.prems(1) obtain a b where "s = a @ old @ b" "replace_first s old new = a @ new @ b" by blast
    with False show ?thesis by (intro exI [of _ "c # a"] exI [of _ b]) simp
  qed
qed

section \<open>Lines, as \<^verbatim>\<open>bufio.Scanner\<close> reads them\<close>

text \<open>
  A scanner with the default buffer gives the lines without their line ends and without one
  trailing carriage return, does not report the empty text after a final line end, and stops
  with an error at the first line of 65536 bytes or more.
\<close>

definition max_token :: nat where "max_token = 65536"

lemma short_line_code [code_unfold]: "length l < max_token \<longleftrightarrow> int (length l) < 65536"
  by (simp add: max_token_def)

definition raw_lines :: "string \<Rightarrow> string list" where
  "raw_lines s = (let ls = split_char NL s in if last ls = [] then butlast ls else ls)"

definition drop_cr :: "string \<Rightarrow> string" where
  "drop_cr l = (if l \<noteq> [] \<and> last l = CHR 0x0D then butlast l else l)"

definition scan_lines :: "string \<Rightarrow> string list" where
  "scan_lines s = map drop_cr (takeWhile (\<lambda>l. length l < max_token) (raw_lines s))"

definition scan_err :: "string \<Rightarrow> error option" where
  "scan_err s = (if list_all (\<lambda>l. length l < max_token) (raw_lines s) then None
     else Some ''bufio.Scanner: token too long'')"

fun unlines :: "string list \<Rightarrow> string" where
  "unlines [] = []"
| "unlines (l # ls) = l @ NL # unlines ls"

lemma split_unlines: "\<forall>l \<in> set ls. NL \<notin> set l \<Longrightarrow> split_char NL (unlines ls) = ls @ [[]]"
proof (induction ls)
  case Nil
  then show ?case by (simp add: split_char_def)
next
  case (Cons l ls)
  then show ?case by (simp add: split_char_cons)
qed

lemma raw_lines_unlines: "\<forall>l \<in> set ls. NL \<notin> set l \<Longrightarrow> raw_lines (unlines ls) = ls"
  by (simp add: raw_lines_def split_unlines)

lemma scan_unlines:
  assumes "\<forall>l \<in> set ls. NL \<notin> set l \<and> CHR 0x0D \<notin> set l \<and> length l < max_token"
  shows "scan_lines (unlines ls) = ls" and "scan_err (unlines ls) = None"
proof -
  have r: "raw_lines (unlines ls) = ls" using assms by (intro raw_lines_unlines) blast
  have "map drop_cr ls = ls"
    using assms by (intro map_idI) (metis drop_cr_def last_in_set)
  then show "scan_lines (unlines ls) = ls"
    using assms by (simp add: scan_lines_def r) (metis takeWhile_eq_all_conv)
  show "scan_err (unlines ls) = None"
    using assms by (simp add: scan_err_def r list_all_iff)
qed

lemma unlines_append: "unlines (xs @ ys) = unlines xs @ unlines ys"
  by (induction xs) auto

section \<open>Decimal numbers\<close>

definition digit :: "nat \<Rightarrow> char" where
  "digit d = ''0123456789'' ! d"

fun dec :: "nat \<Rightarrow> string" where
  "dec n = (if n < 10 then [digit n] else dec (n div 10) @ [digit (n mod 10)])"

declare dec.simps [simp del]

definition itoa :: "int \<Rightarrow> string" where
  "itoa i = (if i < 0 then CHR ''-'' # dec (nat (- i)) else dec (nat i))"

definition is_digit :: "char \<Rightarrow> bool" where
  "is_digit c \<longleftrightarrow> 48 \<le> (of_char c :: nat) \<and> (of_char c :: nat) \<le> 57"

definition digits_val :: "string \<Rightarrow> nat" where
  "digits_val s = foldl (\<lambda>n c. 10 * n + (of_char c - 48)) 0 s"

datatype num_err = NumSyntax | NumRange

text \<open>
  \<^verbatim>\<open>strconv.Atoi\<close> and \<^verbatim>\<open>strconv.ParseInt(s, 10, 64)\<close>: the value is given with the error, because
  callers that ignore the error use it (zero for a syntax error, the nearest bound for a value
  out of range).
\<close>

definition atoi_parts :: "string \<Rightarrow> bool \<times> string" where
  "atoi_parts s = (case s of [] \<Rightarrow> (False, [])
     | c # cs \<Rightarrow> if c = CHR ''-'' then (True, cs) else if c = CHR ''+'' then (False, cs) else (False, s))"

definition atoi :: "string \<Rightarrow> int \<times> num_err option" where
  "atoi s =
     (let (neg, ds) = atoi_parts s in
      if ds = [] \<or> \<not> list_all is_digit ds then (0, Some NumSyntax)
      else let v = int (digits_val ds) in
        if neg then (if 2 ^ 63 < v then (- (2 ^ 63), Some NumRange) else (- v, None))
        else (if 2 ^ 63 \<le> v then (2 ^ 63 - 1, Some NumRange) else (v, None)))"

lemma of_char_digit: "d < 10 \<Longrightarrow> (of_char (digit d) :: nat) = 48 + d"
proof -
  assume "d < 10"
  then have "d \<in> {0,1,2,3,4,5,6,7,8,9}" by auto
  then show ?thesis by (auto simp: digit_def)
qed

lemma is_digit_digit: "d < 10 \<Longrightarrow> is_digit (digit d)"
  by (simp add: is_digit_def of_char_digit)

lemma dec_nonempty [simp]: "dec n \<noteq> []"
  by (subst dec.simps) simp

lemma dec_digits: "list_all is_digit (dec n)"
proof (induction n rule: dec.induct)
  case (1 n)
  then show ?case
    by (subst dec.simps) (auto simp: is_digit_digit)
qed

lemma digits_val_dec [simp]: "digits_val (dec n) = n"
proof (induction n rule: dec.induct)
  case (1 n)
  show ?case
  proof (cases "n < 10")
    case True
    then show ?thesis by (subst dec.simps) (simp add: digits_val_def of_char_digit)
  next
    case False
    have "digits_val (dec n) = 10 * digits_val (dec (n div 10)) + n mod 10"
      using False by (subst dec.simps) (simp add: digits_val_def of_char_digit)
    then show ?thesis using 1 False by simp
  qed
qed

lemma dec_inj: "dec m = dec n \<Longrightarrow> m = n"
  by (metis digits_val_dec)

lemma dec_sign: "hd (dec n) \<noteq> CHR ''-'' \<and> hd (dec n) \<noteq> CHR ''+''"
proof -
  have "is_digit (hd (dec n))"
    using dec_digits [of n] by (cases "dec n") auto
  then show ?thesis by (auto simp: is_digit_def)
qed

lemma atoi_parts_dec: "atoi_parts (dec n) = (False, dec n)"
  using dec_sign [of n] by (cases "dec n") (auto simp: atoi_parts_def)

lemma atoi_dec: "n < 2 ^ 63 \<Longrightarrow> atoi (dec n) = (int n, None)"
proof -
  assume "n < 2 ^ 63"
  then have "\<not> (2 :: int) ^ 63 \<le> int n" by simp
  then show ?thesis by (simp add: atoi_def atoi_parts_dec dec_digits)
qed

lemma atoi_itoa:
  assumes "- (2 ^ 63) \<le> i" and "i < 2 ^ 63"
  shows "atoi (itoa i) = (i, None)"
proof (cases "i < 0")
  case True
  then have "atoi_parts (itoa i) = (True, dec (nat (- i)))"
    by (simp add: itoa_def atoi_parts_def)
  with True assms show ?thesis by (simp add: atoi_def dec_digits)
next
  case False
  with assms have "nat i < 2 ^ 63" by (simp add: nat_less_iff)
  with False show ?thesis by (simp add: itoa_def atoi_dec)
qed

lemma itoa_inj: "itoa i = itoa j \<Longrightarrow> i = j"
proof -
  assume eq: "itoa i = itoa j"
  have "i < 0 \<longleftrightarrow> j < 0"
    using eq dec_sign by (auto simp: itoa_def split: if_splits) (metis list.sel(1))+
  with eq show ?thesis by (auto simp: itoa_def dest!: dec_inj split: if_splits)
qed

section \<open>Durations\<close>

text \<open>\<^verbatim>\<open>time.Duration.String\<close> for a non-negative number of nanoseconds.\<close>

definition pad_dec :: "nat \<Rightarrow> nat \<Rightarrow> string" where
  "pad_dec w n = replicate (w - length (dec n)) (CHR ''0'') @ dec n"

definition frac_str :: "nat \<Rightarrow> nat \<Rightarrow> string" where
  "frac_str prec v =
     (let t = trim_right (\<lambda>c. c = CHR ''0'') (pad_dec prec (v mod 10 ^ prec))
      in if t = [] then [] else CHR ''.'' # t)"

definition dur_string :: "nat \<Rightarrow> string" where
  "dur_string d =
     (if d = 0 then ''0s''
      else if d < 10 ^ 3 then dec d @ ''ns''
      else if d < 10 ^ 6 then dec (d div 10 ^ 3) @ frac_str 3 d @ [CHR 0xC2, CHR 0xB5] @ ''s''
      else if d < 10 ^ 9 then dec (d div 10 ^ 6) @ frac_str 6 d @ ''ms''
      else let u = d div 10 ^ 9; h = u div 3600; m = u div 60 mod 60; sec = u mod 60 in
        (if 0 < h then dec h @ ''h'' else []) @
        (if 0 < h \<or> 0 < m then dec m @ ''m'' else []) @ dec sec @ frac_str 9 d @ ''s'')"

section \<open>Quoting\<close>

definition quote :: char where "quote = CHR 0x22"
definition bslash :: char where "bslash = CHR 0x5C"
definition squote :: char where "squote = CHR 0x27"

definition byte_val :: "char \<Rightarrow> nat" where
  "byte_val c = of_char c"

definition hex_digit :: "nat \<Rightarrow> char" where
  "hex_digit n = ''0123456789abcdef'' ! n"

text \<open>The verb \<^verbatim>\<open>%q\<close>, for text whose characters beyond ASCII are printable.\<close>

definition quote_esc :: "char \<Rightarrow> string" where
  "quote_esc c =
     (if c = quote then [bslash, quote]
      else if c = bslash then [bslash, bslash]
      else if c = CHR 0x07 then bslash # ''a''
      else if c = CHR 0x08 then bslash # ''b''
      else if c = CHR 0x0C then bslash # ''f''
      else if c = CHR 0x0A then bslash # ''n''
      else if c = CHR 0x0D then bslash # ''r''
      else if c = CHR 0x09 then bslash # ''t''
      else if c = CHR 0x0B then bslash # ''v''
      else if byte_val c < 32 \<or> byte_val c = 127 then
        bslash # ''x'' @ [hex_digit (byte_val c div 16), hex_digit (byte_val c mod 16)]
      else [c])"

definition go_quoted :: "string \<Rightarrow> string" where
  "go_quoted s = quote # concat (map quote_esc s) @ [quote]"

section \<open>Lists\<close>

definition is_none :: "'a option \<Rightarrow> bool" where
  "is_none x \<longleftrightarrow> x = None"

lemma is_none_simps [simp]: "is_none None" "\<not> is_none (Some x)"
  by (simp_all add: is_none_def)

text \<open>First-occurrence order without repetition, as a loop with a \<^verbatim>\<open>seen\<close> set keeps it.\<close>

fun dedup :: "'a list \<Rightarrow> 'a list \<Rightarrow> 'a list" where
  "dedup seen [] = []"
| "dedup seen (x # xs) = (if x \<in> set seen then dedup seen xs else x # dedup (x # seen) xs)"

lemma set_dedup: "set (dedup seen xs) = set xs - set seen"
  by (induction xs arbitrary: seen) auto

lemma distinct_dedup: "distinct (dedup seen xs)"
  by (induction xs arbitrary: seen) (auto simp: set_dedup)

end
