(* ===== verification/World.thy ===== *)
theory World
  imports Prelude "HOL-Library.State_Monad"
begin

text \<open>
  The virtual machine the agent runs on, and the operating-system calls of the Go standard
  library as operations on it.

  A state \<open>'x sys\<close> holds the files the agent can see, the clock in nanoseconds, the list of
  the effects performed so far in their order, and a component of type \<open>'x\<close> for everything
  outside the repository: containers, the firewall, systemd, remote servers. What those do is
  not code of the repository, so it is a parameter, the record \<open>'x host\<close>: every operation
  takes the host as its first argument. A command may change the files and the outside
  component and may let time pass; it can neither rewrite the list of effects nor turn the
  clock back (Go compares monotonic clock readings). File operations follow the file system
  of the state and may also fail for a reason the state does not show (permissions, a full
  disk), which \<open>hfault\<close> decides.

  Programs are values of the state monad of the library; an operation that fails in Go
  returns the error as a value.
\<close>

section \<open>State, host, effects\<close>

datatype node = Dir | File string nat

datatype event =
    EvExec string "string list"
  | EvWrite string string nat
  | EvRemove string
  | EvMkdir string
  | EvRename string string
  | EvChmod string nat
  | EvHttp string string string
  | EvSleep nat

datatype fsop =
    OpStat string | OpRead string | OpWrite string | OpRemove string | OpMkdir string
  | OpRename string string | OpChmod string | OpReadDir string | OpClose string | OpPipe | OpStart string

record 'x sys =
  fs :: "(string \<times> node) list"
  now :: nat
  trace :: "event list"
  ext :: 'x

text \<open>
  The outcome of a command: its standard output, its standard error, the two interleaved as
  \<^verbatim>\<open>CombinedOutput\<close> gives them, and the error of \<^verbatim>\<open>Run\<close> (\<^const>\<open>None\<close> for exit status 0).
\<close>

record cmdres =
  cr_out :: string
  cr_err :: string
  cr_all :: string
  cr_status :: "error option"

record 'x host =
  hexec :: "string \<Rightarrow> string list \<Rightarrow> string \<Rightarrow> 'x sys \<Rightarrow> cmdres \<times> 'x sys"
  hfault :: "fsop \<Rightarrow> 'x sys \<Rightarrow> error option"
  hhttp :: "string \<Rightarrow> string \<Rightarrow> string \<Rightarrow> 'x sys \<Rightarrow> (error + int \<times> string) \<times> 'x sys"
  hlookpath :: "string \<Rightarrow> 'x sys \<Rightarrow> error option"
  heuid :: nat

type_synonym ('x, 'a) io = "('x sys, 'a) state"

abbreviation ret :: "'a \<Rightarrow> ('x, 'a) io" where
  "ret \<equiv> State_Monad.return"

datatype oserr = NotExist error | OtherErr error

fun err_text :: "oserr \<Rightarrow> error" where
  "err_text (NotExist m) = m"
| "err_text (OtherErr m) = m"

fun is_not_exist :: "oserr \<Rightarrow> bool" where
  "is_not_exist (NotExist m) = True"
| "is_not_exist (OtherErr m) = False"

definition lookup_node :: "'x sys \<Rightarrow> string \<Rightarrow> node option" where
  "lookup_node s p = map_of (fs s) p"

definition log :: "event \<Rightarrow> 'x sys \<Rightarrow> 'x sys" where
  "log e s = s\<lparr>trace := trace s @ [e]\<rparr>"

section \<open>Time, commands, HTTP\<close>

text \<open>The text of \<^verbatim>\<open>t.Format(time.RFC3339)\<close> is determined by the whole second of \<^verbatim>\<open>t\<close>; a time
  stamp is that second, \<^const>\<open>None\<close> the empty string of a field not yet set.\<close>

type_synonym stamp = "nat option"

definition time_now :: "('x, nat) io" where
  "time_now = State (\<lambda>s. (now s, s))"

definition rfc3339 :: "nat \<Rightarrow> stamp" where
  "rfc3339 t = Some (t div 10 ^ 9)"

definition parse_rfc3339 :: "stamp \<Rightarrow> nat" where
  "parse_rfc3339 st = (case st of None \<Rightarrow> 0 | Some n \<Rightarrow> n * 10 ^ 9)"

definition seconds :: "nat \<Rightarrow> nat" where
  "seconds n = n * 10 ^ 9"

definition sleep :: "nat \<Rightarrow> ('x, unit) io" where
  "sleep d = State (\<lambda>s. ((), log (EvSleep d) (s\<lparr>now := now s + d\<rparr>)))"

definition run_cmd :: "'x host \<Rightarrow> string \<Rightarrow> string list \<Rightarrow> string \<Rightarrow> ('x, cmdres) io" where
  "run_cmd h dir argv stdin = State (\<lambda>s.
     let (r, s') = hexec h dir argv stdin s in
     (r, s'\<lparr>trace := trace s @ [EvExec dir argv], now := max (now s) (now s')\<rparr>))"

definition exec_cmd :: "'x host \<Rightarrow> string list \<Rightarrow> ('x, cmdres) io" where
  "exec_cmd h argv = run_cmd h [] argv []"

definition http_req :: "'x host \<Rightarrow> string \<Rightarrow> string \<Rightarrow> string \<Rightarrow> ('x, error + int \<times> string) io" where
  "http_req h meth url body = State (\<lambda>s.
     let (r, s') = hhttp h meth url body s in
     (r, s'\<lparr>trace := trace s @ [EvHttp meth url body], now := max (now s) (now s'), fs := fs s\<rparr>))"

definition look_path :: "'x host \<Rightarrow> string \<Rightarrow> ('x, error option) io" where
  "look_path h prog = State (\<lambda>s. (hlookpath h prog s, s))"

section \<open>Files\<close>

definition enoent :: "string \<Rightarrow> string \<Rightarrow> oserr" where
  "enoent op p = NotExist (op @ '' '' @ p @ '': no such file or directory'')"

definition os_stat :: "'x host \<Rightarrow> string \<Rightarrow> ('x, oserr + node) io" where
  "os_stat h p = State (\<lambda>s.
     (case hfault h (OpStat p) s of
        Some m \<Rightarrow> Inl (OtherErr m)
      | None \<Rightarrow> (case lookup_node s p of None \<Rightarrow> Inl (enoent ''stat'' p) | Some n \<Rightarrow> Inr n), s))"

definition os_read :: "'x host \<Rightarrow> string \<Rightarrow> ('x, oserr + string) io" where
  "os_read h p = State (\<lambda>s.
     (case hfault h (OpRead p) s of
        Some m \<Rightarrow> Inl (OtherErr m)
      | None \<Rightarrow> (case lookup_node s p of
            None \<Rightarrow> Inl (enoent ''open'' p)
          | Some Dir \<Rightarrow> Inl (OtherErr (''read '' @ p @ '': is a directory''))
          | Some (File c m) \<Rightarrow> Inr c), s))"

text \<open>
  \<^verbatim>\<open>os.WriteFile\<close> keeps the mode of a file that exists. A write that fails after the open may
  leave any content: here the file is left empty when the fault strikes an existing file, as
  \<^verbatim>\<open>O_TRUNC\<close> does, and is not created otherwise. That every directory on the way exists is
  part of what \<open>hfault\<close> decides.
\<close>

definition os_write :: "'x host \<Rightarrow> string \<Rightarrow> string \<Rightarrow> nat \<Rightarrow> ('x, oserr option) io" where
  "os_write h p c mode = State (\<lambda>s.
     case hfault h (OpWrite p) s of
       Some m \<Rightarrow> (Some (OtherErr m), log (EvWrite p c mode)
         (case lookup_node s p of
            Some (File c0 m0) \<Rightarrow> s\<lparr>fs := AList.update p (File [] m0) (fs s)\<rparr>
          | _ \<Rightarrow> s))
     | None \<Rightarrow> (case lookup_node s p of
           Some Dir \<Rightarrow> (Some (OtherErr (''open '' @ p @ '': is a directory'')), log (EvWrite p c mode) s)
         | Some (File c0 m0) \<Rightarrow> (None, log (EvWrite p c mode) (s\<lparr>fs := AList.update p (File c m0) (fs s)\<rparr>))
         | None \<Rightarrow> (None, log (EvWrite p c mode) (s\<lparr>fs := AList.update p (File c mode) (fs s)\<rparr>))))"

definition os_remove :: "'x host \<Rightarrow> string \<Rightarrow> ('x, oserr option) io" where
  "os_remove h p = State (\<lambda>s.
     case hfault h (OpRemove p) s of
       Some m \<Rightarrow> (Some (OtherErr m), log (EvRemove p) s)
     | None \<Rightarrow> (case lookup_node s p of
           None \<Rightarrow> (Some (enoent ''remove'' p), log (EvRemove p) s)
         | Some n \<Rightarrow> (None, log (EvRemove p) (s\<lparr>fs := AList.delete p (fs s)\<rparr>))))"

text \<open>The directories above a path, and the path itself, outermost first.\<close>

fun path_prefixes :: "string \<Rightarrow> string \<Rightarrow> string list" where
  "path_prefixes acc [] = (if acc = [] then [] else [rev acc])"
| "path_prefixes acc (c # cs) =
     (if c = CHR ''/'' \<and> acc \<noteq> [] then rev acc # path_prefixes (c # acc) cs
      else path_prefixes (c # acc) cs)"

fun mk_dirs :: "string list \<Rightarrow> (string \<times> node) list \<Rightarrow> (string \<times> node) list" where
  "mk_dirs [] m = m"
| "mk_dirs (p # ps) m = mk_dirs ps (if map_of m p = None then AList.update p Dir m else m)"

definition os_mkdir_all :: "'x host \<Rightarrow> string \<Rightarrow> ('x, oserr option) io" where
  "os_mkdir_all h p = State (\<lambda>s.
     case hfault h (OpMkdir p) s of
       Some m \<Rightarrow> (Some (OtherErr m), log (EvMkdir p) s)
     | None \<Rightarrow>
         (if list_ex (\<lambda>q. case lookup_node s q of Some (File c m) \<Rightarrow> True | _ \<Rightarrow> False) (path_prefixes [] p)
          then (Some (OtherErr (''mkdir '' @ p @ '': not a directory'')), log (EvMkdir p) s)
          else (None, log (EvMkdir p) (s\<lparr>fs := mk_dirs (path_prefixes [] p) (fs s)\<rparr>))))"

definition os_rename :: "'x host \<Rightarrow> string \<Rightarrow> string \<Rightarrow> ('x, oserr option) io" where
  "os_rename h p q = State (\<lambda>s.
     case hfault h (OpRename p q) s of
       Some m \<Rightarrow> (Some (OtherErr m), log (EvRename p q) s)
     | None \<Rightarrow> (case lookup_node s p of
           None \<Rightarrow> (Some (NotExist (''rename '' @ p @ '' '' @ q @ '': no such file or directory'')), log (EvRename p q) s)
         | Some n \<Rightarrow> (None, log (EvRename p q) (s\<lparr>fs := AList.update q n (AList.delete p (fs s))\<rparr>))))"

definition os_chmod :: "'x host \<Rightarrow> string \<Rightarrow> nat \<Rightarrow> ('x, oserr option) io" where
  "os_chmod h p mode = State (\<lambda>s.
     case hfault h (OpChmod p) s of
       Some m \<Rightarrow> (Some (OtherErr m), log (EvChmod p mode) s)
     | None \<Rightarrow> (case lookup_node s p of
           None \<Rightarrow> (Some (enoent ''chmod'' p), log (EvChmod p mode) s)
         | Some Dir \<Rightarrow> (None, log (EvChmod p mode) s)
         | Some (File c m0) \<Rightarrow> (None, log (EvChmod p mode) (s\<lparr>fs := AList.update p (File c mode) (fs s)\<rparr>))))"

text \<open>Creating a pipe, and starting a program apart from waiting for it.\<close>

definition os_pipe :: "'x host \<Rightarrow> ('x, error option) io" where
  "os_pipe h = State (\<lambda>s. (hfault h OpPipe s, s))"

definition cmd_start :: "'x host \<Rightarrow> string list \<Rightarrow> ('x, error option) io" where
  "cmd_start h argv = State (\<lambda>s. (hfault h (OpStart (hd argv)) s, s))"

text \<open>What a program writes to an open file goes to the file, as long as it is there.\<close>

definition fill_file :: "string \<Rightarrow> string \<Rightarrow> ('x, unit) io" where
  "fill_file p out = State (\<lambda>s. ((), case lookup_node s p of
       Some (File c m) \<Rightarrow> s\<lparr>fs := AList.update p (File out m) (fs s)\<rparr>
     | _ \<Rightarrow> s))"

definition os_close :: "'x host \<Rightarrow> string \<Rightarrow> ('x, error option) io" where
  "os_close h p = State (\<lambda>s. (hfault h (OpClose p) s, s))"

section \<open>Weakest preconditions\<close>

text \<open>
  \<open>wp m Q s\<close> says that running \<open>m\<close> from \<open>s\<close> ends with a result and a state that satisfy \<open>Q\<close>.
  The rules turn a program into the case distinctions it makes.
\<close>

named_theorems wp_simps \<open>weakest preconditions of the program constructs\<close>

definition wp :: "('s, 'a) state \<Rightarrow> ('a \<Rightarrow> 's \<Rightarrow> bool) \<Rightarrow> 's \<Rightarrow> bool" where
  "wp m Q s \<longleftrightarrow> (case run_state m s of (a, s') \<Rightarrow> Q a s')"

lemma wp_return [wp_simps]: "wp (State_Monad.return a) Q s = Q a s"
  by (simp add: wp_def)

lemma wp_bind [wp_simps]: "wp (State_Monad.bind m f) Q s = wp m (\<lambda>a. wp (f a) Q) s"
  by (simp add: wp_def split: prod.splits)

lemma wp_if [wp_simps]: "wp (if b then m else n) Q s = (if b then wp m Q s else wp n Q s)"
  by simp

lemma wp_option [wp_simps]:
  "wp (case x of None \<Rightarrow> m | Some y \<Rightarrow> f y) Q s = (case x of None \<Rightarrow> wp m Q s | Some y \<Rightarrow> wp (f y) Q s)"
  by (cases x) auto

lemma wp_sum [wp_simps]:
  "wp (case x of Inl e \<Rightarrow> m e | Inr y \<Rightarrow> f y) Q s = (case x of Inl e \<Rightarrow> wp (m e) Q s | Inr y \<Rightarrow> wp (f y) Q s)"
  by (cases x) auto

lemma wp_prod [wp_simps]:
  "wp (case x of (a, b) \<Rightarrow> m a b) Q s = (case x of (a, b) \<Rightarrow> wp (m a b) Q s)"
  by (cases x) auto

lemma wp_let [wp_simps]: "wp (Let x f) Q s = (let y = x in wp (f y) Q s)"
  by simp

lemma wp_mono: "wp m P s \<Longrightarrow> (\<And>a s'. P a s' \<Longrightarrow> Q a s') \<Longrightarrow> wp m Q s"
  by (auto simp: wp_def)

lemma wp_conj: "wp m P s \<Longrightarrow> wp m Q s \<Longrightarrow> wp m (\<lambda>a s'. P a s' \<and> Q a s') s"
  by (auto simp: wp_def)

lemma wp_run: "wp m Q s \<Longrightarrow> run_state m s = (a, s') \<Longrightarrow> Q a s'"
  by (simp add: wp_def)

lemma wpI: "(\<And>a s'. run_state m s = (a, s') \<Longrightarrow> Q a s') \<Longrightarrow> wp m Q s"
  by (auto simp: wp_def split: prod.splits)

lemma run_time_now [simp]: "run_state time_now s = (now s, s)"
  by (simp add: time_now_def)

lemma run_sleep [simp]: "run_state (sleep d) s = ((), log (EvSleep d) (s\<lparr>now := now s + d\<rparr>))"
  by (simp add: sleep_def)

lemma run_exec_cmd:
  "run_state (exec_cmd h argv) s = (case hexec h [] argv [] s of (r, s1) \<Rightarrow>
     (r, s1\<lparr>trace := trace s @ [EvExec [] argv], now := max (now s) (now s1)\<rparr>))"
  by (simp add: exec_cmd_def run_cmd_def Let_def)

section \<open>Effects a program can have\<close>

text \<open>
  \<open>emits P m\<close>: from every state, \<open>m\<close> only appends effects that satisfy \<open>P\<close>.
\<close>

named_theorems emits_intros \<open>effects of the program constructs\<close>

definition emits :: "(event \<Rightarrow> bool) \<Rightarrow> ('x, 'a) io \<Rightarrow> bool" where
  "emits P m \<longleftrightarrow>
     (\<forall>s. \<exists>es. trace (snd (run_state m s)) = trace s @ es \<and> list_all P es)"

lemma emitsD:
  "emits P m \<Longrightarrow> run_state m s = (a, s') \<Longrightarrow> \<exists>es. trace s' = trace s @ es \<and> list_all P es"
  unfolding emits_def by (metis snd_conv)

lemma emitsI:
  "(\<And>s a s'. run_state m s = (a, s') \<Longrightarrow> \<exists>es. trace s' = trace s @ es \<and> list_all P es) \<Longrightarrow> emits P m"
  unfolding emits_def by (metis prod.collapse)

lemma emits_mono: "emits P m \<Longrightarrow> (\<And>e. P e \<Longrightarrow> Q e) \<Longrightarrow> emits Q m"
  unfolding emits_def by (metis (mono_tags, lifting) list.pred_mono_strong)

lemma emits_return [emits_intros]: "emits P (ret a)"
  by (simp add: emits_def)

lemma emits_bind [emits_intros]:
  assumes "emits P m" and "\<And>a. emits P (f a)"
  shows "emits P (State_Monad.bind m f)"
proof (rule emitsI)
  fix s b t
  assume run: "run_state (State_Monad.bind m f) s = (b, t)"
  obtain a u where m: "run_state m s = (a, u)" by (cases "run_state m s")
  with run have "run_state (f a) u = (b, t)" by simp
  with assms(2) obtain es' where "trace t = trace u @ es'" "list_all P es'"
    by (blast dest: emitsD)
  moreover from assms(1) m obtain es where "trace u = trace s @ es" "list_all P es"
    by (blast dest: emitsD)
  ultimately show "\<exists>es. trace t = trace s @ es \<and> list_all P es"
    by (intro exI [of _ "es @ es'"]) simp
qed

lemma emits_if [emits_intros]: "emits P m \<Longrightarrow> emits P n \<Longrightarrow> emits P (if b then m else n)"
  by simp

lemma emits_option [emits_intros]:
  "emits P m \<Longrightarrow> (\<And>y. emits P (f y)) \<Longrightarrow> emits P (case x of None \<Rightarrow> m | Some y \<Rightarrow> f y)"
  by (cases x) auto

lemma emits_sum [emits_intros]:
  "(\<And>y. emits P (g y)) \<Longrightarrow> (\<And>y. emits P (f y)) \<Longrightarrow> emits P (case x of Inl y \<Rightarrow> g y | Inr y \<Rightarrow> f y)"
  by (cases x) auto

lemma emits_prod [emits_intros]:
  "(\<And>a b. emits P (f a b)) \<Longrightarrow> emits P (case x of (a, b) \<Rightarrow> f a b)"
  by (cases x) auto

lemma emits_let [emits_intros]: "(\<And>y. emits P (f y)) \<Longrightarrow> emits P (Let x f)"
  by (simp add: Let_def)

lemma emits_time_now [emits_intros]: "emits P time_now"
  by (simp add: emits_def time_now_def)

lemma emits_look_path [emits_intros]: "emits P (look_path h p)"
  by (simp add: emits_def look_path_def)

lemma emits_sleep [emits_intros]: "P (EvSleep d) \<Longrightarrow> emits P (sleep d)"
  by (simp add: emits_def sleep_def log_def)

lemma emits_run_cmd [emits_intros]: "P (EvExec dir argv) \<Longrightarrow> emits P (run_cmd h dir argv stdin)"
  by (simp add: emits_def run_cmd_def split: prod.splits)

lemma emits_exec_cmd [emits_intros]: "P (EvExec [] argv) \<Longrightarrow> emits P (exec_cmd h argv)"
  unfolding exec_cmd_def by (rule emits_run_cmd)

lemma emits_http_req [emits_intros]: "P (EvHttp meth url body) \<Longrightarrow> emits P (http_req h meth url body)"
  by (simp add: emits_def http_req_def split: prod.splits)

lemma emits_os_stat [emits_intros]: "emits P (os_stat h p)"
  by (simp add: emits_def os_stat_def)

lemma emits_os_read [emits_intros]: "emits P (os_read h p)"
  by (simp add: emits_def os_read_def)

lemma emits_os_pipe [emits_intros]: "emits P (os_pipe h)"
  and emits_cmd_start [emits_intros]: "emits P (cmd_start h argv)"
  by (simp_all add: emits_def os_pipe_def cmd_start_def)

lemma emits_fill_file [emits_intros]: "emits P (fill_file p out)"
  by (simp add: emits_def fill_file_def split: option.split node.split)

lemma emits_os_close [emits_intros]: "emits P (os_close h p)"
  by (simp add: emits_def os_close_def)

lemma emits_os_write [emits_intros]: "P (EvWrite p c mode) \<Longrightarrow> emits P (os_write h p c mode)"
  by (auto simp: emits_def os_write_def log_def split: option.splits node.splits)

lemma emits_os_remove [emits_intros]: "P (EvRemove p) \<Longrightarrow> emits P (os_remove h p)"
  by (auto simp: emits_def os_remove_def log_def split: option.splits)

lemma emits_os_mkdir_all [emits_intros]: "P (EvMkdir p) \<Longrightarrow> emits P (os_mkdir_all h p)"
  by (auto simp: emits_def os_mkdir_all_def log_def split: option.splits)

lemma emits_os_rename [emits_intros]: "P (EvRename p q) \<Longrightarrow> emits P (os_rename h p q)"
  by (auto simp: emits_def os_rename_def log_def split: option.splits)

lemma emits_os_chmod [emits_intros]: "P (EvChmod p m) \<Longrightarrow> emits P (os_chmod h p m)"
  by (auto simp: emits_def os_chmod_def log_def split: option.splits node.splits)

text \<open>\<open>logs e m\<close>: from every state, the effect \<open>e\<close> is among those \<open>m\<close> appends.\<close>

definition logs :: "event \<Rightarrow> ('x, 'a) io \<Rightarrow> bool" where
  "logs e m \<longleftrightarrow> (\<forall>s. \<exists>es. trace (snd (run_state m s)) = trace s @ es \<and> e \<in> set es)"

abbreviation extends_trace :: "('x, 'a) io \<Rightarrow> bool" where
  "extends_trace m \<equiv> emits (\<lambda>_. True) m"

lemma logsD: "logs e m \<Longrightarrow> run_state m s = (a, s') \<Longrightarrow> \<exists>es. trace s' = trace s @ es \<and> e \<in> set es"
  unfolding logs_def by (metis snd_conv)

lemma logsI:
  "(\<And>s a s'. run_state m s = (a, s') \<Longrightarrow> \<exists>es. trace s' = trace s @ es \<and> e \<in> set es) \<Longrightarrow> logs e m"
  unfolding logs_def by (metis prod.collapse)

lemma logs_bind_left:
  assumes "logs e m" and "\<And>a. extends_trace (f a)"
  shows "logs e (State_Monad.bind m f)"
proof (rule logsI)
  fix s b t
  assume run: "run_state (State_Monad.bind m f) s = (b, t)"
  obtain a u where m: "run_state m s = (a, u)" by (cases "run_state m s")
  with run have "run_state (f a) u = (b, t)" by simp
  with assms(2) obtain es' where "trace t = trace u @ es'" by (blast dest: emitsD)
  moreover from assms(1) m obtain es where "trace u = trace s @ es" "e \<in> set es" by (blast dest: logsD)
  ultimately show "\<exists>es. trace t = trace s @ es \<and> e \<in> set es" by (intro exI [of _ "es @ es'"]) simp
qed

lemma logs_bind_right:
  assumes "extends_trace m" and "\<And>a. logs e (f a)"
  shows "logs e (State_Monad.bind m f)"
proof (rule logsI)
  fix s b t
  assume run: "run_state (State_Monad.bind m f) s = (b, t)"
  obtain a u where m: "run_state m s = (a, u)" by (cases "run_state m s")
  with run have "run_state (f a) u = (b, t)" by simp
  with assms(2) obtain es' where "trace t = trace u @ es'" "e \<in> set es'" by (blast dest: logsD)
  moreover from assms(1) m obtain es where "trace u = trace s @ es" by (blast dest: emitsD)
  ultimately show "\<exists>es. trace t = trace s @ es \<and> e \<in> set es" by (intro exI [of _ "es @ es'"]) simp
qed

lemma logs_run_cmd: "logs (EvExec dir argv) (run_cmd h dir argv stdin)"
  by (simp add: logs_def run_cmd_def split: prod.splits)

section \<open>Order of effects\<close>

text \<open>
  \<open>ordered A B es\<close>: whatever satisfies \<open>B\<close> in \<open>es\<close> comes after something that satisfies \<open>A\<close>;
  \<open>guards A B m\<close>: so it is in the effects that \<open>m\<close> appends, from every state.
\<close>

named_theorems guards_intros \<open>order of the effects of the program constructs\<close>

fun ordered :: "(event \<Rightarrow> bool) \<Rightarrow> (event \<Rightarrow> bool) \<Rightarrow> event list \<Rightarrow> bool" where
  "ordered A B [] \<longleftrightarrow> True"
| "ordered A B (e # es) \<longleftrightarrow> \<not> B e \<and> (A e \<or> ordered A B es)"

lemma ordered_append:
  "ordered A B xs \<Longrightarrow> ordered A B ys \<or> (\<exists>x \<in> set xs. A x) \<Longrightarrow> ordered A B (xs @ ys)"
  by (induction xs) auto

lemma ordered_before:
  "ordered A B (xs @ e # ys) \<Longrightarrow> B e \<Longrightarrow> \<exists>a \<in> set xs. A a"
  by (induction xs) auto

lemma ordered_none: "list_all (\<lambda>e. \<not> B e) es \<Longrightarrow> ordered A B es"
  by (induction es) auto

definition guards :: "(event \<Rightarrow> bool) \<Rightarrow> (event \<Rightarrow> bool) \<Rightarrow> ('x, 'a) io \<Rightarrow> bool" where
  "guards A B m \<longleftrightarrow> (\<forall>s. \<exists>es. trace (snd (run_state m s)) = trace s @ es \<and> ordered A B es)"

lemma guardsD:
  "guards A B m \<Longrightarrow> run_state m s = (a, s') \<Longrightarrow> \<exists>es. trace s' = trace s @ es \<and> ordered A B es"
  unfolding guards_def by (metis snd_conv)

lemma guardsI:
  "(\<And>s a s'. run_state m s = (a, s') \<Longrightarrow> \<exists>es. trace s' = trace s @ es \<and> ordered A B es) \<Longrightarrow> guards A B m"
  unfolding guards_def by (metis prod.collapse)

lemma guards_without: "emits (\<lambda>e. \<not> B e) m \<Longrightarrow> guards A B m"
  by (rule guardsI) (blast dest: emitsD intro: ordered_none)

lemma guards_bind_run:
  assumes "guards A B m" and "\<And>s a s'. run_state m s = (a, s') \<Longrightarrow> guards A B (f a)"
  shows "guards A B (State_Monad.bind m f)"
proof (rule guardsI)
  fix s b t
  assume run: "run_state (State_Monad.bind m f) s = (b, t)"
  obtain a u where m: "run_state m s = (a, u)" by (cases "run_state m s")
  with run have "run_state (f a) u = (b, t)" by simp
  with assms(2) [OF m] obtain es' where "trace t = trace u @ es'" "ordered A B es'" by (blast dest: guardsD)
  moreover from assms(1) m obtain es where "trace u = trace s @ es" "ordered A B es" by (blast dest: guardsD)
  ultimately show "\<exists>es. trace t = trace s @ es \<and> ordered A B es"
    by (intro exI [of _ "es @ es'"]) (auto intro: ordered_append)
qed

lemma guards_bind [guards_intros]:
  "guards A B m \<Longrightarrow> (\<And>a. guards A B (f a)) \<Longrightarrow> guards A B (State_Monad.bind m f)"
  by (rule guards_bind_run)

lemma guards_after:
  assumes "guards A B m" and "logs e m" and "A e" and "\<And>a. extends_trace (f a)"
  shows "guards A B (State_Monad.bind m f)"
proof (rule guardsI)
  fix s b t
  assume run: "run_state (State_Monad.bind m f) s = (b, t)"
  obtain a u where m: "run_state m s = (a, u)" by (cases "run_state m s")
  with run have "run_state (f a) u = (b, t)" by simp
  with assms(4) obtain es' where es': "trace t = trace u @ es'" by (blast dest: emitsD)
  from assms(1) m obtain es where es: "trace u = trace s @ es" "ordered A B es" by (blast dest: guardsD)
  with logsD [OF assms(2) m] have "e \<in> set es" by auto
  with es es' assms(3) show "\<exists>es. trace t = trace s @ es \<and> ordered A B es"
    by (intro exI [of _ "es @ es'"]) (auto intro: ordered_append)
qed

text \<open>\<open>logs_on Q e m\<close>: the effect is there whenever the result satisfies \<open>Q\<close>.\<close>

named_theorems logs_on_intros \<open>effects that a result of the program shows\<close>

definition logs_on :: "('a \<Rightarrow> bool) \<Rightarrow> event \<Rightarrow> ('x, 'a) io \<Rightarrow> bool" where
  "logs_on Q e m \<longleftrightarrow> (\<forall>s a s'. run_state m s = (a, s') \<longrightarrow> Q a \<longrightarrow>
     (\<exists>es. trace s' = trace s @ es \<and> e \<in> set es))"

lemma logs_onD:
  "logs_on Q e m \<Longrightarrow> run_state m s = (a, s') \<Longrightarrow> Q a \<Longrightarrow> \<exists>es. trace s' = trace s @ es \<and> e \<in> set es"
  unfolding logs_on_def by blast

lemma logs_on_logs: "logs e m \<Longrightarrow> logs_on Q e m"
  unfolding logs_on_def by (blast dest: logsD)

lemma logs_on_return [logs_on_intros]: "\<not> Q a \<Longrightarrow> logs_on Q e (ret a)"
  unfolding logs_on_def by auto

lemma logs_on_bind [logs_on_intros]:
  assumes "extends_trace m" and "\<And>a. logs_on Q e (f a)"
  shows "logs_on Q e (State_Monad.bind m f)"
  unfolding logs_on_def
proof (intro allI impI)
  fix s b t
  assume run: "run_state (State_Monad.bind m f) s = (b, t)" and "Q b"
  obtain a u where m: "run_state m s = (a, u)" by (cases "run_state m s")
  with run have "run_state (f a) u = (b, t)" by simp
  with assms(2) \<open>Q b\<close> obtain es' where "trace t = trace u @ es'" "e \<in> set es'" by (blast dest: logs_onD)
  moreover from assms(1) m obtain es where "trace u = trace s @ es" by (blast dest: emitsD)
  ultimately show "\<exists>es. trace t = trace s @ es \<and> e \<in> set es" by (intro exI [of _ "es @ es'"]) simp
qed

lemma logs_on_if [logs_on_intros]: "logs_on Q e m \<Longrightarrow> logs_on Q e n \<Longrightarrow> logs_on Q e (if b then m else n)"
  by simp

lemma logs_on_option [logs_on_intros]:
  "logs_on Q e m \<Longrightarrow> (\<And>y. logs_on Q e (f y)) \<Longrightarrow> logs_on Q e (case x of None \<Rightarrow> m | Some y \<Rightarrow> f y)"
  by (cases x) auto

lemma guards_bind_on:
  assumes "guards A B m" and "logs_on Q e m" and "A e"
    and "\<And>a. \<not> Q a \<Longrightarrow> guards A B (f a)" and "\<And>a. extends_trace (f a)"
  shows "guards A B (State_Monad.bind m f)"
proof (rule guardsI)
  fix s b t
  assume run: "run_state (State_Monad.bind m f) s = (b, t)"
  obtain a u where m: "run_state m s = (a, u)" by (cases "run_state m s")
  with run have f: "run_state (f a) u = (b, t)" by simp
  from assms(1) m obtain es where es: "trace u = trace s @ es" "ordered A B es" by (blast dest: guardsD)
  from assms(5) f obtain es' where es': "trace t = trace u @ es'" by (blast dest: emitsD)
  have "ordered A B es' \<or> (\<exists>x \<in> set es. A x)"
  proof (cases "Q a")
    case True
    with logs_onD [OF assms(2) m] es assms(3) show ?thesis by auto
  next
    case False
    with assms(4) f es' show ?thesis by (fastforce dest: guardsD)
  qed
  with es es' show "\<exists>es. trace t = trace s @ es \<and> ordered A B es"
    by (intro exI [of _ "es @ es'"]) (auto intro: ordered_append)
qed

lemma guards_if [guards_intros]: "guards A B m \<Longrightarrow> guards A B n \<Longrightarrow> guards A B (if b then m else n)"
  by simp

lemma guards_option [guards_intros]:
  "guards A B m \<Longrightarrow> (\<And>y. guards A B (f y)) \<Longrightarrow> guards A B (case x of None \<Rightarrow> m | Some y \<Rightarrow> f y)"
  by (cases x) auto

lemma guards_sum [guards_intros]:
  "(\<And>y. guards A B (g y)) \<Longrightarrow> (\<And>y. guards A B (f y)) \<Longrightarrow> guards A B (case x of Inl y \<Rightarrow> g y | Inr y \<Rightarrow> f y)"
  by (cases x) auto

lemma guards_return [guards_intros]: "guards A B (ret a)"
  by (intro guards_without emits_intros)

lemma guards_time_now [guards_intros]: "guards A B time_now"
  by (intro guards_without emits_intros)

lemma guards_run_cmd [guards_intros]: "\<not> B (EvExec dir argv) \<Longrightarrow> guards A B (run_cmd h dir argv stdin)"
  and guards_exec_cmd [guards_intros]: "\<not> B (EvExec [] argv) \<Longrightarrow> guards A B (exec_cmd h argv)"
  and guards_http_req [guards_intros]: "\<not> B (EvHttp meth url body) \<Longrightarrow> guards A B (http_req h meth url body)"
  and guards_sleep [guards_intros]: "\<not> B (EvSleep d) \<Longrightarrow> guards A B (sleep d)"
  and guards_os_stat [guards_intros]: "guards A B (os_stat h p)"
  and guards_os_read [guards_intros]: "guards A B (os_read h p)"
  and guards_os_write [guards_intros]: "\<not> B (EvWrite p c mode) \<Longrightarrow> guards A B (os_write h p c mode)"
  and guards_os_remove [guards_intros]: "\<not> B (EvRemove p) \<Longrightarrow> guards A B (os_remove h p)"
  and guards_os_mkdir_all [guards_intros]: "\<not> B (EvMkdir p) \<Longrightarrow> guards A B (os_mkdir_all h p)"
  by (rule guards_without, rule emits_intros, assumption?)+

section \<open>Time does not run backwards\<close>

named_theorems forward_intros \<open>programs that keep the clock going\<close>

definition forward :: "('x, 'a) io \<Rightarrow> bool" where
  "forward m \<longleftrightarrow> (\<forall>s. now s \<le> now (snd (run_state m s)))"

lemma forwardD: "forward m \<Longrightarrow> run_state m s = (a, s') \<Longrightarrow> now s \<le> now s'"
  unfolding forward_def by (metis snd_conv)

lemma forward_return [forward_intros]: "forward (ret a)"
  by (simp add: forward_def)

lemma forward_bind [forward_intros]:
  "forward m \<Longrightarrow> (\<And>a. forward (f a)) \<Longrightarrow> forward (State_Monad.bind m f)"
  unfolding forward_def by (auto split: prod.splits) (metis order_trans snd_conv)

lemma forward_if [forward_intros]: "forward m \<Longrightarrow> forward n \<Longrightarrow> forward (if b then m else n)"
  by simp

lemma forward_option [forward_intros]:
  "forward m \<Longrightarrow> (\<And>y. forward (f y)) \<Longrightarrow> forward (case x of None \<Rightarrow> m | Some y \<Rightarrow> f y)"
  by (cases x) auto

lemma forward_sum [forward_intros]:
  "(\<And>y. forward (g y)) \<Longrightarrow> (\<And>y. forward (f y)) \<Longrightarrow> forward (case x of Inl y \<Rightarrow> g y | Inr y \<Rightarrow> f y)"
  by (cases x) auto

lemma forward_prod [forward_intros]: "(\<And>a b. forward (f a b)) \<Longrightarrow> forward (case x of (a, b) \<Rightarrow> f a b)"
  by (cases x) auto

lemma forward_run_cmd [forward_intros]: "forward (run_cmd h dir argv stdin)"
  by (simp add: forward_def run_cmd_def split: prod.splits)

lemma forward_exec_cmd [forward_intros]: "forward (exec_cmd h argv)"
  unfolding exec_cmd_def by (rule forward_run_cmd)

lemma forward_http_req [forward_intros]: "forward (http_req h meth url body)"
  by (simp add: forward_def http_req_def split: prod.splits)

lemma forward_sleep [forward_intros]: "forward (sleep d)"
  by (simp add: forward_def sleep_def log_def)

lemma forward_time_now [forward_intros]: "forward time_now"
  by (simp add: forward_def time_now_def)

section \<open>Files that a program leaves alone\<close>

text \<open>\<open>keeps_fs m\<close>: running \<open>m\<close> does not change the file system.\<close>

definition keeps_fs :: "('x, 'a) io \<Rightarrow> bool" where
  "keeps_fs m \<longleftrightarrow> (\<forall>s. fs (snd (run_state m s)) = fs s)"

lemma keeps_fsD: "keeps_fs m \<Longrightarrow> run_state m s = (a, s') \<Longrightarrow> fs s' = fs s"
  unfolding keeps_fs_def by (metis snd_conv)

lemma lookup_node_log [simp]: "lookup_node (log e s) p = lookup_node s p"
  by (simp add: lookup_node_def log_def)

lemma log_sel [simp]:
  "fs (log e s) = fs s" "now (log e s) = now s" "trace (log e s) = trace s @ [e]" "ext (log e s) = ext s"
  by (simp_all add: log_def)

lemma lookup_node_update [simp]:
  "lookup_node (s\<lparr>fs := AList.update p n (fs s)\<rparr>) q = (if q = p then Some n else lookup_node s q)"
  by (simp add: lookup_node_def update_conv')

lemma lookup_node_delete [simp]:
  "lookup_node (s\<lparr>fs := AList.delete p (fs s)\<rparr>) q = (if q = p then None else lookup_node s q)"
  by (simp add: lookup_node_def delete_conv')

text \<open>What the file operations do, seen through \<^const>\<open>lookup_node\<close>.\<close>

lemma lookup_node_now [simp]: "lookup_node (s\<lparr>now := t\<rparr>) p = lookup_node s p"
  and lookup_node_trace [simp]: "lookup_node (s\<lparr>trace := es\<rparr>) p = lookup_node s p"
  by (simp_all add: lookup_node_def)

lemma os_write_ok:
  "run_state (os_write h p c mode) s = (None, s') \<Longrightarrow> \<exists>m. lookup_node s' p = Some (File c m)"
  by (auto simp: os_write_def split: option.splits node.splits)

lemma os_write_other:
  "run_state (os_write h p c mode) s = (e, s') \<Longrightarrow> q \<noteq> p \<Longrightarrow> lookup_node s' q = lookup_node s q"
  by (auto simp: os_write_def split: option.splits node.splits)

lemma os_remove_gone:
  "run_state (os_remove h p) s = (e, s') \<Longrightarrow> hfault h (OpRemove p) s = None \<Longrightarrow> lookup_node s' p = None"
  by (auto simp: os_remove_def split: option.splits)

lemma os_remove_other:
  "run_state (os_remove h p) s = (e, s') \<Longrightarrow> q \<noteq> p \<Longrightarrow> lookup_node s' q = lookup_node s q"
  by (auto simp: os_remove_def split: option.splits)

lemma os_read_state: "run_state (os_read h p) s = (r, s') \<Longrightarrow> s' = s"
  by (simp add: os_read_def)

lemma os_stat_state: "run_state (os_stat h p) s = (r, s') \<Longrightarrow> s' = s"
  by (simp add: os_stat_def)

lemma os_close_state: "run_state (os_close h p) s = (r, s') \<Longrightarrow> s' = s"
  by (simp add: os_close_def)

lemma os_chmod_ok:
  "run_state (os_chmod h p mode) s = (None, s') \<Longrightarrow> lookup_node s p = Some (File c m) \<Longrightarrow>
     lookup_node s' p = Some (File c mode)"
  by (auto simp: os_chmod_def split: option.splits node.splits)

lemma os_chmod_other:
  "run_state (os_chmod h p mode) s = (e, s') \<Longrightarrow> q \<noteq> p \<Longrightarrow> lookup_node s' q = lookup_node s q"
  by (auto simp: os_chmod_def split: option.splits node.splits)

lemma os_rename_ok:
  "run_state (os_rename h p q) s = (None, s') \<Longrightarrow> lookup_node s' q = lookup_node s p"
  by (auto simp: os_rename_def lookup_node_def log_def update_conv' split: option.splits)

lemma os_rename_failed:
  "run_state (os_rename h p q) s = (Some e, s') \<Longrightarrow> lookup_node s' r = lookup_node s r"
  by (auto simp: os_rename_def split: option.splits)

lemma http_req_fs: "run_state (http_req h meth url body) s = (r, s') \<Longrightarrow> lookup_node s' q = lookup_node s q"
  by (auto simp: http_req_def lookup_node_def Let_def split: prod.splits)

text \<open>A host whose commands leave a file alone.\<close>

definition commands_keep :: "'x host \<Rightarrow> string \<Rightarrow> bool" where
  "commands_keep h p \<longleftrightarrow>
     (\<forall>dir argv stdin s. lookup_node (snd (hexec h dir argv stdin s)) p = lookup_node s p)"

lemma run_cmd_keeps:
  assumes "commands_keep h p" and "run_state (run_cmd h dir argv stdin) s = (r, s')"
  shows "lookup_node s' p = lookup_node s p"
proof -
  have "lookup_node (snd (hexec h dir argv stdin s)) p = lookup_node s p"
    using assms(1) by (simp add: commands_keep_def)
  with assms(2) show ?thesis
    by (cases "hexec h dir argv stdin s") (auto simp: run_cmd_def Let_def)
qed

lemma exec_cmd_keeps:
  "commands_keep h p \<Longrightarrow> run_state (exec_cmd h argv) s = (r, s') \<Longrightarrow> lookup_node s' p = lookup_node s p"
  unfolding exec_cmd_def by (rule run_cmd_keeps)

text \<open>\<open>leaves p m\<close>: running \<open>m\<close> does not change what is at \<open>p\<close>.\<close>

named_theorems leaves_intros \<open>programs that leave a path alone\<close>

definition leaves :: "string \<Rightarrow> ('x, 'a) io \<Rightarrow> bool" where
  "leaves p m \<longleftrightarrow> (\<forall>s. lookup_node (snd (run_state m s)) p = lookup_node s p)"

lemma leavesD: "leaves p m \<Longrightarrow> run_state m s = (a, s') \<Longrightarrow> lookup_node s' p = lookup_node s p"
  unfolding leaves_def by (metis snd_conv)

lemma leavesI: "(\<And>s a s'. run_state m s = (a, s') \<Longrightarrow> lookup_node s' p = lookup_node s p) \<Longrightarrow> leaves p m"
  unfolding leaves_def by (metis prod.collapse)

lemma leaves_return [leaves_intros]: "leaves p (ret a)"
  by (simp add: leaves_def)

lemma leaves_bind [leaves_intros]:
  "leaves p m \<Longrightarrow> (\<And>a. leaves p (f a)) \<Longrightarrow> leaves p (State_Monad.bind m f)"
  unfolding leaves_def by (auto split: prod.splits) (metis snd_conv)

lemma leaves_if [leaves_intros]: "leaves p m \<Longrightarrow> leaves p n \<Longrightarrow> leaves p (if b then m else n)"
  by simp

lemma leaves_option [leaves_intros]:
  "leaves p m \<Longrightarrow> (\<And>y. leaves p (f y)) \<Longrightarrow> leaves p (case x of None \<Rightarrow> m | Some y \<Rightarrow> f y)"
  by (cases x) auto

lemma leaves_sum [leaves_intros]:
  "(\<And>y. leaves p (g y)) \<Longrightarrow> (\<And>y. leaves p (f y)) \<Longrightarrow> leaves p (case x of Inl y \<Rightarrow> g y | Inr y \<Rightarrow> f y)"
  by (cases x) auto

lemma leaves_prod [leaves_intros]: "(\<And>a b. leaves p (f a b)) \<Longrightarrow> leaves p (case x of (a, b) \<Rightarrow> f a b)"
  by (cases x) auto

lemma leaves_let [leaves_intros]: "(\<And>y. leaves p (f y)) \<Longrightarrow> leaves p (Let x f)"
  by (simp add: Let_def)

lemma leaves_run_cmd [leaves_intros]: "commands_keep h p \<Longrightarrow> leaves p (run_cmd h dir argv stdin)"
  by (blast intro: leavesI run_cmd_keeps)

lemma leaves_exec_cmd [leaves_intros]: "commands_keep h p \<Longrightarrow> leaves p (exec_cmd h argv)"
  unfolding exec_cmd_def by (rule leaves_run_cmd)

lemma leaves_http_req [leaves_intros]: "leaves p (http_req h meth url body)"
  by (blast intro: leavesI http_req_fs)

lemma leaves_run_cmd_keep:
  assumes "\<And>s. lookup_node (snd (hexec h dir argv stdin s)) p = lookup_node s p"
  shows "leaves p (run_cmd h dir argv stdin)"
proof (rule leavesI)
  fix s r s'
  assume "run_state (run_cmd h dir argv stdin) s = (r, s')"
  with assms [of s] show "lookup_node s' p = lookup_node s p"
    by (cases "hexec h dir argv stdin s") (auto simp: run_cmd_def Let_def)
qed

lemma leaves_time_now [leaves_intros]: "leaves p time_now"
  by (simp add: leaves_def)

lemma leaves_sleep [leaves_intros]: "leaves p (sleep d)"
  by (simp add: leaves_def)

lemma leaves_look_path [leaves_intros]: "leaves p (look_path h prog)"
  by (simp add: leaves_def look_path_def)

lemma leaves_os_stat [leaves_intros]: "leaves p (os_stat h q)"
  by (simp add: leaves_def os_stat_def)

lemma leaves_os_read [leaves_intros]: "leaves p (os_read h q)"
  by (simp add: leaves_def os_read_def)

lemma leaves_os_pipe [leaves_intros]: "leaves p (os_pipe h)"
  and leaves_cmd_start [leaves_intros]: "leaves p (cmd_start h argv)"
  by (simp_all add: leaves_def os_pipe_def cmd_start_def)

lemma leaves_fill_file [leaves_intros]: "p \<noteq> q \<Longrightarrow> leaves p (fill_file q out)"
  by (simp add: leaves_def fill_file_def split: option.split node.split)

lemma leaves_os_close [leaves_intros]: "leaves p (os_close h q)"
  by (simp add: leaves_def os_close_def)

lemma leaves_os_write [leaves_intros]: "p \<noteq> q \<Longrightarrow> leaves p (os_write h q c mode)"
  by (blast intro: leavesI os_write_other)

lemma leaves_os_remove [leaves_intros]: "p \<noteq> q \<Longrightarrow> leaves p (os_remove h q)"
  by (blast intro: leavesI os_remove_other)

lemma leaves_os_chmod [leaves_intros]: "p \<noteq> q \<Longrightarrow> leaves p (os_chmod h q mode)"
  by (blast intro: leavesI os_chmod_other)

lemma mk_dirs_other: "p \<notin> set ds \<Longrightarrow> map_of (mk_dirs ds m) p = map_of m p"
  by (induction ds arbitrary: m) (auto simp: update_conv')

lemma leaves_os_mkdir_all [leaves_intros]: "p \<notin> set (path_prefixes [] q) \<Longrightarrow> leaves p (os_mkdir_all h q)"
  by (auto simp: leaves_def os_mkdir_all_def lookup_node_def mk_dirs_other split: option.splits)

section \<open>Sequences of fallible operations\<close>

text \<open>Go's \<^verbatim>\<open>if err := m(); err != nil { return fmt.Errorf("what%w", err) }\<close>, followed by the rest.\<close>

definition check_then :: "string \<Rightarrow> ('x, error option) io \<Rightarrow> ('x, error option) io \<Rightarrow> ('x, error option) io" where
  "check_then what m k = do {
     err \<leftarrow> m;
     case err of Some e \<Rightarrow> ret (Some (what @ e)) | None \<Rightarrow> k
   }"

text \<open>\<^verbatim>\<open>cmd.Run()\<close>, and the error of a file operation as its text.\<close>

definition run_status :: "'x host \<Rightarrow> string list \<Rightarrow> ('x, error option) io" where
  "run_status h argv = do { r \<leftarrow> exec_cmd h argv; ret (cr_status r) }"

definition os_err :: "('x, oserr option) io \<Rightarrow> ('x, error option) io" where
  "os_err m = do { err \<leftarrow> m; ret (map_option err_text err) }"

lemma emits_check_then [emits_intros]: "emits P m \<Longrightarrow> emits P k \<Longrightarrow> emits P (check_then what m k)"
  unfolding check_then_def by (intro emits_intros)

lemma emits_run_status [emits_intros]: "P (EvExec [] argv) \<Longrightarrow> emits P (run_status h argv)"
  unfolding run_status_def by (intro emits_intros)

lemma emits_os_err [emits_intros]: "emits P m \<Longrightarrow> emits P (os_err m)"
  unfolding os_err_def by (intro emits_intros)

lemma leaves_check_then [leaves_intros]: "leaves p m \<Longrightarrow> leaves p k \<Longrightarrow> leaves p (check_then what m k)"
  unfolding check_then_def by (intro leaves_intros)

lemma leaves_run_status [leaves_intros]: "commands_keep h p \<Longrightarrow> leaves p (run_status h argv)"
  unfolding run_status_def by (intro leaves_intros)

lemma leaves_os_err [leaves_intros]: "leaves p m \<Longrightarrow> leaves p (os_err m)"
  unfolding os_err_def by (intro leaves_intros)

lemma wp_check_then [wp_simps]:
  "wp (check_then what m k) Q s = wp m (\<lambda>err s1. case err of Some e \<Rightarrow> Q (Some (what @ e)) s1 | None \<Rightarrow> wp k Q s1) s"
  by (simp add: check_then_def wp_simps wp_def [of "State_Monad.return a" for a] split: option.split)
    (simp add: wp_def split: option.splits prod.splits)

section \<open>Hosts for the examples\<close>

text \<open>The outcome of a command that prints \<open>out\<close>, of one that fails, and a host without file
  and network faults on which only the commands do something.\<close>

definition ok_res :: "string \<Rightarrow> cmdres" where
  "ok_res out = \<lparr>cr_out = out, cr_err = [], cr_all = out, cr_status = None\<rparr>"

definition fail_res :: "string \<Rightarrow> error \<Rightarrow> cmdres" where
  "fail_res out e = \<lparr>cr_out = [], cr_err = out, cr_all = out, cr_status = Some e\<rparr>"

definition command_host :: "(string list \<Rightarrow> 'x sys \<Rightarrow> cmdres \<times> 'x sys) \<Rightarrow> 'x host" where
  "command_host f = \<lparr>hexec = \<lambda>dir argv stdin s. f argv s, hfault = \<lambda>p s. None,
     hhttp = \<lambda>meth url body s. (Inl ''no route to host'', s), hlookpath = \<lambda>prog s. None, heuid = 0\<rparr>"

definition start_sys :: "(string \<times> node) list \<Rightarrow> 'x \<Rightarrow> 'x sys" where
  "start_sys files x = \<lparr>fs = files, now = 0, trace = [], ext = x\<rparr>"

lemma command_host_sel [simp]:
  "hexec (command_host f) dir argv stdin s = f argv s" "hfault (command_host f) p s = None"
  by (simp_all add: command_host_def)

lemma res_sel [simp]:
  "cr_status (ok_res out) = None" "cr_all (ok_res out) = out" "cr_out (ok_res out) = out"
  "cr_status (fail_res out e) = Some e" "cr_all (fail_res out e) = out"
  by (simp_all add: ok_res_def fail_res_def)

end
