(* ===== verification/AgentTypes.thy ===== *)
theory AgentTypes
  imports World
begin

text \<open>
  The configurations and results of \<^verbatim>\<open>pkg/types/types.go\<close>, one record per struct with the
  fields in their order. Field names carry a short prefix because Isabelle selectors are
  global. A Go map that the agent only ranges over is a list of key and value pairs, in the
  order of the iteration; the theorems hold for every such order. The zero value of a string
  is the empty string, of a time stamp \<^const>\<open>None\<close>.
\<close>

text \<open>
  A slice whose \<^verbatim>\<open>nil\<close> can be seen in a result, as \<^verbatim>\<open>null\<close>, is an optional list; everywhere else \<^verbatim>\<open>nil\<close>
  is the empty list.
\<close>

type_synonym 'a slice = "'a list option"

fun elems :: "'a slice \<Rightarrow> 'a list" where
  "elems None = []"
| "elems (Some xs) = xs"

section \<open>Steps\<close>

record StepResult =
  st_Name :: string
  st_Status :: string
  st_Message :: string
  st_StartTime :: stamp
  st_EndTime :: stamp
  st_Duration :: string

section \<open>Deploy and instance status\<close>

record DeployConfig =
  dc_InstanceID :: string
  dc_Subdomain :: string
  dc_Domain :: string
  dc_StudioDomain :: string
  dc_BaseDir :: string
  dc_EnableTLS :: bool
  dc_VMUser :: string
  dc_KongPort :: int
  dc_PostgresPort :: int
  dc_StudioPort :: int
  dc_PostgresPassword :: string
  dc_JWTSecret :: string
  dc_PublishableKey :: string
  dc_SecretKey :: string
  dc_PgsodiumKey :: string
  dc_DashboardUsername :: string
  dc_DashboardPassword :: string
  dc_IsFirstInstance :: bool
  dc_CertPEM :: string
  dc_KeyPEM :: string
  dc_PostgresImage :: string
  dc_ComposeContent :: string
  dc_EnvContent :: string
  dc_KongContent :: string
  dc_Services :: "string list"
  dc_PostgresContainer :: string
  dc_InitSQLFiles :: "(string \<times> string) list"
  dc_VolumeConfigFiles :: "(string \<times> string) list"
  dc_SupabaseExtras :: "(string \<times> string) list"
  dc_Environment :: "(string \<times> string) list"

record DeployResult =
  dr_Success :: bool
  dr_InstanceID :: string
  dr_Steps :: "StepResult list"
  dr_ErrorMessage :: string
  dr_FailedStep :: string

record ContainerStatus =
  cs_Name :: string
  cs_State :: string
  cs_Health :: string
  cs_Uptime :: string

record InstanceStatus =
  is_InstanceID :: string
  is_State :: string
  is_Containers :: "ContainerStatus slice"
  is_HealthChecks :: "(string \<times> bool) slice"
  is_LastChecked :: stamp

section \<open>Hardening and cleanup\<close>

record HardenConfig =
  hc_VMUser :: string
  hc_SSHPort :: int
  hc_SSHPublicKey :: string
  hc_ExtraAuthorizedKeys :: "string list"
  hc_EnableFirewall :: bool
  hc_EnableFail2Ban :: bool
  hc_EnableAutoUpdates :: bool

record HardenResult =
  hr_Success :: bool
  hr_Steps :: "StepResult list"
  hr_ErrorMessage :: string
  hr_FailedStep :: string
  hr_RollbackApplied :: bool
  hr_RollbackDetails :: string

type_synonym CleanupLevel = string

definition CleanupMinimal :: CleanupLevel where "CleanupMinimal = ''minimal''"
definition CleanupFull :: CleanupLevel where "CleanupFull = ''full''"
definition CleanupRevert :: CleanupLevel where "CleanupRevert = ''revert''"

record CleanupConfig =
  cl_Level :: CleanupLevel
  cl_PreHardeningSSHPort :: int
  cl_PreHardeningSSHUser :: string
  cl_RestorePasswordAuth :: bool
  cl_DisableFirewall :: bool

record CleanupResult =
  cr_Success :: bool
  cr_Level :: string
  cr_Steps :: "StepResult list"
  cr_ErrorMessage :: string
  cr_FailedStep :: string
  cr_RestoredSSHPort :: int
  cr_RestoredSSHUser :: string

record DestroyConfig =
  de_InstanceID :: string
  de_Subdomain :: string
  de_BaseDir :: string
  de_PostgresPort :: int

record DestroyResult =
  ds_Success :: bool
  ds_InstanceID :: string
  ds_Steps :: "StepResult list"
  ds_ErrorMessage :: string
  ds_FailedStep :: string

section \<open>Backup, restore, verify, upgrade\<close>

record BackupConfig =
  bc_InstanceID :: string
  bc_Subdomain :: string
  bc_BaseDir :: string
  bc_UploadURL :: string
  bc_StorageUploadURL :: string
  bc_IncludeStorage :: bool

record BackupMetadata =
  bm_BackupID :: string
  bm_InstanceID :: string
  bm_Subdomain :: string
  bm_SupabaseVersion :: string
  bm_Timestamp :: stamp
  bm_SizeBytes :: int
  bm_Checksum :: string
  bm_StorageSizeBytes :: int
  bm_StorageChecksum :: string
  bm_Status :: string

record BackupResult =
  br_Success :: bool
  br_BackupID :: string
  br_InstanceID :: string
  br_Steps :: "StepResult list"
  br_Metadata :: BackupMetadata
  br_ErrorMessage :: string
  br_FailedStep :: string

record RestoreConfig =
  rc_InstanceID :: string
  rc_Subdomain :: string
  rc_BaseDir :: string
  rc_DownloadURL :: string
  rc_StorageDownloadURL :: string
  rc_StopInstance :: bool
  rc_VerifyChecksum :: bool
  rc_ExpectedChecksum :: string

record RestoreResult =
  rr_Success :: bool
  rr_InstanceID :: string
  rr_Steps :: "StepResult list"
  rr_ErrorMessage :: string
  rr_FailedStep :: string

record UpgradeConfig =
  uc_InstanceID :: string
  uc_Subdomain :: string
  uc_BaseDir :: string
  uc_CurrentVersion :: string
  uc_TargetVersion :: string
  uc_BackupBeforeUpgrade :: bool
  uc_RollbackOnFailure :: bool
  uc_BackupUploadURL :: string
  uc_StorageUploadURL :: string
  uc_ComposeContent :: string
  uc_EnvContent :: string

record UpgradeResult =
  ur_Success :: bool
  ur_InstanceID :: string
  ur_UpgradedFrom :: string
  ur_UpgradedTo :: string
  ur_Steps :: "StepResult list"
  ur_RollbackApplied :: bool
  ur_BackupID :: string
  ur_ErrorMessage :: string
  ur_FailedStep :: string

record VersionInfo =
  vi_Postgres :: string
  vi_Kong :: string
  vi_Studio :: string
  vi_GoTrue :: string
  vi_PostgREST :: string
  vi_Realtime :: string
  vi_Storage :: string

record VerifyBackupConfig =
  vc_BackupID :: string
  vc_DownloadURL :: string
  vc_ExpectedChecksum :: string
  vc_DeepVerify :: bool
  vc_Subdomain :: string
  vc_BaseDir :: string

record VerificationCheck =
  vk_Name :: string
  vk_Status :: string
  vk_Message :: string
  vk_Duration :: string

record VerifyBackupResult =
  vr_Success :: bool
  vr_BackupID :: string
  vr_VerifiedAt :: stamp
  vr_Checks :: "VerificationCheck list"
  vr_OverallStatus :: string
  vr_ErrorMessage :: string
  vr_Duration :: string

section \<open>TLS, credentials, diagnosis\<close>

record EnableTLSConfig =
  et_InstanceID :: string
  et_Subdomain :: string
  et_Domain :: string
  et_StudioDomain :: string
  et_BaseDir :: string
  et_CertPEM :: string
  et_KeyPEM :: string
  et_KongPort :: int
  et_StudioPort :: int
  et_DashboardUsername :: string
  et_DashboardPassword :: string

record EnableTLSResult =
  er_Success :: bool
  er_InstanceID :: string
  er_Steps :: "StepResult list"
  er_ErrorMessage :: string
  er_FailedStep :: string

record RotateCredentialsConfig =
  ro_InstanceID :: string
  ro_CredentialType :: string
  ro_PostgresPassword :: string
  ro_JWTSecret :: string
  ro_PublishableKey :: string
  ro_SecretKey :: string
  ro_BaseDir :: string

record RotateCredentialsResult =
  rs_Success :: bool
  rs_InstanceID :: string
  rs_Steps :: "StepResult list"
  rs_ErrorMessage :: string
  rs_FailedStep :: string

record DiagnoseConfig =
  dg_InstanceID :: string
  dg_Subdomain :: string
  dg_BaseDir :: string
  dg_Timeout :: int

record DiagnosticCheck =
  dk_Name :: string
  dk_Status :: string
  dk_Detail :: string
  dk_Duration :: string

record DiagnoseResult =
  di_InstanceID :: string
  di_OverallStatus :: string
  di_Checks :: "DiagnosticCheck list"
  di_Timestamp :: stamp
  di_Duration :: string
  di_AgentVersion :: string

section \<open>Firewall ports and VM reset\<close>

record OpenPortConfig =
  op_Port :: int
  op_Protocol :: string
  op_SourceCIDRs :: "string list"

record OpenPortResult =
  or_Success :: bool
  or_Port :: int
  or_Protocol :: string
  or_AllowedCIDRs :: "string list"
  or_ErrorMessage :: string

record UpdateAllowlistConfig =
  ua_Port :: int
  ua_Protocol :: string
  ua_SourceCIDRs :: "string list"

record UpdateAllowlistResult =
  ul_Success :: bool
  ul_Port :: int
  ul_Protocol :: string
  ul_AllowedCIDRs :: "string list"
  ul_AddedCIDRs :: "string list"
  ul_RemovedCIDRs :: "string list"
  ul_ErrorMessage :: string

record ResetVMConfig =
  rv_BaseDir :: string
  rv_AllowedPorts :: "int list"

record ResetVMResult =
  rx_Success :: bool
  rx_Steps :: "StepResult list"
  rx_PurgedInstances :: "string list"
  rx_RemovedUFWRules :: "int list"
  rx_RemovedConfigFiles :: "string list"
  rx_ErrorMessage :: string
  rx_FailedStep :: string

text \<open>The composite literals of a step: a fresh step in progress has no message and no end.\<close>

definition new_step :: "string \<Rightarrow> string \<Rightarrow> stamp \<Rightarrow> StepResult" where
  "new_step name status start =
     \<lparr>st_Name = name, st_Status = status, st_Message = [], st_StartTime = start,
      st_EndTime = None, st_Duration = []\<rparr>"

lemma new_step_sel [simp]:
  "st_Name (new_step n s t) = n" "st_Status (new_step n s t) = s" "st_StartTime (new_step n s t) = t"
  "st_Message (new_step n s t) = []"
  by (simp_all add: new_step_def)

end
