(* ===== verification/Allowlist.thy ===== *)
theory Allowlist
  imports AgentTypes "HOL-Library.Char_ord" "HOL-Library.List_Lexorder" "HOL-Library.Multiset"
begin

text \<open>
  \<^verbatim>\<open>internal/openport/allowlist.go\<close>: reading the rules out of \<^verbatim>\<open>ufw status numbered\<close>, the plan
  that turns the rules of a port into a desired set of sources, and the command that adds a
  rule. At the end, what \<^verbatim>\<open>ufw delete\<close> does to the numbering, and the interface of every plan
  that deletes rules by number: executed in its order it removes the rules it names and no
  other, although every deletion renumbers the rules behind it.
\<close>

section \<open>Rules and the status output\<close>

record ExistingRule =
  ru_RuleNumber :: int
  ru_Port :: int
  ru_Protocol :: string
  ru_Source :: string
  ru_IPv6 :: bool

text \<open>
  \<^verbatim>\<open>ufwLineRE\<close>, as the sequence of matches it makes. White space of the expression is the
  class of \<^verbatim>\<open>\s\<close>; every part but the last is deterministic, and for the last the greedy
  space takes all but the one character that the source needs.
\<close>

definition re_ws :: "char \<Rightarrow> bool" where
  "re_ws c \<longleftrightarrow> c = CHR 0x20 \<or> c = CHR 0x09 \<or> c = CHR 0x0A \<or> c = CHR 0x0C \<or> c = CHR 0x0D"

definition expect :: "string \<Rightarrow> string \<Rightarrow> string option" where
  "expect p s = (if has_prefix s p then Some (drop (length p) s) else None)"

definition skip_ws :: "string \<Rightarrow> string" where
  "skip_ws s = dropWhile re_ws s"

definition skip_ws1 :: "string \<Rightarrow> string option" where
  "skip_ws1 s = (case s of [] \<Rightarrow> None | c # cs \<Rightarrow> if re_ws c then Some (skip_ws cs) else None)"

definition digits1 :: "string \<Rightarrow> (string \<times> string) option" where
  "digits1 s = (if takeWhile is_digit s = [] then None else Some (takeWhile is_digit s, dropWhile is_digit s))"

definition match_proto :: "string \<Rightarrow> (string \<times> string) option" where
  "match_proto s = (if has_prefix s ''tcp'' then Some (''tcp'', drop 3 s)
     else if has_prefix s ''udp'' then Some (''udp'', drop 3 s) else None)"

definition match_v6 :: "string \<Rightarrow> string \<times> string" where
  "match_v6 s = (let w = takeWhile re_ws s; r = dropWhile re_ws s in
     if w \<noteq> [] \<and> has_prefix r ''(v6)'' then (w @ ''(v6)'', drop 4 r) else ([], s))"

definition match_source :: "string \<Rightarrow> string option" where
  "match_source s = (let w = takeWhile re_ws s; r = dropWhile re_ws s in
     if w = [] then None
     else if r = [] then (if 2 \<le> length w then Some [last w] else None)
     else Some (trim_right re_ws r))"

definition ufwLineRE :: "string \<Rightarrow> (string \<times> string \<times> string \<times> string \<times> string) option" where
  "ufwLineRE line = do {
     s \<leftarrow> expect ''['' (skip_ws line);
     (m1, s) \<leftarrow> digits1 (skip_ws s);
     s \<leftarrow> expect '']'' (skip_ws s);
     s \<leftarrow> skip_ws1 s;
     (m2, s) \<leftarrow> digits1 s;
     s \<leftarrow> expect ''/'' s;
     (m3, s) \<leftarrow> match_proto s;
     (m4, s) \<leftarrow> Some (match_v6 s);
     s \<leftarrow> skip_ws1 s;
     s \<leftarrow> expect ''ALLOW'' s;
     s \<leftarrow> skip_ws1 s;
     s \<leftarrow> expect ''IN'' s;
     m5 \<leftarrow> match_source s;
     Some (m1, m2, m3, m4, m5)
   }"

definition normalizeSource :: "string \<Rightarrow> bool \<Rightarrow> string" where
  "normalizeSource raw0 ipv6 =
     (let raw = trim_space raw0 in
      if raw = ''Anywhere'' \<or> raw = ''Anywhere (v6)'' then (if ipv6 then ''::/0'' else ''0.0.0.0/0'')
      else let raw = trim_space (trim_suffix raw ''(v6)'') in
        if \<not> str_contains raw ''/'' then
          (if str_contains raw '':'' then raw @ ''/128'' else raw @ ''/32'')
        else raw)"

definition parse_rule :: "string \<Rightarrow> ExistingRule option" where
  "parse_rule line =
     (case ufwLineRE line of None \<Rightarrow> None
      | Some (m1, m2, m3, m4, m5) \<Rightarrow>
          (case atoi m2 of (rulePort, Some e) \<Rightarrow> None
           | (rulePort, None) \<Rightarrow>
               let ipv6 = (trim_space m4 = ''(v6)'') in
               Some \<lparr>ru_RuleNumber = fst (atoi m1), ru_Port = rulePort, ru_Protocol = m3,
                     ru_Source = normalizeSource (trim_space m5) ipv6, ru_IPv6 = ipv6\<rparr>))"

definition ParseAllUFWAllowRules :: "string \<Rightarrow> ExistingRule list" where
  "ParseAllUFWAllowRules ufwStatus = List.map_filter parse_rule (scan_lines ufwStatus)"

fun parse_port_lines :: "int \<Rightarrow> string \<Rightarrow> string list \<Rightarrow> ExistingRule list" where
  "parse_port_lines port protocol [] = []"
| "parse_port_lines port protocol (line # lines) =
     (case ufwLineRE line of
        None \<Rightarrow> parse_port_lines port protocol lines
      | Some (m1, m2, m3, m4, m5) \<Rightarrow>
          (case atoi m2 of (rulePort, err) \<Rightarrow>
             if err \<noteq> None \<or> rulePort \<noteq> port then parse_port_lines port protocol lines
             else if m3 \<noteq> protocol then parse_port_lines port protocol lines
             else let ipv6 = (trim_space m4 = ''(v6)'') in
               \<lparr>ru_RuleNumber = fst (atoi m1), ru_Port = rulePort, ru_Protocol = m3,
                ru_Source = normalizeSource (trim_space m5) ipv6, ru_IPv6 = ipv6\<rparr>
               # parse_port_lines port protocol lines))"

definition ParseUFWRulesForPort :: "string \<Rightarrow> int \<Rightarrow> string \<Rightarrow> ExistingRule list" where
  "ParseUFWRulesForPort ufwStatus port protocol = parse_port_lines port protocol (scan_lines ufwStatus)"

section \<open>The plan and the command\<close>

definition desired_set :: "string list \<Rightarrow> string list" where
  "desired_set desired =
     (let ds = dedup [] (filter (\<lambda>c. c \<noteq> []) (map trim_space desired))
      in if ds = [] then [''0.0.0.0/0''] else ds)"

fun diff_loop :: "string list \<Rightarrow> string list \<Rightarrow> ExistingRule list \<Rightarrow> int list \<times> string list" where
  "diff_loop desired keep [] = ([], keep)"
| "diff_loop desired keep (r # rs) =
     (if ru_Source r \<in> set desired \<and> ru_Source r \<notin> set keep
      then diff_loop desired (ru_Source r # keep) rs
      else (let (del, k) = diff_loop desired keep rs in (ru_RuleNumber r # del, k)))"

definition DiffAllowlist :: "ExistingRule list \<Rightarrow> string list \<Rightarrow> int list \<times> string list" where
  "DiffAllowlist existing desired =
     (let D = desired_set desired; (del, keep) = diff_loop D [] existing
      in (rev (sort del), sort (filter (\<lambda>c. c \<notin> set keep) D)))"

definition FormatAddRule :: "int \<Rightarrow> string \<Rightarrow> string \<Rightarrow> string list" where
  "FormatAddRule port protocol cidr =
     (if cidr = ''0.0.0.0/0'' \<or> cidr = ''::/0'' \<or> cidr = [] then [''allow'', itoa port @ ''/'' @ protocol]
      else [''allow'', ''from'', cidr, ''to'', ''any'', ''port'', itoa port, ''proto'', protocol])"

section \<open>Lemmas about the parser\<close>

lemma parse_port_lines_filter:
  "parse_port_lines port protocol lines =
     filter (\<lambda>r. ru_Port r = port \<and> ru_Protocol r = protocol) (List.map_filter parse_rule lines)"
  by (induction lines)
    (auto simp: parse_rule_def Let_def List.map_filter_simps split: option.splits prod.splits)

lemma ParseUFWRulesForPort_eq:
  "ParseUFWRulesForPort out port protocol =
     filter (\<lambda>r. ru_Port r = port \<and> ru_Protocol r = protocol) (ParseAllUFWAllowRules out)"
  by (simp add: ParseUFWRulesForPort_def ParseAllUFWAllowRules_def parse_port_lines_filter)

section \<open>Lemmas about the plan\<close>

lemma desired_set_nonempty [simp]: "desired_set desired \<noteq> []"
  by (simp add: desired_set_def Let_def)

lemma desired_set_distinct [simp]: "distinct (desired_set desired)"
  by (simp add: desired_set_def Let_def distinct_dedup)

lemma desired_set_nonblank: "c \<in> set (desired_set desired) \<Longrightarrow> c \<noteq> []"
  by (auto simp: desired_set_def Let_def set_dedup split: if_splits)

lemma diff_loop_simps [simp]:
  "fst (diff_loop D keep (r # rs)) =
     (if ru_Source r \<in> set D \<and> ru_Source r \<notin> set keep then fst (diff_loop D (ru_Source r # keep) rs)
      else ru_RuleNumber r # fst (diff_loop D keep rs))"
  "snd (diff_loop D keep (r # rs)) =
     (if ru_Source r \<in> set D \<and> ru_Source r \<notin> set keep then snd (diff_loop D (ru_Source r # keep) rs)
      else snd (diff_loop D keep rs))"
  by (simp_all add: split_def Let_def)

declare diff_loop.simps(2) [simp del]

lemma diff_loop_numbers:
  "set (fst (diff_loop D keep rs)) \<subseteq> ru_RuleNumber ` set rs"
  by (induction rs arbitrary: keep) auto

lemma diff_loop_distinct:
  "distinct (map ru_RuleNumber rs) \<Longrightarrow> distinct (fst (diff_loop D keep rs))"
proof (induction rs arbitrary: keep)
  case Nil
  then show ?case by simp
next
  case (Cons r rs)
  moreover have "ru_RuleNumber r \<notin> set (fst (diff_loop D k rs))" for k
    using Cons.prems diff_loop_numbers [of D k rs] by auto
  ultimately show ?case by simp
qed

lemma diff_loop_keep:
  "set (snd (diff_loop D keep rs)) = set keep \<union> (set D \<inter> ru_Source ` set rs)"
  by (induction rs arbitrary: keep) auto

text \<open>The rules the plan keeps: the first rule of each desired source.\<close>

fun kept_rules :: "string list \<Rightarrow> string list \<Rightarrow> ExistingRule list \<Rightarrow> ExistingRule list" where
  "kept_rules D keep [] = []"
| "kept_rules D keep (r # rs) =
     (if ru_Source r \<in> set D \<and> ru_Source r \<notin> set keep
      then r # kept_rules D (ru_Source r # keep) rs
      else kept_rules D keep rs)"

lemma kept_rules_filter:
  "distinct (map ru_RuleNumber rs) \<Longrightarrow>
     filter (\<lambda>r. ru_RuleNumber r \<notin> set (fst (diff_loop D keep rs))) rs = kept_rules D keep rs"
proof (induction rs arbitrary: keep)
  case Nil
  then show ?case by simp
next
  case (Cons r rs)
  show ?case
  proof (cases "ru_Source r \<in> set D \<and> ru_Source r \<notin> set keep")
    case True
    have "ru_RuleNumber r \<notin> set (fst (diff_loop D (ru_Source r # keep) rs))"
      using Cons.prems diff_loop_numbers [of D "ru_Source r # keep" rs] by auto
    with True Cons show ?thesis by simp
  next
    case False
    have "ru_RuleNumber q \<noteq> ru_RuleNumber r" if "q \<in> set rs" for q
      using Cons.prems that by (metis distinct.simps(2) image_eqI list.map(2) list.set_map)
    then have "filter (\<lambda>q. ru_RuleNumber q \<noteq> ru_RuleNumber r \<and> ru_RuleNumber q \<notin> X) rs =
          filter (\<lambda>q. ru_RuleNumber q \<notin> X) rs" for X
      by (intro filter_cong) auto
    with False Cons show ?thesis by auto
  qed
qed

lemma kept_rules_sources:
  "ru_Source ` set (kept_rules D keep rs) = (set D \<inter> ru_Source ` set rs) - set keep"
  by (induction rs arbitrary: keep) auto

lemma kept_rules_distinct: "distinct (map ru_Source (kept_rules D keep rs))"
proof (induction rs arbitrary: keep)
  case (Cons r rs)
  have "ru_Source r \<notin> ru_Source ` set (kept_rules D (ru_Source r # keep) rs)"
    unfolding kept_rules_sources by simp
  with Cons show ?case by auto
qed simp

section \<open>Numbered rules and deletion by number\<close>

text \<open>
  The rows of the firewall as \<^verbatim>\<open>ufw status numbered\<close> lists them, from number 1: the rules the
  expression matches and the others (DENY and LIMIT rules, rules for an application).
\<close>

datatype ufw_row = Allow ExistingRule | Other string

fun observed_from :: "int \<Rightarrow> ufw_row list \<Rightarrow> ExistingRule list" where
  "observed_from n [] = []"
| "observed_from n (Allow r # rows) = r\<lparr>ru_RuleNumber := n\<rparr> # observed_from (n + 1) rows"
| "observed_from n (Other t # rows) = observed_from (n + 1) rows"

definition observed :: "ufw_row list \<Rightarrow> ExistingRule list" where
  "observed rows = observed_from 1 rows"

definition ufw_delete :: "ufw_row list \<Rightarrow> int \<Rightarrow> ufw_row list" where
  "ufw_delete rows n = take (nat n - 1) rows @ drop (nat n) rows"

definition ufw_deletes :: "ufw_row list \<Rightarrow> int list \<Rightarrow> ufw_row list" where
  "ufw_deletes rows ns = foldl ufw_delete rows ns"

fun descending :: "int list \<Rightarrow> bool" where
  "descending [] = True"
| "descending (n # ns) = ((\<forall>m \<in> set ns. m < n) \<and> descending ns)"

lemma descending_rev_sort: "distinct ns \<Longrightarrow> descending (rev (sort ns))"
proof -
  have "sorted xs \<Longrightarrow> distinct xs \<Longrightarrow> descending (rev xs)" for xs :: "int list"
  proof (induction xs rule: rev_induct)
    case Nil
    then show ?case by simp
  next
    case (snoc x xs)
    then show ?case by (auto simp: sorted_append order_less_le)
  qed
  then show "distinct ns \<Longrightarrow> descending (rev (sort ns))" by simp
qed

lemma nths_agree:
  "(\<And>i. i < length xs \<Longrightarrow> i \<in> A \<longleftrightarrow> i \<in> B) \<Longrightarrow> nths xs A = nths xs B"
  unfolding nths_def
  by (intro arg_cong [where f = "map fst"] filter_cong) (auto simp: set_zip)

lemma ufw_deletes_nths:
  "descending ns \<Longrightarrow> \<forall>n \<in> set ns. 1 \<le> n \<and> n \<le> int (length rows) \<Longrightarrow>
     ufw_deletes rows ns = nths rows {i. int (Suc i) \<notin> set ns}"
proof (induction ns arbitrary: rows)
  case Nil
  then show ?case by (simp add: ufw_deletes_def nths_all)
next
  case (Cons n ns)
  define k where "k = nat n - 1"
  have k: "n = int (Suc k)" "k < length rows" using Cons.prems(2) by (auto simp: k_def)
  have small: "m \<le> int k" if "m \<in> set ns" for m using Cons.prems(1) that k by auto
  let ?rows = "take k rows @ drop (Suc k) rows"
  have del: "ufw_delete rows n = ?rows" using k by (simp add: ufw_delete_def k_def)
  have "ufw_deletes rows (n # ns) = ufw_deletes ?rows ns"
    by (simp add: ufw_deletes_def del)
  also have "\<dots> = nths ?rows {i. int (Suc i) \<notin> set ns}"
  proof (intro Cons.IH ballI)
    fix m assume m: "m \<in> set ns"
    show "1 \<le> m \<and> m \<le> int (length ?rows)"
      using Cons.prems(2) small [OF m] k(2) m by auto
  qed (use Cons.prems(1) in simp)
  also have "\<dots> = nths (take k rows) {i. int (Suc i) \<notin> set ns} @ drop (Suc k) rows"
  proof -
    have "nths (drop (Suc k) rows) {j. int (Suc (j + length (take k rows))) \<notin> set ns} = drop (Suc k) rows"
      using small k by (intro nths_all) force
    then show ?thesis by (simp add: nths_append)
  qed
  also have "\<dots> = nths rows {i. int (Suc i) \<notin> set (n # ns)}"
  proof -
    let ?S = "{i. int (Suc i) \<notin> set (n # ns)}"
    have rows: "rows = take k rows @ rows ! k # drop (Suc k) rows"
      using k id_take_nth_drop by blast
    have "nths rows ?S = nths (take k rows) ?S @ nths (rows ! k # drop (Suc k) rows) {j. j + length (take k rows) \<in> ?S}"
      using rows nths_append by metis
    moreover have "nths (rows ! k # drop (Suc k) rows) {j. j + length (take k rows) \<in> ?S} = drop (Suc k) rows"
    proof -
      have "nths (drop (Suc k) rows) {j. Suc j \<in> {j. j + length (take k rows) \<in> ?S}} = drop (Suc k) rows"
        using small k by (intro nths_all) force
      then show ?thesis using k by (simp add: nths_Cons)
    qed
    moreover have "nths (take k rows) ?S = nths (take k rows) {i. int (Suc i) \<notin> set ns}"
      using k by (intro nths_agree) auto
    ultimately show ?thesis by simp
  qed
  finally show ?case .
qed

text \<open>The rules among the rows, and what a listing says about them.\<close>

fun allow_rules :: "ufw_row list \<Rightarrow> ExistingRule list" where
  "allow_rules [] = []"
| "allow_rules (Allow r # rows) = r # allow_rules rows"
| "allow_rules (Other t # rows) = allow_rules rows"

lemma allow_rules_append [simp]: "allow_rules (xs @ ys) = allow_rules xs @ allow_rules ys"
  by (induction xs rule: allow_rules.induct) auto

definition unnumbered :: "ExistingRule \<Rightarrow> ExistingRule" where
  "unnumbered r = r\<lparr>ru_RuleNumber := 0\<rparr>"

lemma unnumbered_simps [simp]:
  "unnumbered (r\<lparr>ru_RuleNumber := n\<rparr>) = unnumbered r"
  "ru_Port (unnumbered r) = ru_Port r" "ru_Protocol (unnumbered r) = ru_Protocol r"
  "ru_Source (unnumbered r) = ru_Source r"
  by (simp_all add: unnumbered_def)

lemma observed_from_numbers:
  "r \<in> set (observed_from n rows) \<Longrightarrow> n \<le> ru_RuleNumber r \<and> ru_RuleNumber r < n + int (length rows)"
  by (induction n rows rule: observed_from.induct) auto

lemma observed_from_distinct: "distinct (map ru_RuleNumber (observed_from n rows))"
proof (induction n rows rule: observed_from.induct)
  case (2 n r rows)
  then show ?case using observed_from_numbers [of _ "n + 1" rows] by fastforce
qed simp_all

lemma observed_numbers:
  "r \<in> set (observed rows) \<Longrightarrow> 1 \<le> ru_RuleNumber r \<and> ru_RuleNumber r \<le> int (length rows)"
  using observed_from_numbers [of r 1 rows] by (auto simp: observed_def)

lemma observed_distinct: "distinct (map ru_RuleNumber (observed rows))"
  by (simp add: observed_def observed_from_distinct)

lemma survivors_from:
  "map unnumbered (filter (\<lambda>r. ru_RuleNumber r \<notin> S) (observed_from n rows)) =
     map unnumbered (allow_rules (nths rows {i. n + int i \<notin> S}))"
proof (induction n rows rule: observed_from.induct)
  case (2 n r rows)
  have "{j. Suc j \<in> {i. n + int i \<notin> S}} = {i. (n + 1) + int i \<notin> S}" by (auto simp: add.assoc)
  with 2 show ?case by (auto simp: nths_Cons)
next
  case (3 n t rows)
  have "{j. Suc j \<in> {i. n + int i \<notin> S}} = {i. (n + 1) + int i \<notin> S}" by (auto simp: add.assoc)
  with 3 show ?case by (auto simp: nths_Cons)
qed simp

text \<open>A row that no listed and doomed rule stands for stays, and so does the order.\<close>

fun row_sat :: "(ExistingRule \<Rightarrow> bool) \<Rightarrow> ufw_row \<Rightarrow> bool" where
  "row_sat P (Allow r) = P r"
| "row_sat P (Other t) = False"

definition numbers_of :: "(ExistingRule \<Rightarrow> bool) \<Rightarrow> int \<Rightarrow> ufw_row list \<Rightarrow> int set" where
  "numbers_of P n rows = ru_RuleNumber ` {r \<in> set (observed_from n rows). P r}"

lemma numbers_of_bound: "m \<in> numbers_of P n rows \<Longrightarrow> n \<le> m"
  using observed_from_numbers by (auto simp: numbers_of_def)

lemma numbers_of_Cons:
  assumes "\<And>r m. P (r\<lparr>ru_RuleNumber := m\<rparr>) = P r"
  shows "numbers_of P n (row # rows) = (if row_sat P row then {n} else {}) \<union> numbers_of P (n + 1) rows"
proof (cases row)
  case (Allow r)
  have "{q \<in> insert a A. P q} = (if P a then {a} else {}) \<union> {q \<in> A. P q}" for a A by auto
  then show ?thesis using Allow by (simp add: numbers_of_def assms)
qed (simp add: numbers_of_def)

lemma untouched_from:
  assumes free: "\<And>r m. P (r\<lparr>ru_RuleNumber := m\<rparr>) = P r" and "S \<subseteq> numbers_of P n rows \<union> {..<n}"
  shows "filter (\<lambda>row. \<not> row_sat P row) (nths rows {i. n + int i \<notin> S}) = filter (\<lambda>row. \<not> row_sat P row) rows"
  using assms(2)
proof (induction rows arbitrary: n)
  case (Cons row rows)
  have sh: "nths rows {i. n + int (Suc i) \<notin> S} = nths rows {i. (n + 1) + int i \<notin> S}"
    by (rule nths_agree) (auto simp: algebra_simps)
  have "S \<subseteq> numbers_of P (n + 1) rows \<union> {..<n + 1}"
    using Cons.prems by (auto simp: numbers_of_Cons free split: if_splits)
  note IH = Cons.IH [OF this]
  have "row_sat P row" if "n \<in> S"
    using Cons.prems that numbers_of_bound [of n P "n + 1" rows]
    by (auto simp: numbers_of_Cons free split: if_splits)
  with IH sh show ?case by (auto simp: nths_Cons)
qed simp

lemma removed_from:
  assumes free: "\<And>r m. P (r\<lparr>ru_RuleNumber := m\<rparr>) = P r"
  shows "nths rows {i. n + int i \<notin> numbers_of P n rows} = filter (\<lambda>row. \<not> row_sat P row) rows"
proof (induction rows arbitrary: n)
  case (Cons row rows)
  let ?N = "numbers_of P n (row # rows)"
  have "n \<in> ?N \<longleftrightarrow> row_sat P row"
    using numbers_of_bound [of n P "n + 1" rows] by (auto simp: numbers_of_Cons free)
  moreover have "nths rows {i. n + int (Suc i) \<notin> ?N} = filter (\<lambda>row. \<not> row_sat P row) rows"
  proof -
    have "nths rows {i. n + int (Suc i) \<notin> ?N} = nths rows {i. (n + 1) + int i \<notin> numbers_of P (n + 1) rows}"
      by (rule nths_agree) (auto simp: numbers_of_Cons free algebra_simps)
    then show ?thesis using Cons by simp
  qed
  ultimately show ?case by (simp add: nths_Cons)
qed simp

section \<open>The interface of a deletion plan\<close>

text \<open>
  \<^verbatim>\<open>DiffAllowlist\<close>, \<^verbatim>\<open>PlanUFWReset\<close> and the teardown of a port all compute rule numbers from one
  listing and delete them one by one. What they owe: only rules in their scope are named, and
  in strictly descending order. What follows, whatever the rows of the firewall: the rows
  outside the scope stay as they are, and the rules that survive are those not named.
\<close>

locale deletion_plan =
  fixes plan :: "ExistingRule list \<Rightarrow> int list"
    and scope :: "ExistingRule \<Rightarrow> bool"
  assumes scope_free: "scope (r\<lparr>ru_RuleNumber := m\<rparr>) = scope r"
    and plan_scope: "set (plan rs) \<subseteq> ru_RuleNumber ` {r \<in> set rs. scope r}"
    and plan_order: "distinct (map ru_RuleNumber rs) \<Longrightarrow> descending (plan rs)"
begin

lemma executed:
  "ufw_deletes rows (plan (observed rows)) = nths rows {i. 1 + int i \<notin> set (plan (observed rows))}"
proof -
  have "\<forall>n \<in> set (plan (observed rows)). 1 \<le> n \<and> n \<le> int (length rows)"
    using plan_scope [of "observed rows"] observed_numbers by fastforce
  with plan_order [OF observed_distinct] show ?thesis by (simp add: ufw_deletes_nths)
qed

lemma untouched:
  "filter (\<lambda>row. \<not> row_sat scope row) (ufw_deletes rows (plan (observed rows))) =
     filter (\<lambda>row. \<not> row_sat scope row) rows"
  unfolding executed using scope_free plan_scope [of "observed rows"]
  by (intro untouched_from) (auto simp: numbers_of_def observed_def)

lemma survivors:
  "map unnumbered (allow_rules (ufw_deletes rows (plan (observed rows)))) =
     map unnumbered (filter (\<lambda>r. ru_RuleNumber r \<notin> set (plan (observed rows))) (observed rows))"
  unfolding executed by (simp add: survivors_from [symmetric] observed_def [of rows])

end

text \<open>A plan that names every rule in its scope removes exactly those rows.\<close>

locale full_deletion_plan = deletion_plan +
  assumes plan_full: "ru_RuleNumber ` {r \<in> set rs. scope r} \<subseteq> set (plan rs)"
begin

lemma removes:
  "ufw_deletes rows (plan (observed rows)) = filter (\<lambda>row. \<not> row_sat scope row) rows"
proof -
  have "set (plan (observed rows)) = numbers_of scope 1 rows"
    using plan_scope plan_full unfolding numbers_of_def observed_def by blast
  then show ?thesis unfolding executed by (simp add: removed_from scope_free)
qed

end

definition port_rule :: "int \<Rightarrow> string \<Rightarrow> ExistingRule \<Rightarrow> bool" where
  "port_rule port protocol r \<longleftrightarrow> ru_Port r = port \<and> ru_Protocol r = protocol"

definition port_sources :: "int \<Rightarrow> string \<Rightarrow> ufw_row list \<Rightarrow> string list" where
  "port_sources port protocol rows = map ru_Source (filter (port_rule port protocol) (allow_rules rows))"

lemma port_rule_unnumbered [simp]:
  "port_rule port protocol (unnumbered r) = port_rule port protocol r"
  "port_rule port protocol (r\<lparr>ru_RuleNumber := m\<rparr>) = port_rule port protocol r"
  by (simp_all add: port_rule_def)

lemma port_sources_unnumbered:
  "port_sources port protocol rows =
     map ru_Source (filter (port_rule port protocol) (map unnumbered (allow_rules rows)))"
  by (simp add: port_sources_def filter_map comp_def)

lemma port_sources_observed:
  "map ru_Source (filter (port_rule port protocol) (observed rows)) = port_sources port protocol rows"
proof -
  have "map ru_Source (filter (port_rule port protocol) (observed_from n rows)) = port_sources port protocol rows" for n
    by (induction n rows rule: observed_from.induct) (simp_all add: port_sources_def)
  then show ?thesis by (simp add: observed_def)
qed

lemma ParseUFWRulesForPort_rule:
  "ParseUFWRulesForPort out port protocol = filter (port_rule port protocol) (ParseAllUFWAllowRules out)"
  unfolding ParseUFWRulesForPort_eq by (rule filter_cong) (simp_all add: port_rule_def)

lemma fst_DiffAllowlist:
  "fst (DiffAllowlist existing desired) = rev (sort (fst (diff_loop (desired_set desired) [] existing)))"
  by (simp add: DiffAllowlist_def Let_def split_def)

lemma snd_DiffAllowlist:
  "set (snd (DiffAllowlist existing desired)) = set (desired_set desired) - ru_Source ` set existing"
  by (auto simp: DiffAllowlist_def Let_def split_def diff_loop_keep)

interpretation diff: deletion_plan
  "\<lambda>rs. fst (DiffAllowlist (filter (port_rule port protocol) rs) desired)"
  "port_rule port protocol"
  for port protocol desired
proof
  fix rs
  show "set (fst (DiffAllowlist (filter (port_rule port protocol) rs) desired))
      \<subseteq> ru_RuleNumber ` {r \<in> set rs. port_rule port protocol r}"
    using diff_loop_numbers [of _ _ "filter (port_rule port protocol) rs"]
    by (auto simp: fst_DiffAllowlist)
  assume "distinct (map ru_RuleNumber rs)"
  then have "distinct (map ru_RuleNumber (filter (port_rule port protocol) rs))"
    by (rule distinct_map_filter)
  then show "descending (fst (DiffAllowlist (filter (port_rule port protocol) rs) desired))"
    by (simp add: fst_DiffAllowlist descending_rev_sort diff_loop_distinct)
qed simp

lemma diff_sources:
  "port_sources port protocol
     (ufw_deletes rows (fst (DiffAllowlist (filter (port_rule port protocol) (observed rows)) desired))) =
   map ru_Source (kept_rules (desired_set desired) [] (filter (port_rule port protocol) (observed rows)))"
proof -
  let ?ex = "filter (port_rule port protocol) (observed rows)"
  let ?del = "fst (DiffAllowlist ?ex desired)"
  have d: "distinct (map ru_RuleNumber ?ex)"
    by (intro distinct_map_filter observed_distinct)
  have "port_sources port protocol (ufw_deletes rows ?del) =
      map ru_Source (filter (port_rule port protocol)
        (map unnumbered (filter (\<lambda>r. ru_RuleNumber r \<notin> set ?del) (observed rows))))"
    unfolding port_sources_unnumbered diff.survivors ..
  also have "\<dots> = map ru_Source (filter (\<lambda>r. ru_RuleNumber r \<notin> set ?del) ?ex)"
    by (simp add: filter_map comp_def conj_commute)
  also have "\<dots> = map ru_Source (kept_rules (desired_set desired) [] ?ex)"
    using kept_rules_filter [OF d] by (simp add: fst_DiffAllowlist)
  finally show ?thesis .
qed


text \<open>A firewall with five rows, for the example.\<close>

definition demo_rows :: "ufw_row list" where
  "demo_rows =
    [Allow \<lparr>ru_RuleNumber = 0, ru_Port = 22, ru_Protocol = ''tcp'', ru_Source = ''0.0.0.0/0'', ru_IPv6 = False\<rparr>,
     Allow \<lparr>ru_RuleNumber = 0, ru_Port = 5432, ru_Protocol = ''tcp'', ru_Source = ''0.0.0.0/0'', ru_IPv6 = False\<rparr>,
     Other ''5432/tcp DENY IN 10.1.1.1'',
     Allow \<lparr>ru_RuleNumber = 0, ru_Port = 5432, ru_Protocol = ''tcp'', ru_Source = ''203.0.113.4/32'', ru_IPv6 = False\<rparr>,
     Allow \<lparr>ru_RuleNumber = 0, ru_Port = 5432, ru_Protocol = ''tcp'', ru_Source = ''10.0.0.0/8'', ru_IPv6 = False\<rparr>]"

lemma demo_rows_plan:
  "DiffAllowlist (filter (port_rule 5432 ''tcp'') (observed demo_rows))
     [''203.0.113.4/32'', '' 198.51.100.0/24'', ''203.0.113.4/32''] = ([5, 2], [''198.51.100.0/24''])"
  by code_simp


end
