(* ===== verification/OpenPort.thy ===== *)
theory OpenPort
  imports Allowlist
begin

text \<open>
  \<^verbatim>\<open>internal/openport/openport.go\<close>: opening a port and updating its allowlist. The commands go
  to the host through the executor; the reconciliation reads the rules, deletes the obsolete
  ones, adds the missing ones and reads the rules again.
\<close>

section \<open>Operations\<close>

definition executor_run :: "'x host \<Rightarrow> string list \<Rightarrow> ('x, string \<times> error option) io" where
  "executor_run h argv = do {
     r \<leftarrow> exec_cmd h argv;
     ret (cr_all r, cr_status r)
   }"

definition normalizeProtocol :: "string \<Rightarrow> string" where
  "normalizeProtocol p = (if p = [] then ''tcp'' else p)"

definition ensureUFWInstalled :: "'x host \<Rightarrow> ('x, error option) io" where
  "ensureUFWInstalled h = do {
     (out, err) \<leftarrow> executor_run h [''which'', ''ufw''];
     ret (if err \<noteq> None then Some ''UFW is not installed'' else None)
   }"

definition listRulesForPort :: "'x host \<Rightarrow> int \<Rightarrow> string \<Rightarrow> ('x, error + ExistingRule list) io" where
  "listRulesForPort h port protocol = do {
     (out, err) \<leftarrow> executor_run h [''ufw'', ''status'', ''numbered''];
     ret (case err of
         Some e \<Rightarrow> Inl (''failed to read UFW status: '' @ e @ '' ('' @ trim_space out @ '')'')
       | None \<Rightarrow> Inr (ParseUFWRulesForPort out port protocol))
   }"

fun delete_loop :: "'x host \<Rightarrow> int list \<Rightarrow> ('x, error option) io" where
  "delete_loop h [] = ret None"
| "delete_loop h (ruleNum # rest) = do {
     (out, err) \<leftarrow> executor_run h [''ufw'', ''--force'', ''delete'', itoa ruleNum];
     case err of
       Some e \<Rightarrow> ret (Some (''failed to delete UFW rule '' @ itoa ruleNum @ '': '' @ e @ '' ('' @ trim_space out @ '')''))
     | None \<Rightarrow> delete_loop h rest
   }"

fun add_loop :: "'x host \<Rightarrow> int \<Rightarrow> string \<Rightarrow> string list \<Rightarrow> ('x, error option) io" where
  "add_loop h port protocol [] = ret None"
| "add_loop h port protocol (cidr # rest) = do {
     (out, err) \<leftarrow> executor_run h (''ufw'' # FormatAddRule port protocol cidr);
     case err of
       Some e \<Rightarrow> ret (Some (''failed to allow '' @ cidr @ '' on '' @ itoa port @ ''/'' @ protocol @ '': '' @ e
                  @ '' ('' @ trim_space out @ '')''))
     | None \<Rightarrow> add_loop h port protocol rest
   }"

definition reconcile :: "'x host \<Rightarrow> int \<Rightarrow> string \<Rightarrow> string list \<Rightarrow> ('x, error + string list) io" where
  "reconcile h port protocol desired = do {
     r \<leftarrow> listRulesForPort h port protocol;
     case r of Inl e \<Rightarrow> ret (Inl e)
     | Inr existing \<Rightarrow> do {
         let plan = DiffAllowlist existing desired;
         err \<leftarrow> delete_loop h (fst plan);
         case err of Some e \<Rightarrow> ret (Inl e)
         | None \<Rightarrow> do {
             err \<leftarrow> add_loop h port protocol (snd plan);
             case err of Some e \<Rightarrow> ret (Inl e)
             | None \<Rightarrow> do {
                 r \<leftarrow> listRulesForPort h port protocol;
                 case r of Inl e \<Rightarrow> ret (Inl e)
                 | Inr after \<Rightarrow> ret (Inr (dedup [] (map ru_Source after)))
               }
           }
       }
   }"

definition valid_port :: "int \<Rightarrow> bool" where
  "valid_port port \<longleftrightarrow> \<not> (port < 1 \<or> 65535 < port)"

definition OpenPort :: "'x host \<Rightarrow> OpenPortConfig \<Rightarrow> ('x, OpenPortResult) io" where
  "OpenPort h cfg = (
     let protocol = normalizeProtocol (op_Protocol cfg);
         result = \<lparr>or_Success = False, or_Port = op_Port cfg, or_Protocol = protocol,
                   or_AllowedCIDRs = [], or_ErrorMessage = []\<rparr> in
     if \<not> valid_port (op_Port cfg)
     then ret (result\<lparr>or_ErrorMessage := ''invalid port number: '' @ itoa (op_Port cfg)\<rparr>)
     else do {
       err \<leftarrow> ensureUFWInstalled h;
       case err of Some e \<Rightarrow> ret (result\<lparr>or_ErrorMessage := e\<rparr>)
       | None \<Rightarrow> do {
           r \<leftarrow> reconcile h (op_Port cfg) protocol (op_SourceCIDRs cfg);
           case r of Inl e \<Rightarrow> ret (result\<lparr>or_ErrorMessage := e\<rparr>)
           | Inr allowed \<Rightarrow> ret (result\<lparr>or_AllowedCIDRs := allowed, or_Success := True\<rparr>)
         }
     })"

text \<open>The sources of the deleted rules, looked up in the map from number to source, in which a
  later rule of the same number replaces an earlier one.\<close>

definition removed_sources :: "ExistingRule list \<Rightarrow> int list \<Rightarrow> string list" where
  "removed_sources before toDelete =
     List.map_filter (map_of (rev (map (\<lambda>r. (ru_RuleNumber r, ru_Source r)) before))) toDelete"

definition UpdateAllowlist :: "'x host \<Rightarrow> UpdateAllowlistConfig \<Rightarrow> ('x, UpdateAllowlistResult) io" where
  "UpdateAllowlist h cfg = (
     let protocol = normalizeProtocol (ua_Protocol cfg);
         result = \<lparr>ul_Success = False, ul_Port = ua_Port cfg, ul_Protocol = protocol,
                   ul_AllowedCIDRs = [], ul_AddedCIDRs = [], ul_RemovedCIDRs = [], ul_ErrorMessage = []\<rparr> in
     if \<not> valid_port (ua_Port cfg)
     then ret (result\<lparr>ul_ErrorMessage := ''invalid port number: '' @ itoa (ua_Port cfg)\<rparr>)
     else do {
       err \<leftarrow> ensureUFWInstalled h;
       case err of Some e \<Rightarrow> ret (result\<lparr>ul_ErrorMessage := e\<rparr>)
       | None \<Rightarrow> do {
           r \<leftarrow> listRulesForPort h (ua_Port cfg) protocol;
           case r of Inl e \<Rightarrow> ret (result\<lparr>ul_ErrorMessage := e\<rparr>)
           | Inr before \<Rightarrow> do {
               let plan = DiffAllowlist before (ua_SourceCIDRs cfg);
               let result = result\<lparr>ul_RemovedCIDRs := removed_sources before (fst plan), ul_AddedCIDRs := snd plan\<rparr>;
               r \<leftarrow> reconcile h (ua_Port cfg) protocol (ua_SourceCIDRs cfg);
               case r of Inl e \<Rightarrow> ret (result\<lparr>ul_ErrorMessage := e\<rparr>)
               | Inr allowed \<Rightarrow> ret (result\<lparr>ul_AllowedCIDRs := allowed, ul_Success := True\<rparr>)
             }
         }
     })"

section \<open>The contract of UFW\<close>

text \<open>
  What the code relies on, as UFW documents it. The rows of the firewall belong to the outside
  component of the state. A listing that succeeds prints the rows; a deletion that succeeds
  removes the row of that number; adding a rule for a source in canonical form (the set
  \<open>canon\<close>) leaves the other rows alone and adds that source, and adding the blanket rule adds
  the IPv4 and the IPv6 rule. Failing commands are unconstrained.
\<close>

definition rule_sources :: "string \<Rightarrow> string set" where
  "rule_sources cidr =
     (if cidr = ''0.0.0.0/0'' \<or> cidr = ''::/0'' \<or> cidr = [] then {''0.0.0.0/0'', ''::/0''} else {cidr})"

definition other_rows :: "int \<Rightarrow> string \<Rightarrow> ufw_row list \<Rightarrow> ufw_row list" where
  "other_rows port protocol rows = filter (\<lambda>row. \<not> row_sat (port_rule port protocol) row) rows"

definition ufw_host :: "'x host \<Rightarrow> ('x \<Rightarrow> ufw_row list) \<Rightarrow> string set \<Rightarrow> bool" where
  "ufw_host h rows canon \<longleftrightarrow>
     (\<forall>s r s'. hexec h [] [''ufw'', ''status'', ''numbered''] [] s = (r, s') \<and> cr_status r = None \<longrightarrow>
        rows (ext s') = rows (ext s) \<and> ParseAllUFWAllowRules (cr_all r) = observed (rows (ext s)))
   \<and> (\<forall>n s r s'. hexec h [] [''ufw'', ''--force'', ''delete'', itoa n] [] s = (r, s') \<and> cr_status r = None \<longrightarrow>
        rows (ext s') = ufw_delete (rows (ext s)) n)
   \<and> (\<forall>port protocol cidr s r s'. cidr \<in> canon \<and>
        hexec h [] (''ufw'' # FormatAddRule port protocol cidr) [] s = (r, s') \<and> cr_status r = None \<longrightarrow>
        other_rows port protocol (rows (ext s')) = other_rows port protocol (rows (ext s)) \<and>
        set (port_sources port protocol (rows (ext s'))) =
          set (port_sources port protocol (rows (ext s))) \<union> rule_sources cidr)"

section \<open>Lemmas\<close>

lemma wp_executor_run:
  "wp (executor_run h argv) Q s = (case hexec h [] argv [] s of (r, s') \<Rightarrow>
     Q (cr_all r, cr_status r) (s'\<lparr>trace := trace s @ [EvExec [] argv], now := max (now s) (now s')\<rparr>))"
  by (simp add: executor_run_def exec_cmd_def wp_def run_cmd_def Let_def split: prod.splits)

lemma list_rules_wp:
  assumes "ufw_host h rows canon"
  shows "wp (listRulesForPort h port protocol)
    (\<lambda>r s'. \<forall>ex. r = Inr ex \<longrightarrow> rows (ext s') = rows (ext s) \<and>
       ex = filter (port_rule port protocol) (observed (rows (ext s)))) s"
  using assms unfolding listRulesForPort_def ufw_host_def
  by (auto simp: wp_simps wp_executor_run ParseUFWRulesForPort_rule split: prod.splits option.splits)

lemma delete_loop_wp:
  assumes "ufw_host h rows canon"
  shows "wp (delete_loop h ns) (\<lambda>e s'. e = None \<longrightarrow> rows (ext s') = ufw_deletes (rows (ext s)) ns) s"
proof (induction ns arbitrary: s)
  case Nil
  then show ?case by (simp add: wp_simps ufw_deletes_def)
next
  case (Cons n ns)
  obtain r s1 where x: "hexec h [] [''ufw'', ''--force'', ''delete'', itoa n] [] s = (r, s1)"
    by (cases "hexec h [] [''ufw'', ''--force'', ''delete'', itoa n] [] s") auto
  let ?t = "s1\<lparr>trace := trace s @ [EvExec [] [''ufw'', ''--force'', ''delete'', itoa n]], now := max (now s) (now s1)\<rparr>"
  show ?case
  proof (cases "cr_status r")
    case None
    with x assms have "rows (ext s1) = ufw_delete (rows (ext s)) n"
      unfolding ufw_host_def by blast
    then have "ufw_deletes (rows (ext s)) (n # ns) = ufw_deletes (rows (ext ?t)) ns"
      by (simp add: ufw_deletes_def)
    with Cons [of ?t] None x show ?thesis by (simp add: wp_simps wp_executor_run)
  qed (use x in \<open>simp add: wp_simps wp_executor_run\<close>)
qed

lemma add_loop_wp:
  assumes "ufw_host h rows canon" and "set cs \<subseteq> canon"
  shows "wp (add_loop h port protocol cs) (\<lambda>e s'. e = None \<longrightarrow>
      other_rows port protocol (rows (ext s')) = other_rows port protocol (rows (ext s)) \<and>
      set (port_sources port protocol (rows (ext s'))) =
        set (port_sources port protocol (rows (ext s))) \<union> (\<Union>c \<in> set cs. rule_sources c)) s"
  using assms(2)
proof (induction cs arbitrary: s)
  case Nil
  then show ?case by (simp add: wp_simps)
next
  case (Cons c cs)
  let ?argv = "''ufw'' # FormatAddRule port protocol c"
  obtain r s1 where x: "hexec h [] ?argv [] s = (r, s1)"
    by (cases "hexec h [] ?argv [] s") auto
  let ?t = "s1\<lparr>trace := trace s @ [EvExec [] ?argv], now := max (now s) (now s1)\<rparr>"
  show ?case
  proof (cases "cr_status r")
    case None
    have c: "c \<in> canon" and cs: "set cs \<subseteq> canon" using Cons.prems by auto
    from assms(1) c x None have
      "other_rows port protocol (rows (ext s1)) = other_rows port protocol (rows (ext s)) \<and>
       set (port_sources port protocol (rows (ext s1))) =
         set (port_sources port protocol (rows (ext s))) \<union> rule_sources c"
      unfolding ufw_host_def by blast
    then show ?thesis using Cons.IH [OF cs, of ?t] None x
      by (auto simp: wp_simps wp_executor_run elim!: wp_mono)
  qed (use x in \<open>simp add: wp_simps wp_executor_run\<close>)
qed

lemma ufw_deletes_other_rows:
  "other_rows port protocol
     (ufw_deletes rows (fst (DiffAllowlist (filter (port_rule port protocol) (observed rows)) desired))) =
   other_rows port protocol rows"
  unfolding other_rows_def by (rule diff.untouched)

lemma observed_sources:
  "ru_Source ` set (filter (port_rule port protocol) (observed rows)) = set (port_sources port protocol rows)"
  by (simp flip: port_sources_observed)

text \<open>What a successful reconciliation leaves behind, for any desired sources.\<close>

definition reconciled ::
  "int \<Rightarrow> string \<Rightarrow> string list \<Rightarrow> ufw_row list \<Rightarrow> ufw_row list \<Rightarrow> string list \<Rightarrow> bool" where
  "reconciled port protocol desired before after allowed \<longleftrightarrow>
     other_rows port protocol after = other_rows port protocol before \<and>
     set (port_sources port protocol after) = set (desired_set desired) \<union>
       (\<Union>c \<in> set (desired_set desired) - set (port_sources port protocol before). rule_sources c) \<and>
     distinct allowed \<and> set allowed = set (port_sources port protocol after)"

lemma reconcile_rows:
  fixes port protocol desired rows0
  defines "plan \<equiv> DiffAllowlist (filter (port_rule port protocol) (observed rows0)) desired"
  assumes del: "rows1 = ufw_deletes rows0 (fst plan)"
    and others: "other_rows port protocol rows2 = other_rows port protocol rows1"
    and add: "set (port_sources port protocol rows2) =
      set (port_sources port protocol rows1) \<union> (\<Union>c \<in> set (snd plan). rule_sources c)"
  shows "reconciled port protocol desired rows0 rows2
    (dedup [] (map ru_Source (filter (port_rule port protocol) (observed rows2))))"
proof -
  let ?D = "set (desired_set desired)"
  have snd: "set (snd plan) = ?D - set (port_sources port protocol rows0)"
    by (simp only: plan_def snd_DiffAllowlist observed_sources)
  have after: "set (port_sources port protocol rows1) = ?D \<inter> set (port_sources port protocol rows0)"
    unfolding del plan_def diff_sources set_map kept_rules_sources observed_sources by simp
  have self: "c \<in> rule_sources c \<or> c = []" for c by (auto simp: rule_sources_def)
  have "set (port_sources port protocol rows2) = ?D \<union> (\<Union>c \<in> set (snd plan). rule_sources c)"
    using self desired_set_nonblank [of _ desired] unfolding add after snd by blast
  then show ?thesis
    unfolding reconciled_def others snd
    by (simp add: del plan_def ufw_deletes_other_rows port_sources_observed set_dedup distinct_dedup)
qed

lemma reconcile_wp:
  assumes ufw: "ufw_host h rows canon" and canon: "set (desired_set desired) \<subseteq> canon"
  shows "wp (reconcile h port protocol desired) (\<lambda>r s'. \<forall>allowed. r = Inr allowed \<longrightarrow>
      reconciled port protocol desired (rows (ext s)) (rows (ext s')) allowed) s"
proof -
  let ?plan = "DiffAllowlist (filter (port_rule port protocol) (observed (rows (ext s)))) desired"
  have sub: "set (snd ?plan) \<subseteq> canon" using canon by (auto simp: snd_DiffAllowlist)
  show ?thesis
    unfolding reconcile_def wp_bind
  proof (rule wp_mono [OF list_rules_wp [OF ufw, of port protocol s]], goal_cases)
    case (1 r s1)
    show ?case
    proof (cases r)
      case (Inr ex)
      with 1 have ex: "ex = filter (port_rule port protocol) (observed (rows (ext s)))"
        and s1: "rows (ext s1) = rows (ext s)" by auto
      show ?thesis
        unfolding Inr sum.case wp_bind Let_def ex
      proof (rule wp_mono [OF delete_loop_wp [OF ufw, of "fst ?plan" s1]], goal_cases)
        case (1 e s2)
        show ?case
        proof (cases e)
          case None
          with 1 s1 have s2: "rows (ext s2) = ufw_deletes (rows (ext s)) (fst ?plan)" by simp
          show ?thesis
            unfolding None option.case wp_bind
          proof (rule wp_mono [OF add_loop_wp [OF ufw sub, of port protocol s2]], goal_cases)
            case (1 e s3)
            show ?case
            proof (cases e)
              case None
              show ?thesis
                unfolding None option.case wp_bind
              proof (rule wp_mono [OF list_rules_wp [OF ufw, of port protocol s3]], goal_cases)
                case (1 r s4)
                then show ?case
                  using reconcile_rows [OF s2, of "rows (ext s3)"]
                    \<open>e = None \<longrightarrow> _\<close> None
                  by (cases r) (simp_all add: wp_simps)
              qed
            qed (simp add: wp_simps)
          qed
        qed (simp add: wp_simps)
      qed
    qed (simp add: wp_simps)
  qed
qed

section \<open>Properties\<close>

lemma reconcile_run:
  "ufw_host h rows canon \<Longrightarrow> set (desired_set desired) \<subseteq> canon \<Longrightarrow>
   run_state (reconcile h port protocol desired) s = (Inr allowed, s') \<Longrightarrow>
   reconciled port protocol desired (rows (ext s)) (rows (ext s')) allowed"
  using reconcile_wp [of h rows canon desired port protocol s] by (simp add: wp_def)

lemma executor_run_ext:
  "run_state (executor_run h argv) s =
     (case hexec h [] argv [] s of (r, s') \<Rightarrow> ((cr_all r, cr_status r),
        s'\<lparr>trace := trace s @ [EvExec [] argv], now := max (now s) (now s')\<rparr>))"
  by (simp add: executor_run_def exec_cmd_def run_cmd_def Let_def split: prod.splits)

lemma OpenPort_success:
  assumes run: "run_state (OpenPort h cfg) s = (res, s')" and ok: "or_Success res"
  obtains s1 where "valid_port (op_Port cfg)"
    and "run_state (ensureUFWInstalled h) s = (None, s1)"
    and "run_state (reconcile h (op_Port cfg) (normalizeProtocol (op_Protocol cfg)) (op_SourceCIDRs cfg)) s1
           = (Inr (or_AllowedCIDRs res), s')"
proof -
  from run ok have v: "valid_port (op_Port cfg)"
    by (auto simp: OpenPort_def Let_def split: if_splits)
  obtain e s1 where e: "run_state (ensureUFWInstalled h) s = (e, s1)"
    by (cases "run_state (ensureUFWInstalled h) s") auto
  obtain r s2 where r: "run_state (reconcile h (op_Port cfg) (normalizeProtocol (op_Protocol cfg))
      (op_SourceCIDRs cfg)) s1 = (r, s2)"
    by (cases "run_state (reconcile h (op_Port cfg) (normalizeProtocol (op_Protocol cfg))
      (op_SourceCIDRs cfg)) s1") auto
  from run ok v e r have "e = None" "r = Inr (or_AllowedCIDRs res)" "s2 = s'"
    by (auto simp: OpenPort_def Let_def split: option.splits sum.splits)
  with v e r that show thesis by simp
qed

text \<open>The probe for UFW itself does not touch the firewall.\<close>

definition which_harmless :: "'x host \<Rightarrow> ('x \<Rightarrow> ufw_row list) \<Rightarrow> bool" where
  "which_harmless h rows \<longleftrightarrow>
     (\<forall>s r s'. hexec h [] [''which'', ''ufw''] [] s = (r, s') \<longrightarrow> rows (ext s') = rows (ext s))"

lemma ensureUFW_rows:
  assumes "which_harmless h rows" and "run_state (ensureUFWInstalled h) s = (e, s1)"
  shows "rows (ext s1) = rows (ext s)"
  using assms
  by (auto simp: ensureUFWInstalled_def executor_run_ext which_harmless_def split: prod.splits)

lemma open_port_reconciled:
  assumes "ufw_host h rows canon" and "which_harmless h rows"
    and "set (desired_set (op_SourceCIDRs cfg)) \<subseteq> canon"
    and "run_state (OpenPort h cfg) s = (res, s')" and "or_Success res"
  shows "reconciled (op_Port cfg) (normalizeProtocol (op_Protocol cfg)) (op_SourceCIDRs cfg)
           (rows (ext s)) (rows (ext s')) (or_AllowedCIDRs res)"
proof -
  obtain s1 where "run_state (ensureUFWInstalled h) s = (None, s1)"
    and r: "run_state (reconcile h (op_Port cfg) (normalizeProtocol (op_Protocol cfg)) (op_SourceCIDRs cfg)) s1
           = (Inr (or_AllowedCIDRs res), s')"
    using OpenPort_success [OF assms(4,5)] by metis
  then have "rows (ext s1) = rows (ext s)" using ensureUFW_rows [OF assms(2)] by blast
  with reconcile_run [OF assms(1,3) r] show ?thesis by simp
qed


text \<open>
  a request for the IPv6 blanket source alone opens the port to every IPv4 address: when
  no rule of the port allowed it before and \<^verbatim>\<open>OpenPort\<close> reports success, the IPv4 blanket
  source, which was not desired, is among the sources of the port, because the command for
  \<^verbatim>\<open>::/0\<close> is the one for \<^verbatim>\<open>0.0.0.0/0\<close>.
\<close>

theorem ipv6_blanket_opens_ipv4:
  assumes "ufw_host h rows canon" and "which_harmless h rows"
    and "op_SourceCIDRs cfg = [''::/0'']" and "''::/0'' \<in> canon"
    and "''::/0'' \<notin> set (port_sources (op_Port cfg) (normalizeProtocol (op_Protocol cfg)) (rows (ext s)))"
    and "run_state (OpenPort h cfg) s = (res, s')" and "or_Success res"
  shows "''0.0.0.0/0'' \<notin> set (desired_set (op_SourceCIDRs cfg))
       \<and> ''0.0.0.0/0'' \<in> set (port_sources (op_Port cfg) (normalizeProtocol (op_Protocol cfg)) (rows (ext s')))"
proof -
  have D: "desired_set (op_SourceCIDRs cfg) = [''::/0'']"
    by (simp add: assms(3) desired_set_def trim_space_id is_space_def)
  then have "set (desired_set (op_SourceCIDRs cfg)) \<subseteq> canon" using assms(4) by simp
  from open_port_reconciled [OF assms(1,2) this assms(6,7)] D assms(5) show ?thesis
    unfolding reconciled_def by (auto simp: rule_sources_def)
qed

text \<open>
  A firewall for the examples. It lists the rows it has a text for, deletes rule 1, and adds
  the rules of a table; every other command fails.
\<close>

definition blanket4 :: "ufw_row" where
  "blanket4 = Allow \<lparr>ru_RuleNumber = 0, ru_Port = 543, ru_Protocol = ''tcp'', ru_Source = ''0.0.0.0/0'', ru_IPv6 = False\<rparr>"

definition blanket6 :: "ufw_row" where
  "blanket6 = Allow \<lparr>ru_RuleNumber = 0, ru_Port = 543, ru_Protocol = ''tcp'', ru_Source = ''::/0'', ru_IPv6 = True\<rparr>"

definition from_ten :: "ufw_row" where
  "from_ten = Allow \<lparr>ru_RuleNumber = 0, ru_Port = 543, ru_Protocol = ''tcp'', ru_Source = ''10.0.0.0/8'', ru_IPv6 = False\<rparr>"

definition demo_listing :: "ufw_row list \<Rightarrow> string option" where
  "demo_listing rows =
     (if rows = [] then Some ''Status: active''
      else if rows = [blanket4] then Some ''[ 1] 543/tcp  ALLOW IN  Anywhere''
      else if rows = [from_ten] then Some ''[ 1] 543/tcp  ALLOW IN  10.0.0.0/8''
      else if rows = [blanket4, blanket6] then
        Some (''[ 1] 543/tcp  ALLOW IN  Anywhere'' @ [NL] @ ''[ 2] 543/tcp (v6)  ALLOW IN  Anywhere (v6)'')
      else None)"

definition demo_ufw :: "string list \<Rightarrow> ufw_row list sys \<Rightarrow> cmdres \<times> ufw_row list sys" where
  "demo_ufw argv s =
     (if argv = [''which'', ''ufw''] then (ok_res ''/usr/sbin/ufw'', s)
      else if argv = [''ufw'', ''status'', ''numbered''] then
        (case demo_listing (ext s) of Some t \<Rightarrow> (ok_res t, s) | None \<Rightarrow> (fail_res [] ''exit status 1'', s))
      else if argv = [''ufw'', ''--force'', ''delete'', itoa 1] then
        (ok_res ''Rule deleted'', s\<lparr>ext := ufw_delete (ext s) 1\<rparr>)
      else if argv = ''ufw'' # FormatAddRule 543 ''tcp'' ''10.0.0.0/8'' then
        (ok_res ''Rule added'', s\<lparr>ext := ext s @ [from_ten]\<rparr>)
      else if argv = ''ufw'' # FormatAddRule 543 ''tcp'' ''::/0'' then
        (ok_res ''Rule added'', s\<lparr>ext := ext s @ [blanket4, blanket6]\<rparr>)
      else (fail_res [] ''exit status 1'', s))"

lemma demo_listing_parses: "demo_listing rows = Some t \<Longrightarrow> ParseAllUFWAllowRules t = observed rows"
proof -
  have "ParseAllUFWAllowRules ''Status: active'' = observed []"
    "ParseAllUFWAllowRules ''[ 1] 543/tcp  ALLOW IN  Anywhere'' = observed [blanket4]"
    "ParseAllUFWAllowRules ''[ 1] 543/tcp  ALLOW IN  10.0.0.0/8'' = observed [from_ten]"
    "ParseAllUFWAllowRules (''[ 1] 543/tcp  ALLOW IN  Anywhere'' @ [NL] @ ''[ 2] 543/tcp (v6)  ALLOW IN  Anywhere (v6)'')
       = observed [blanket4, blanket6]"
    by code_simp+
  then show "demo_listing rows = Some t \<Longrightarrow> ParseAllUFWAllowRules t = observed rows"
    unfolding demo_listing_def by (simp only: split: if_splits) auto
qed

lemma FormatAddRule_eq:
  assumes "''ufw'' # FormatAddRule port protocol c = ''ufw'' # FormatAddRule 543 ''tcp'' d"
    and "c \<in> {''10.0.0.0/8'', ''::/0''}" and "d \<in> {''10.0.0.0/8'', ''::/0''}"
  shows "port = 543 \<and> protocol = ''tcp'' \<and> c = d"
proof -
  have at: "itoa port @ ''/'' @ protocol = itoa 543 @ ''/tcp'' \<Longrightarrow> port = 543 \<and> protocol = ''tcp''"
  proof -
    assume eq: "itoa port @ ''/'' @ protocol = itoa 543 @ ''/tcp''"
    have no: "CHR ''/'' \<notin> set (itoa i)" for i
      using dec_digits [of "nat i"] dec_digits [of "nat (- i)"]
      by (auto simp: itoa_def list_all_iff is_digit_def)
    have "cut_char (CHR ''/'') (itoa port @ CHR ''/'' # protocol) = cut_char (CHR ''/'') (itoa 543 @ CHR ''/'' # ''tcp'')"
      using eq by simp
    then show ?thesis using no itoa_inj by (simp add: cut_char_append)
  qed
  show ?thesis
    using assms at itoa_inj by (auto simp: FormatAddRule_def)
qed

lemma demo_ufw_host:
  "ufw_host (command_host demo_ufw) id {''10.0.0.0/8'', ''::/0''}"
proof -
  have del: "rows' = ufw_delete (ext s) n"
    if "demo_ufw [''ufw'', ''--force'', ''delete'', itoa n] s = (r, s')" "cr_status r = None" "rows' = ext s'"
    for n s r s' and rows'
    using that itoa_inj [of n 1] by (auto simp: demo_ufw_def FormatAddRule_def split: if_splits)
  have add: "other_rows port protocol (ext s') = other_rows port protocol (ext s) \<and>
      set (port_sources port protocol (ext s')) = set (port_sources port protocol (ext s)) \<union> rule_sources c"
    if c: "c \<in> {''10.0.0.0/8'', ''::/0''}"
      and x: "demo_ufw (''ufw'' # FormatAddRule port protocol c) s = (r, s')" "cr_status r = None"
    for port protocol c s r s'
  proof -
    have "FormatAddRule port protocol c \<noteq> [''status'', ''numbered'']"
      "FormatAddRule port protocol c \<noteq> [''--force'', ''delete'', itoa 1]"
      by (auto simp: FormatAddRule_def)
    with x consider
        "''ufw'' # FormatAddRule port protocol c = ''ufw'' # FormatAddRule 543 ''tcp'' ''10.0.0.0/8''"
          "s' = s\<lparr>ext := ext s @ [from_ten]\<rparr>"
      | "''ufw'' # FormatAddRule port protocol c = ''ufw'' # FormatAddRule 543 ''tcp'' ''::/0''"
          "s' = s\<lparr>ext := ext s @ [blanket4, blanket6]\<rparr>"
      unfolding demo_ufw_def by (auto split: if_splits)
    then show ?thesis
    proof cases
      case 1
      with FormatAddRule_eq [OF 1(1) c] show ?thesis
        by (auto simp: other_rows_def port_sources_def port_rule_def from_ten_def rule_sources_def)
    next
      case 2
      with FormatAddRule_eq [OF 2(1) c] show ?thesis
        by (auto simp: other_rows_def port_sources_def port_rule_def blanket4_def blanket6_def rule_sources_def)
    qed
  qed
  have list: "ext s' = ext s \<and> ParseAllUFWAllowRules (cr_all r) = observed (ext s)"
    if "demo_ufw [''ufw'', ''status'', ''numbered''] s = (r, s')" "cr_status r = None" for s r s'
    using that demo_listing_parses [of "ext s"]
    by (auto simp: demo_ufw_def split: option.splits)
  show ?thesis
    unfolding ufw_host_def command_host_sel id_apply
    by (intro conjI allI impI; (elim conjE)?) (blast intro: del dest: list add | metis add list)+
qed

lemma demo_ufw_which: "which_harmless (command_host demo_ufw) id"
  by (auto simp: which_harmless_def demo_ufw_def)


lemma ipv6_blanket_opens_ipv4_witness:
  "''0.0.0.0/0'' \<in> set (port_sources 543 ''tcp'' (ext (snd (run_state (OpenPort (command_host demo_ufw)
       \<lparr>op_Port = 543, op_Protocol = [], op_SourceCIDRs = [''::/0'']\<rparr>) (start_sys [] [])))))"
proof -
  let ?cfg = "\<lparr>op_Port = 543, op_Protocol = [], op_SourceCIDRs = [''::/0'']\<rparr>"
  let ?run = "run_state (OpenPort (command_host demo_ufw) ?cfg) (start_sys [] [])"
  have ok: "or_Success (fst ?run)" by code_simp
  show ?thesis
    using ipv6_blanket_opens_ipv4 [OF demo_ufw_host demo_ufw_which, of ?cfg "start_sys [] []" "fst ?run" "snd ?run"] ok
    by (simp add: normalizeProtocol_def port_sources_def start_sys_def)
qed

text \<open>The commands a request may run.\<close>

definition ufw_effect :: "int \<Rightarrow> string \<Rightarrow> string list \<Rightarrow> event \<Rightarrow> bool" where
  "ufw_effect port protocol desired e \<longleftrightarrow> valid_port port \<and>
     (e = EvExec [] [''which'', ''ufw''] \<or> e = EvExec [] [''ufw'', ''status'', ''numbered'']
      \<or> (\<exists>n. e = EvExec [] [''ufw'', ''--force'', ''delete'', itoa n])
      \<or> (\<exists>c \<in> set (desired_set desired). e = EvExec [] (''ufw'' # FormatAddRule port protocol c)))"

lemma emits_executor_run [emits_intros]: "P (EvExec [] argv) \<Longrightarrow> emits P (executor_run h argv)"
  unfolding executor_run_def by (intro emits_intros)

lemma emits_delete_loop:
  "(\<And>n. P (EvExec [] [''ufw'', ''--force'', ''delete'', itoa n])) \<Longrightarrow> emits P (delete_loop h ns)"
  by (induction ns) (auto intro!: emits_intros)

lemma emits_add_loop:
  "(\<And>c. c \<in> set cs \<Longrightarrow> P (EvExec [] (''ufw'' # FormatAddRule port protocol c))) \<Longrightarrow>
   emits P (add_loop h port protocol cs)"
  by (induction cs) (auto intro!: emits_intros)

lemma emits_reconcile:
  assumes "P (EvExec [] [''ufw'', ''status'', ''numbered''])"
    and "\<And>n. P (EvExec [] [''ufw'', ''--force'', ''delete'', itoa n])"
    and "\<And>c. c \<in> set (desired_set desired) \<Longrightarrow> P (EvExec [] (''ufw'' # FormatAddRule port protocol c))"
  shows "emits P (reconcile h port protocol desired)"
proof -
  have "emits P (add_loop h port protocol (snd (DiffAllowlist ex desired)))" for ex
    by (rule emits_add_loop) (use assms(3) in \<open>auto simp: snd_DiffAllowlist\<close>)
  then show ?thesis
    unfolding reconcile_def listRulesForPort_def Let_def
    by (intro emits_intros emits_delete_loop assms)
qed

text \<open>
  whatever the host answers, \<^verbatim>\<open>OpenPort\<close> runs only the probe for UFW, listings,
  deletions by number and additions of the desired sources on the requested port and protocol,
  and for an invalid port number nothing at all.
\<close>

theorem open_port_effects:
  "emits (ufw_effect (op_Port cfg) (normalizeProtocol (op_Protocol cfg)) (op_SourceCIDRs cfg)) (OpenPort h cfg)"
  unfolding OpenPort_def ensureUFWInstalled_def Let_def
  by (cases "valid_port (op_Port cfg)")
    (auto intro!: emits_intros emits_reconcile simp: ufw_effect_def)

end
