(* ===== verification/Steps.thy ===== *)
theory Steps
  imports AgentTypes
begin

text \<open>
  What the operations of the agent share: a list of steps is executed in order, every step
  gives a \<^verbatim>\<open>StepResult\<close>, and the first failed one ends the run and is named in the result. The
  interface of a step executor says what the loop relies on; what follows from it holds for
  every operation that is built this way. The substring search that several packages carry a
  copy of is here too.
\<close>

section \<open>Substring search by index\<close>

function containsHelper :: "string \<Rightarrow> string \<Rightarrow> nat \<Rightarrow> bool" where
  "containsHelper s substr i =
     (if int i \<le> int (length s) - int (length substr) then
        (if take (length substr) (drop i s) = substr then True else containsHelper s substr (Suc i))
      else False)"
  by pat_completeness auto
termination
  by (relation "measure (\<lambda>(s, substr, i). Suc (length s) - i)") auto

declare containsHelper.simps [simp del]

definition contains :: "string \<Rightarrow> string \<Rightarrow> bool" where
  "contains s substr \<longleftrightarrow> length substr \<le> length s \<and>
     (s = substr \<or> length substr < length s \<and> containsHelper s substr 0)"

lemma has_prefix_take: "has_prefix s p \<longleftrightarrow> take (length p) s = p"
  by (auto simp: has_prefix_iff prefix_def) (metis append_take_drop_id)

lemma containsHelper_iff:
  "containsHelper s p i \<longleftrightarrow> (\<exists>j. i \<le> j \<and> j + length p \<le> length s \<and> take (length p) (drop j s) = p)"
proof (induction s p i rule: containsHelper.induct)
  case (1 s p i)
  show ?case
  proof (cases "i + length p \<le> length s \<and> take (length p) (drop i s) \<noteq> p")
    case True
    then have "containsHelper s p i \<longleftrightarrow> containsHelper s p (Suc i)"
      by (subst containsHelper.simps) auto
    moreover have "(\<exists>j. i \<le> j \<and> j + length p \<le> length s \<and> take (length p) (drop j s) = p) \<longleftrightarrow>
        (\<exists>j. Suc i \<le> j \<and> j + length p \<le> length s \<and> take (length p) (drop j s) = p)"
      using True by (metis Suc_leD le_antisym not_less_eq_eq)
    ultimately show ?thesis using 1 True by simp
  next
    case False
    then show ?thesis by (subst containsHelper.simps) auto
  qed
qed

lemma contains_eq: "contains s p \<longleftrightarrow> str_contains s p"
proof -
  define E where "E \<longleftrightarrow> (\<exists>j. j + length p \<le> length s \<and> take (length p) (drop j s) = p)"
  have "str_contains s p \<longleftrightarrow> E"
    unfolding str_contains_iff E_def
  proof
    assume "sublist p s"
    then obtain a b where "s = a @ p @ b" by (auto simp: sublist_def)
    then show "\<exists>j. j + length p \<le> length s \<and> take (length p) (drop j s) = p"
      by (intro exI [of _ "length a"]) simp
  next
    assume "\<exists>j. j + length p \<le> length s \<and> take (length p) (drop j s) = p"
    then obtain j where "take (length p) (drop j s) = p" by blast
    then have "s = take j s @ p @ drop (length p) (drop j s)" by (metis append_take_drop_id)
    then show "sublist p s" by (metis sublist_appendI)
  qed
  moreover have "E \<Longrightarrow> length p = length s \<Longrightarrow> s = p" "E \<Longrightarrow> length p \<le> length s"
    unfolding E_def by auto
  moreover have "s = p \<Longrightarrow> E" unfolding E_def by (intro exI [of _ 0]) simp
  moreover have "containsHelper s p 0 = E" unfolding containsHelper_iff E_def by simp
  ultimately show ?thesis
    unfolding contains_def by (metis le_neq_implies_less)
qed

section \<open>Running the steps\<close>

fun run_steps :: "('st \<Rightarrow> ('x, StepResult) io) \<Rightarrow> 'st list \<Rightarrow> ('x, StepResult list \<times> StepResult option) io" where
  "run_steps exec [] = ret ([], None)"
| "run_steps exec (step # steps) = do {
     stepResult \<leftarrow> exec step;
     if st_Status stepResult = ''failed'' then ret ([stepResult], Some stepResult)
     else do {
       (rs, f) \<leftarrow> run_steps exec steps;
       ret (stepResult # rs, f)
     }
   }"

lemma emits_run_steps [emits_intros]:
  "(\<And>st. st \<in> set steps \<Longrightarrow> emits P (exec st)) \<Longrightarrow> emits P (run_steps exec steps)"
  by (induction steps) (auto intro!: emits_intros)

text \<open>
  What a result owes its reader: on success every step ran, in the order of the plan, and
  completed; otherwise the last reported step is the one that failed, it is named with its
  message, and all steps before it completed.
\<close>

definition report_ok :: "string list \<Rightarrow> bool \<Rightarrow> StepResult list \<Rightarrow> string \<Rightarrow> string \<Rightarrow> bool" where
  "report_ok names success steps failed msg \<longleftrightarrow>
     (if success then map st_Name steps = names \<and> failed = [] \<and> msg = []
        \<and> (\<forall>r \<in> set steps. st_Status r = ''completed'')
      else steps \<noteq> [] \<and> prefix (map st_Name steps) names \<and> failed = st_Name (last steps)
        \<and> msg = st_Message (last steps) \<and> st_Status (last steps) = ''failed''
        \<and> (\<forall>r \<in> set (butlast steps). st_Status r = ''completed''))"

locale step_executor =
  fixes exec :: "'st \<Rightarrow> ('x, StepResult) io" and label :: "'st \<Rightarrow> string"
  assumes exec_name: "run_state (exec st) s = (r, s') \<Longrightarrow> st_Name r = label st"
    and exec_status: "run_state (exec st) s = (r, s') \<Longrightarrow> st_Status r = ''completed'' \<or> st_Status r = ''failed''"
begin

lemma run_steps_shape:
  "run_state (run_steps exec steps) s = ((rs, f), s') \<Longrightarrow>
     prefix (map st_Name rs) (map label steps) \<and>
     (case f of
        None \<Rightarrow> map st_Name rs = map label steps \<and> (\<forall>r \<in> set rs. st_Status r = ''completed'')
      | Some r \<Rightarrow> rs \<noteq> [] \<and> last rs = r \<and> st_Status r = ''failed''
          \<and> (\<forall>r \<in> set (butlast rs). st_Status r = ''completed''))"
proof (induction steps arbitrary: s rs f s')
  case (Cons step steps)
  obtain r s1 where x: "run_state (exec step) s = (r, s1)" by (cases "run_state (exec step) s")
  note r = exec_name [OF x] exec_status [OF x]
  show ?case
  proof (cases "st_Status r = ''failed''")
    case True
    with Cons.prems x r show ?thesis by auto
  next
    case False
    obtain rs1 f1 s2 where y: "run_state (run_steps exec steps) s1 = ((rs1, f1), s2)"
      by (cases "run_state (run_steps exec steps) s1") auto
    have "rs = r # rs1" "f = f1" using Cons.prems x y False by auto
    with Cons.IH [OF y] r False show ?thesis by (auto split: option.splits)
  qed
qed simp

lemma report:
  assumes "run_state (run_steps exec steps) s = ((rs, f), s')"
  shows "report_ok (map label steps) (f = None) rs
    (case f of None \<Rightarrow> [] | Some r \<Rightarrow> st_Name r) (case f of None \<Rightarrow> [] | Some r \<Rightarrow> st_Message r)"
  using run_steps_shape [OF assms] by (auto simp: report_ok_def split: option.splits)

lemma failed_labels:
  "run_state (run_steps exec steps) s = ((rs, Some r), s') \<Longrightarrow>
     \<exists>i < length steps. length rs = Suc i \<and> label (steps ! i) = st_Name r \<and> rs ! i = r"
proof (induction steps arbitrary: s rs s')
  case (Cons step steps)
  obtain q s1 where x: "run_state (exec step) s = (q, s1)" by (cases "run_state (exec step) s")
  show ?case
  proof (cases "st_Status q = ''failed''")
    case True
    with Cons.prems x have "rs = [r]" "q = r" by auto
    with exec_name [OF x] show ?thesis by (intro exI [of _ 0]) simp
  next
    case False
    obtain rs1 f1 s2 where y: "run_state (run_steps exec steps) s1 = ((rs1, f1), s2)"
      by (cases "run_state (run_steps exec steps) s1") auto
    with Cons.prems x False have "rs = q # rs1" "f1 = Some r" by auto
    with Cons.IH [of s1 rs1 s2] y obtain i where
      "i < length steps" "length rs1 = Suc i" "label (steps ! i) = st_Name r" "rs1 ! i = r" by auto
    then show ?thesis using \<open>rs = q # rs1\<close> by (intro exI [of _ "Suc i"]) simp
  qed
qed simp

end

text \<open>A step that is an operation with an error value, timed, as several packages write it.\<close>

definition timed_step :: "string \<Rightarrow> ('x, error option) io \<Rightarrow> ('x, StepResult) io" where
  "timed_step name fn = do {
     startTime \<leftarrow> time_now;
     err \<leftarrow> fn;
     endTime \<leftarrow> time_now;
     let result = (new_step name ''in_progress'' (rfc3339 startTime))
       \<lparr>st_EndTime := rfc3339 endTime, st_Duration := dur_string (endTime - startTime)\<rparr>;
     case err of
       Some e \<Rightarrow> ret (result\<lparr>st_Status := ''failed'', st_Message := ''Failed: '' @ e\<rparr>)
     | None \<Rightarrow> ret (result\<lparr>st_Status := ''completed'', st_Message := ''Successfully completed''\<rparr>)
   }"

lemma run_timed_step:
  "run_state fn s = (err, s1) \<Longrightarrow> run_state (timed_step name fn) s =
     ((new_step name (if err = None then ''completed'' else ''failed'') (rfc3339 (now s)))
        \<lparr>st_EndTime := rfc3339 (now s1), st_Duration := dur_string (now s1 - now s),
         st_Message := (case err of None \<Rightarrow> ''Successfully completed'' | Some e \<Rightarrow> ''Failed: '' @ e)\<rparr>, s1)"
  by (auto simp: timed_step_def new_step_def Let_def split: option.splits)

lemma timed_step_shape:
  assumes "run_state (timed_step name fn) s = (r, s')"
  shows "st_Name r = name" and "st_Status r = ''completed'' \<or> st_Status r = ''failed''"
    and "\<exists>err. run_state fn s = (err, s') \<and> (st_Status r = ''failed'' \<longleftrightarrow> err \<noteq> None)"
proof -
  obtain err s1 where "run_state fn s = (err, s1)" by (cases "run_state fn s")
  with assms run_timed_step [OF this, of name]
  show "st_Name r = name" and "st_Status r = ''completed'' \<or> st_Status r = ''failed''"
    and "\<exists>err. run_state fn s = (err, s') \<and> (st_Status r = ''failed'' \<longleftrightarrow> err \<noteq> None)"
    by (auto simp: new_step_def split: if_splits)
qed

lemma emits_timed_step [emits_intros]: "emits P fn \<Longrightarrow> emits P (timed_step name fn)"
  unfolding timed_step_def Let_def by (intro emits_intros)

text \<open>The same with the messages of the deployment and of the switch to TLS.\<close>

definition executeStep :: "string \<Rightarrow> ('x, error option) io \<Rightarrow> ('x, StepResult) io" where
  "executeStep name fn = do {
     startTime \<leftarrow> time_now;
     err \<leftarrow> fn;
     endTime \<leftarrow> time_now;
     let step = (new_step name ''in_progress'' (rfc3339 startTime))
       \<lparr>st_EndTime := rfc3339 endTime, st_Duration := dur_string (endTime - startTime)\<rparr>;
     ret (case err of
         Some e \<Rightarrow> step\<lparr>st_Status := ''failed'', st_Message := e\<rparr>
       | None \<Rightarrow> step\<lparr>st_Status := ''completed'', st_Message := name @ '' completed successfully''\<rparr>)
   }"

lemma run_executeStep:
  "run_state fn s = (err, s1) \<Longrightarrow> run_state (executeStep name fn) s =
     ((new_step name (if err = None then ''completed'' else ''failed'') (rfc3339 (now s)))
        \<lparr>st_EndTime := rfc3339 (now s1), st_Duration := dur_string (now s1 - now s),
         st_Message := (case err of None \<Rightarrow> name @ '' completed successfully'' | Some e \<Rightarrow> e)\<rparr>, s1)"
  by (auto simp: executeStep_def new_step_def Let_def split: option.splits)

lemma executeStep_shape:
  assumes "run_state (executeStep name fn) s = (r, s')"
  shows "st_Name r = name" and "st_Status r = ''completed'' \<or> st_Status r = ''failed''"
    and "\<exists>err. run_state fn s = (err, s') \<and> (st_Status r = ''failed'' \<longleftrightarrow> err \<noteq> None)"
proof -
  obtain err s1 where "run_state fn s = (err, s1)" by (cases "run_state fn s")
  with assms run_executeStep [OF this, of name]
  show "st_Name r = name" and "st_Status r = ''completed'' \<or> st_Status r = ''failed''"
    and "\<exists>err. run_state fn s = (err, s') \<and> (st_Status r = ''failed'' \<longleftrightarrow> err \<noteq> None)"
    by (auto simp: new_step_def split: if_splits)
qed

lemma emits_executeStep [emits_intros]: "emits P fn \<Longrightarrow> emits P (executeStep name fn)"
  unfolding executeStep_def Let_def by (intro emits_intros)

interpretation plain: step_executor "\<lambda>st. executeStep (fst st) (snd st)" fst
  by unfold_locales (auto dest: executeStep_shape)

lemma guards_executeStep: "guards A B fn \<Longrightarrow> guards A B (executeStep name fn)"
  unfolding executeStep_def Let_def by (intro guards_intros)

end
