(* ===== verification/Cleanup.thy ===== *)
theory Cleanup
  imports Steps
begin

text \<open>
  \<^verbatim>\<open>internal/cleanup/cleanup.go\<close>: undoing what the agent did to a VM. The plan of commands
  depends on the level only, the first command that fails for a reason that matters ends the
  run.
\<close>

section \<open>Operations\<close>

record cleanupStep =
  cu_name :: string
  cu_command :: string
  cu_args :: "string list"

definition cstep :: "string \<Rightarrow> string list \<Rightarrow> cleanupStep" where
  "cstep name args = \<lparr>cu_name = name, cu_command = ''sudo'', cu_args = args\<rparr>"

definition restored_port :: "CleanupConfig \<Rightarrow> int" where
  "restored_port cfg = (if cl_PreHardeningSSHPort cfg = 0 then 22 else cl_PreHardeningSSHPort cfg)"

definition restored_user :: "CleanupConfig \<Rightarrow> string" where
  "restored_user cfg = (if cl_PreHardeningSSHUser cfg = [] then ''root'' else cl_PreHardeningSSHUser cfg)"

definition getCleanupSteps :: "CleanupConfig \<Rightarrow> cleanupStep list" where
  "getCleanupSteps cfg =
     [cstep ''Remove Supabase instance directories'' [''rm'', ''-rf'', ''/opt/supabase''],
      cstep ''Remove Supabyoi agent directory'' [''rm'', ''-rf'', ''/opt/supabyoi''],
      cstep ''Remove Nginx Supabase site configurations'' [''rm'', ''-rf'', ''/etc/nginx/supabase-sites''],
      cstep ''Remove ACME challenge directory'' [''rm'', ''-rf'', ''/var/www/acme-challenge''],
      cstep ''Reload Nginx to remove site configurations'' [''systemctl'', ''reload'', ''nginx'']]
   @ (if cl_Level cfg = CleanupFull \<or> cl_Level cfg = CleanupRevert then
       [cstep ''Remove fail2ban Supabyoi configurations'' [''rm'', ''-f'', ''/etc/fail2ban/jail.d/supabyoi.conf''],
        cstep ''Restart fail2ban to apply changes'' [''systemctl'', ''restart'', ''fail2ban'']]
      else [])
   @ (if cl_Level cfg = CleanupRevert then
       [cstep ''Remove Supabyoi SSH configuration'' [''rm'', ''-f'', ''/etc/ssh/sshd_config.d/supabyoi.conf''],
        cstep (''Restore SSH port to '' @ itoa (restored_port cfg) @ '' in main config'')
          [''sed'', ''-i'', ''s/^Port .*/Port '' @ itoa (restored_port cfg) @ ''/'', ''/etc/ssh/sshd_config'']]
       @ (if cl_RestorePasswordAuth cfg then
           [cstep ''Re-enable password authentication''
             [''sed'', ''-i'', ''s/^PasswordAuthentication no/PasswordAuthentication yes/'', ''/etc/ssh/sshd_config'']]
          else [])
       @ [cstep ''Re-enable root/original user login''
            [''sed'', ''-i'', ''s/^PermitRootLogin no/PermitRootLogin yes/'', ''/etc/ssh/sshd_config''],
          cstep ''Restart SSH service to apply changes'' [''systemctl'', ''restart'', ''sshd'']]
       @ (if cl_DisableFirewall cfg then [cstep ''Disable UFW firewall'' [''ufw'', ''disable'']] else [])
      else [])
   @ (if cl_Level cfg = CleanupFull \<or> cl_Level cfg = CleanupRevert then
       [cstep ''Remove supabyoi user'' [''userdel'', ''-r'', ''supabyoi'']]
      else [])"

definition cleanup_isIgnorableError :: "string \<Rightarrow> error option \<Rightarrow> string \<Rightarrow> bool" where
  "cleanup_isIgnorableError stepName err output =
     (if stepName = ''Remove Supabase instance directories'' \<or>
         stepName = ''Remove Supabyoi agent directory'' \<or>
         stepName = ''Remove Nginx Supabase site configurations'' \<or>
         stepName = ''Remove ACME challenge directory'' \<or>
         stepName = ''Remove fail2ban Supabyoi configurations'' \<or>
         stepName = ''Remove Supabyoi SSH configuration''
      then True
      else if stepName = ''Remove supabyoi user'' \<and> err \<noteq> None \<and>
         (contains output ''does not exist'' \<or> contains output ''no such user'' \<or>
          contains output ''currently used by process'' \<or> contains output ''currently logged in'')
      then True
      else if (stepName = ''Restart fail2ban to apply changes'' \<or>
         stepName = ''Reload Nginx to remove site configurations'') \<and>
         (contains output ''could not be found'' \<or> contains output ''not loaded'')
      then True
      else False)"

definition cleanup_executeStep :: "'x host \<Rightarrow> cleanupStep \<Rightarrow> ('x, StepResult) io" where
  "cleanup_executeStep h step = do {
     startTime \<leftarrow> time_now;
     r \<leftarrow> exec_cmd h (cu_command step # cu_args step);
     endTime \<leftarrow> time_now;
     let result = (new_step (cu_name step) ''in_progress'' (rfc3339 startTime))
       \<lparr>st_EndTime := rfc3339 endTime, st_Duration := dur_string (endTime - startTime)\<rparr>;
     (if cr_status r \<noteq> None \<and> \<not> cleanup_isIgnorableError (cu_name step) (cr_status r) (cr_all r)
      then ret (result\<lparr>st_Status := ''failed'',
             st_Message := ''Command failed: '' @ the (cr_status r) @ ''. Output: '' @ cr_all r\<rparr>)
      else ret (result\<lparr>st_Status := ''completed'', st_Message := ''Successfully completed''\<rparr>))
   }"

definition Cleanup :: "'x host \<Rightarrow> CleanupConfig \<Rightarrow> ('x, CleanupResult) io" where
  "Cleanup h cfg = do {
     (steps, failed) \<leftarrow> run_steps (cleanup_executeStep h) (getCleanupSteps cfg);
     let result = \<lparr>cr_Success = (failed = None), cr_Level = cl_Level cfg, cr_Steps = steps,
       cr_ErrorMessage = (case failed of None \<Rightarrow> [] | Some r \<Rightarrow> st_Message r),
       cr_FailedStep = (case failed of None \<Rightarrow> [] | Some r \<Rightarrow> st_Name r),
       cr_RestoredSSHPort = 0, cr_RestoredSSHUser = []\<rparr>;
     ret (if cl_Level cfg = CleanupRevert \<and> cr_Success result
          then result\<lparr>cr_RestoredSSHPort := restored_port cfg, cr_RestoredSSHUser := restored_user cfg\<rparr>
          else result)
   }"

section \<open>Lemmas\<close>

lemma cstep_sel [simp]:
  "cu_name (cstep n a) = n" "cu_command (cstep n a) = ''sudo''" "cu_args (cstep n a) = a"
  by (simp_all add: cstep_def)

lemma run_cleanup_executeStep:
  "run_state (cleanup_executeStep h step) s = (r, s') \<Longrightarrow>
     st_Name r = cu_name step \<and> (st_Status r = ''completed'' \<or> st_Status r = ''failed'')
   \<and> trace s' = trace s @ [EvExec [] (cu_command step # cu_args step)]
   \<and> (st_Status r = ''failed'' \<longrightarrow> (\<exists>e out. \<not> cleanup_isIgnorableError (cu_name step) (Some e) out))"
  by (auto simp: cleanup_executeStep_def run_exec_cmd Let_def new_step_def split: prod.splits if_splits)

interpretation cleanup: step_executor "cleanup_executeStep h" cu_name for h :: "'x host"
  using run_cleanup_executeStep by unfold_locales blast+

lemma cleanup_trace:
  "run_state (run_steps (cleanup_executeStep h) steps) s = ((rs, f), s') \<Longrightarrow>
     trace s' = trace s @ map (\<lambda>st. EvExec [] (cu_command st # cu_args st)) (take (length rs) steps)"
proof (induction steps arbitrary: s rs f s')
  case (Cons step steps)
  obtain r s1 where x: "run_state (cleanup_executeStep h step) s = (r, s1)"
    by (cases "run_state (cleanup_executeStep h step) s")
  obtain rs1 f1 s2 where y: "run_state (run_steps (cleanup_executeStep h) steps) s1 = ((rs1, f1), s2)"
    by (cases "run_state (run_steps (cleanup_executeStep h) steps) s1") auto
  show ?case
    using Cons.prems Cons.IH [OF y] run_cleanup_executeStep [OF x] x y
    by (auto split: if_splits)
qed simp

lemma cleanup_failed_step:
  assumes "run_state (run_steps (cleanup_executeStep h) steps) s = ((rs, Some r), s')"
  shows "\<exists>e out. \<not> cleanup_isIgnorableError (st_Name r) (Some e) out"
  using assms
proof (induction steps arbitrary: s rs s')
  case (Cons step steps)
  obtain q s1 where x: "run_state (cleanup_executeStep h step) s = (q, s1)"
    by (cases "run_state (cleanup_executeStep h step) s")
  obtain rs1 f1 s2 where y: "run_state (run_steps (cleanup_executeStep h) steps) s1 = ((rs1, f1), s2)"
    by (cases "run_state (run_steps (cleanup_executeStep h) steps) s1") auto
  show ?case
    using Cons.prems Cons.IH [of s1 rs1 s2] run_cleanup_executeStep [OF x] x y
    by (auto split: if_splits)
qed simp

lemma run_Cleanup:
  assumes "run_state (Cleanup h cfg) s = (res, s')"
  obtains f where
    "run_state (run_steps (cleanup_executeStep h) (getCleanupSteps cfg)) s = ((cr_Steps res, f), s')"
    "cr_Success res = (f = None)"
    "cr_ErrorMessage res = (case f of None \<Rightarrow> [] | Some r \<Rightarrow> st_Message r)"
    "cr_FailedStep res = (case f of None \<Rightarrow> [] | Some r \<Rightarrow> st_Name r)"
    "cr_RestoredSSHPort res = (if cl_Level cfg = CleanupRevert \<and> f = None then restored_port cfg else 0)"
    "cr_RestoredSSHUser res = (if cl_Level cfg = CleanupRevert \<and> f = None then restored_user cfg else [])"
proof -
  obtain rs f s1 where x: "run_state (run_steps (cleanup_executeStep h) (getCleanupSteps cfg)) s = ((rs, f), s1)"
    by (cases "run_state (run_steps (cleanup_executeStep h) (getCleanupSteps cfg)) s") auto
  show thesis
    by (rule that [of f]) (use assms x in \<open>auto simp: Cleanup_def Let_def split: if_splits\<close>)
qed

text \<open>The step that removes the account the agent is reached through.\<close>

definition removes_user :: "event \<Rightarrow> bool" where
  "removes_user e \<longleftrightarrow> e = EvExec [] [''sudo'', ''userdel'', ''-r'', ''supabyoi'']"

lemma getCleanupSteps_user:
  "\<exists>pre. (\<forall>st \<in> set pre. \<not> removes_user (EvExec [] (cu_command st # cu_args st))) \<and>
     getCleanupSteps cfg = pre @
       (if cl_Level cfg = CleanupFull \<or> cl_Level cfg = CleanupRevert
        then [cstep ''Remove supabyoi user'' [''userdel'', ''-r'', ''supabyoi'']] else [])"
  unfolding getCleanupSteps_def append_assoc [symmetric]
  by (rule exI, rule conjI [OF _ refl]) (auto simp: removes_user_def)

section \<open>Properties\<close>

text \<open>
  whatever the commands do, the result of \<^verbatim>\<open>Cleanup\<close> is a correct report of the run: on
  success every planned step completed in order, otherwise the last step reported is the one
  that failed; the restored SSH settings are filled in exactly for a successful revert, with
  port 22 and user root as defaults; and a step that only removes files is never the one that
  failed.
\<close>

theorem cleanup_reports:
  "case run_state (Cleanup h cfg) s of (res, s') \<Rightarrow>
     report_ok (map cu_name (getCleanupSteps cfg)) (cr_Success res) (cr_Steps res)
       (cr_FailedStep res) (cr_ErrorMessage res)
   \<and> cr_RestoredSSHPort res =
       (if cl_Level cfg = CleanupRevert \<and> cr_Success res
        then (if cl_PreHardeningSSHPort cfg = 0 then 22 else cl_PreHardeningSSHPort cfg) else 0)
   \<and> cr_FailedStep res \<notin> {''Remove Supabase instance directories'', ''Remove Supabyoi agent directory'',
       ''Remove Nginx Supabase site configurations'', ''Remove ACME challenge directory'',
       ''Remove fail2ban Supabyoi configurations'', ''Remove Supabyoi SSH configuration''}"
proof -
  obtain res s' where x: "run_state (Cleanup h cfg) s = (res, s')" by (cases "run_state (Cleanup h cfg) s")
  then obtain f where f:
    "run_state (run_steps (cleanup_executeStep h) (getCleanupSteps cfg)) s = ((cr_Steps res, f), s')"
    "cr_Success res = (f = None)"
    "cr_ErrorMessage res = (case f of None \<Rightarrow> [] | Some r \<Rightarrow> st_Message r)"
    "cr_FailedStep res = (case f of None \<Rightarrow> [] | Some r \<Rightarrow> st_Name r)"
    "cr_RestoredSSHPort res = (if cl_Level cfg = CleanupRevert \<and> f = None then restored_port cfg else 0)"
    by (rule run_Cleanup)
  note rep = cleanup.report [OF f(1)]
  show ?thesis
  proof (cases f)
    case None
    with rep f x show ?thesis by (simp add: restored_port_def)
  next
    case (Some r)
    with cleanup_failed_step [of h _ s "cr_Steps res" r s'] f(1)
    have "\<exists>e out. \<not> cleanup_isIgnorableError (st_Name r) (Some e) out" by blast
    with Some rep f x show ?thesis by (auto simp: cleanup_isIgnorableError_def)
  qed
qed

text \<open>
  C9: the commands \<^verbatim>\<open>Cleanup\<close> runs are those of the plan, in its order and one per reported step;
  the account of the agent is removed last if at all: no command follows it, for the minimal
  level it is never removed, and it is only removed when every other step completed.
\<close>

theorem cleanup_user_last:
  "case run_state (Cleanup h cfg) s of (res, s') \<Rightarrow>
     trace s' = trace s @ map (\<lambda>st. EvExec [] (cu_command st # cu_args st))
       (take (length (cr_Steps res)) (getCleanupSteps cfg))
   \<and> list_all (\<lambda>e. \<not> removes_user e) (drop (length (trace s)) (butlast (trace s')))
   \<and> (if list_ex removes_user (drop (length (trace s)) (trace s'))
      then cl_Level cfg \<in> {CleanupFull, CleanupRevert} \<and> length (cr_Steps res) = length (getCleanupSteps cfg)
      else True)"
proof -
  obtain res s' where x: "run_state (Cleanup h cfg) s = (res, s')" by (cases "run_state (Cleanup h cfg) s")
  then obtain f where f:
    "run_state (run_steps (cleanup_executeStep h) (getCleanupSteps cfg)) s = ((cr_Steps res, f), s')"
    by (rule run_Cleanup)
  let ?ev = "\<lambda>st. EvExec [] (cu_command st # cu_args st)"
  let ?n = "length (cr_Steps res)" and ?sts = "getCleanupSteps cfg"
  note tr = cleanup_trace [OF f]
  have le: "?n \<le> length ?sts" using cleanup.run_steps_shape [OF f] by (metis length_map prefix_length_le)
  obtain pre last where sts: "?sts = pre @ last" and pre: "\<forall>st \<in> set pre. \<not> removes_user (?ev st)"
    and last: "last = (if cl_Level cfg = CleanupFull \<or> cl_Level cfg = CleanupRevert
        then [cstep ''Remove supabyoi user'' [''userdel'', ''-r'', ''supabyoi'']] else [])"
    using getCleanupSteps_user [of cfg] by blast
  have len: "length last \<le> 1" using last by simp
  have short: "set (take k ?sts) \<subseteq> set pre" if "k \<le> length pre" for k
    using that sts set_take_subset [of k pre] by simp
  have "set (butlast (take ?n ?sts)) \<subseteq> set pre"
    unfolding butlast_take [OF le] by (rule short) (use le sts len in simp)
  with pre have A: "\<forall>e \<in> set (butlast (map ?ev (take ?n ?sts))). \<not> removes_user e"
    by (auto simp: map_butlast [symmetric])
  have B: "(cl_Level cfg = CleanupFull \<or> cl_Level cfg = CleanupRevert) \<and> ?n = length ?sts"
    if "list_ex removes_user (map ?ev (take ?n ?sts))"
  proof -
    have "\<not> ?n \<le> length pre" using that short [of ?n] pre by (auto simp: list_ex_iff)
    moreover from this have "last \<noteq> []" using le sts by auto
    ultimately show ?thesis using le sts len last by (auto split: if_splits)
  qed
  have drop_append_self: "drop (length xs) (xs @ E) = E" for xs E :: "event list" by simp
  have C: "drop (length (trace s)) (butlast (trace s @ E)) = butlast E" for E
    by (cases "E = []") (simp_all add: butlast_append)
  show ?thesis
    unfolding x prod.case tr C drop_append_self list_all_iff using A B by auto
qed

end
