(* ===== verification/Paths.thy ===== *)
theory Paths
  imports World "HOL-Library.List_Lexorder" "HOL-Library.Char_ord"
begin

text \<open>
  The lexical path functions of \<^verbatim>\<open>path/filepath\<close> that the agent builds its paths with, and the
  two ways it lists a directory, \<^verbatim>\<open>os.ReadDir\<close> and \<^verbatim>\<open>filepath.Glob\<close> for a pattern with one star.
\<close>

section \<open>\<^verbatim>\<open>Clean\<close>, \<^verbatim>\<open>Join\<close>, \<^verbatim>\<open>Base\<close>, \<^verbatim>\<open>Dir\<close>\<close>

abbreviation slash :: char where "slash \<equiv> CHR ''/''"

text \<open>The components kept so far are on a stack; \<open>..\<close> takes one off, is kept when there is none
  to take off, and is dropped at the root.\<close>

fun clean_comps :: "bool \<Rightarrow> string list \<Rightarrow> string list \<Rightarrow> string list" where
  "clean_comps rooted acc [] = rev acc"
| "clean_comps rooted acc (c # cs) =
     (if c = [] \<or> c = ''.'' then clean_comps rooted acc cs
      else if c = ''..'' then
        (case acc of
           [] \<Rightarrow> clean_comps rooted (if rooted then [] else [''..'']) cs
         | t # ts \<Rightarrow> clean_comps rooted (if t = ''..'' then ''..'' # acc else ts) cs)
      else clean_comps rooted (c # acc) cs)"

definition is_rooted :: "string \<Rightarrow> bool" where
  "is_rooted p = has_prefix p ''/''"

definition path_clean :: "string \<Rightarrow> string" where
  "path_clean p =
     (let r = is_rooted p; b = join [slash] (clean_comps r [] (split_char slash p)) in
      if r then slash # b else if b = [] then ''.'' else b)"

definition path_join :: "string list \<Rightarrow> string" where
  "path_join es = (let ne = filter (\<lambda>e. e \<noteq> []) es in
     if ne = [] then [] else path_clean (join [slash] ne))"

definition path_base :: "string \<Rightarrow> string" where
  "path_base p =
     (if p = [] then ''.''
      else let q = trim_right (\<lambda>c. c = slash) p in
        if q = [] then ''/'' else last (split_char slash q))"

definition path_dir :: "string \<Rightarrow> string" where
  "path_dir p = path_clean (rev (dropWhile (\<lambda>c. c \<noteq> slash) (rev p)))"

text \<open>A component that names a file of its directory: no separator, and neither empty nor a dot.\<close>

definition plain :: "string \<Rightarrow> bool" where
  "plain c \<longleftrightarrow> c \<noteq> [] \<and> c \<noteq> ''.'' \<and> c \<noteq> ''..'' \<and> slash \<notin> set c"

lemma clean_comps_plain: "\<forall>c \<in> set cs. plain c \<Longrightarrow> clean_comps rooted acc cs = rev acc @ cs"
  by (induction cs arbitrary: acc) (auto simp: plain_def)

lemma clean_comps_empty [simp]: "clean_comps rooted acc ([] # cs) = clean_comps rooted acc cs"
  by simp

lemma clean_comps_rooted:
  "\<forall>c \<in> set acc. plain c \<Longrightarrow> \<forall>c \<in> set cs. slash \<notin> set c \<Longrightarrow>
     \<forall>c \<in> set (clean_comps True acc cs). plain c"
proof (induction cs arbitrary: acc)
  case (Cons c cs)
  have cs: "\<forall>c \<in> set cs. slash \<notin> set c" using Cons.prems(2) by simp
  have dots: "\<not> plain ''..''" by (simp add: plain_def)
  consider "c = [] \<or> c = ''.''" | "c = ''..''" | "plain c"
    using Cons.prems(2) by (auto simp: plain_def)
  then show ?case
  proof cases
    case 1
    with Cons.IH [OF Cons.prems(1) cs] show ?thesis by auto
  next
    case 2
    have "\<forall>c \<in> set (tl acc). plain c" using Cons.prems(1) by (cases acc) auto
    from Cons.IH [OF this cs] have "\<forall>c \<in> set (clean_comps True (tl acc) cs). plain c" .
    moreover have "acc = t # ts \<Longrightarrow> t \<noteq> ''..''" for t ts using Cons.prems(1) dots by auto
    ultimately show ?thesis using 2 by (cases acc) auto
  next
    case 3
    then have "\<forall>c \<in> set (c # acc). plain c" using Cons.prems(1) by auto
    from Cons.IH [OF this cs] 3 show ?thesis by (auto simp: plain_def)
  qed
qed simp

text \<open>The path of a sequence of plain components below the root.\<close>

definition abs_path :: "string list \<Rightarrow> string" where
  "abs_path cs = slash # join [slash] cs"

lemma split_abs_path:
  "\<forall>c \<in> set cs. plain c \<Longrightarrow> split_char slash (abs_path cs) = [] # (if cs = [] then [[]] else cs)"
  using split_char_cons [of slash "[]" "join [slash] cs"]
    split_char_join [of cs slash] split_char_no [of slash "[]"]
  by (auto simp: abs_path_def plain_def)

lemma path_clean_abs:
  assumes "\<forall>c \<in> set cs. plain c"
  shows "path_clean (abs_path cs) = abs_path cs"
proof (cases "cs = []")
  case True
  then show ?thesis
    by (simp add: path_clean_def is_rooted_def abs_path_def split_char_def Let_def)
next
  case False
  with assms show ?thesis
    using clean_comps_plain [of cs True "[]"] split_abs_path [OF assms]
    by (simp add: path_clean_def Let_def is_rooted_def abs_path_def)
qed

lemma join_append:
  "xs \<noteq> [] \<Longrightarrow> ys \<noteq> [] \<Longrightarrow> join sep (xs @ ys) = join sep xs @ sep @ join sep ys"
proof (induction xs)
  case (Cons x xs)
  then show ?case by (cases "xs = []") (simp_all add: join_Cons)
qed simp

lemma path_join_abs:
  assumes "\<forall>c \<in> set cs. plain c" and "cs \<noteq> []" and "plain d"
  shows "path_join [abs_path cs, d] = abs_path (cs @ [d])"
proof -
  have "abs_path cs \<noteq> []" "d \<noteq> []" using assms(3) by (auto simp: abs_path_def plain_def)
  moreover have "abs_path cs @ [slash] @ d = abs_path (cs @ [d])"
    using assms(2) by (simp add: abs_path_def join_append)
  ultimately show ?thesis
    using path_clean_abs [of "cs @ [d]"] assms by (simp add: path_join_def Let_def)
qed

lemma abs_path_inj:
  assumes "\<forall>c \<in> set cs. plain c" and "\<forall>c \<in> set ds. plain c" and "abs_path cs = abs_path ds"
  shows "cs = ds"
proof -
  have "plain [] = False" by (simp add: plain_def)
  moreover have "(if cs = [] then [[]] else cs) = (if ds = [] then [[]] else ds)"
    using split_abs_path [OF assms(1)] split_abs_path [OF assms(2)] assms(3) by simp
  ultimately show ?thesis using assms(1,2) by (cases "cs = []"; cases "ds = []") auto
qed

text \<open>A rooted path is cleaned to the path of plain components: no dots are left to climb with.\<close>

lemma path_clean_rooted:
  assumes "is_rooted p"
  shows "\<exists>cs. path_clean p = abs_path cs \<and> (\<forall>c \<in> set cs. plain c)"
proof -
  let ?cs = "clean_comps True [] (split_char slash p)"
  have "\<forall>c \<in> set ?cs. plain c"
    using split_char_parts by (intro clean_comps_rooted) auto
  with assms show ?thesis by (auto simp: path_clean_def abs_path_def Let_def)
qed

lemma path_clean_idem: "is_rooted p \<Longrightarrow> path_clean (path_clean p) = path_clean p"
  using path_clean_rooted [of p] path_clean_abs by metis

text \<open>The last component of a path survives cleaning when it is plain.\<close>

definition last_comp :: "string \<Rightarrow> string" where
  "last_comp p = last (split_char slash p)"

lemma clean_comps_snoc: "plain c \<Longrightarrow> clean_comps rooted acc (cs @ [c]) = clean_comps rooted acc cs @ [c]"
proof (induction cs arbitrary: acc)
  case Nil
  then show ?case by (auto simp: plain_def)
next
  case (Cons d cs)
  then show ?case by (auto split: list.splits)
qed

lemma last_split_append: "slash \<notin> set c \<Longrightarrow> last (split_char slash (a @ slash # c)) = c"
proof -
  assume "slash \<notin> set c"
  then have "split_char slash (slash # c) = [[], c]" by (simp add: split_char_Cons split_char_no)
  then show ?thesis by (simp add: split_char_append)
qed

lemma last_comp_clean:
  assumes "plain (last_comp p)"
  shows "last_comp (path_clean p) = last_comp p"
proof -
  let ?c = "last_comp p" and ?cs = "butlast (split_char slash p)"
  have "split_char slash p = ?cs @ [?c]" by (simp add: last_comp_def)
  then have comps: "clean_comps r [] (split_char slash p) = clean_comps r [] ?cs @ [?c]" for r
    using clean_comps_snoc [OF assms] by metis
  have c: "slash \<notin> set ?c" "?c \<noteq> []" using assms by (auto simp: plain_def)
  have "last_comp (join [slash] (xs @ [?c])) = ?c" "last_comp (slash # join [slash] (xs @ [?c])) = ?c" for xs
    using last_split_append [OF c(1), of "join [slash] xs"] last_split_append [OF c(1), of "[]"]
      last_split_append [OF c(1), of "slash # join [slash] xs"] split_char_no [OF c(1)]
    by (cases "xs = []"; simp add: last_comp_def join_append)+
  moreover have "join [slash] (xs @ [?c]) \<noteq> []" for xs using c(2) by (cases "xs = []") (auto simp: join_append)
  ultimately show ?thesis by (simp add: path_clean_def comps Let_def)
qed

lemma last_comp_join:
  assumes "plain (last_comp b)"
  shows "last_comp (path_join [a, b]) = last_comp b"
proof -
  have ne: "b \<noteq> []" using assms by (auto simp: plain_def last_comp_def split_char_def)
  have "split_char slash (a @ slash # b) =
      butlast (split_char slash a) @ (last (split_char slash a) @ []) # split_char slash b"
    by (simp add: split_char_append split_char_Cons)
  then have "last_comp (a @ slash # b) = last_comp b" by (simp add: last_comp_def)
  with last_comp_clean [of "a @ slash # b"] last_comp_clean [of b] assms ne show ?thesis
    by (cases "a = []") (simp_all add: path_join_def)
qed

lemma last_comp_append: "slash \<notin> set c \<Longrightarrow> last_comp (a @ c) = last_comp a @ c"
  by (simp add: last_comp_def split_char_append split_char_no)

lemma slash_last_comp: "slash \<notin> set (last_comp a)"
  using split_char_parts [of "last_comp a" slash a] by (simp add: last_comp_def)

text \<open>A suffix without a separator stays at the end of a joined path.\<close>

lemma last_comp_join_suffix:
  assumes "slash \<notin> set c" and "2 < length c"
  shows "last_comp (path_join [a, b @ c]) = last_comp b @ c"
proof -
  have "plain w" if "2 < length w" "slash \<notin> set w" for w using that by (auto simp: plain_def)
  then have "plain (last_comp b @ c)" using assms slash_last_comp [of b] by simp
  then have "plain (last_comp (b @ c))" by (simp add: last_comp_append assms(1))
  from last_comp_join [OF this] show ?thesis by (simp add: last_comp_append assms(1))
qed

lemma last_comp_plain: "slash \<notin> set c \<Longrightarrow> last_comp c = c"
  by (simp add: last_comp_def split_char_no)

section \<open>Paths below a directory\<close>

text \<open>The parts of a path that name something. Joining paths that do not climb puts theirs together.\<close>

definition parts :: "string \<Rightarrow> string list" where
  "parts p = filter (\<lambda>c. c \<noteq> [] \<and> c \<noteq> ''.'') (split_char slash p)"

definition climbs :: "string \<Rightarrow> bool" where
  "climbs p \<longleftrightarrow> ''..'' \<in> set (split_char slash p)"

lemma clean_comps_no_climb:
  "''..'' \<notin> set cs \<Longrightarrow> clean_comps rooted acc cs = rev acc @ filter (\<lambda>c. c \<noteq> [] \<and> c \<noteq> ''.'') cs"
  by (induction cs arbitrary: acc) auto

lemma sublist_join: "w \<in> set ws \<Longrightarrow> sublist w (join sep ws)"
proof (induction ws)
  case (Cons v vs)
  then consider "vs = []" "w = v" | "vs \<noteq> []" "w = v" | "vs \<noteq> []" "sublist w (join sep vs)" by fastforce
  then show ?case
  proof cases
    case 3
    then obtain a b where "join sep vs = a @ w @ b" by (auto simp: sublist_def)
    with 3(1) have "join sep (v # vs) = (v @ sep @ a) @ w @ b" by (simp add: join_Cons)
    then show ?thesis by (metis sublist_appendI)
  qed (use sublist_appendI [of w "[]"] in \<open>auto simp: join_Cons\<close>)
qed simp

lemma sublist_split: "c \<in> set (split_char sep s) \<Longrightarrow> sublist c s"
  using sublist_join [of c "split_char sep s" "[sep]"] by (simp add: join_split_char)

lemma no_climb: "\<not> str_contains p ''..'' \<Longrightarrow> \<not> climbs p"
  using sublist_split by (auto simp: climbs_def str_contains_iff)

lemma split_char_sep: "split_char c (a @ c # b) = split_char c a @ split_char c b"
  by (simp add: split_char_append split_char_Cons)

lemma parts_sep: "parts (a @ slash # b) = parts a @ parts b"
  and climbs_sep: "climbs (a @ slash # b) \<longleftrightarrow> climbs a \<or> climbs b"
  by (auto simp: parts_def climbs_def split_char_sep)

lemma parts_Nil [simp]: "parts [] = []" and climbs_Nil [simp]: "\<not> climbs []"
  by (simp_all add: parts_def climbs_def split_char_def)

lemma parts_join: "parts (join [slash] es) = concat (map parts es)"
  and climbs_join: "climbs (join [slash] es) \<longleftrightarrow> (\<exists>e \<in> set es. climbs e)"
proof (induction es)
  case (Cons e es)
  {
    case 1
    from Cons show ?case by (cases "es = []") (simp_all add: join_Cons parts_sep)
  next
    case 2
    from Cons show ?case by (cases "es = []") (simp_all add: join_Cons climbs_sep)
  }
qed simp_all

lemma parts_abs: "\<forall>c \<in> set cs. plain c \<Longrightarrow> parts (abs_path cs) = cs"
  and climbs_abs: "\<forall>c \<in> set cs. plain c \<Longrightarrow> \<not> climbs (abs_path cs)"
  by (auto simp: parts_def climbs_def split_abs_path plain_def filter_id_conv)

lemma parts_plain: "plain c \<Longrightarrow> parts c = [c]" and climbs_plain: "plain c \<Longrightarrow> \<not> climbs c"
  by (auto simp: parts_def climbs_def plain_def split_char_no)

lemma plain_parts: "\<not> climbs p \<Longrightarrow> \<forall>c \<in> set (parts p). plain c"
  using split_char_parts by (auto simp: parts_def climbs_def plain_def)

lemma path_clean_parts: "is_rooted p \<Longrightarrow> \<not> climbs p \<Longrightarrow> path_clean p = abs_path (parts p)"
  by (simp add: path_clean_def climbs_def clean_comps_no_climb parts_def abs_path_def Let_def)

lemma path_join_parts:
  assumes "\<forall>c \<in> set ds. plain c" and "\<forall>e \<in> set es. \<not> climbs e"
  shows "path_join (abs_path ds # es) = abs_path (ds @ concat (map parts es))"
proof -
  let ?p = "join [slash] (abs_path ds # filter (\<lambda>e. e \<noteq> []) es)"
  have ne: "abs_path ds \<noteq> []" by (simp add: abs_path_def)
  have "is_rooted ?p" by (cases "filter (\<lambda>e. e \<noteq> []) es") (simp_all add: is_rooted_def abs_path_def)
  moreover have "\<not> climbs ?p" using assms climbs_abs unfolding climbs_join by auto
  moreover have "concat (map parts (filter (\<lambda>e. e \<noteq> []) es)) = concat (map parts es)"
    by (induction es) auto
  ultimately have "path_clean ?p = abs_path (ds @ concat (map parts es))"
    by (simp add: path_clean_parts parts_join parts_abs assms(1))
  with ne show ?thesis by (simp add: path_join_def Let_def)
qed

lemma path_dir_abs:
  assumes "\<forall>c \<in> set (cs @ [c]). plain c"
  shows "path_dir (abs_path (cs @ [c])) = abs_path cs"
proof -
  have "slash \<notin> set c" using assms by (simp add: plain_def)
  then have "dropWhile (\<lambda>x. x \<noteq> slash) (rev (a @ slash # c)) = slash # rev a" for a
    by (simp, subst dropWhile_append2) auto
  from this [of "[]"] this [of "abs_path cs"]
  have "rev (dropWhile (\<lambda>x. x \<noteq> slash) (rev (abs_path (cs @ [c])))) = (if cs = [] then [slash] else abs_path cs @ [slash])"
    using \<open>slash \<notin> set c\<close> by (cases "cs = []") (simp_all add: abs_path_def join_append dropWhile_append2 dropWhile_append1)
  moreover have "path_clean (abs_path cs @ [slash]) = abs_path cs" if "cs \<noteq> []"
    using path_clean_parts [of "abs_path cs @ [slash]"] parts_sep [of "abs_path cs" "[]"] climbs_sep [of "abs_path cs" "[]"]
      assms climbs_abs [of cs] parts_abs [of cs] by (simp add: is_rooted_def) (simp add: abs_path_def)
  moreover have "path_clean [slash] = abs_path []" by code_simp
  ultimately show ?thesis by (simp add: path_dir_def)
qed

section \<open>Removing a tree\<close>

text \<open>\<^verbatim>\<open>os.RemoveAll\<close>: the path and everything below it; a path that does not exist is no error.\<close>

definition in_tree :: "string \<Rightarrow> string \<Rightarrow> bool" where
  "in_tree p q \<longleftrightarrow> q = p \<or> has_prefix q (p @ [slash])"

definition os_remove_all :: "'x host \<Rightarrow> string \<Rightarrow> ('x, oserr option) io" where
  "os_remove_all h p = State (\<lambda>s.
     case hfault h (OpRemove p) s of
       Some m \<Rightarrow> (Some (OtherErr m), log (EvRemove p) s)
     | None \<Rightarrow> (None, log (EvRemove p) (s\<lparr>fs := filter (\<lambda>(q, n). \<not> in_tree p q) (fs s)\<rparr>)))"

lemma emits_os_remove_all [emits_intros]: "P (EvRemove p) \<Longrightarrow> emits P (os_remove_all h p)"
  by (auto simp: emits_def os_remove_all_def log_def split: option.splits)

lemma map_of_filter_keys: "map_of (filter (\<lambda>(q, n). P q) xs) p = (if P p then map_of xs p else None)"
  by (induction xs) auto

lemma os_remove_all_gone:
  "run_state (os_remove_all h p) s = (e, s') \<Longrightarrow> hfault h (OpRemove p) s = None \<Longrightarrow> in_tree p q \<Longrightarrow>
     lookup_node s' q = None"
  by (auto simp: os_remove_all_def lookup_node_def map_of_filter_keys [of "\<lambda>q. \<not> in_tree p q"])

lemma os_remove_all_other:
  "run_state (os_remove_all h p) s = (e, s') \<Longrightarrow> \<not> in_tree p q \<Longrightarrow> lookup_node s' q = lookup_node s q"
  by (auto simp: os_remove_all_def lookup_node_def map_of_filter_keys [of "\<lambda>q. \<not> in_tree p q"] split: option.splits)

section \<open>Listing a directory\<close>

text \<open>The name of the entry that a path is directly below a directory.\<close>

definition entry_name :: "string \<Rightarrow> string \<Rightarrow> string option" where
  "entry_name dir p =
     (let d = dir @ [slash]; n = drop (length d) p in
      if has_prefix p d \<and> n \<noteq> [] \<and> slash \<notin> set n then Some n else None)"

definition dir_entries :: "string \<Rightarrow> 'x sys \<Rightarrow> (string \<times> bool) list" where
  "dir_entries dir s =
     sort_key fst (List.map_filter (\<lambda>(p, n). map_option (\<lambda>e. (e, n = Dir)) (entry_name dir p)) (fs s))"

definition os_read_dir :: "'x host \<Rightarrow> string \<Rightarrow> ('x, oserr + (string \<times> bool) list) io" where
  "os_read_dir h dir = State (\<lambda>s.
     (case hfault h (OpReadDir dir) s of
        Some m \<Rightarrow> Inl (OtherErr m)
      | None \<Rightarrow> (case lookup_node s dir of
            None \<Rightarrow> Inl (enoent ''open'' dir)
          | Some (File c m) \<Rightarrow> Inl (OtherErr (''readdirent '' @ dir @ '': not a directory''))
          | Some Dir \<Rightarrow> Inr (dir_entries dir s)), s))"

text \<open>\<^verbatim>\<open>filepath.Glob(dir + "/" + pre + "*" + suf)\<close>: errors of reading the directory are ignored,
  and the pattern is well formed, so there is no error.\<close>

definition glob_star :: "'x host \<Rightarrow> string \<Rightarrow> string \<Rightarrow> string \<Rightarrow> ('x, string list) io" where
  "glob_star h dir pre suf = do {
     r \<leftarrow> os_read_dir h dir;
     ret (case r of Inl e \<Rightarrow> []
       | Inr es \<Rightarrow> map (\<lambda>(n, d). dir @ [slash] @ n)
           (filter (\<lambda>(n, d). has_prefix n pre \<and> has_suffix n suf \<and> length pre + length suf \<le> length n) es))
   }"

lemma emits_os_read_dir [emits_intros]: "emits P (os_read_dir h p)"
  by (simp add: emits_def os_read_dir_def)

lemma leaves_os_read_dir [leaves_intros]: "leaves p (os_read_dir h q)"
  by (simp add: leaves_def os_read_dir_def)

lemma emits_glob_star [emits_intros]: "emits P (glob_star h dir pre suf)"
  unfolding glob_star_def by (intro emits_intros)

end
