(* ===== verification/Json.thy ===== *)
theory Json
  imports Prelude
begin

text \<open>
  \<^verbatim>\<open>encoding/json\<close> as the agent uses it: texts are decoded to values and values are encoded to
  texts. \<^verbatim>\<open>Unmarshal\<close> into a struct looks its fields up by their names without regard to case,
  leaves a field alone for \<^verbatim>\<open>null\<close> or when the name is missing, takes the last of several
  members of one name, and reports an error when a value has the wrong type (the other fields
  are still set). Texts are byte strings; bytes above 127 are passed through, which is what Go
  does for valid UTF-8.
\<close>

section \<open>Values and their texts\<close>

datatype json = JNull | JBool bool | JNum string | JStr string | JArr "json list" | JObj "(string \<times> json) list"

text \<open>\<^verbatim>\<open>json.Marshal\<close> escapes the control characters and the characters that matter in HTML.\<close>

definition esc :: "char \<Rightarrow> string" where
  "esc c =
     (if c = quote then [bslash, quote]
      else if c = bslash then [bslash, bslash]
      else if c = CHR 0x08 then bslash # ''b''
      else if c = CHR 0x0C then bslash # ''f''
      else if c = CHR 0x0A then bslash # ''n''
      else if c = CHR 0x0D then bslash # ''r''
      else if c = CHR 0x09 then bslash # ''t''
      else if byte_val c < 32 \<or> c = CHR ''<'' \<or> c = CHR ''>'' \<or> c = CHR ''&'' then
        bslash # ''u00'' @ [hex_digit (byte_val c div 16), hex_digit (byte_val c mod 16)]
      else [c])"

definition render_str :: "string \<Rightarrow> string" where
  "render_str s = quote # concat (map esc s) @ [quote]"

fun render :: "json \<Rightarrow> string" where
  "render JNull = ''null''"
| "render (JBool b) = (if b then ''true'' else ''false'')"
| "render (JNum t) = t"
| "render (JStr s) = render_str s"
| "render (JArr js) = ''['' @ join '','' (map render js) @ '']''"
| "render (JObj ms) = ''{'' @ join '','' (map (\<lambda>(k, v). render_str k @ '':'' @ render v) ms) @ ''}''"

section \<open>The scanner\<close>

definition json_ws :: "char \<Rightarrow> bool" where
  "json_ws c \<longleftrightarrow> c = CHR 0x20 \<or> c = CHR 0x09 \<or> c = CHR 0x0A \<or> c = CHR 0x0D"

definition skip_json_ws :: "string \<Rightarrow> string" where
  "skip_json_ws s = dropWhile json_ws s"

definition hex_val :: "char \<Rightarrow> nat option" where
  "hex_val c = (let n = byte_val c in
     if 48 \<le> n \<and> n \<le> 57 then Some (n - 48)
     else if 97 \<le> n \<and> n \<le> 102 then Some (n - 87)
     else if 65 \<le> n \<and> n \<le> 70 then Some (n - 55) else None)"

fun hex4 :: "string \<Rightarrow> (nat \<times> string) option" where
  "hex4 (a # b # c # d # r) =
     (case (hex_val a, hex_val b, hex_val c, hex_val d) of
        (Some a, Some b, Some c, Some d) \<Rightarrow> Some (((a * 16 + b) * 16 + c) * 16 + d, r)
      | _ \<Rightarrow> None)"
| "hex4 s = None"

definition utf8 :: "nat \<Rightarrow> string" where
  "utf8 n = map char_of
     (if n < 0x80 then [n]
      else if n < 0x800 then [0xC0 + n div 64, 0x80 + n mod 64]
      else if n < 0x10000 then [0xE0 + n div 4096, 0x80 + n div 64 mod 64, 0x80 + n mod 64]
      else [0xF0 + n div 262144, 0x80 + n div 4096 mod 64, 0x80 + n div 64 mod 64, 0x80 + n mod 64])"

text \<open>What follows \<^verbatim>\<open>\u\<close>: a code point, a surrogate pair, or half of one, which is replaced.\<close>

definition unescape_u :: "string \<Rightarrow> (string \<times> string) option" where
  "unescape_u s = (case hex4 s of None \<Rightarrow> None
     | Some (n, r) \<Rightarrow>
         if 0xD800 \<le> n \<and> n < 0xE000 then
           (case r of
              b # u # r' \<Rightarrow>
                (if b = bslash \<and> u = CHR ''u'' then
                   (case hex4 r' of
                      Some (m, r'') \<Rightarrow>
                        (if n < 0xDC00 \<and> 0xDC00 \<le> m \<and> m < 0xE000
                         then Some (utf8 ((n - 0xD800) * 1024 + (m - 0xDC00) + 0x10000), r'')
                         else Some (utf8 0xFFFD, r))
                    | None \<Rightarrow> Some (utf8 0xFFFD, r))
                 else Some (utf8 0xFFFD, r))
            | _ \<Rightarrow> Some (utf8 0xFFFD, r))
         else Some (utf8 n, r))"

definition simple_esc :: "char \<Rightarrow> char option" where
  "simple_esc c =
     (if c = quote \<or> c = bslash \<or> c = CHR ''/'' then Some c
      else if c = CHR ''b'' then Some (CHR 0x08)
      else if c = CHR ''f'' then Some (CHR 0x0C)
      else if c = CHR ''n'' then Some (CHR 0x0A)
      else if c = CHR ''r'' then Some (CHR 0x0D)
      else if c = CHR ''t'' then Some (CHR 0x09) else None)"

lemma hex4_length: "hex4 s = Some (n, r) \<Longrightarrow> length r < length s"
  by (induction s rule: hex4.induct) (auto split: option.splits)

lemma unescape_u_length: "unescape_u s = Some (t, r) \<Longrightarrow> length r < length s"
  by (auto simp: unescape_u_def dest!: hex4_length split: option.splits list.splits if_splits)

text \<open>The rest of a string literal, after its opening quote.\<close>

function json_str :: "string \<Rightarrow> (string \<times> string) option" where
  "json_str s =
     (case s of [] \<Rightarrow> None
      | c # cs \<Rightarrow>
          if c = quote then Some ([], cs)
          else if c = bslash then
            (case cs of [] \<Rightarrow> None
             | e # r \<Rightarrow>
                 if e = CHR ''u'' then
                   (case unescape_u r of None \<Rightarrow> None
                    | Some (t, r') \<Rightarrow> map_option (\<lambda>(s, q). (t @ s, q)) (json_str r'))
                 else
                   (case simple_esc e of None \<Rightarrow> None
                    | Some x \<Rightarrow> map_option (\<lambda>(s, q). (x # s, q)) (json_str r)))
          else if byte_val c < 32 then None
          else map_option (\<lambda>(s, q). (c # s, q)) (json_str cs))"
  by pat_completeness auto
termination
  by (relation "measure length") (auto dest: unescape_u_length)

declare json_str.simps [simp del]

text \<open>A number: an optional sign, an integer part without leading zeros, an optional fraction
  and an optional exponent.\<close>

definition take_digits :: "string \<Rightarrow> (string \<times> string) option" where
  "take_digits s = (let d = takeWhile is_digit s in if d = [] then None else Some (d, drop (length d) s))"

definition num_int :: "string \<Rightarrow> (string \<times> string) option" where
  "num_int s = (case s of [] \<Rightarrow> None
     | c # cs \<Rightarrow> if c = CHR ''0'' then Some (''0'', cs) else take_digits s)"

definition num_frac :: "string \<Rightarrow> (string \<times> string) option" where
  "num_frac s = (case s of [] \<Rightarrow> Some ([], s)
     | c # cs \<Rightarrow> if c = CHR ''.'' then map_option (\<lambda>(d, r). (c # d, r)) (take_digits cs) else Some ([], s))"

definition num_exp :: "string \<Rightarrow> (string \<times> string) option" where
  "num_exp s = (case s of [] \<Rightarrow> Some ([], s)
     | c # cs \<Rightarrow>
         if c = CHR ''e'' \<or> c = CHR ''E'' then
           (case cs of [] \<Rightarrow> None
            | g # r \<Rightarrow>
                if g = CHR ''+'' \<or> g = CHR ''-'' then map_option (\<lambda>(d, r). (c # g # d, r)) (take_digits r)
                else map_option (\<lambda>(d, r). (c # d, r)) (take_digits cs))
         else Some ([], s))"

definition json_num :: "string \<Rightarrow> (string \<times> string) option" where
  "json_num s =
     (let (sign, s) = (if has_prefix s ''-'' then (''-'', drop 1 s) else ([], s)) in
      case num_int s of None \<Rightarrow> None
      | Some (i, s) \<Rightarrow>
          (case num_frac s of None \<Rightarrow> None
           | Some (f, s) \<Rightarrow> map_option (\<lambda>(e, s). (sign @ i @ f @ e, s)) (num_exp s)))"

text \<open>
  Values, with as much fuel as there are bytes: every element consumes at least one, so the
  fuel never runs out before the text does.
\<close>

fun json_val :: "nat \<Rightarrow> string \<Rightarrow> (json \<times> string) option"
  and json_elems :: "nat \<Rightarrow> string \<Rightarrow> (json list \<times> string) option"
  and json_members :: "nat \<Rightarrow> string \<Rightarrow> ((string \<times> json) list \<times> string) option" where
  "json_val 0 s = None"
| "json_val (Suc n) s =
     (case skip_json_ws s of [] \<Rightarrow> None
      | c # cs \<Rightarrow>
          if c = CHR ''{'' then
            (case skip_json_ws cs of
               [] \<Rightarrow> None
             | d # ds \<Rightarrow> if d = CHR ''}'' then Some (JObj [], ds)
                 else map_option (\<lambda>(ms, r). (JObj ms, r)) (json_members n (d # ds)))
          else if c = CHR ''['' then
            (case skip_json_ws cs of
               [] \<Rightarrow> None
             | d # ds \<Rightarrow> if d = CHR '']'' then Some (JArr [], ds)
                 else map_option (\<lambda>(js, r). (JArr js, r)) (json_elems n (d # ds)))
          else if c = quote then map_option (\<lambda>(t, r). (JStr t, r)) (json_str cs)
          else if has_prefix (c # cs) ''true'' then Some (JBool True, drop 4 (c # cs))
          else if has_prefix (c # cs) ''false'' then Some (JBool False, drop 5 (c # cs))
          else if has_prefix (c # cs) ''null'' then Some (JNull, drop 4 (c # cs))
          else map_option (\<lambda>(t, r). (JNum t, r)) (json_num (c # cs)))"
| "json_elems 0 s = None"
| "json_elems (Suc n) s =
     (case json_val n s of None \<Rightarrow> None
      | Some (j, r) \<Rightarrow>
          (case skip_json_ws r of [] \<Rightarrow> None
           | c # cs \<Rightarrow>
               if c = CHR '','' then map_option (\<lambda>(js, r). (j # js, r)) (json_elems n cs)
               else if c = CHR '']'' then Some ([j], cs) else None))"
| "json_members 0 s = None"
| "json_members (Suc n) s =
     (case skip_json_ws s of [] \<Rightarrow> None
      | q # s1 \<Rightarrow>
          if q \<noteq> quote then None
          else (case json_str s1 of None \<Rightarrow> None
            | Some (k, s2) \<Rightarrow>
                (case skip_json_ws s2 of [] \<Rightarrow> None
                 | d # s3 \<Rightarrow>
                     if d \<noteq> CHR '':'' then None
                     else (case json_val n s3 of None \<Rightarrow> None
                       | Some (j, r) \<Rightarrow>
                           (case skip_json_ws r of [] \<Rightarrow> None
                            | c # cs \<Rightarrow>
                                if c = CHR '','' then map_option (\<lambda>(ms, r). ((k, j) # ms, r)) (json_members n cs)
                                else if c = CHR ''}'' then Some ([(k, j)], cs) else None)))))"

definition parse_json :: "string \<Rightarrow> json option" where
  "parse_json s = (case json_val (2 * length s + 2) s of None \<Rightarrow> None
     | Some (j, r) \<Rightarrow> if skip_json_ws r = [] then Some j else None)"

section \<open>What is rendered is read back\<close>

lemma hex_val_digit: "d < 16 \<Longrightarrow> hex_val (hex_digit d) = Some d"
proof -
  have "list_all (\<lambda>d. hex_val (hex_digit d) = Some d) [0..<16]" by code_simp
  then show "d < 16 \<Longrightarrow> ?thesis" by (auto simp: list_all_iff)
qed

lemma char_of_byte [simp]: "char_of (byte_val c) = c"
  by (simp add: byte_val_def)

lemma byte_val_lt: "byte_val c < 256"
  by (simp add: byte_val_def)

lemma unescape_u_code:
  "byte_val c < 128 \<Longrightarrow>
     unescape_u (''00'' @ hex_digit (byte_val c div 16) # hex_digit (byte_val c mod 16) # r) = Some ([c], r)"
  using byte_val_lt [of c]
  by (simp add: unescape_u_def hex_val_digit utf8_def) (simp add: hex_val_def utf8_def byte_val_def Let_def)

lemma json_str_esc: "json_str (esc c @ r) = map_option (\<lambda>(s, q). (c # s, q)) (json_str r)"
proof (cases "c \<in> {quote, bslash, CHR 0x08, CHR 0x0C, CHR 0x0A, CHR 0x0D, CHR 0x09}")
  case True
  then consider "c = quote" | "c = bslash" | "c = CHR 0x08" | "c = CHR 0x0C" | "c = CHR 0x0A" | "c = CHR 0x0D" | "c = CHR 0x09"
    by blast
  then show ?thesis
    by cases (subst json_str.simps; simp add: esc_def simple_esc_def quote_def bslash_def)+
next
  case False
  show ?thesis
  proof (cases "byte_val c < 32 \<or> c = CHR ''<'' \<or> c = CHR ''>'' \<or> c = CHR ''&''")
    case True
    with False have e: "esc c = bslash # ''u00'' @ [hex_digit (byte_val c div 16), hex_digit (byte_val c mod 16)]"
      by (auto simp: esc_def)
    have lt: "byte_val c < 128" using True by (auto simp: byte_val_def)
    have "json_str (bslash # CHR ''u'' # x) =
        (case unescape_u x of None \<Rightarrow> None | Some (t, r') \<Rightarrow> map_option (\<lambda>(s, q). (t @ s, q)) (json_str r'))" for x
      by (subst json_str.simps) (simp add: bslash_def quote_def)
    with e unescape_u_code [OF lt, of r] show ?thesis by simp
  next
    case other: False
    with False have e: "esc c = [c]" by (simp add: esc_def)
    show ?thesis using False other unfolding e by (subst json_str.simps) simp
  qed
qed

lemma json_str_render: "json_str (concat (map esc s) @ quote # r) = Some (s, r)"
proof (induction s)
  case Nil
  then show ?case by (subst json_str.simps) simp
next
  case (Cons c s)
  then show ?case by (simp add: json_str_esc)
qed

definition delim :: "string \<Rightarrow> bool" where
  "delim r \<longleftrightarrow> (case r of [] \<Rightarrow> True | c # cs \<Rightarrow> c = CHR '','' \<or> c = CHR '']'' \<or> c = CHR ''}'' \<or> c = CHR 0x0A)"

lemma take_digits_append:
  "take_digits s = Some (d, q) \<Longrightarrow> delim r \<Longrightarrow> take_digits (s @ r) = Some (d, q @ r)"
proof -
  assume td: "take_digits s = Some (d, q)" and r: "delim r"
  then have d: "d = takeWhile is_digit s" "d \<noteq> []" "q = drop (length d) s"
    by (auto simp: take_digits_def Let_def split: if_splits)
  have "takeWhile is_digit r = []" using r by (cases r) (auto simp: delim_def is_digit_def)
  then have "takeWhile is_digit (s @ r) = d"
    using d(1) by (metis append_Nil2 takeWhile_append takeWhile_eq_all_conv)
  moreover have "length d \<le> length s" using d(1) by (simp add: length_takeWhile_le)
  ultimately show ?thesis using d by (simp add: take_digits_def Let_def)
qed

lemma num_parts_append:
  assumes "delim r"
  shows "num_int s = Some (i, q) \<Longrightarrow> num_int (s @ r) = Some (i, q @ r)"
    and "num_frac s = Some (i, q) \<Longrightarrow> num_frac (s @ r) = Some (i, q @ r)"
    and "num_exp s = Some (i, q) \<Longrightarrow> num_exp (s @ r) = Some (i, q @ r)"
proof -
  note td = take_digits_append [OF _ assms]
  show "num_int s = Some (i, q) \<Longrightarrow> num_int (s @ r) = Some (i, q @ r)"
    using td [of s i q] by (cases s) (auto simp: num_int_def split: if_splits)
  have r: "r = [] \<or> hd r \<notin> {CHR ''.'', CHR ''e'', CHR ''E''}"
    using assms by (cases r) (auto simp: delim_def)
  show "num_frac s = Some (i, q) \<Longrightarrow> num_frac (s @ r) = Some (i, q @ r)"
    using r td by (cases s; cases r) (auto simp: num_frac_def split: if_splits)
  show "num_exp s = Some (i, q) \<Longrightarrow> num_exp (s @ r) = Some (i, q @ r)"
    using r td [of "tl s"] td [of "tl (tl s)"]
    by (cases s; cases r; cases "tl s") (auto simp: num_exp_def split: if_splits)
qed

lemma json_num_append:
  assumes "json_num t = Some (t, [])" and "delim r"
  shows "json_num (t @ r) = Some (t, r)"
proof -
  let ?s = "if has_prefix t ''-'' then drop 1 t else t"
  obtain i s1 f s2 e where p: "num_int ?s = Some (i, s1)" "num_frac s1 = Some (f, s2)" "num_exp s2 = Some (e, [])"
    and t: "t = (if has_prefix t ''-'' then ''-'' else []) @ i @ f @ e"
    using assms(1) by (auto simp: json_num_def Let_def split: option.splits if_splits)
  have ne: "t \<noteq> []" using assms(1) by (auto simp: json_num_def num_int_def)
  then have "has_prefix (t @ r) ''-'' = has_prefix t ''-''" by (cases t) simp_all
  moreover have "drop 1 (t @ r) = drop 1 t @ r" using ne by (cases t) simp_all
  moreover note num_parts_append(1) [OF assms(2) p(1)] num_parts_append(2) [OF assms(2) p(2)]
    num_parts_append(3) [OF assms(2) p(3)]
  ultimately show ?thesis
    using t by (cases "has_prefix t ''-''") (simp_all add: json_num_def Let_def)
qed

text \<open>A value that can be rendered: its numbers are numbers.\<close>

fun renderable :: "json \<Rightarrow> bool" where
  "renderable (JNum t) = (json_num t = Some (t, []))"
| "renderable (JArr js) = list_all renderable js"
| "renderable (JObj ms) = list_all (\<lambda>(k, v). renderable v) ms"
| "renderable j = True"

lemma json_num_start:
  "json_num (c # cs) = Some x \<Longrightarrow> c = CHR ''-'' \<or> is_digit c"
  by (auto simp: json_num_def num_int_def take_digits_def is_digit_def Let_def split: if_splits option.splits)

lemma skip_json_ws_id: "s = [] \<or> \<not> json_ws (hd s) \<Longrightarrow> skip_json_ws s = s"
  by (cases s) (auto simp: skip_json_ws_def)

lemma render_start:
  "renderable j \<Longrightarrow> \<exists>c cs. render j = c # cs \<and> \<not> json_ws c \<and> c \<noteq> CHR '']'' \<and> c \<noteq> CHR ''}''"
proof (cases j)
  case (JNum t)
  assume "renderable j"
  with JNum have t: "json_num t = Some (t, [])" by simp
  then obtain c cs where "t = c # cs" by (cases t) (auto simp: json_num_def num_int_def)
  with t json_num_start [of c cs] JNum show ?thesis by (auto simp: json_ws_def is_digit_def)
qed (auto simp: json_ws_def render_str_def quote_def)

lemma skip_render [simp]: "renderable j \<Longrightarrow> skip_json_ws (render j @ r) = render j @ r"
  using render_start [of j] by (intro skip_json_ws_id) auto

lemma render_nonempty: "renderable j \<Longrightarrow> 1 \<le> length (render j)"
  using render_start [of j] by auto

lemma json_val_num:
  assumes "json_num t = Some (t, [])" and "delim r"
  shows "json_val (Suc n) (t @ r) = Some (JNum t, r)"
proof -
  obtain c cs where t: "t = c # cs" using assms(1) by (cases t) (auto simp: json_num_def num_int_def)
  have "c = CHR ''-'' \<or> is_digit c" using assms(1) t json_num_start by blast
  then have c: "\<not> json_ws c" "c \<noteq> CHR ''{''" "c \<noteq> CHR ''[''" "c \<noteq> quote" "c \<noteq> CHR ''t''" "c \<noteq> CHR ''f''" "c \<noteq> CHR ''n''"
    by (auto simp: json_ws_def is_digit_def quote_def)
  have "skip_json_ws (t @ r) = c # cs @ r" using c(1) t by (simp add: skip_json_ws_def)
  moreover have "json_num (c # cs @ r) = Some (c # cs, r)" using json_num_append [OF assms] t by simp
  ultimately show ?thesis using c t by simp
qed

lemma json_elems_render:
  assumes "js \<noteq> []" and "2 * length (join '','' (map render js)) + 1 \<le> n" and "list_all renderable js"
    and val: "\<And>j n r. j \<in> set js \<Longrightarrow> delim r \<Longrightarrow> 2 * length (render j) \<le> n \<Longrightarrow> json_val n (render j @ r) = Some (j, r)"
  shows "json_elems n (join '','' (map render js) @ CHR '']'' # r) = Some (js, r)"
  using assms
proof (induction js arbitrary: n)
  case (Cons j js)
  obtain m where n: "n = Suc m" using Cons.prems(2) by (cases n) auto
  have sk: "skip_json_ws (c # x) = c # x" if "c = CHR '','' \<or> c = CHR '']''" for c x
    using that by (auto simp: skip_json_ws_def json_ws_def)
  show ?case
  proof (cases "js = []")
    case True
    with Cons.prems n Cons.prems(4) [of j "CHR '']'' # r" m] show ?thesis by (simp add: delim_def sk)
  next
    case False
    let ?r = "CHR '','' # join '','' (map render js) @ CHR '']'' # r"
    have len: "2 * (length (render j) + 1 + length (join '','' (map render js))) \<le> m"
      using Cons.prems(2) False n by (simp add: join_Cons)
    have "json_val m (render j @ ?r) = Some (j, ?r)"
      using len by (intro Cons.prems(4)) (simp_all add: delim_def)
    moreover have "json_elems m (join '','' (map render js) @ CHR '']'' # r) = Some (js, r)"
      using Cons.prems False len by (intro Cons.IH) auto
    ultimately show ?thesis using False n by (simp add: join_Cons sk)
  qed
qed simp

lemma json_members_render:
  assumes "ms \<noteq> []" and "2 * length (join '','' (map (\<lambda>(k, v). render_str k @ '':'' @ render v) ms)) + 1 \<le> n"
    and "list_all (\<lambda>(k, v). renderable v) ms"
    and val: "\<And>k j n r. (k, j) \<in> set ms \<Longrightarrow> delim r \<Longrightarrow> 2 * length (render j) \<le> n \<Longrightarrow> json_val n (render j @ r) = Some (j, r)"
  shows "json_members n (join '','' (map (\<lambda>(k, v). render_str k @ '':'' @ render v) ms) @ CHR ''}'' # r) = Some (ms, r)"
  using assms
proof (induction ms arbitrary: n)
  case (Cons kv ms)
  let ?R = "\<lambda>(k, v). render_str k @ '':'' @ render v"
  obtain k j where kv: "kv = (k, j)" by force
  obtain m where n: "n = Suc m" using Cons.prems(2) by (cases n) auto
  have sk: "skip_json_ws (c # x) = c # x" if "c = CHR '','' \<or> c = CHR ''}'' \<or> c = CHR '':'' \<or> c = quote" for c x
    using that by (auto simp: skip_json_ws_def json_ws_def quote_def)
  have str: "json_str (concat (map esc k) @ quote # x) = Some (k, x)" for x by (rule json_str_render)
  show ?case
  proof (cases "ms = []")
    case True
    have "json_val m (render j @ CHR ''}'' # r) = Some (j, CHR ''}'' # r)"
      using Cons.prems(2) n kv True by (intro Cons.prems(4) [of k]) (simp_all add: delim_def render_str_def)
    with True n kv show ?thesis by (simp add: sk render_str_def str)
  next
    case False
    let ?r = "CHR '','' # join '','' (map ?R ms) @ CHR ''}'' # r"
    have len: "2 * (length (render j) + 1 + length (join '','' (map ?R ms))) \<le> m"
      using Cons.prems(2) False n kv by (simp add: join_Cons render_str_def)
    have "json_val m (render j @ ?r) = Some (j, ?r)"
      using len kv by (intro Cons.prems(4) [of k]) (simp_all add: delim_def)
    moreover have "json_members m (join '','' (map ?R ms) @ CHR ''}'' # r) = Some (ms, r)"
      using Cons.prems False len by (intro Cons.IH) auto
    ultimately show ?thesis using False n kv by (simp add: join_Cons sk render_str_def str)
  qed
qed simp

lemma json_val_render:
  "renderable j \<Longrightarrow> delim r \<Longrightarrow> 2 * length (render j) \<le> n \<Longrightarrow> json_val n (render j @ r) = Some (j, r)"
proof (induction j arbitrary: n r)
  case (JNum t)
  then obtain m where "n = Suc m" using render_nonempty [of "JNum t"] by (cases n) auto
  with JNum show ?case using json_val_num by simp
next
  case (JStr t)
  then obtain m where "n = Suc m" by (cases n) (auto simp: render_str_def)
  then show ?case by (simp add: render_str_def skip_json_ws_def json_ws_def quote_def json_str_render [unfolded quote_def])
next
  case (JArr js)
  then obtain m where n: "n = Suc m" by (cases n) auto
  show ?case
  proof (cases "js = []")
    case True
    with n show ?thesis by (simp add: skip_json_ws_def json_ws_def)
  next
    case False
    let ?t = "join '','' (map render js)"
    obtain j js' where js: "js = j # js'" using False by (cases js) auto
    obtain c cs where c: "render j = c # cs" "\<not> json_ws c" "c \<noteq> CHR '']''"
      using render_start [of j] JArr.prems(1) js by auto
    have t: "\<exists>ts. ?t = c # ts" using c(1) js by (cases js') auto
    then obtain ts where ts: "?t = c # ts" by blast
    have "json_elems m (?t @ CHR '']'' # r) = Some (js, r)"
    proof (rule json_elems_render [OF False])
      show "2 * length ?t + 1 \<le> m" using JArr.prems(3) n by simp
      show "list_all renderable js" using JArr.prems(1) by simp
      fix q k r' assume "q \<in> set js" "delim r'" "2 * length (render q) \<le> k"
      then show "json_val k (render q @ r') = Some (q, r')"
        using JArr.prems(1) by (intro JArr.IH) (auto simp: list_all_iff)
    qed
    with n c ts show ?thesis by (simp add: skip_json_ws_def json_ws_def)
  qed
next
  case (JObj ms)
  then obtain m where n: "n = Suc m" by (cases n) auto
  show ?case
  proof (cases "ms = []")
    case True
    with n show ?thesis by (simp add: skip_json_ws_def json_ws_def)
  next
    case False
    let ?t = "join '','' (map (\<lambda>(k, v). render_str k @ '':'' @ render v) ms)"
    obtain k v ms' where ms: "ms = (k, v) # ms'" using False by (cases ms) auto
    have "\<exists>ts. ?t = quote # ts" using ms by (cases ms') (auto simp: render_str_def)
    then obtain ts where ts: "?t = quote # ts" by blast
    have "json_members m (?t @ CHR ''}'' # r) = Some (ms, r)"
    proof (rule json_members_render [OF False])
      show "2 * length ?t + 1 \<le> m" using JObj.prems(3) n by simp
      show "list_all (\<lambda>(k, v). renderable v) ms" using JObj.prems(1) by simp
      fix k q i r' assume "(k, q) \<in> set ms" "delim r'" "2 * length (render q) \<le> i"
      then show "json_val i (render q @ r') = Some (q, r')"
        using JObj.prems(1) by (intro JObj.IH [of "(k, q)"]) (auto simp: list_all_iff snds.simps)
    qed
    with n ts show ?thesis by (simp add: skip_json_ws_def json_ws_def quote_def)
  qed
next
  case JNull
  then show ?case by (cases n) (simp_all add: skip_json_ws_def json_ws_def quote_def)
next
  case (JBool b)
  then show ?case by (cases n; cases b) (simp_all add: skip_json_ws_def json_ws_def quote_def)
qed

lemma parse_render: "renderable j \<Longrightarrow> parse_json (render j) = Some j"
  using json_val_render [of j "[]" "2 * length (render j) + 2"]
  by (simp add: parse_json_def delim_def skip_json_ws_def)

text \<open>An encoder writes a value on a line of its own.\<close>

lemma parse_render_line:
  assumes "renderable j"
  shows "parse_json (render j @ [CHR 0x0A]) = Some j"
proof -
  have "json_val (2 * length (render j @ [CHR 0x0A]) + 2) (render j @ [CHR 0x0A]) = Some (j, [CHR 0x0A])"
    by (rule json_val_render [OF assms]) (simp_all add: delim_def)
  then show ?thesis unfolding parse_json_def by (simp only: option.case prod.case) (simp add: skip_json_ws_def json_ws_def)
qed

section \<open>Decoding into a struct\<close>

text \<open>
  The values given for a field, in their order, \<^verbatim>\<open>null\<close> left out. A field decoder gives the
  value the field ends up with or the error of a wrong type; the text of that error is not
  the one of Go.
\<close>

definition field_values :: "string \<Rightarrow> (string \<times> json) list \<Rightarrow> json list" where
  "field_values name ms = filter (\<lambda>j. j \<noteq> JNull) (map snd (filter (\<lambda>(k, v). to_lower k = to_lower name) ms))"

definition field_of :: "(json \<Rightarrow> 'a option) \<Rightarrow> 'a \<Rightarrow> string \<Rightarrow> (string \<times> json) list \<Rightarrow> error + 'a" where
  "field_of dcd dflt name ms =
     (let vs = map dcd (field_values name ms) in
      if list_all (\<lambda>v. v \<noteq> None) vs then Inr (if vs = [] then dflt else the (last vs))
      else Inl (''json: cannot unmarshal field '' @ name))"

fun dec_str :: "json \<Rightarrow> string option" where
  "dec_str (JStr s) = Some s"
| "dec_str j = None"

fun dec_bool :: "json \<Rightarrow> bool option" where
  "dec_bool (JBool b) = Some b"
| "dec_bool j = None"

fun dec_int :: "json \<Rightarrow> int option" where
  "dec_int (JNum t) = (case atoi t of (i, None) \<Rightarrow> Some i | (i, Some e) \<Rightarrow> None)"
| "dec_int j = None"

fun dec_list :: "(json \<Rightarrow> 'a option) \<Rightarrow> 'a \<Rightarrow> json \<Rightarrow> 'a list option" where
  "dec_list dcd dflt (JArr js) =
     (let vs = map (\<lambda>j. if j = JNull then Some dflt else dcd j) js in
      if list_all (\<lambda>v. v \<noteq> None) vs then Some (map the vs) else None)"
| "dec_list dcd dflt j = None"

fun dec_map :: "(json \<Rightarrow> 'a option) \<Rightarrow> 'a \<Rightarrow> json \<Rightarrow> (string \<times> 'a) list option" where
  "dec_map dcd dflt (JObj ms) =
     (let vs = map (\<lambda>(k, j). (k, if j = JNull then Some dflt else dcd j)) ms in
      if list_all (\<lambda>(k, v). v \<noteq> None) vs then Some (map (\<lambda>(k, v). (k, the v)) vs) else None)"
| "dec_map dcd dflt j = None"

definition str_field :: "string \<Rightarrow> (string \<times> json) list \<Rightarrow> error + string" where
  "str_field = field_of dec_str []"

definition bool_field :: "string \<Rightarrow> (string \<times> json) list \<Rightarrow> error + bool" where
  "bool_field = field_of dec_bool False"

definition int_field :: "string \<Rightarrow> (string \<times> json) list \<Rightarrow> error + int" where
  "int_field = field_of dec_int 0"

text \<open>A pointer field: \<^const>\<open>None\<close> for a missing name and for \<^verbatim>\<open>null\<close>.\<close>

definition ptr_field :: "(json \<Rightarrow> 'a option) \<Rightarrow> string \<Rightarrow> (string \<times> json) list \<Rightarrow> error + 'a option" where
  "ptr_field dcd name ms =
     (let vs = map snd (filter (\<lambda>(k, v). to_lower k = to_lower name) ms) in
      if list_all (\<lambda>v. v = JNull \<or> dcd v \<noteq> None) vs
      then Inr (if vs = [] \<or> last vs = JNull then None else dcd (last vs))
      else Inl (''json: cannot unmarshal field '' @ name))"

text \<open>A \<^verbatim>\<open>RawMessage\<close> field keeps the value as it stands, \<^verbatim>\<open>null\<close> included.\<close>

definition raw_field :: "string \<Rightarrow> (string \<times> json) list \<Rightarrow> json option" where
  "raw_field name ms =
     (let vs = map snd (filter (\<lambda>(k, v). to_lower k = to_lower name) ms) in if vs = [] then None else Some (last vs))"

text \<open>\<^verbatim>\<open>Unmarshal\<close> of a value that is already delimited, into a struct with the given decoder.\<close>

definition decode_struct :: "((string \<times> json) list \<Rightarrow> error + 'a) \<Rightarrow> json \<Rightarrow> error + 'a" where
  "decode_struct dcd j = (case j of JObj ms \<Rightarrow> dcd ms | JNull \<Rightarrow> dcd []
     | _ \<Rightarrow> Inl ''json: cannot unmarshal into Go value of struct type'')"

definition unmarshal :: "((string \<times> json) list \<Rightarrow> error + 'a) \<Rightarrow> string \<Rightarrow> error + 'a" where
  "unmarshal dcd s = (case parse_json s of
     None \<Rightarrow> Inl (if skip_json_ws s = [] then ''unexpected end of JSON input'' else ''invalid character in JSON input'')
   | Some j \<Rightarrow> decode_struct dcd j)"

text \<open>Sequencing of decoders that may fail.\<close>

definition sbind :: "error + 'a \<Rightarrow> ('a \<Rightarrow> error + 'b) \<Rightarrow> error + 'b" where
  "sbind m f = (case m of Inl e \<Rightarrow> Inl e | Inr a \<Rightarrow> f a)"

lemma sbind_simps [simp]: "sbind (Inl e) f = Inl e" "sbind (Inr a) f = f a"
  by (simp_all add: sbind_def)

text \<open>Integers as JSON numbers.\<close>

definition json_int :: "int \<Rightarrow> json" where
  "json_int i = JNum (itoa i)"

lemma digit_zero: "d < 10 \<Longrightarrow> digit d = CHR ''0'' \<Longrightarrow> d = 0"
  using of_char_digit [of d] by simp

lemma dec_hd: "0 < n \<Longrightarrow> hd (dec n) \<noteq> CHR ''0''"
proof (induction n rule: dec.induct)
  case (1 n)
  show ?case
  proof (cases "n < 10")
    case True
    with 1(2) digit_zero [of n] show ?thesis by (subst dec.simps) auto
  next
    case False
    with 1 show ?thesis by (subst dec.simps) (simp add: hd_append)
  qed
qed

lemma num_int_dec: "num_int (dec n) = Some (dec n, [])"
proof (cases "n = 0")
  case True
  have "dec 0 = ''0''" by (subst dec.simps) (simp add: digit_def)
  with True show ?thesis by (simp add: num_int_def)
next
  case False
  then obtain c cs where c: "dec n = c # cs" "c \<noteq> CHR ''0''" using dec_hd [of n] by (cases "dec n") auto
  moreover have "takeWhile is_digit (dec n) = dec n" using dec_digits [of n] by (simp add: list_all_iff takeWhile_eq_all_conv)
  ultimately show ?thesis by (simp add: num_int_def take_digits_def Let_def)
qed

lemma renderable_int [simp]: "renderable (json_int i)"
proof (cases "i < 0")
  case True
  then show ?thesis by (simp add: json_int_def itoa_def json_num_def num_int_dec num_frac_def num_exp_def)
next
  case False
  have "\<not> has_prefix (dec (nat i)) ''-''" using dec_sign [of "nat i"] by (cases "dec (nat i)") auto
  with False show ?thesis by (simp add: json_int_def itoa_def json_num_def num_int_dec num_frac_def num_exp_def)
qed

lemma json_int_not_null [simp]: "json_int i \<noteq> JNull"
  by (simp add: json_int_def)

lemma dec_json_int: "- (2 ^ 63) \<le> i \<Longrightarrow> i < 2 ^ 63 \<Longrightarrow> dec_int (json_int i) = Some i"
  by (simp add: json_int_def atoi_itoa)

lemma unmarshal_render: "renderable j \<Longrightarrow> unmarshal dcd (render j) = decode_struct dcd j"
  by (simp add: unmarshal_def parse_render)

end
