(* ===== verification/Compose.thy ===== *)
theory Compose
  imports AgentTypes Paths Json
begin

text \<open>
  \<^verbatim>\<open>internal/compose/compose.go\<close>: the docker compose commands of one instance, the status of
  its containers, and the wait for all of them to run. The callers pass a background context,
  which is never cancelled.
\<close>

section \<open>Commands\<close>

record Compose =
  co_instanceDir :: string
  co_projectName :: string

definition compose_New :: "string \<Rightarrow> string \<Rightarrow> Compose" where
  "compose_New instanceID baseDir =
     \<lparr>co_instanceDir = path_join [baseDir, instanceID], co_projectName = instanceID\<rparr>"

definition in_project :: "'x host \<Rightarrow> Compose \<Rightarrow> string list \<Rightarrow> ('x, cmdres) io" where
  "in_project h c args = run_cmd h (co_instanceDir c) (''sudo'' # ''docker'' # ''compose'' # args) []"

definition both_outputs :: "string \<Rightarrow> cmdres \<Rightarrow> error option" where
  "both_outputs what r = map_option (\<lambda>e. what @ '': '' @ e @ [NL] @ ''Stdout: '' @ cr_out r
     @ [NL] @ ''Stderr: '' @ cr_err r) (cr_status r)"

definition compose_Pull :: "'x host \<Rightarrow> Compose \<Rightarrow> ('x, error option) io" where
  "compose_Pull h c = do {
     r \<leftarrow> in_project h c [''pull''];
     ret (both_outputs ''failed to pull images'' r)
   }"

definition compose_Up :: "'x host \<Rightarrow> Compose \<Rightarrow> ('x, error option) io" where
  "compose_Up h c = do {
     r \<leftarrow> in_project h c [''up'', ''-d'', ''--remove-orphans''];
     ret (both_outputs ''failed to start containers'' r)
   }"

definition compose_UpService :: "'x host \<Rightarrow> Compose \<Rightarrow> string \<Rightarrow> ('x, error option) io" where
  "compose_UpService h c service = do {
     r \<leftarrow> in_project h c [''up'', ''-d'', ''--no-deps'', service];
     ret (both_outputs (''failed to start service '' @ service) r)
   }"

definition compose_down :: "'x host \<Rightarrow> Compose \<Rightarrow> bool \<Rightarrow> ('x, error option) io" where
  "compose_down h c removeVolumes = do {
     r \<leftarrow> in_project h c (''down'' # (if removeVolumes then [''-v''] else []));
     ret (both_outputs ''failed to stop containers'' r)
   }"

definition compose_Down :: "'x host \<Rightarrow> Compose \<Rightarrow> ('x, error option) io" where
  "compose_Down h c = compose_down h c False"

definition compose_DownWithVolumes :: "'x host \<Rightarrow> Compose \<Rightarrow> ('x, error option) io" where
  "compose_DownWithVolumes h c = compose_down h c True"

definition compose_Stop :: "'x host \<Rightarrow> Compose \<Rightarrow> ('x, error option) io" where
  "compose_Stop h c = do {
     r \<leftarrow> in_project h c [''stop''];
     ret (both_outputs ''failed to stop containers'' r)
   }"

definition compose_Start :: "'x host \<Rightarrow> Compose \<Rightarrow> ('x, error option) io" where
  "compose_Start h c = do {
     r \<leftarrow> in_project h c [''start''];
     ret (both_outputs ''failed to start containers'' r)
   }"

definition compose_Restart :: "'x host \<Rightarrow> Compose \<Rightarrow> ('x, error option) io" where
  "compose_Restart h c = do {
     r \<leftarrow> in_project h c [''restart''];
     ret (both_outputs ''failed to restart containers'' r)
   }"

section \<open>Container status\<close>

record containerInfo =
  ci_Name :: string
  ci_State :: string
  ci_Health :: string
  ci_Service :: string

definition decode_containerInfo :: "(string \<times> json) list \<Rightarrow> error + containerInfo" where
  "decode_containerInfo ms =
     sbind (str_field ''Name'' ms) (\<lambda>n. sbind (str_field ''State'' ms) (\<lambda>st.
     sbind (str_field ''Health'' ms) (\<lambda>he. sbind (str_field ''Service'' ms) (\<lambda>se.
       Inr \<lparr>ci_Name = n, ci_State = st, ci_Health = he, ci_Service = se\<rparr>))))"

definition status_of_line :: "string \<Rightarrow> ContainerStatus option" where
  "status_of_line line =
     (if line = [] then None
      else case unmarshal decode_containerInfo line of
        Inl e \<Rightarrow> None
      | Inr info \<Rightarrow> Some \<lparr>cs_Name = ci_Service info, cs_State = to_lower (ci_State info),
          cs_Health = to_lower (ci_Health info), cs_Uptime = []\<rparr>)"

text \<open>The slice is \<^verbatim>\<open>nil\<close> when there was output but no line of it could be read.\<close>

definition GetContainerStatus :: "'x host \<Rightarrow> Compose \<Rightarrow> ('x, error + ContainerStatus slice) io" where
  "GetContainerStatus h c = do {
     r \<leftarrow> in_project h c [''ps'', ''--format'', ''json''];
     ret (case cr_status r of
         Some e \<Rightarrow>
           (if str_contains (cr_err r) ''no configuration file'' \<or> str_contains (cr_err r) ''no such file''
            then Inr (Some [])
            else Inl (''failed to get container status: '' @ e @ [NL] @ ''Stderr: '' @ cr_err r))
       | None \<Rightarrow>
           (if cr_out r = [] then Inr (Some [])
            else let statuses = List.map_filter status_of_line (split_char NL (trim_space (cr_out r))) in
              Inr (if statuses = [] then None else Some statuses)))
   }"

definition all_running :: "ContainerStatus list \<Rightarrow> bool" where
  "all_running statuses \<longleftrightarrow> statuses \<noteq> [] \<and> list_all (\<lambda>st. cs_State st = ''running'') statuses"

definition IsRunning :: "'x host \<Rightarrow> Compose \<Rightarrow> ('x, error + bool) io" where
  "IsRunning h c = do {
     r \<leftarrow> GetContainerStatus h c;
     ret (case r of Inl e \<Rightarrow> Inl e | Inr statuses \<Rightarrow> Inr (all_running (elems statuses)))
   }"

section \<open>Waiting\<close>

text \<open>
  The loop of \<^verbatim>\<open>WaitForContainers\<close>. Every round that goes on sleeps for two seconds, so the
  deadline bounds the rounds; \<^const>\<open>None\<close> stands for more rounds than the fuel allows.
\<close>

fun wait_loop :: "'x host \<Rightarrow> Compose \<Rightarrow> nat \<Rightarrow> nat \<Rightarrow> nat \<Rightarrow> ('x, error option option) io" where
  "wait_loop h c timeout deadline 0 = ret None"
| "wait_loop h c timeout deadline (Suc fuel) = do {
     t \<leftarrow> time_now;
     if t < deadline then do {
       r \<leftarrow> IsRunning h c;
       case r of
         Inl e \<Rightarrow> ret (Some (Some e))
       | Inr running \<Rightarrow>
           if running then ret (Some None)
           else do {
             _ \<leftarrow> sleep (seconds 2);
             wait_loop h c timeout deadline fuel
           }
     } else ret (Some (Some (''containers did not start within '' @ dur_string timeout)))
   }"

definition wait_fuel :: "nat \<Rightarrow> nat" where
  "wait_fuel timeout = timeout div seconds 2 + 2"

definition WaitForContainers :: "'x host \<Rightarrow> Compose \<Rightarrow> nat \<Rightarrow> ('x, error option option) io" where
  "WaitForContainers h c timeout = do {
     start \<leftarrow> time_now;
     wait_loop h c timeout (start + timeout) (wait_fuel timeout)
   }"

section \<open>Logs and commands in containers\<close>

definition compose_Logs :: "'x host \<Rightarrow> Compose \<Rightarrow> int \<Rightarrow> ('x, error + string) io" where
  "compose_Logs h c tail = do {
     r \<leftarrow> in_project h c (''logs'' # (if 0 < tail then [''--tail'', itoa tail] else []));
     ret (case cr_status r of
         Some e \<Rightarrow> (if str_contains (cr_err r) ''no configuration file'' then Inr []
            else Inl (''failed to get logs: '' @ e @ [NL] @ ''Stderr: '' @ cr_err r))
       | None \<Rightarrow> Inr (cr_out r))
   }"

definition compose_GetServiceLogs :: "'x host \<Rightarrow> Compose \<Rightarrow> string \<Rightarrow> int \<Rightarrow> ('x, error + string) io" where
  "compose_GetServiceLogs h c service tail = do {
     r \<leftarrow> in_project h c (''logs'' # service # (if 0 < tail then [''--tail'', itoa tail] else []));
     ret (case cr_status r of
         Some e \<Rightarrow> Inl (''failed to get logs for service '' @ service @ '': '' @ e @ [NL] @ ''Stderr: '' @ cr_err r)
       | None \<Rightarrow> Inr (cr_out r))
   }"

definition exec_result :: "string \<Rightarrow> cmdres \<Rightarrow> error + string" where
  "exec_result service r = (case cr_status r of
       Some e \<Rightarrow> Inl (''failed to execute command in '' @ service @ '': '' @ e @ [NL] @ ''Stderr: '' @ cr_err r)
     | None \<Rightarrow> Inr (cr_out r))"

definition compose_Exec :: "'x host \<Rightarrow> Compose \<Rightarrow> string \<Rightarrow> string list \<Rightarrow> ('x, error + string) io" where
  "compose_Exec h c service command = do {
     r \<leftarrow> in_project h c (''exec'' # ''-T'' # service # command);
     ret (exec_result service r)
   }"

definition compose_ExecWithEnv ::
  "'x host \<Rightarrow> Compose \<Rightarrow> string \<Rightarrow> string list \<Rightarrow> (string \<times> string) list \<Rightarrow> ('x, error + string) io" where
  "compose_ExecWithEnv h c service command env = do {
     r \<leftarrow> in_project h c (''exec'' # ''-T'' # concat (map (\<lambda>(k, v). [''-e'', k @ ''='' @ v]) env) @ service # command);
     ret (exec_result service r)
   }"

definition GetProjectName :: "Compose \<Rightarrow> string" where
  "GetProjectName c = co_projectName c"

definition GetInstanceDir :: "Compose \<Rightarrow> string" where
  "GetInstanceDir c = co_instanceDir c"

definition compose_Validate :: "'x host \<Rightarrow> Compose \<Rightarrow> ('x, error option) io" where
  "compose_Validate h c = do {
     r \<leftarrow> in_project h c [''config'', ''--quiet''];
     ret (map_option (\<lambda>e. ''docker-compose.yml validation failed: '' @ e @ [NL] @ ''Stderr: '' @ cr_err r) (cr_status r))
   }"

section \<open>Lemmas\<close>

lemma forward_IsRunning [forward_intros]: "forward (IsRunning h c)"
  unfolding IsRunning_def GetContainerStatus_def in_project_def by (intro forward_intros)

lemma emits_in_project [emits_intros]:
  "P (EvExec (co_instanceDir c) (''sudo'' # ''docker'' # ''compose'' # args)) \<Longrightarrow> emits P (in_project h c args)"
  unfolding in_project_def by (intro emits_intros)

lemma wait_loop_Suc:
  "run_state (wait_loop h c timeout deadline (Suc fuel)) s =
     (if now s < deadline then
        (case run_state (IsRunning h c) s of (r, s1) \<Rightarrow>
           (case r of Inl e \<Rightarrow> (Some (Some e), s1)
            | Inr running \<Rightarrow> if running then (Some None, s1)
                else run_state (wait_loop h c timeout deadline fuel) (log (EvSleep (seconds 2)) (s1\<lparr>now := now s1 + seconds 2\<rparr>))))
      else (Some (Some (''containers did not start within '' @ dur_string timeout)), s))"
  by (auto split: prod.splits sum.splits)

declare wait_loop.simps(2) [simp del]

lemma wait_loop_returns:
  "deadline \<le> now s + (fuel - 1) * seconds 2 \<Longrightarrow> 0 < fuel \<Longrightarrow>
     \<exists>e s'. run_state (wait_loop h c timeout deadline fuel) s = (Some e, s')"
proof (induction fuel arbitrary: s)
  case (Suc fuel)
  show ?case
  proof (cases "now s < deadline")
    case False
    then show ?thesis by (simp add: wait_loop_Suc)
  next
    case True
    obtain r s1 where x: "run_state (IsRunning h c) s = (r, s1)" by (cases "run_state (IsRunning h c) s")
    have "now s \<le> now s1" using forwardD [OF forward_IsRunning x] .
    let ?s2 = "log (EvSleep (seconds 2)) (s1\<lparr>now := now s1 + seconds 2\<rparr>)"
    have pos: "0 < fuel" using True Suc.prems by (cases fuel) auto
    then have "fuel * seconds 2 = seconds 2 + (fuel - 1) * seconds 2" by (cases fuel) simp_all
    then have "deadline \<le> now ?s2 + (fuel - 1) * seconds 2" using Suc.prems \<open>now s \<le> now s1\<close> by simp
    from Suc.IH [OF this pos] x True show ?thesis
      by (auto simp: wait_loop_Suc split: sum.splits)
  qed
qed simp

lemma seconds_pos [simp]: "0 < seconds n \<longleftrightarrow> 0 < n"
  by (simp add: seconds_def)

section \<open>Properties\<close>

text \<open>
  C10: \<^verbatim>\<open>WaitForContainers\<close> returns, whatever the containers do: its loop ends within the number of
  rounds that fit between the start and the deadline, so the fuel of the model never runs out.
\<close>

theorem wait_for_containers_returns:
  "\<exists>e s'. run_state (WaitForContainers h c timeout) s = (Some e, s')"
proof -
  have "timeout \<le> (wait_fuel timeout - 1) * seconds 2"
  proof -
    have "timeout = timeout div seconds 2 * seconds 2 + timeout mod seconds 2" by simp
    moreover have "timeout mod seconds 2 < seconds 2" by simp
    ultimately have "timeout \<le> seconds 2 + timeout div seconds 2 * seconds 2" by linarith
    then show ?thesis by (simp add: wait_fuel_def)
  qed
  then have "now s + timeout \<le> now s + (wait_fuel timeout - 1) * seconds 2" by simp
  moreover have "0 < wait_fuel timeout" by (simp add: wait_fuel_def)
  ultimately show ?thesis
    using wait_loop_returns [of "now s + timeout" s "wait_fuel timeout" h c timeout]
    by (simp add: WaitForContainers_def time_now_def)
qed

end
