(* ===== verification/Nginx.thy ===== *)
theory Nginx
  imports AgentTypes Paths
begin

text \<open>
  \<^verbatim>\<open>internal/nginx\<close>: installing nginx, the edits of \<^verbatim>\<open>nginx.conf\<close>, the site of an instance from
  its template, and the password file of its studio. The SHA-1 digest of the password file is
  a parameter; base64 is written out.
\<close>

section \<open>Commands\<close>

definition ConfigDir :: string where "ConfigDir = ''/etc/nginx''"
definition AuthRateLimit :: string where "AuthRateLimit = ''5r/s''"
definition APIRateLimit :: string where "APIRateLimit = ''30r/s''"
definition StorageRateLimit :: string where "StorageRateLimit = ''10r/s''"
definition SupabaseSitesDir :: string where "SupabaseSitesDir = ''/etc/nginx/supabase-sites''"

definition prefix_error :: "string \<Rightarrow> error option \<Rightarrow> error option" where
  "prefix_error what err = map_option (\<lambda>e. what @ '': '' @ e) err"

definition nginx_IsInstalled :: "'x host \<Rightarrow> ('x, bool) io" where
  "nginx_IsInstalled h = do {
     err \<leftarrow> look_path h ''nginx'';
     ret (err = None)
   }"

definition installNginxPackage :: "'x host \<Rightarrow> ('x, error option) io" where
  "installNginxPackage h = do {
     r \<leftarrow> exec_cmd h [''apt-get'', ''update''];
     case cr_status r of
       Some e \<Rightarrow> ret (Some (''apt-get update failed: '' @ e))
     | None \<Rightarrow> do {
         r \<leftarrow> exec_cmd h [''apt-get'', ''install'', ''-y'', ''nginx''];
         ret (map_option (\<lambda>e. ''apt-get install nginx failed: '' @ e @ [NL] @ ''Stdout: '' @ cr_out r
           @ [NL] @ ''Stderr: '' @ cr_err r) (cr_status r))
       }
   }"

definition enableNginxService :: "'x host \<Rightarrow> ('x, error option) io" where
  "enableNginxService h = do {
     r \<leftarrow> exec_cmd h [''systemctl'', ''enable'', ''nginx''];
     case cr_status r of
       Some e \<Rightarrow> ret (Some (''failed to enable Nginx service: '' @ e))
     | None \<Rightarrow> do {
         r \<leftarrow> exec_cmd h [''systemctl'', ''start'', ''nginx''];
         ret (prefix_error ''failed to start Nginx service'' (cr_status r))
       }
   }"

definition nginx_GetVersion :: "'x host \<Rightarrow> ('x, error + string) io" where
  "nginx_GetVersion h = do {
     r \<leftarrow> exec_cmd h [''nginx'', ''-v''];
     ret (case cr_status r of Some e \<Rightarrow> Inl (''failed to get Nginx version: '' @ e)
       | None \<Rightarrow> Inr (trim_space (cr_all r)))
   }"

definition TestConfig :: "'x host \<Rightarrow> ('x, error option) io" where
  "TestConfig h = do {
     r \<leftarrow> exec_cmd h [''nginx'', ''-t''];
     ret (map_option (\<lambda>e. ''nginx -t failed: '' @ e @ [NL] @ ''Output: '' @ cr_err r) (cr_status r))
   }"

definition nginx_Reload :: "'x host \<Rightarrow> ('x, error option) io" where
  "nginx_Reload h = do {
     r \<leftarrow> exec_cmd h [''systemctl'', ''reload'', ''nginx''];
     ret (prefix_error ''systemctl reload nginx failed'' (cr_status r))
   }"

definition nginx_Restart :: "'x host \<Rightarrow> ('x, error option) io" where
  "nginx_Restart h = do {
     r \<leftarrow> exec_cmd h [''systemctl'', ''restart'', ''nginx''];
     ret (prefix_error ''systemctl restart nginx failed'' (cr_status r))
   }"

definition nginx_IsServiceRunning :: "'x host \<Rightarrow> ('x, bool) io" where
  "nginx_IsServiceRunning h = do {
     r \<leftarrow> exec_cmd h [''systemctl'', ''is-active'', ''nginx''];
     ret (cr_status r = None)
   }"

section \<open>The edits of \<^verbatim>\<open>nginx.conf\<close>\<close>

definition nginxConf :: string where "nginxConf = ConfigDir @ ''/nginx.conf''"

definition SetupSupabaseSitesDir :: "'x host \<Rightarrow> string \<Rightarrow> ('x, error option) io" where
  "SetupSupabaseSitesDir h username = do {
     err \<leftarrow> os_mkdir_all h SupabaseSitesDir;
     case err of
       Some e \<Rightarrow> ret (Some (''failed to create '' @ SupabaseSitesDir @ '': '' @ err_text e))
     | None \<Rightarrow>
         if username \<noteq> [] \<and> username \<noteq> ''root'' then do {
           r \<leftarrow> exec_cmd h [''chown'', username @ '':'' @ username, SupabaseSitesDir];
           ret (prefix_error (''failed to set ownership on '' @ SupabaseSitesDir) (cr_status r))
         } else ret None
   }"

definition EnsureIncludeDirective :: "'x host \<Rightarrow> ('x, error option) io" where
  "EnsureIncludeDirective h = do {
     r \<leftarrow> exec_cmd h [''grep'', ''-q'', SupabaseSitesDir, nginxConf];
     if cr_status r = None then ret None
     else do {
       let includeLine = ''    include '' @ SupabaseSitesDir @ ''/*.conf;'';
       r \<leftarrow> exec_cmd h [''sudo'', ''sed'', ''-i'', ''/http {/a'' @ [CHR 0x5C] @ ''    '' @ includeLine, nginxConf];
       ret (prefix_error ''failed to add include directive'' (cr_status r))
     }
   }"

definition httpBlock :: string where "httpBlock = ''http {''"

definition rateLimitZones :: string where
  "rateLimitZones = unlines
     [''    # Supabyoi rate limiting zones'',
      ''    limit_req_zone $binary_remote_addr zone=supabyoi_auth:10m rate='' @ AuthRateLimit @ '';'',
      ''    limit_req_zone $binary_remote_addr zone=supabyoi_api:10m rate='' @ APIRateLimit @ '';'',
      ''    limit_req_zone $binary_remote_addr zone=supabyoi_storage:10m rate='' @ StorageRateLimit @ '';'']"

definition edit_nginx_conf :: "'x host \<Rightarrow> (string \<Rightarrow> string) \<Rightarrow> ('x, error option) io" where
  "edit_nginx_conf h f = do {
     r \<leftarrow> os_read h nginxConf;
     case r of
       Inl e \<Rightarrow> ret (Some (''failed to read nginx.conf: '' @ err_text e))
     | Inr content \<Rightarrow> do {
         err \<leftarrow> os_write h nginxConf (f content) 420;
         ret (map_option (\<lambda>e. ''failed to write nginx.conf: '' @ err_text e) err)
       }
   }"

definition rate_limited :: "string \<Rightarrow> string" where
  "rate_limited content = replace_first content httpBlock (httpBlock @ [NL] @ rateLimitZones)"

definition ConfigureRateLimiting :: "'x host \<Rightarrow> ('x, error option) io" where
  "ConfigureRateLimiting h = do {
     r \<leftarrow> exec_cmd h [''grep'', ''-q'', ''limit_req_zone.*zone=supabyoi_auth'', nginxConf];
     if cr_status r = None then ret None else edit_nginx_conf h rate_limited
   }"

definition hash_directive :: string where "hash_directive = ''server_names_hash_bucket_size''"

definition without_directive :: "string \<Rightarrow> string" where
  "without_directive content =
     join [NL] (filter (\<lambda>line. \<not> str_contains (trim_space line) hash_directive) (split_char NL content))"

definition with_hash_bucket :: "string \<Rightarrow> string" where
  "with_hash_bucket content = replace_first (without_directive content) httpBlock
     (httpBlock @ [NL] @ ''    server_names_hash_bucket_size 128;'')"

definition ConfigureServerNamesHashBucketSize :: "'x host \<Rightarrow> ('x, error option) io" where
  "ConfigureServerNamesHashBucketSize h = do {
     r \<leftarrow> exec_cmd h [''grep'', ''-q'', ''server_names_hash_bucket_size 128'', nginxConf];
     if cr_status r = None then ret None else edit_nginx_conf h with_hash_bucket
   }"

text \<open>The first error ends a sequence of operations.\<close>

fun first_error :: "(string \<times> ('x, error option) io) list \<Rightarrow> ('x, error option) io" where
  "first_error [] = ret None"
| "first_error ((what, m) # ms) = do {
     err \<leftarrow> m;
     case err of Some e \<Rightarrow> ret (Some (what @ '': '' @ e)) | None \<Rightarrow> first_error ms
   }"

definition ensureConfiguration :: "'x host \<Rightarrow> string \<Rightarrow> ('x, error option) io" where
  "ensureConfiguration h username = first_error
     [(''failed to setup supabase-sites directory'', SetupSupabaseSitesDir h username),
      (''failed to add include directive'', EnsureIncludeDirective h),
      (''failed to configure rate limiting'', ConfigureRateLimiting h),
      (''failed to configure server names hash bucket size'', ConfigureServerNamesHashBucketSize h),
      (''Nginx configuration test failed'', TestConfig h),
      (''failed to reload Nginx'', nginx_Reload h)]"

definition nginx_Install :: "'x host \<Rightarrow> string \<Rightarrow> ('x, error option) io" where
  "nginx_Install h username = do {
     installed \<leftarrow> nginx_IsInstalled h;
     if installed then first_error [(''failed to ensure Nginx configuration'', ensureConfiguration h username)]
     else do {
       err \<leftarrow> first_error
         [(''failed to install Nginx package'', installNginxPackage h),
          (''failed to enable Nginx service'', enableNginxService h),
          (''failed to setup Nginx configuration'', ensureConfiguration h username)];
       case err of Some e \<Rightarrow> ret (Some e)
       | None \<Rightarrow> do {
           installed \<leftarrow> nginx_IsInstalled h;
           ret (if installed then None else Some ''Nginx installation verification failed'')
         }
     }
   }"

section \<open>The site of an instance\<close>

record SiteConfig =
  sd_Subdomain :: string
  sd_Domain :: string
  sd_StudioDomain :: string
  sd_KongPort :: int
  sd_StudioPort :: int
  sd_TLSEnabled :: bool
  sd_CertPath :: string
  sd_KeyPath :: string
  sd_StudioCertPath :: string
  sd_StudioKeyPath :: string
  sd_StudioHtpasswdPath :: string

definition studio_cert :: "SiteConfig \<Rightarrow> string" where
  "studio_cert cfg = (if sd_StudioCertPath cfg = [] then sd_CertPath cfg else sd_StudioCertPath cfg)"

definition studio_key :: "SiteConfig \<Rightarrow> string" where
  "studio_key cfg = (if sd_StudioKeyPath cfg = [] then sd_KeyPath cfg else sd_StudioKeyPath cfg)"

definition site_upstreams :: "SiteConfig \<Rightarrow> string" where
  \<open>site_upstreams cfg =
     ''# Supabase instance: '' @
     sd_Subdomain cfg @
     unlines
      [[],
       ''# Generated by vmkit-agent'',
       [],
       ''# Rate-limited upstream for API (Kong)''] @ ''upstream '' @
     sd_Subdomain cfg @
     unlines
      [''_api {''] @ ''    server 127.0.0.1:'' @
     itoa (sd_KongPort cfg) @
     unlines
      ['' max_fails=3 fail_timeout=30s;'',
       ''    keepalive 32;'',
       ''}'',
       [],
       ''# Upstream for Studio''] @ ''upstream '' @
     sd_Subdomain cfg @
     unlines
      [''_studio {''] @ ''    server 127.0.0.1:'' @
     itoa (sd_StudioPort cfg) @
     unlines
      ['' max_fails=3 fail_timeout=30s;'',
       ''    keepalive 16;'',
       ''}'',
       []]\<close>

definition site_api_server :: "SiteConfig \<Rightarrow> string" where
  \<open>site_api_server cfg =
     unlines
      [''# API server block'',
       ''server {''] @
     (if sd_TLSEnabled cfg
     then unlines
      [''    listen 443 ssl http2;'',
       ''    listen [::]:443 ssl http2;'',
       []] @ ''    ssl_certificate '' @
     sd_CertPath cfg @
     unlines
      ['';''] @ ''    ssl_certificate_key '' @
     sd_KeyPath cfg @
     unlines
      ['';'',
       [],
       ''    # SSL configuration'',
       ''    ssl_protocols TLSv1.2 TLSv1.3;'',
       ''    ssl_ciphers ECDHE-ECDSA-AES128-GCM-SHA256:ECDHE-RSA-AES128-GCM-SHA256:ECDHE-ECDSA-AES256-GCM-SHA384:ECDHE-RSA-AES256-GCM-SHA384:ECDHE-ECDSA-CHACHA20-POLY1305:ECDHE-RSA-CHACHA20-POLY1305:DHE-RSA-AES128-GCM-SHA256:DHE-RSA-AES256-GCM-SHA384;'',
       ''    ssl_prefer_server_ciphers off;'',
       ''    ssl_session_cache shared:SSL:10m;'',
       ''    ssl_session_timeout 10m;'']
     else unlines
      [''    listen 80;'',
       ''    listen [::]:80;'']) @
     unlines
      [[],
       []] @ ''    server_name '' @
     sd_Domain cfg @
     unlines
      ['';'',
       [],
       ''    # Security headers'',
       ''    add_header X-Frame-Options "SAMEORIGIN" always;'',
       ''    add_header X-Content-Type-Options "nosniff" always;'',
       ''    add_header X-XSS-Protection "1; mode=block" always;''] @
     (if sd_TLSEnabled cfg
     then unlines
      [''    add_header Strict-Transport-Security "max-age=63072000; includeSubDomains; preload" always;'']
     else []) @
     unlines
      [[],
       [],
       ''    # Tighten default request-body read timeout (nginx default is 60s).'',
       ''    # Caps exposure to slow-upload DoS while still generous for legit clients.'',
       ''    client_body_timeout 30s;'',
       [],
       ''    # Rate limiting - Auth endpoints (strict: 5r/s, burst 5)'',
       ''    location /auth/v1/token {'',
       ''        limit_req zone=supabyoi_auth burst=5 nodelay;'',
       ''        limit_req_status 429;''] @ ''        proxy_pass http://'' @
     sd_Subdomain cfg @
     unlines
      [''_api;'',
       ''        include /etc/nginx/proxy_params;'',
       ''    }'',
       [],
       ''    location ~ ^/auth/v1/(signup|recover|otp) {'',
       ''        limit_req zone=supabyoi_auth burst=3 nodelay;'',
       ''        limit_req_status 429;''] @ ''        proxy_pass http://'' @
     sd_Subdomain cfg @
     unlines
      [''_api;'',
       ''        include /etc/nginx/proxy_params;'',
       ''    }'',
       [],
       ''    # Rate limiting - REST API (moderate: 30r/s, burst 50)'',
       ''    location /rest/v1/ {'',
       ''        # 25m is generous for text/jsonb upserts without enabling obvious abuse.'',
       ''        # Storage uploads go through /storage/v1/ which allows 100m.'',
       ''        client_max_body_size 25m;'',
       ''        limit_req zone=supabyoi_api burst=50;'',
       ''        limit_req_status 429;''] @ ''        proxy_pass http://'' @
     sd_Subdomain cfg @
     unlines
      [''_api;'',
       ''        include /etc/nginx/proxy_params;'',
       ''    }'',
       [],
       ''    # Rate limiting - Storage (moderate: 10r/s, burst 20)'',
       ''    location /storage/v1/ {'',
       ''        client_max_body_size 100m;'',
       ''        limit_req zone=supabyoi_storage burst=20;'',
       ''        limit_req_status 429;''] @ ''        proxy_pass http://'' @
     sd_Subdomain cfg @
     unlines
      [''_api;'',
       ''        include /etc/nginx/proxy_params;'',
       ''    }'',
       [],
       ''    # Other API endpoints (no rate limiting)'',
       ''    location / {''] @ ''        proxy_pass http://'' @
     sd_Subdomain cfg @
     unlines
      [''_api;'',
       ''        include /etc/nginx/proxy_params;'',
       [],
       ''        # WebSocket support for Realtime'',
       ''        proxy_http_version 1.1;'',
       ''        proxy_set_header Upgrade $http_upgrade;'',
       ''        proxy_set_header Connection "upgrade";'',
       ''    }'',
       [],
       ''    # Custom 429 error response'',
       ''    error_page 429 = @rate_limited;'',
       ''    location @rate_limited {'',
       ''        default_type application/json;'',
       ''        return 429 '{"error": "too_many_requests", "message": "Rate limit exceeded. Please try again later."}';'',
       ''    }'',
       ''}'',
       []]\<close>

definition site_studio_head :: "SiteConfig \<Rightarrow> string" where
  \<open>site_studio_head cfg =
     unlines
      [''# Studio server block'',
       ''server {''] @
     (if sd_TLSEnabled cfg
     then unlines
      [''    listen 443 ssl http2;'',
       ''    listen [::]:443 ssl http2;'',
       []] @ ''    ssl_certificate '' @
     studio_cert cfg @
     unlines
      ['';''] @ ''    ssl_certificate_key '' @
     studio_key cfg @
     unlines
      ['';'',
       [],
       ''    # SSL configuration'',
       ''    ssl_protocols TLSv1.2 TLSv1.3;'',
       ''    ssl_ciphers ECDHE-ECDSA-AES128-GCM-SHA256:ECDHE-RSA-AES128-GCM-SHA256:ECDHE-ECDSA-AES256-GCM-SHA384:ECDHE-RSA-AES256-GCM-SHA384:ECDHE-ECDSA-CHACHA20-POLY1305:ECDHE-RSA-CHACHA20-POLY1305:DHE-RSA-AES128-GCM-SHA256:DHE-RSA-AES256-GCM-SHA384;'',
       ''    ssl_prefer_server_ciphers off;'',
       ''    ssl_session_cache shared:SSL:10m;'',
       ''    ssl_session_timeout 10m;'']
     else unlines
      [''    listen 80;'',
       ''    listen [::]:80;'']) @
     unlines
      [[],
       []] @ ''    server_name '' @
     sd_StudioDomain cfg @
     unlines
      ['';'',
       [],
       ''    # Security headers'',
       ''    add_header X-Frame-Options "SAMEORIGIN" always;'',
       ''    add_header X-Content-Type-Options "nosniff" always;'',
       ''    add_header X-XSS-Protection "1; mode=block" always;''] @
     (if sd_TLSEnabled cfg
     then unlines
      [''    add_header Strict-Transport-Security "max-age=63072000; includeSubDomains; preload" always;'']
     else []) @
     [NL]\<close>

definition site_studio_location :: "SiteConfig \<Rightarrow> string" where
  \<open>site_studio_location cfg =
     unlines
      [''    location / {''] @
     (if sd_StudioHtpasswdPath cfg \<noteq> []
     then unlines
      [''        auth_basic "Supabase Studio";''] @ ''        auth_basic_user_file '' @
     sd_StudioHtpasswdPath cfg @
     unlines
      ['';'']
     else []) @
     ''        proxy_pass http://'' @
     sd_Subdomain cfg @
     unlines
      [''_studio;'',
       ''        include /etc/nginx/proxy_params;'',
       [],
       ''        # WebSocket support'',
       ''        proxy_http_version 1.1;'',
       ''        proxy_set_header Upgrade $http_upgrade;'',
       ''        proxy_set_header Connection "upgrade";'',
       ''    }'',
       ''}'']\<close>

definition site_redirect :: "SiteConfig \<Rightarrow> string" where
  \<open>site_redirect cfg =
     (if sd_TLSEnabled cfg
     then unlines
      [[],
       ''# HTTP to HTTPS redirect'',
       ''server {'',
       ''    listen 80;'',
       ''    listen [::]:80;''] @ ''    server_name '' @
     sd_Domain cfg @
     '' '' @
     sd_StudioDomain cfg @
     unlines
      ['';'',
       [],
       ''    location / {'',
       ''        return 301 https://$host$request_uri;'',
       ''    }'',
       ''}'']
     else [])\<close>

definition generateSiteConfigContent :: "SiteConfig \<Rightarrow> string" where
  "generateSiteConfigContent cfg =
     site_upstreams cfg @ site_api_server cfg @ site_studio_head cfg @ site_studio_location cfg @ site_redirect cfg"

definition site_path :: "string \<Rightarrow> string" where
  "site_path subdomain = SupabaseSitesDir @ ''/'' @ subdomain @ ''.conf''"

definition CreateSiteConfig :: "'x host \<Rightarrow> SiteConfig \<Rightarrow> ('x, error option) io" where
  "CreateSiteConfig h cfg = do {
     err \<leftarrow> ConfigureRateLimiting h;
     case err of
       Some e \<Rightarrow> ret (Some (''failed to configure rate limiting: '' @ e))
     | None \<Rightarrow> do {
         let content = generateSiteConfigContent cfg;
         let configPath = site_path (sd_Subdomain cfg);
         err \<leftarrow> os_write h configPath content 420;
         case err of
           Some e \<Rightarrow> ret (Some (''failed to write config file: '' @ err_text e))
         | None \<Rightarrow> do {
             err \<leftarrow> TestConfig h;
             case err of
               Some e \<Rightarrow> do {
                 _ \<leftarrow> os_remove h configPath;
                 ret (Some (''configuration test failed, rolled back: '' @ e))
               }
             | None \<Rightarrow> do {
                 err \<leftarrow> nginx_Reload h;
                 ret (prefix_error ''failed to reload Nginx'' err)
               }
           }
       }
   }"

text \<open>Removing a file that does not exist is no error.\<close>

definition unless_missing :: "oserr option \<Rightarrow> error option" where
  "unless_missing err = (case err of None \<Rightarrow> None
     | Some e \<Rightarrow> if \<not> is_not_exist e then Some (err_text e) else None)"

definition RemoveSiteConfig :: "'x host \<Rightarrow> string \<Rightarrow> ('x, error option) io" where
  "RemoveSiteConfig h subdomain = do {
     err \<leftarrow> os_remove h (site_path subdomain);
     case unless_missing err of
       Some e \<Rightarrow> ret (Some (''failed to remove config file: '' @ e))
     | None \<Rightarrow> first_error
         [(''configuration test failed after removal'', TestConfig h),
          (''failed to reload Nginx'', nginx_Reload h)]
   }"

section \<open>The password file\<close>

definition b64_char :: "nat \<Rightarrow> char" where
  "b64_char n = ''ABCDEFGHIJKLMNOPQRSTUVWXYZabcdefghijklmnopqrstuvwxyz0123456789+/'' ! n"

fun base64 :: "string \<Rightarrow> string" where
  "base64 [] = []"
| "base64 [a] = (let n = of_char a * 65536 in
     [b64_char (n div 262144), b64_char (n div 4096 mod 64), CHR ''='', CHR ''=''])"
| "base64 [a, b] = (let n = of_char a * 65536 + of_char b * 256 in
     [b64_char (n div 262144), b64_char (n div 4096 mod 64), b64_char (n div 64 mod 64), CHR ''=''])"
| "base64 (a # b # c # r) = (let n = of_char a * 65536 + of_char b * 256 + of_char c in
     [b64_char (n div 262144), b64_char (n div 4096 mod 64), b64_char (n div 64 mod 64), b64_char (n mod 64)])
     @ base64 r"

definition HtpasswdPathFor :: "string \<Rightarrow> string" where
  "HtpasswdPathFor subdomain = SupabaseSitesDir @ ''/'' @ subdomain @ ''.htpasswd''"

definition WriteHtpasswd ::
  "'x host \<Rightarrow> (string \<Rightarrow> string) \<Rightarrow> string \<Rightarrow> string \<Rightarrow> string \<Rightarrow> ('x, error + string) io" where
  "WriteHtpasswd h sha1 subdomain username password =
     (if username = [] \<or> password = [] then ret (Inl ''username and password are both required'')
      else do {
        err \<leftarrow> os_mkdir_all h SupabaseSitesDir;
        case err of
          Some e \<Rightarrow> ret (Inl (''create '' @ SupabaseSitesDir @ '': '' @ err_text e))
        | None \<Rightarrow> do {
            let line = username @ '':{SHA}'' @ base64 (sha1 password) @ [NL];
            let path = HtpasswdPathFor subdomain;
            err \<leftarrow> os_write h path line 420;
            case err of
              Some e \<Rightarrow> ret (Inl (''write '' @ path @ '': '' @ err_text e))
            | None \<Rightarrow> do {
                err \<leftarrow> os_chmod h path 420;
                ret (case err of Some e \<Rightarrow> Inl (''chmod '' @ path @ '': '' @ err_text e) | None \<Rightarrow> Inr path)
              }
          }
      })"

definition RemoveHtpasswd :: "'x host \<Rightarrow> string \<Rightarrow> ('x, error option) io" where
  "RemoveHtpasswd h subdomain = do {
     err \<leftarrow> os_remove h (HtpasswdPathFor subdomain);
     ret (prefix_error (''remove '' @ HtpasswdPathFor subdomain) (unless_missing err))
   }"

section \<open>Lemmas\<close>

lemma emits_first_error [emits_intros]:
  "(\<And>what m. (what, m) \<in> set ms \<Longrightarrow> emits P m) \<Longrightarrow> emits P (first_error ms)"
  by (induction ms rule: first_error.induct) (auto intro!: emits_intros)

lemma emits_RemoveSiteConfig:
  "P (EvRemove (site_path sub)) \<Longrightarrow> P (EvExec [] [''nginx'', ''-t'']) \<Longrightarrow>
   P (EvExec [] [''systemctl'', ''reload'', ''nginx'']) \<Longrightarrow> emits P (RemoveSiteConfig h sub)"
  unfolding RemoveSiteConfig_def TestConfig_def nginx_Reload_def
  by (auto intro!: emits_intros)

lemma site_path_neq [simp]: "site_path sub \<noteq> nginxConf"
  by (simp add: site_path_def nginxConf_def SupabaseSitesDir_def ConfigDir_def)

lemma edit_nginx_conf_other:
  "run_state (edit_nginx_conf h f) s = (e, s') \<Longrightarrow> q \<noteq> nginxConf \<Longrightarrow> lookup_node s' q = lookup_node s q"
  by (auto simp: edit_nginx_conf_def split: prod.splits sum.splits dest!: os_read_state os_write_other)

lemma ConfigureRateLimiting_other:
  "commands_keep h q \<Longrightarrow> run_state (ConfigureRateLimiting h) s = (e, s') \<Longrightarrow> q \<noteq> nginxConf \<Longrightarrow>
     lookup_node s' q = lookup_node s q"
  by (auto simp: ConfigureRateLimiting_def split: prod.splits if_splits
      dest!: exec_cmd_keeps edit_nginx_conf_other)

lemma TestConfig_keeps:
  "commands_keep h q \<Longrightarrow> run_state (TestConfig h) s = (e, s') \<Longrightarrow> lookup_node s' q = lookup_node s q"
  by (auto simp: TestConfig_def split: prod.splits dest!: exec_cmd_keeps)

lemma nginx_Reload_keeps:
  "commands_keep h q \<Longrightarrow> run_state (nginx_Reload h) s = (e, s') \<Longrightarrow> lookup_node s' q = lookup_node s q"
  by (auto simp: nginx_Reload_def split: prod.splits dest!: exec_cmd_keeps)

definition lines_with :: "string \<Rightarrow> string \<Rightarrow> nat" where
  "lines_with p content = length (filter (\<lambda>l. str_contains l p) (split_char NL content))"

section \<open>Properties\<close>


text \<open>
  a successful \<^verbatim>\<open>CreateSiteConfig\<close> leaves exactly the generated site in the file of the
  subdomain; when the configuration test fails, the file is removed, also when it held a
  working site before.
\<close>

theorem create_site_config_outcome:
  assumes keep: "commands_keep h (site_path (sd_Subdomain cfg))"
    and nofault: "\<forall>s. hfault h (OpRemove (site_path (sd_Subdomain cfg))) s = None"
    and run: "run_state (CreateSiteConfig h cfg) s = (err, s')"
  shows "(err = None \<longrightarrow> (\<exists>m. lookup_node s' (site_path (sd_Subdomain cfg)) = Some (File (generateSiteConfigContent cfg) m)))
       \<and> (\<forall>e. err = Some (''configuration test failed, rolled back: '' @ e) \<longrightarrow>
            lookup_node s' (site_path (sd_Subdomain cfg)) = None)"
proof -
  let ?p = "site_path (sd_Subdomain cfg)" and ?c = "generateSiteConfigContent cfg"
  obtain e1 s1 where 1: "run_state (ConfigureRateLimiting h) s = (e1, s1)" by (cases "run_state (ConfigureRateLimiting h) s")
  obtain e2 s2 where 2: "run_state (os_write h ?p ?c 420) s1 = (e2, s2)" by (cases "run_state (os_write h ?p ?c 420) s1")
  obtain e3 s3 where 3: "run_state (TestConfig h) s2 = (e3, s3)" by (cases "run_state (TestConfig h) s2")
  obtain e4 s4 where 4: "run_state (nginx_Reload h) s3 = (e4, s4)" by (cases "run_state (nginx_Reload h) s3")
  obtain e5 s5 where 5: "run_state (os_remove h ?p) s3 = (e5, s5)" by (cases "run_state (os_remove h ?p) s3")
  have gone: "lookup_node s5 ?p = None" using os_remove_gone [OF 5] nofault by simp
  have kept: "\<exists>m. lookup_node s4 ?p = Some (File ?c m)" if "e2 = None"
    using os_write_ok [of h ?p ?c 420 s1 s2] 2 that TestConfig_keeps [OF keep 3] nginx_Reload_keeps [OF keep 4] by simp
  show ?thesis
    using run gone kept
    by (auto simp: CreateSiteConfig_def Let_def prefix_error_def 1 2 3 4 5 split: option.splits)
qed

text \<open>
  \<^verbatim>\<open>ConfigureServerNamesHashBucketSize\<close> leaves the directive on exactly one line when the file
  has an \<^verbatim>\<open>http\<close> block, however many lines carried it before, commented out or not.
\<close>

theorem hash_bucket_once:
  assumes "str_contains (without_directive content) httpBlock"
  shows "lines_with hash_directive (with_hash_bucket content) = 1"
proof -
  let ?x = "''    server_names_hash_bucket_size 128;''" and ?has = "\<lambda>l. str_contains l hash_directive"
  let ?new = "httpBlock @ [NL] @ ?x"
  let ?fs = "filter (\<lambda>line. \<not> str_contains (trim_space line) hash_directive) (split_char NL content)"
  have http: "httpBlock \<noteq> []" "NL \<notin> set httpBlock" by (simp_all add: httpBlock_def)
  obtain a b where ab: "without_directive content = a @ httpBlock @ b"
    and new: "with_hash_bucket content = a @ ?new @ b"
    using replace_first_split [OF http(1) assms, of ?new] unfolding with_hash_bucket_def by blast
  let ?A = "split_char NL a" and ?B = "split_char NL b"
  have "?fs \<noteq> []"
  proof
    assume "?fs = []"
    with assms show False unfolding without_directive_def by (simp add: httpBlock_def)
  qed
  then have "split_char NL (without_directive content) = ?fs"
    unfolding without_directive_def by (intro split_char_join) (auto dest: split_char_parts)
  then have "\<forall>l \<in> set (split_char NL (a @ httpBlock @ b)). \<not> ?has l"
    unfolding ab [symmetric] by (auto simp: hash_directive_def str_contains_trim is_space_def)
  moreover have "split_char NL (a @ httpBlock @ b) = butlast ?A @ (last ?A @ httpBlock @ hd ?B) # tl ?B"
    by (simp add: split_char_append [of NL a] split_char_prefix http(2))
  ultimately have no: "\<forall>l \<in> set (butlast ?A). \<not> ?has l" "\<not> ?has (last ?A @ httpBlock)" "\<forall>l \<in> set (tl ?B). \<not> ?has l"
    using str_contains_append_left [of "last ?A @ httpBlock" hash_directive "hd ?B"] by auto
  have x: "NL \<notin> set ?x" "?has (?x @ hd ?B)"
    by (simp, rule str_contains_append_left) (simp add: hash_directive_def)
  have "split_char NL (with_hash_bucket content) = butlast ?A @ (last ?A @ httpBlock) # (?x @ hd ?B) # tl ?B"
    unfolding new append_assoc
    using split_char_prefix [OF x(1), of b]
    by (simp add: split_char_append [of NL a] split_char_cons http(2))
  with no x(2) show ?thesis by (simp add: lines_with_def filter_empty_conv)
qed

text \<open>A host on which every command succeeds but the configuration test.\<close>

definition broken_nginx :: "string list \<Rightarrow> unit sys \<Rightarrow> cmdres \<times> unit sys" where
  "broken_nginx argv s = (if argv = [''nginx'', ''-t''] then fail_res ''emerg'' ''exit status 1'' else ok_res [], s)"

definition demo_site :: SiteConfig where
  "demo_site = \<lparr>sd_Subdomain = ''a'', sd_Domain = ''example.org'', sd_StudioDomain = [], sd_KongPort = 8000, sd_StudioPort = 3000,
     sd_TLSEnabled = False, sd_CertPath = [], sd_KeyPath = [], sd_StudioCertPath = [], sd_StudioKeyPath = [],
     sd_StudioHtpasswdPath = []\<rparr>"

lemma create_site_config_outcome_witness:
  "lookup_node (snd (run_state
     (CreateSiteConfig (command_host broken_nginx) demo_site)
     (start_sys [(site_path ''a'', File ''working site'' 420)] ()))) (site_path ''a'') = None"
proof -
  have sub: "sd_Subdomain demo_site = ''a''" by (simp add: demo_site_def)
  let ?h = "command_host broken_nginx" and ?cfg = demo_site
  let ?s = "start_sys [(site_path ''a'', File ''working site'' 420)] ()"
  have keep: "commands_keep ?h (site_path (sd_Subdomain ?cfg))"
    by (simp add: commands_keep_def broken_nginx_def)
  have "\<exists>e s'. run_state (CreateSiteConfig ?h ?cfg) ?s =
      (Some (''configuration test failed, rolled back: '' @ e), s')"
    by (simp add: CreateSiteConfig_def ConfigureRateLimiting_def TestConfig_def run_exec_cmd broken_nginx_def
        os_write_def os_remove_def start_sys_def lookup_node_def Let_def sub split: option.splits)
  then show ?thesis
    using create_site_config_outcome [OF keep] by (fastforce simp: sub)
qed

lemma hash_bucket_once_witness:
  "lines_with hash_directive (with_hash_bucket
     (''http {'' @ [NL] @ ''  # server_names_hash_bucket_size 64;'' @ [NL] @ ''}'')) = 1"
  by (rule hash_bucket_once) code_simp

end
