(* ===== verification/Destroy.thy ===== *)
theory Destroy
  imports Steps Compose Nginx Allowlist
begin

text \<open>
  \<^verbatim>\<open>internal/destroy/destroy.go\<close>: tearing an instance down in seven steps, each of which
  tolerates that what it removes is already gone. The last step deletes the firewall rules of
  the instance; it is a provider of the deletion plan interface.
\<close>

section \<open>Operations\<close>

definition DefaultBaseDir :: string where "DefaultBaseDir = ''/opt/supabase''"

definition ignorablePatterns :: "string list" where
  "ignorablePatterns = [''no such file or directory'', ''does not exist'', ''not found'',
     ''no configuration file'', ''cannot find'']"

definition destroy_isIgnorableError :: "error \<Rightarrow> bool" where
  "destroy_isIgnorableError errMsg = list_ex (contains errMsg) ignorablePatterns"

text \<open>An error that can be ignored is none, any other is reported with \<open>f\<close>.\<close>

definition tolerate :: "error option \<Rightarrow> (error \<Rightarrow> error) \<Rightarrow> error option" where
  "tolerate err f = (case err of None \<Rightarrow> None | Some e \<Rightarrow> if destroy_isIgnorableError e then None else Some (f e))"

definition stopContainers :: "'x host \<Rightarrow> string \<Rightarrow> string \<Rightarrow> ('x, error option) io" where
  "stopContainers h subdomain baseDir = do {
     err \<leftarrow> compose_Stop h (compose_New subdomain baseDir);
     ret (tolerate err (\<lambda>e. ''failed to stop containers: '' @ e))
   }"

definition removeVolumes :: "'x host \<Rightarrow> string \<Rightarrow> string \<Rightarrow> ('x, error option) io" where
  "removeVolumes h subdomain baseDir = do {
     r \<leftarrow> run_cmd h (path_join [baseDir, subdomain])
       [''sudo'', ''docker'', ''compose'', ''down'', ''-v'', ''--remove-orphans''] [];
     ret (tolerate (cr_status r) (\<lambda>e. ''failed to remove volumes: '' @ e @ ''. Output: '' @ cr_all r))
   }"

definition removeNginxConfig :: "'x host \<Rightarrow> string \<Rightarrow> ('x, error option) io" where
  "removeNginxConfig h subdomain = do {
     err \<leftarrow> RemoveSiteConfig h subdomain;
     ret (tolerate err (\<lambda>e. ''failed to remove nginx config: '' @ e))
   }"

fun remove_dirs :: "'x host \<Rightarrow> string list \<Rightarrow> ('x, error option) io" where
  "remove_dirs h [] = ret None"
| "remove_dirs h (dir # dirs) = do {
     r \<leftarrow> exec_cmd h [''sudo'', ''rm'', ''-rf'', dir];
     case tolerate (cr_status r)
         (\<lambda>e. ''failed to remove TLS certs at '' @ dir @ '': '' @ e @ ''. Output: '' @ cr_all r) of
       Some e \<Rightarrow> ret (Some e)
     | None \<Rightarrow> remove_dirs h dirs
   }"

definition removeTLSCerts :: "'x host \<Rightarrow> string \<Rightarrow> string \<Rightarrow> ('x, error option) io" where
  "removeTLSCerts h domain studioDomain = remove_dirs h
     [path_join [''/etc/letsencrypt/live'', domain], path_join [''/etc/letsencrypt/live'', studioDomain]]"

definition cleanupDirectory :: "'x host \<Rightarrow> string \<Rightarrow> ('x, error option) io" where
  "cleanupDirectory h instanceDir = do {
     r \<leftarrow> exec_cmd h [''sudo'', ''rm'', ''-rf'', instanceDir];
     ret (tolerate (cr_status r) (\<lambda>e. ''failed to remove directory: '' @ e @ ''. Output: '' @ cr_all r))
   }"

definition cleanupOrphans :: "'x host \<Rightarrow> string \<Rightarrow> ('x, error option) io" where
  "cleanupOrphans h subdomain = do {
     r \<leftarrow> exec_cmd h [''sudo'', ''docker'', ''ps'', ''-a'', ''--filter'', ''name='' @ subdomain, ''-q''];
     if cr_status r \<noteq> None then ret None
     else do {
       _ \<leftarrow> (if cr_all r \<noteq> [] then do { _ \<leftarrow> exec_cmd h [''sudo'', ''docker'', ''rm'', ''-f'', cr_all r]; ret () } else ret ());
       _ \<leftarrow> exec_cmd h [''sudo'', ''docker'', ''network'', ''prune'', ''-f''];
       ret None
     }
   }"

definition close_plan :: "ExistingRule list \<Rightarrow> int list" where
  "close_plan existing = rev (sort (map ru_RuleNumber existing))"

fun close_loop :: "'x host \<Rightarrow> int \<Rightarrow> int list \<Rightarrow> ('x, error option) io" where
  "close_loop h port [] = ret None"
| "close_loop h port (n # ns) = do {
     r \<leftarrow> exec_cmd h [''sudo'', ''ufw'', ''--force'', ''delete'', itoa n];
     case cr_status r of
       Some e \<Rightarrow> ret (Some (''ufw delete '' @ itoa n @ '' (port '' @ itoa port @ ''/tcp) failed: '' @ e
         @ '' ('' @ trim_space (cr_all r) @ '')''))
     | None \<Rightarrow> close_loop h port ns
   }"

definition closeFirewallPort :: "'x host \<Rightarrow> int \<Rightarrow> ('x, error option) io" where
  "closeFirewallPort h port =
     (if port = 0 then ret None
      else do {
        r \<leftarrow> exec_cmd h [''sudo'', ''ufw'', ''status'', ''numbered''];
        case cr_status r of
          Some e \<Rightarrow> ret (tolerate (Some e) (\<lambda>e. ''ufw status failed: '' @ e @ '' ('' @ trim_space (cr_all r) @ '')''))
        | None \<Rightarrow> do {
            let existing = ParseUFWRulesForPort (cr_all r) port ''tcp'';
            if existing = [] then ret None else close_loop h port (close_plan existing)
          }
      })"

type_synonym 'x destructionStep = "string \<times> ('x, error option) io"

definition destruction_steps :: "'x host \<Rightarrow> DestroyConfig \<Rightarrow> string \<Rightarrow> 'x destructionStep list" where
  "destruction_steps h cfg baseDir =
     (let sub = de_Subdomain cfg in
      [(''stop_containers'', stopContainers h sub baseDir),
       (''remove_volumes'', removeVolumes h sub baseDir),
       (''remove_nginx'', removeNginxConfig h sub),
       (''remove_tls_certs'', removeTLSCerts h (sub @ ''.supabyoi.com'') (''studio-'' @ sub @ ''.supabyoi.com'')),
       (''cleanup_directory'', cleanupDirectory h (path_join [baseDir, sub])),
       (''cleanup_orphans'', cleanupOrphans h sub),
       (''close_firewall_port'', closeFirewallPort h (de_PostgresPort cfg))])"

definition destroy_executeStep :: "'x destructionStep \<Rightarrow> ('x, StepResult) io" where
  "destroy_executeStep step = timed_step (fst step) (snd step)"

definition Destroy :: "'x host \<Rightarrow> DestroyConfig \<Rightarrow> ('x, DestroyResult) io" where
  "Destroy h cfg = do {
     let baseDir = (if de_BaseDir cfg = [] then DefaultBaseDir else de_BaseDir cfg);
     (steps, failed) \<leftarrow> run_steps destroy_executeStep (destruction_steps h cfg baseDir);
     ret \<lparr>ds_Success = (failed = None), ds_InstanceID = de_InstanceID cfg, ds_Steps = steps,
       ds_ErrorMessage = (case failed of None \<Rightarrow> [] | Some r \<Rightarrow> st_Message r),
       ds_FailedStep = (case failed of None \<Rightarrow> [] | Some r \<Rightarrow> st_Name r)\<rparr>
   }"

section \<open>The contract of UFW under sudo\<close>

definition sudo_ufw_host :: "'x host \<Rightarrow> ('x \<Rightarrow> ufw_row list) \<Rightarrow> bool" where
  "sudo_ufw_host h rows \<longleftrightarrow>
     (\<forall>s r s'. hexec h [] [''sudo'', ''ufw'', ''status'', ''numbered''] [] s = (r, s') \<longrightarrow>
        cr_status r = None \<and> rows (ext s') = rows (ext s) \<and> ParseAllUFWAllowRules (cr_all r) = observed (rows (ext s)))
   \<and> (\<forall>n s r s'. hexec h [] [''sudo'', ''ufw'', ''--force'', ''delete'', itoa n] [] s = (r, s') \<and> cr_status r = None \<longrightarrow>
        rows (ext s') = ufw_delete (rows (ext s)) n)"

section \<open>Lemmas\<close>

interpretation destroy: step_executor destroy_executeStep fst
  by unfold_locales (auto simp: destroy_executeStep_def dest: timed_step_shape)

interpretation close: full_deletion_plan
  "\<lambda>rs. close_plan (filter (port_rule port protocol) rs)" "port_rule port protocol" for port protocol
proof
  fix rs :: "ExistingRule list"
  assume "distinct (map ru_RuleNumber rs)"
  then show "descending (close_plan (filter (port_rule port protocol) rs))"
    unfolding close_plan_def by (intro descending_rev_sort distinct_map_filter)
qed (auto simp: close_plan_def)

lemma close_loop_rows:
  assumes "sudo_ufw_host h rows"
  shows "run_state (close_loop h port ns) s = (None, s') \<Longrightarrow> rows (ext s') = ufw_deletes (rows (ext s)) ns"
proof (induction ns arbitrary: s)
  case Nil
  then show ?case by (simp add: ufw_deletes_def)
next
  case (Cons n ns)
  let ?argv = "[''sudo'', ''ufw'', ''--force'', ''delete'', itoa n]"
  obtain r s1 where x: "hexec h [] ?argv [] s = (r, s1)" by (cases "hexec h [] ?argv [] s")
  have ok: "cr_status r = None" using Cons.prems x by (auto simp: run_exec_cmd split: option.splits)
  with assms x have "rows (ext s1) = ufw_delete (rows (ext s)) n" unfolding sudo_ufw_host_def by blast
  with Cons ok x show ?case by (simp add: run_exec_cmd ufw_deletes_def)
qed

lemma contains_append: "contains s p \<Longrightarrow> contains (a @ s @ b) p"
  unfolding contains_eq by (intro str_contains_append_right str_contains_append_left)

text \<open>The first thing \<^verbatim>\<open>Destroy\<close> does is to stop the containers of the instance.\<close>

lemma trace_remove_dirs: "extends_trace (remove_dirs h dirs)"
  by (induction dirs) (auto intro!: emits_intros)

lemma trace_close_loop: "extends_trace (close_loop h port ns)"
  by (induction ns) (auto intro!: emits_intros)

lemma trace_destruction_steps:
  "st \<in> set (destruction_steps h cfg base) \<Longrightarrow> extends_trace (destroy_executeStep st)"
  unfolding destroy_executeStep_def
  by (rule emits_timed_step)
    (auto simp: destruction_steps_def Let_def stopContainers_def compose_Stop_def removeVolumes_def
      removeNginxConfig_def removeTLSCerts_def cleanupDirectory_def cleanupOrphans_def closeFirewallPort_def
      intro!: emits_intros emits_RemoveSiteConfig trace_remove_dirs trace_close_loop)

lemma trace_Destroy: "extends_trace (Destroy h cfg)"
  unfolding Destroy_def Let_def by (intro emits_intros trace_destruction_steps)

definition stop_event :: "string \<Rightarrow> string \<Rightarrow> event" where
  "stop_event baseDir sub = EvExec (path_join [baseDir, sub]) [''sudo'', ''docker'', ''compose'', ''stop'']"

lemma Destroy_stops:
  "logs (stop_event (if de_BaseDir cfg = [] then DefaultBaseDir else de_BaseDir cfg) (de_Subdomain cfg)) (Destroy h cfg)"
proof -
  let ?base = "if de_BaseDir cfg = [] then DefaultBaseDir else de_BaseDir cfg" and ?sub = "de_Subdomain cfg"
  let ?stop = "(''stop_containers'', stopContainers h ?sub ?base)"
  have "logs (stop_event ?base ?sub) (in_project h (compose_New ?sub ?base) [''stop''])"
    by (simp add: in_project_def compose_New_def stop_event_def logs_run_cmd)
  then have "logs (stop_event ?base ?sub) (stopContainers h ?sub ?base)"
    unfolding stopContainers_def compose_Stop_def by (intro logs_bind_left emits_intros)
  then have exec: "logs (stop_event ?base ?sub) (destroy_executeStep ?stop)"
    unfolding destroy_executeStep_def timed_step_def fst_conv snd_conv Let_def
    by (intro logs_bind_right logs_bind_left emits_intros)
  obtain sts where sts: "destruction_steps h cfg ?base = ?stop # sts"
    by (simp add: destruction_steps_def Let_def)
  then have "\<And>st. st \<in> set sts \<Longrightarrow> extends_trace (destroy_executeStep st)"
    by (intro trace_destruction_steps [of _ h cfg ?base]) simp
  with exec have "logs (stop_event ?base ?sub) (run_steps destroy_executeStep (?stop # sts))"
    unfolding run_steps.simps by (intro logs_bind_left emits_intros)
  then show ?thesis
    unfolding Destroy_def Let_def sts by (intro logs_bind_left emits_intros)
qed

section \<open>Properties\<close>

text \<open>
  whatever the host does, \<^verbatim>\<open>Destroy\<close> gives a correct report: on success the seven steps ran in
  order and completed, otherwise the last reported one failed and is named with its message.
\<close>

theorem destroy_reports:
  "case run_state (Destroy h cfg) s of (res, s') \<Rightarrow>
     report_ok [''stop_containers'', ''remove_volumes'', ''remove_nginx'', ''remove_tls_certs'',
       ''cleanup_directory'', ''cleanup_orphans'', ''close_firewall_port'']
       (ds_Success res) (ds_Steps res) (ds_FailedStep res) (ds_ErrorMessage res)
   \<and> ds_InstanceID res = de_InstanceID cfg"
proof -
  let ?sts = "destruction_steps h cfg (if de_BaseDir cfg = [] then DefaultBaseDir else de_BaseDir cfg)"
  obtain rs f s' where x: "run_state (run_steps destroy_executeStep ?sts) s = ((rs, f), s')"
    by (cases "run_state (run_steps destroy_executeStep ?sts) s") auto
  have names: "map fst ?sts = [''stop_containers'', ''remove_volumes'', ''remove_nginx'', ''remove_tls_certs'',
       ''cleanup_directory'', ''cleanup_orphans'', ''close_firewall_port'']"
    by (simp add: destruction_steps_def Let_def)
  show ?thesis
    using destroy.report [OF x] unfolding names by (simp add: Destroy_def Let_def x)
qed

text \<open>
  C1: when \<^verbatim>\<open>closeFirewallPort\<close> succeeds for a known port on a firewall that keeps the contract of
  UFW, exactly the TCP rules of that port are gone, whatever their sources and positions.
\<close>

theorem close_firewall_port_exact:
  assumes ufw: "sudo_ufw_host h rows" and "port \<noteq> 0"
    and run: "run_state (closeFirewallPort h port) s = (None, s')"
  shows "rows (ext s') = filter (\<lambda>row. \<not> row_sat (port_rule port ''tcp'') row) (rows (ext s))"
proof -
  let ?argv = "[''sudo'', ''ufw'', ''status'', ''numbered'']"
  let ?rs = "filter (port_rule port ''tcp'') (observed (rows (ext s)))"
  obtain r s1 where x: "hexec h [] ?argv [] s = (r, s1)" by (cases "hexec h [] ?argv [] s")
  have st: "cr_status r = None" "rows (ext s1) = rows (ext s)" "ParseUFWRulesForPort (cr_all r) port ''tcp'' = ?rs"
    using ufw x unfolding sudo_ufw_host_def by (auto simp: ParseUFWRulesForPort_rule)
  have plan: "ufw_deletes (rows (ext s)) (close_plan ?rs) = filter (\<lambda>row. \<not> row_sat (port_rule port ''tcp'') row) (rows (ext s))"
    by (rule close.removes)
  show ?thesis
  proof (cases "?rs = []")
    case True
    with plan have "rows (ext s) = filter (\<lambda>row. \<not> row_sat (port_rule port ''tcp'') row) (rows (ext s))"
      by (simp add: close_plan_def ufw_deletes_def)
    with True run assms(2) x st show ?thesis by (auto simp: closeFirewallPort_def run_exec_cmd)
  next
    case False
    with run assms(2) x st have
      "run_state (close_loop h port (close_plan ?rs)) (s1\<lparr>trace := trace s @ [EvExec [] ?argv], now := max (now s) (now s1)\<rparr>) = (None, s')"
      by (simp add: closeFirewallPort_def run_exec_cmd)
    from close_loop_rows [OF ufw this] plan st(2) show ?thesis by simp
  qed
qed

text \<open>
  the two docker steps treat a directory without a compose file differently. When both
  commands fail with the same exit status and docker's message that there is no configuration
  file, \<^verbatim>\<open>stopContainers\<close> takes the instance for gone, but \<^verbatim>\<open>removeVolumes\<close> looks for the
  message in the exit status only and fails, so a second \<^verbatim>\<open>Destroy\<close> of such a directory stops
  at its second step.
\<close>

theorem volumes_step_not_idempotent:
  assumes "hexec h (path_join [baseDir, sub]) [''sudo'', ''docker'', ''compose'', ''stop''] [] s = (r1, s1)"
    and "cr_status r1 = Some (''exit status '' @ itoa n)" and "contains (cr_err r1) ''no configuration file''"
    and "hexec h (path_join [baseDir, sub]) [''sudo'', ''docker'', ''compose'', ''down'', ''-v'', ''--remove-orphans''] [] s = (r2, s2)"
    and "cr_status r2 = Some (''exit status '' @ itoa n)" and "contains (cr_all r2) ''no configuration file''"
  shows "fst (run_state (stopContainers h sub baseDir) s) = None
       \<and> fst (run_state (removeVolumes h sub baseDir) s) \<noteq> None"
proof -
  define e where "e = ''exit status '' @ itoa n"
  have "CHR ''o'' \<notin> set (itoa n)"
    using dec_digits [of "nat n"] dec_digits [of "nat (- n)"]
    by (auto simp: itoa_def list_all_iff is_digit_def)
  then have "CHR ''o'' \<notin> set e" by (simp add: e_def)
  moreover have "list_all (\<lambda>p. CHR ''o'' \<in> set p) ignorablePatterns" by (simp add: ignorablePatterns_def)
  ultimately have no: "\<not> destroy_isIgnorableError e"
    unfolding destroy_isIgnorableError_def contains_eq list_ex_iff list_all_iff
    by (metis str_contains_set subsetD)
  have yes: "destroy_isIgnorableError (a @ cr_err r1)" for a
    using contains_append [OF assms(3), of a "[]"] by (simp add: destroy_isIgnorableError_def ignorablePatterns_def)
  have both: "both_outputs what r1 = Some (what @ '': '' @ e @ [NL] @ ''Stdout: '' @ cr_out r1 @ [NL] @ ''Stderr: '' @ cr_err r1)" for what
    unfolding both_outputs_def assms(2) e_def by simp
  have stop: "tolerate (both_outputs what r1) f = None" for what f
    using yes [of "what @ '': '' @ e @ [NL] @ ''Stdout: '' @ cr_out r1 @ [NL] @ ''Stderr: ''"]
    unfolding both tolerate_def by simp
  have vol: "tolerate (cr_status r2) f = Some (f e)" for f
    using no unfolding assms(5) e_def [symmetric] tolerate_def by simp
  show ?thesis
    by (simp add: stopContainers_def compose_Stop_def in_project_def compose_New_def run_cmd_def
        removeVolumes_def assms(1,4) stop vol)
qed

text \<open>A host without a compose file in the directory of the instance.\<close>

definition no_compose_file :: "string list \<Rightarrow> unit sys \<Rightarrow> cmdres \<times> unit sys" where
  "no_compose_file argv s = (fail_res ''no configuration file provided: not found'' (''exit status '' @ itoa 1), s)"

lemma volumes_step_not_idempotent_witness:
  "fst (run_state (removeVolumes (command_host no_compose_file) ''a'' ''/opt'') (start_sys [] ())) \<noteq> None"
proof -
  have c: "contains ''no configuration file provided: not found'' ''no configuration file''" by code_simp
  show ?thesis
    using volumes_step_not_idempotent [of "command_host no_compose_file" "''/opt''" "''a''" "start_sys [] ()" _ _ 1] c
    by (fastforce simp: no_compose_file_def fail_res_def)
qed

text \<open>A firewall under sudo for the example: one rule, which is there or not.\<close>

definition pg_row :: ufw_row where
  "pg_row = Allow \<lparr>ru_RuleNumber = 0, ru_Port = 543, ru_Protocol = ''tcp'', ru_Source = ''10.0.0.0/8'', ru_IPv6 = False\<rparr>"

definition pg_rows :: "bool \<Rightarrow> ufw_row list" where
  "pg_rows present = (if present then [pg_row] else [])"

definition demo_sudo_ufw :: "string list \<Rightarrow> bool sys \<Rightarrow> cmdres \<times> bool sys" where
  "demo_sudo_ufw argv s =
     (if argv = [''sudo'', ''ufw'', ''--force'', ''delete'', itoa 1] then (ok_res ''Rule deleted'', s\<lparr>ext := False\<rparr>)
      else if argv = [''sudo'', ''ufw'', ''status'', ''numbered''] then
        (ok_res (if ext s then ''[ 1] 543/tcp  ALLOW IN  10.0.0.0/8'' else ''Status: active''), s)
      else (fail_res [] ''exit status 1'', s))"

lemma demo_sudo_ufw_host: "sudo_ufw_host (command_host demo_sudo_ufw) pg_rows"
proof -
  have parse: "ParseAllUFWAllowRules ''[ 1] 543/tcp  ALLOW IN  10.0.0.0/8'' = observed (pg_rows True)"
    "ParseAllUFWAllowRules ''Status: active'' = observed (pg_rows False)"
    by code_simp+
  have "pg_rows False = ufw_delete (pg_rows b) 1" for b
    by (simp add: pg_rows_def ufw_delete_def)
  then have del: "pg_rows (ext s') = ufw_delete (pg_rows (ext s)) n"
    if "demo_sudo_ufw [''sudo'', ''ufw'', ''--force'', ''delete'', itoa n] s = (r, s')" "cr_status r = None" for n s r s'
    using that itoa_inj [of n 1] by (auto simp: demo_sudo_ufw_def split: if_splits)
  have "cr_status r = None \<and> pg_rows (ext s') = pg_rows (ext s) \<and> ParseAllUFWAllowRules (cr_all r) = observed (pg_rows (ext s))"
    if "demo_sudo_ufw [''sudo'', ''ufw'', ''status'', ''numbered''] s = (r, s')" for s r s'
    using that parse by (cases "ext s") (auto simp: demo_sudo_ufw_def)
  with del show ?thesis unfolding sudo_ufw_host_def command_host_sel by blast
qed

lemma close_firewall_port_exact_witness:
  "pg_rows (ext (snd (run_state (closeFirewallPort (command_host demo_sudo_ufw) 543) (start_sys [] True)))) = []"
proof -
  let ?run = "run_state (closeFirewallPort (command_host demo_sudo_ufw) 543) (start_sys [] True)"
  have "fst ?run = None" by code_simp
  then have "?run = (None, snd ?run)" by (metis prod.collapse)
  from close_firewall_port_exact [OF demo_sudo_ufw_host _ this] show ?thesis
    by (simp add: start_sys_def pg_rows_def pg_row_def port_rule_def)
qed

end
