(* ===== verification/ResetVM.thy ===== *)
theory ResetVM
  imports Destroy
begin

text \<open>
  \<^verbatim>\<open>internal/resetvm/resetvm.go\<close>: bringing a shared VM back to its hardened baseline. Every step
  runs, whatever the ones before it did, and the first failure is the one reported.
\<close>

section \<open>Operations\<close>

definition reset_ConfigDir :: string where "reset_ConfigDir = ''/tmp''"
definition BackupEnvDir :: string where "BackupEnvDir = ''/etc/supabyoi''"
definition DefaultAllowedPorts :: "int list" where "DefaultAllowedPorts = [22, 80, 443]"

definition listInstanceSubdirs :: "'x host \<Rightarrow> string \<Rightarrow> ('x, error + string list) io" where
  "listInstanceSubdirs h baseDir = do {
     r \<leftarrow> os_read_dir h baseDir;
     ret (case r of
         Inl e \<Rightarrow> (if is_not_exist e then Inr [] else Inl (''read base dir '' @ baseDir @ '': '' @ err_text e))
       | Inr entries \<Rightarrow>
           Inr (sort (map fst (filter (\<lambda>(name, isDir). isDir \<and> name \<noteq> [] \<and> \<not> has_prefix name ''.'') entries))))
   }"

fun destroy_all :: "'x host \<Rightarrow> string \<Rightarrow> string list \<Rightarrow> ('x, string list) io" where
  "destroy_all h baseDir [] = ret []"
| "destroy_all h baseDir (sub # subs) = do {
     dr \<leftarrow> Destroy h \<lparr>de_InstanceID = sub, de_Subdomain = sub, de_BaseDir = baseDir, de_PostgresPort = 0\<rparr>;
     failed \<leftarrow> destroy_all h baseDir subs;
     ret (if \<not> ds_Success dr then (sub @ '': '' @ ds_ErrorMessage dr) # failed else failed)
   }"

definition purge_instances :: "'x host \<Rightarrow> string \<Rightarrow> error + string list \<Rightarrow> ('x, error option) io" where
  "purge_instances h baseDir listing = (case listing of
       Inl e \<Rightarrow> ret (Some e)
     | Inr subs \<Rightarrow> do {
         failed \<leftarrow> destroy_all h baseDir subs;
         ret (if failed \<noteq> [] then Some (''destroy failed for: '' @ join ''; '' failed) else None)
       })"

fun prune_targets :: "'x host \<Rightarrow> string list \<Rightarrow> ('x, error option) io" where
  "prune_targets h [] = ret None"
| "prune_targets h (target # targets) = do {
     r \<leftarrow> exec_cmd h [''sudo'', ''docker'', target, ''prune'', ''-f''];
     case cr_status r of
       Some e \<Rightarrow>
         if str_contains (cr_all r) ''command not found'' \<or> str_contains e ''executable file not found''
         then prune_targets h targets
         else ret (Some (''docker '' @ target @ '' prune: '' @ e @ '' ('' @ trim_space (cr_all r) @ '')''))
     | None \<Rightarrow> prune_targets h targets
   }"

definition pruneDocker :: "'x host \<Rightarrow> ('x, error option) io" where
  "pruneDocker h = prune_targets h [''network'', ''volume'']"

definition PlanUFWReset :: "ExistingRule list \<Rightarrow> int list \<Rightarrow> int list" where
  "PlanUFWReset rules allowedPorts =
     rev (sort (map ru_RuleNumber (filter (\<lambda>r. ru_Port r \<notin> set allowedPorts) rules)))"

fun reset_delete_loop :: "'x host \<Rightarrow> int list \<Rightarrow> ('x, error option) io" where
  "reset_delete_loop h [] = ret None"
| "reset_delete_loop h (n # ns) = do {
     r \<leftarrow> exec_cmd h [''sudo'', ''ufw'', ''--force'', ''delete'', itoa n];
     case cr_status r of
       Some e \<Rightarrow> ret (Some (''ufw delete '' @ itoa n @ '': '' @ e @ '' ('' @ trim_space (cr_all r) @ '')''))
     | None \<Rightarrow> reset_delete_loop h ns
   }"

definition resetUFW :: "'x host \<Rightarrow> int list \<Rightarrow> ('x, error + int list) io" where
  "resetUFW h allowedPorts = do {
     r \<leftarrow> exec_cmd h [''sudo'', ''ufw'', ''status'', ''numbered''];
     case cr_status r of
       Some e \<Rightarrow>
         ret (if str_contains e ''executable file not found'' then Inr []
              else Inl (''ufw status: '' @ e @ '' ('' @ trim_space (cr_all r) @ '')''))
     | None \<Rightarrow> do {
         let toDelete = PlanUFWReset (ParseAllUFWAllowRules (cr_all r)) allowedPorts;
         err \<leftarrow> reset_delete_loop h toDelete;
         ret (case err of Some e \<Rightarrow> Inl e | None \<Rightarrow> Inr toDelete)
       }
   }"

definition stale_patterns :: "(string \<times> string \<times> string) list" where
  "stale_patterns =
     map (\<lambda>p. (reset_ConfigDir, p, ''.json''))
       [''supabyoi-'', ''deploy-'', ''destroy-'', ''backup-'', ''restore-'', ''harden-'', ''cleanup-'', ''verify-'',
        ''upgrade-'', ''rotate-'', ''open-port-'', ''update-allowlist-'', ''reset-vm-'']
     @ [(BackupEnvDir, ''backup-'', ''.env'')]"

fun remove_matches :: "'x host \<Rightarrow> string list \<Rightarrow> ('x, error + string list) io" where
  "remove_matches h [] = ret (Inr [])"
| "remove_matches h (path # paths) = do {
     r \<leftarrow> exec_cmd h [''sudo'', ''rm'', ''-f'', path];
     case cr_status r of
       Some e \<Rightarrow> ret (Inl (''rm '' @ path @ '': '' @ e @ '' ('' @ trim_space (cr_all r) @ '')''))
     | None \<Rightarrow> do {
         q \<leftarrow> remove_matches h paths;
         ret (case q of Inl e \<Rightarrow> Inl e | Inr removed \<Rightarrow> Inr (path # removed))
       }
   }"

fun remove_patterns :: "'x host \<Rightarrow> (string \<times> string \<times> string) list \<Rightarrow> ('x, error + string list) io" where
  "remove_patterns h [] = ret (Inr [])"
| "remove_patterns h ((dir, pre, suf) # ps) = do {
     matches \<leftarrow> glob_star h dir pre suf;
     r \<leftarrow> remove_matches h matches;
     case r of
       Inl e \<Rightarrow> ret (Inl e)
     | Inr removed \<Rightarrow> do {
         q \<leftarrow> remove_patterns h ps;
         ret (case q of Inl e \<Rightarrow> Inl e | Inr rest \<Rightarrow> Inr (removed @ rest))
       }
   }"

definition cleanupStaleConfigs :: "'x host \<Rightarrow> ('x, error + string list) io" where
  "cleanupStaleConfigs h = do {
     r \<leftarrow> remove_patterns h stale_patterns;
     ret (case r of Inl e \<Rightarrow> Inl e | Inr removed \<Rightarrow> Inr (sort removed))
   }"

definition recordFailure :: "ResetVMResult \<Rightarrow> StepResult \<Rightarrow> ResetVMResult" where
  "recordFailure r step =
     (if st_Status step \<noteq> ''failed'' then r
      else let r = r\<lparr>rx_Success := False\<rparr> in
        if rx_FailedStep r = [] then r\<lparr>rx_FailedStep := st_Name step, rx_ErrorMessage := st_Message step\<rparr> else r)"

text \<open>A step whose function also gives a value: \<^verbatim>\<open>runStep\<close> with the closure that assigns it.\<close>

definition value_step :: "string \<Rightarrow> ('x, error + 'a list) io \<Rightarrow> ('x, StepResult \<times> 'a list) io" where
  "value_step name fn = do {
     startTime \<leftarrow> time_now;
     r \<leftarrow> fn;
     endTime \<leftarrow> time_now;
     let sr = (new_step name [] (rfc3339 startTime))
       \<lparr>st_EndTime := rfc3339 endTime, st_Duration := dur_string (endTime - startTime)\<rparr>;
     ret (case r of
         Inl e \<Rightarrow> (sr\<lparr>st_Status := ''failed'', st_Message := ''Failed: '' @ e\<rparr>, [])
       | Inr v \<Rightarrow> (sr\<lparr>st_Status := ''completed'', st_Message := ''Successfully completed''\<rparr>, v))
   }"

definition completed_message :: "StepResult \<Rightarrow> string \<Rightarrow> StepResult" where
  "completed_message step msg = (if st_Status step = ''completed'' then step\<lparr>st_Message := msg\<rparr> else step)"

definition purge_message :: "StepResult \<Rightarrow> string list \<Rightarrow> StepResult" where
  "purge_message step subs =
     (if subs = [] then step\<lparr>st_Message := ''no instance dirs found''\<rparr>
      else completed_message step (''purged '' @ itoa (int (length subs)) @ '' instance(s)''))"

definition Reset :: "'x host \<Rightarrow> ResetVMConfig \<Rightarrow> ('x, ResetVMResult) io" where
  "Reset h cfg = do {
     let baseDir = (if rv_BaseDir cfg = [] then DefaultBaseDir else rv_BaseDir cfg);
     let allowed = (if rv_AllowedPorts cfg = [] then DefaultAllowedPorts else rv_AllowedPorts cfg);
     listing \<leftarrow> listInstanceSubdirs h baseDir;
     let subs = (case listing of Inl e \<Rightarrow> [] | Inr subs \<Rightarrow> subs);
     step \<leftarrow> timed_step ''purge_instances'' (purge_instances h baseDir listing);
     let step1 = purge_message step subs;
     step2 \<leftarrow> timed_step ''prune_docker'' (pruneDocker h);
     (step, removedRules) \<leftarrow> value_step ''reset_ufw'' (resetUFW h allowed);
     let step3 = completed_message step (''deleted '' @ itoa (int (length removedRules)) @ '' rule(s)'');
     (step, removedFiles) \<leftarrow> value_step ''cleanup_configs'' (cleanupStaleConfigs h);
     let step4 = completed_message step (''removed '' @ itoa (int (length removedFiles)) @ '' file(s)'');
     let result = \<lparr>rx_Success = True, rx_Steps = [step1, step2, step3, step4], rx_PurgedInstances = subs,
       rx_RemovedUFWRules = removedRules, rx_RemovedConfigFiles = removedFiles,
       rx_ErrorMessage = [], rx_FailedStep = []\<rparr>;
     ret (foldl recordFailure result [step1, step2, step3, step4])
   }"

section \<open>Lemmas\<close>

interpretation reset: full_deletion_plan "\<lambda>rs. PlanUFWReset rs allowed" "\<lambda>r. ru_Port r \<notin> set allowed" for allowed
proof
  fix rs :: "ExistingRule list"
  assume "distinct (map ru_RuleNumber rs)"
  then show "descending (PlanUFWReset rs allowed)"
    unfolding PlanUFWReset_def by (intro descending_rev_sort distinct_map_filter)
qed (auto simp: PlanUFWReset_def)

lemma reset_delete_loop_rows:
  assumes "sudo_ufw_host h rows"
  shows "run_state (reset_delete_loop h ns) s = (None, s') \<Longrightarrow> rows (ext s') = ufw_deletes (rows (ext s)) ns"
proof (induction ns arbitrary: s)
  case Nil
  then show ?case by (simp add: ufw_deletes_def)
next
  case (Cons n ns)
  let ?argv = "[''sudo'', ''ufw'', ''--force'', ''delete'', itoa n]"
  obtain r s1 where x: "hexec h [] ?argv [] s = (r, s1)" by (cases "hexec h [] ?argv [] s")
  have ok: "cr_status r = None" using Cons.prems x by (auto simp: run_exec_cmd split: option.splits)
  with assms x have "rows (ext s1) = ufw_delete (rows (ext s)) n" unfolding sudo_ufw_host_def by blast
  with Cons ok x show ?case by (simp add: run_exec_cmd ufw_deletes_def)
qed

lemma value_step_shape:
  "run_state (value_step name fn) s = ((r, v), s') \<Longrightarrow>
     st_Name r = name \<and> (st_Status r = ''completed'' \<or> st_Status r = ''failed'') \<and> (st_Status r = ''failed'' \<longrightarrow> v = [])"
  by (auto simp: value_step_def new_step_def Let_def split: prod.splits sum.splits)

lemma message_sel [simp]:
  "st_Name (completed_message step m) = st_Name step" "st_Status (completed_message step m) = st_Status step"
  "st_Name (purge_message step subs) = st_Name step" "st_Status (purge_message step subs) = st_Status step"
  by (simp_all add: completed_message_def purge_message_def)

text \<open>Recording the failures of a list of steps keeps the first one.\<close>

lemma foldl_recordFailure:
  "rx_FailedStep r = [] \<Longrightarrow> \<forall>st \<in> set sts. st_Name st \<noteq> [] \<Longrightarrow>
     (let q = foldl recordFailure r sts; bad = filter (\<lambda>st. st_Status st = ''failed'') sts in
      rx_Success q = (rx_Success r \<and> bad = [])
    \<and> rx_FailedStep q = (if bad = [] then [] else st_Name (hd bad))
    \<and> rx_ErrorMessage q = (if bad = [] then rx_ErrorMessage r else st_Message (hd bad))
    \<and> rx_Steps q = rx_Steps r \<and> rx_PurgedInstances q = rx_PurgedInstances r
    \<and> rx_RemovedUFWRules q = rx_RemovedUFWRules r)"
proof -
  have keep: "rx_FailedStep r \<noteq> [] \<Longrightarrow>
     rx_Success (foldl recordFailure r sts) = (rx_Success r \<and> filter (\<lambda>st. st_Status st = ''failed'') sts = [])
   \<and> rx_FailedStep (foldl recordFailure r sts) = rx_FailedStep r
   \<and> rx_ErrorMessage (foldl recordFailure r sts) = rx_ErrorMessage r
   \<and> rx_Steps (foldl recordFailure r sts) = rx_Steps r \<and> rx_PurgedInstances (foldl recordFailure r sts) = rx_PurgedInstances r
   \<and> rx_RemovedUFWRules (foldl recordFailure r sts) = rx_RemovedUFWRules r" for r sts
    by (induction sts arbitrary: r) (auto simp: recordFailure_def Let_def)
  show "rx_FailedStep r = [] \<Longrightarrow> \<forall>st \<in> set sts. st_Name st \<noteq> [] \<Longrightarrow> ?thesis"
  proof (induction sts arbitrary: r)
    case Nil
    then show ?case by simp
  next
    case (Cons st sts)
    show ?case
    proof (cases "st_Status st = ''failed''")
      case True
      then have q: "recordFailure r st = r\<lparr>rx_Success := False, rx_FailedStep := st_Name st, rx_ErrorMessage := st_Message st\<rparr>"
        using Cons.prems by (simp add: recordFailure_def)
      then have "rx_FailedStep (recordFailure r st) \<noteq> []" using Cons.prems by simp
      from keep [OF this, of sts] True show ?thesis by (simp add: q Let_def)
    next
      case False
      then have "recordFailure r st = r" by (simp add: recordFailure_def)
      with Cons False show ?thesis by (simp add: Let_def)
    qed
  qed
qed

text \<open>The parts of a run, for the theorems about it.\<close>

lemma run_Reset:
  assumes "run_state (Reset h cfg) s = (res, s')"
  obtains listing step s0 s1 step2 s2 step3 rules s3 step4 files where
    "run_state (listInstanceSubdirs h (if rv_BaseDir cfg = [] then DefaultBaseDir else rv_BaseDir cfg)) s = (listing, s0)"
    "run_state (timed_step ''purge_instances''
       (purge_instances h (if rv_BaseDir cfg = [] then DefaultBaseDir else rv_BaseDir cfg) listing)) s0 = (step, s1)"
    "run_state (timed_step ''prune_docker'' (pruneDocker h)) s1 = (step2, s2)"
    "run_state (value_step ''reset_ufw'' (resetUFW h (if rv_AllowedPorts cfg = [] then DefaultAllowedPorts else rv_AllowedPorts cfg))) s2
       = ((step3, rules), s3)"
    "run_state (value_step ''cleanup_configs'' (cleanupStaleConfigs h)) s3 = ((step4, files), s')"
    "res = (let subs = (case listing of Inl e \<Rightarrow> [] | Inr subs \<Rightarrow> subs);
       sts = [purge_message step subs, step2,
         completed_message step3 (''deleted '' @ itoa (int (length rules)) @ '' rule(s)''),
         completed_message step4 (''removed '' @ itoa (int (length files)) @ '' file(s)'')] in
       foldl recordFailure \<lparr>rx_Success = True, rx_Steps = sts, rx_PurgedInstances = subs,
         rx_RemovedUFWRules = rules, rx_RemovedConfigFiles = files, rx_ErrorMessage = [], rx_FailedStep = []\<rparr> sts)"
proof -
  let ?base = "if rv_BaseDir cfg = [] then DefaultBaseDir else rv_BaseDir cfg"
  let ?allowed = "if rv_AllowedPorts cfg = [] then DefaultAllowedPorts else rv_AllowedPorts cfg"
  obtain listing s0 where 0: "run_state (listInstanceSubdirs h ?base) s = (listing, s0)"
    by (cases "run_state (listInstanceSubdirs h ?base) s")
  obtain step s1 where 1: "run_state (timed_step ''purge_instances'' (purge_instances h ?base listing)) s0 = (step, s1)"
    by (cases "run_state (timed_step ''purge_instances'' (purge_instances h ?base listing)) s0")
  obtain step2 s2 where 2: "run_state (timed_step ''prune_docker'' (pruneDocker h)) s1 = (step2, s2)"
    by (cases "run_state (timed_step ''prune_docker'' (pruneDocker h)) s1")
  obtain step3 rules s3 where 3: "run_state (value_step ''reset_ufw'' (resetUFW h ?allowed)) s2 = ((step3, rules), s3)"
    by (cases "run_state (value_step ''reset_ufw'' (resetUFW h ?allowed)) s2") auto
  obtain step4 files s4 where 4: "run_state (value_step ''cleanup_configs'' (cleanupStaleConfigs h)) s3 = ((step4, files), s4)"
    by (cases "run_state (value_step ''cleanup_configs'' (cleanupStaleConfigs h)) s3") auto
  have "s4 = s'" using assms by (simp add: Reset_def Let_def 0 1 2 3 4)
  with 4 have f4: "run_state (value_step ''cleanup_configs'' (cleanupStaleConfigs h)) s3 = ((step4, files), s')" by simp
  show thesis
    by (rule that [OF 0 1 2 3 f4]) (use assms in \<open>simp add: Reset_def Let_def 0 1 2 3 4\<close>)
qed

definition step_names :: "string list" where
  "step_names = [''purge_instances'', ''prune_docker'', ''reset_ufw'', ''cleanup_configs'']"

lemma Reset_shape:
  assumes "run_state (Reset h cfg) s = (res, s')"
  obtains listing sts where
    "listing = fst (run_state (listInstanceSubdirs h (if rv_BaseDir cfg = [] then DefaultBaseDir else rv_BaseDir cfg)) s)"
    "map st_Name sts = step_names" "\<forall>st \<in> set sts. st_Status st = ''completed'' \<or> st_Status st = ''failed''"
    "rx_Steps res = sts" "rx_Success res = (filter (\<lambda>st. st_Status st = ''failed'') sts = [])"
    "rx_FailedStep res = (if filter (\<lambda>st. st_Status st = ''failed'') sts = [] then []
       else st_Name (hd (filter (\<lambda>st. st_Status st = ''failed'') sts)))"
    "rx_ErrorMessage res = (if filter (\<lambda>st. st_Status st = ''failed'') sts = [] then []
       else st_Message (hd (filter (\<lambda>st. st_Status st = ''failed'') sts)))"
    "rx_PurgedInstances res = (case listing of Inl e \<Rightarrow> [] | Inr subs \<Rightarrow> subs)"
proof -
  obtain listing step s0 s1 step2 s2 step3 rules s3 step4 files where
    0: "run_state (listInstanceSubdirs h (if rv_BaseDir cfg = [] then DefaultBaseDir else rv_BaseDir cfg)) s = (listing, s0)"
    and 1: "run_state (timed_step ''purge_instances''
       (purge_instances h (if rv_BaseDir cfg = [] then DefaultBaseDir else rv_BaseDir cfg) listing)) s0 = (step, s1)"
    and 2: "run_state (timed_step ''prune_docker'' (pruneDocker h)) s1 = (step2, s2)"
    and 3: "run_state (value_step ''reset_ufw'' (resetUFW h (if rv_AllowedPorts cfg = [] then DefaultAllowedPorts else rv_AllowedPorts cfg))) s2
       = ((step3, rules), s3)"
    and 4: "run_state (value_step ''cleanup_configs'' (cleanupStaleConfigs h)) s3 = ((step4, files), s')"
    and res: "res = (let subs = (case listing of Inl e \<Rightarrow> [] | Inr subs \<Rightarrow> subs);
       sts = [purge_message step subs, step2,
         completed_message step3 (''deleted '' @ itoa (int (length rules)) @ '' rule(s)''),
         completed_message step4 (''removed '' @ itoa (int (length files)) @ '' file(s)'')] in
       foldl recordFailure \<lparr>rx_Success = True, rx_Steps = sts, rx_PurgedInstances = subs,
         rx_RemovedUFWRules = rules, rx_RemovedConfigFiles = files, rx_ErrorMessage = [], rx_FailedStep = []\<rparr> sts)"
    using assms by (rule run_Reset)
  define subs where "subs = (case listing of Inl e \<Rightarrow> [] | Inr subs \<Rightarrow> subs)"
  define sts where "sts = [purge_message step subs, step2,
         completed_message step3 (''deleted '' @ itoa (int (length rules)) @ '' rule(s)''),
         completed_message step4 (''removed '' @ itoa (int (length files)) @ '' file(s)'')]"
  note shapes = timed_step_shape(1,2) [OF 1] timed_step_shape(1,2) [OF 2] value_step_shape [OF 3] value_step_shape [OF 4]
  have names: "map st_Name sts = step_names" and stat: "\<forall>st \<in> set sts. st_Status st = ''completed'' \<or> st_Status st = ''failed''"
    using shapes by (simp_all add: sts_def step_names_def)
  define r0 where "r0 = \<lparr>rx_Success = True, rx_Steps = sts, rx_PurgedInstances = subs,
         rx_RemovedUFWRules = rules, rx_RemovedConfigFiles = files, rx_ErrorMessage = [], rx_FailedStep = []\<rparr>"
  have r0: "rx_FailedStep r0 = []" "rx_ErrorMessage r0 = []" "rx_Success r0" "rx_Steps r0 = sts" "rx_PurgedInstances r0 = subs"
    by (simp_all add: r0_def)
  have q: "res = foldl recordFailure r0 sts" using res by (simp only: Let_def subs_def sts_def r0_def)
  have "\<forall>st \<in> set sts. st_Name st \<noteq> []"
  proof -
    have "\<forall>n \<in> set (map st_Name sts). n \<noteq> []" unfolding names by (simp add: step_names_def)
    then show ?thesis by simp
  qed
  from foldl_recordFailure [OF r0(1) this] have f:
    "rx_Success res = (filter (\<lambda>st. st_Status st = ''failed'') sts = [])"
    "rx_FailedStep res = (if filter (\<lambda>st. st_Status st = ''failed'') sts = [] then []
       else st_Name (hd (filter (\<lambda>st. st_Status st = ''failed'') sts)))"
    "rx_ErrorMessage res = (if filter (\<lambda>st. st_Status st = ''failed'') sts = [] then []
       else st_Message (hd (filter (\<lambda>st. st_Status st = ''failed'') sts)))"
    "rx_Steps res = sts" "rx_PurgedInstances res = subs"
    unfolding q [symmetric] Let_def r0 using r0(3) by simp_all
  show thesis
    by (rule that [OF _ names stat f(4) f(1,2,3)]) (simp_all only: 0 fst_conv f(5) subs_def)
qed

lemma destroy_all_logs:
  assumes "baseDir \<noteq> []"
  shows "extends_trace (destroy_all h baseDir subs)"
    and "sub \<in> set subs \<Longrightarrow> logs (stop_event baseDir sub) (destroy_all h baseDir subs)"
proof -
  show ext: "extends_trace (destroy_all h baseDir subs)" for subs
    by (induction subs) (auto intro!: emits_intros trace_Destroy)
  show "sub \<in> set subs \<Longrightarrow> logs (stop_event baseDir sub) (destroy_all h baseDir subs)"
  proof (induction subs)
    case (Cons q subs)
    let ?cfg = "\<lparr>de_InstanceID = q, de_Subdomain = q, de_BaseDir = baseDir, de_PostgresPort = 0\<rparr>"
    have stop: "logs (stop_event baseDir q) (Destroy h ?cfg)"
      using Destroy_stops [of ?cfg h] assms by simp
    show ?case
    proof (cases "sub = q")
      case True
      with stop ext show ?thesis unfolding destroy_all.simps by (intro logs_bind_left emits_intros) simp_all
    next
      case False
      with Cons have "logs (stop_event baseDir sub) (destroy_all h baseDir subs)" by simp
      then show ?thesis
        unfolding destroy_all.simps
        by (intro logs_bind_right logs_bind_left trace_Destroy emits_intros)
    qed
  qed simp
qed

lemma trace_prune: "extends_trace (prune_targets h ts)"
  by (induction ts) (auto intro!: emits_intros)

lemma trace_reset_delete: "extends_trace (reset_delete_loop h ns)"
  by (induction ns) (auto intro!: emits_intros)

lemma trace_remove_matches: "extends_trace (remove_matches h ps)"
  by (induction ps) (auto intro!: emits_intros)

lemma trace_remove_patterns: "extends_trace (remove_patterns h ps)"
  by (induction ps rule: remove_patterns.induct) (auto intro!: emits_intros trace_remove_matches)

section \<open>Properties\<close>

text \<open>
  \<^verbatim>\<open>Reset\<close> always runs its four steps in order, it reports success exactly when all of them
  completed, and otherwise names the first one that failed with its message.
\<close>

theorem reset_runs_every_step:
  "case run_state (Reset h cfg) s of (res, s') \<Rightarrow>
     map st_Name (rx_Steps res) = [''purge_instances'', ''prune_docker'', ''reset_ufw'', ''cleanup_configs'']
   \<and> rx_Success res = list_all (\<lambda>st. st_Status st = ''completed'') (rx_Steps res)
   \<and> (case filter (\<lambda>st. st_Status st = ''failed'') (rx_Steps res) of
        [] \<Rightarrow> rx_FailedStep res = [] \<and> rx_ErrorMessage res = []
      | bad # _ \<Rightarrow> rx_FailedStep res = st_Name bad \<and> rx_ErrorMessage res = st_Message bad)"
proof -
  obtain res s' where x: "run_state (Reset h cfg) s = (res, s')" by (cases "run_state (Reset h cfg) s")
  then obtain listing sts where sh: "map st_Name sts = step_names"
    "\<forall>st \<in> set sts. st_Status st = ''completed'' \<or> st_Status st = ''failed''"
    "rx_Steps res = sts" "rx_Success res = (filter (\<lambda>st. st_Status st = ''failed'') sts = [])"
    "rx_FailedStep res = (if filter (\<lambda>st. st_Status st = ''failed'') sts = [] then []
       else st_Name (hd (filter (\<lambda>st. st_Status st = ''failed'') sts)))"
    "rx_ErrorMessage res = (if filter (\<lambda>st. st_Status st = ''failed'') sts = [] then []
       else st_Message (hd (filter (\<lambda>st. st_Status st = ''failed'') sts)))"
    by (rule Reset_shape)
  have "rx_Success res = list_all (\<lambda>st. st_Status st = ''completed'') sts"
    using sh(2,4) by (auto simp: filter_empty_conv list_all_iff)
  with x sh(1,3,5,6) show ?thesis
    by (cases "filter (\<lambda>st. st_Status st = ''failed'') sts") (simp_all add: step_names_def)
qed

text \<open>
  C5: a successful \<^verbatim>\<open>resetUFW\<close> on a firewall that keeps the contract of UFW leaves every row for
  an allowed port, and every row that is not a plain allow rule, and removes all others.
\<close>

theorem reset_ufw_exact:
  assumes ufw: "sudo_ufw_host h rows" and run: "run_state (resetUFW h allowed) s = (Inr removed, s')"
  shows "rows (ext s') = filter (\<lambda>row. \<not> row_sat (\<lambda>r. ru_Port r \<notin> set allowed) row) (rows (ext s))
       \<and> descending removed"
proof -
  let ?argv = "[''sudo'', ''ufw'', ''status'', ''numbered'']"
  obtain r s1 where x: "hexec h [] ?argv [] s = (r, s1)" by (cases "hexec h [] ?argv [] s")
  have st: "cr_status r = None" "rows (ext s1) = rows (ext s)" "ParseAllUFWAllowRules (cr_all r) = observed (rows (ext s))"
    using ufw x unfolding sudo_ufw_host_def by blast+
  let ?plan = "PlanUFWReset (observed (rows (ext s))) allowed"
  have "run_state (reset_delete_loop h ?plan) (s1\<lparr>trace := trace s @ [EvExec [] ?argv], now := max (now s) (now s1)\<rparr>) = (None, s')"
    and "removed = ?plan"
    using run x st by (auto simp: resetUFW_def run_exec_cmd Let_def split: prod.splits option.splits)
  with reset_delete_loop_rows [OF ufw] reset.removes [of "rows (ext s)" allowed] st(2)
    reset.plan_order [OF observed_distinct]
  show ?thesis by simp
qed

text \<open>
  when the directory of the instances exists but cannot be read, \<^verbatim>\<open>Reset\<close> fails, and the
  message it reports is that there were no instance directories: the error of the listing is
  overwritten.
\<close>

theorem reset_masks_listing_error:
  assumes "run_state (listInstanceSubdirs h (if rv_BaseDir cfg = [] then DefaultBaseDir else rv_BaseDir cfg)) s = (Inl e, s0)"
  shows "case run_state (Reset h cfg) s of (res, s') \<Rightarrow>
     \<not> rx_Success res \<and> rx_FailedStep res = ''purge_instances'' \<and> rx_ErrorMessage res = ''no instance dirs found''"
proof -
  obtain res s' where x: "run_state (Reset h cfg) s = (res, s')" by (cases "run_state (Reset h cfg) s")
  then show ?thesis
  proof (rule run_Reset, goal_cases)
    case (1 listing step s0 s1 step2 s2 step3 rules s3 step4 files)
    have l: "listing = Inl e" using 1(1) assms by simp
    let ?st1 = "purge_message step []"
    have "st_Status step = ''failed''" "st_Name step = ''purge_instances''"
      using timed_step_shape [OF 1(2)] l by (auto simp: purge_instances_def)
    then have "st_Status ?st1 = ''failed''" "st_Name ?st1 = ''purge_instances''" "st_Message ?st1 = ''no instance dirs found''"
      by (simp_all add: purge_message_def)
    moreover have "\<forall>st \<in> set [?st1, step2,
         completed_message step3 (''deleted '' @ itoa (int (length rules)) @ '' rule(s)''),
         completed_message step4 (''removed '' @ itoa (int (length files)) @ '' file(s)'')]. st_Name st \<noteq> []"
      using calculation timed_step_shape(1) [OF 1(3)] value_step_shape [OF 1(4)] value_step_shape [OF 1(5)] by simp
    ultimately show ?case
      using 1(6) l foldl_recordFailure [of "\<lparr>rx_Success = True, rx_Steps = [?st1, step2,
         completed_message step3 (''deleted '' @ itoa (int (length rules)) @ '' rule(s)''),
         completed_message step4 (''removed '' @ itoa (int (length files)) @ '' file(s)'')], rx_PurgedInstances = [],
         rx_RemovedUFWRules = rules, rx_RemovedConfigFiles = files, rx_ErrorMessage = [], rx_FailedStep = []\<rparr>"
         "[?st1, step2, completed_message step3 (''deleted '' @ itoa (int (length rules)) @ '' rule(s)''),
         completed_message step4 (''removed '' @ itoa (int (length files)) @ '' file(s)'')]"] x
      by (simp only: Let_def sum.case prod.case) (simp add: x)
  qed
qed

text \<open>
  C8: \<^verbatim>\<open>Reset\<close> tears down every instance it finds, however many of the earlier ones could not be
  destroyed: the containers of each listed directory are told to stop.
\<close>

theorem reset_attempts_every_instance:
  "case run_state (Reset h cfg) s of (res, s') \<Rightarrow>
     \<exists>es. trace s' = trace s @ es \<and>
       stop_event (if rv_BaseDir cfg = [] then DefaultBaseDir else rv_BaseDir cfg) ` set (rx_PurgedInstances res) \<subseteq> set es"
proof -
  let ?base = "if rv_BaseDir cfg = [] then DefaultBaseDir else rv_BaseDir cfg"
  have base: "?base \<noteq> []" by (simp add: DefaultBaseDir_def)
  obtain res s' where x: "run_state (Reset h cfg) s = (res, s')" by (cases "run_state (Reset h cfg) s")
  then obtain listing where l: "listing = fst (run_state (listInstanceSubdirs h ?base) s)"
    and purged: "rx_PurgedInstances res = (case listing of Inl e \<Rightarrow> [] | Inr subs \<Rightarrow> subs)"
    by (rule Reset_shape)
  from x show ?thesis
  proof (rule run_Reset, goal_cases)
    case (1 listing' step s0 s1 step2 s2 step3 rules s3 step4 files)
    have eq: "listing' = listing" using 1(1) l by simp
    have s0: "trace s0 = trace s"
      using 1(1) by (auto simp: listInstanceSubdirs_def os_read_dir_def)
    have ex2: "extends_trace (timed_step ''prune_docker'' (pruneDocker h))"
      unfolding pruneDocker_def by (intro emits_intros trace_prune)
    have ex3: "extends_trace (value_step n (resetUFW h al))" for n al
      unfolding value_step_def resetUFW_def Let_def by (intro emits_intros trace_reset_delete) simp_all
    have ex4: "extends_trace (value_step n (cleanupStaleConfigs h))" for n
      unfolding value_step_def cleanupStaleConfigs_def Let_def by (intro emits_intros trace_remove_patterns)
    obtain es where es: "trace s' = trace s1 @ es"
      using emitsD [OF ex2 1(3)] emitsD [OF ex3 1(4)] emitsD [OF ex4 1(5)] by auto
    have step: "extends_trace (timed_step ''purge_instances'' (purge_instances h ?base listing'))"
      unfolding purge_instances_def by (intro emits_intros destroy_all_logs(1) base)
    obtain es1 where es1: "trace s1 = trace s0 @ es1" using emitsD [OF step 1(2)] by blast
    have "stop_event ?base sub \<in> set es1" if "sub \<in> set (rx_PurgedInstances res)" for sub
    proof -
      from that purged obtain subs where subs: "listing = Inr subs" "sub \<in> set subs" by (auto split: sum.splits)
      have "logs (stop_event ?base sub) (purge_instances h ?base listing')"
        unfolding eq subs(1) purge_instances_def sum.case
        by (intro logs_bind_left destroy_all_logs(2) base subs(2) emits_intros)
      then have "logs (stop_event ?base sub) (timed_step ''purge_instances'' (purge_instances h ?base listing'))"
        unfolding timed_step_def Let_def by (intro logs_bind_right logs_bind_left emits_intros)
      from logsD [OF this 1(2)] es1 show ?thesis by auto
    qed
    then show ?case using x es es1 s0 by auto
  qed
qed

text \<open>A host whose base directory exists but cannot be read.\<close>

definition unreadable_host :: "unit host" where
  "unreadable_host = (command_host (\<lambda>argv s. (ok_res [], s)))\<lparr>hfault := \<lambda>op s. Some ''permission denied''\<rparr>"

lemma reset_masks_listing_error_witness:
  "rx_ErrorMessage (fst (run_state (Reset unreadable_host \<lparr>rv_BaseDir = [], rv_AllowedPorts = []\<rparr>) (start_sys [] ())))
     = ''no instance dirs found''"
proof -
  let ?cfg = "\<lparr>rv_BaseDir = [], rv_AllowedPorts = []\<rparr>"
  have "\<exists>e s0. run_state (listInstanceSubdirs unreadable_host (if rv_BaseDir ?cfg = [] then DefaultBaseDir else rv_BaseDir ?cfg))
      (start_sys [] ()) = (Inl e, s0)"
    by (simp add: listInstanceSubdirs_def os_read_dir_def unreadable_host_def)
  then obtain e s0 where "run_state (listInstanceSubdirs unreadable_host (if rv_BaseDir ?cfg = [] then DefaultBaseDir else rv_BaseDir ?cfg))
      (start_sys [] ()) = (Inl e, s0)" by blast
  from reset_masks_listing_error [OF this] show ?thesis by (simp split: prod.splits)
qed

lemma reset_ufw_exact_witness:
  "pg_rows (ext (snd (run_state (resetUFW (command_host demo_sudo_ufw) [22]) (start_sys [] True)))) = []"
proof -
  let ?run = "run_state (resetUFW (command_host demo_sudo_ufw) [22]) (start_sys [] True)"
  have "fst ?run = Inr [1]" by code_simp
  then have "?run = (Inr [1], snd ?run)" by (metis prod.collapse)
  from reset_ufw_exact [OF demo_sudo_ufw_host this] show ?thesis
    by (simp add: start_sys_def pg_rows_def pg_row_def)
qed

end
