(* ===== verification/RotateCreds.thy ===== *)
theory RotateCreds
  imports Steps Paths "HOL-Library.Multiset"
begin

text \<open>
  \<^verbatim>\<open>internal/rotatecreds/rotatecreds.go\<close>: new credentials into the \<^verbatim>\<open>.env\<close> file of an instance,
  and the restart of the containers that use them. The environment is an association list; the
  order in which Go ranges over the map when it writes the keys without a fixed place is the
  parameter \<open>order\<close>, any permutation.
\<close>

section \<open>The environment file\<close>

definition env_entry :: "string \<Rightarrow> (string \<times> string) option" where
  "env_entry text =
     (let line = trim_space text in
      if line = [] \<or> has_prefix line ''#'' then None else cut_char (CHR ''='') line)"

definition parse_env :: "string \<Rightarrow> (string \<times> string) list" where
  "parse_env content = foldl (\<lambda>m (k, v). AList.update k v m) [] (List.map_filter env_entry (scan_lines content))"

definition nonempty_value :: "string \<Rightarrow> string \<Rightarrow> (string \<times> string) list" where
  "nonempty_value k v = (if v \<noteq> [] then [(k, v)] else [])"

text \<open>The credentials a request sets; \<^const>\<open>None\<close> for an unknown type.\<close>

definition new_credentials :: "RotateCredentialsConfig \<Rightarrow> (string \<times> string) list option" where
  "new_credentials config =
     (let pg = nonempty_value ''POSTGRES_PASSWORD'' (ro_PostgresPassword config);
          jwt = nonempty_value ''JWT_SECRET'' (ro_JWTSecret config);
          keys = nonempty_value ''PUBLISHABLE_KEY'' (ro_PublishableKey config)
               @ nonempty_value ''SECRET_KEY'' (ro_SecretKey config) in
      if ro_CredentialType config = ''postgres'' then Some pg
      else if ro_CredentialType config = ''jwt'' then Some jwt
      else if ro_CredentialType config = ''api_keys'' then Some keys
      else if ro_CredentialType config = ''all'' then Some (pg @ jwt @ keys)
      else None)"

definition orderedKeys :: "string list" where
  "orderedKeys =
     [''INSTANCE_ID'', ''SUBDOMAIN'', ''DOMAIN'',
      ''POSTGRES_PASSWORD'', ''JWT_SECRET'', ''PUBLISHABLE_KEY'', ''SECRET_KEY'', ''PGSODIUM_KEY'',
      ''KONG_PORT'', ''POSTGRES_PORT'', ''STUDIO_PORT'']"

definition set_all :: "(string \<times> string) list \<Rightarrow> (string \<times> string) list \<Rightarrow> (string \<times> string) list" where
  "set_all ups m = foldl (\<lambda>m (k, v). AList.update k v m) m ups"

definition written_entries ::
  "((string \<times> string) list \<Rightarrow> (string \<times> string) list) \<Rightarrow> (string \<times> string) list \<Rightarrow> (string \<times> string) list" where
  "written_entries order m =
     List.map_filter (\<lambda>k. map_option (\<lambda>v. (k, v)) (map_of m k)) orderedKeys
     @ filter (\<lambda>(k, v). k \<notin> set orderedKeys) (order m)"

definition env_line :: "string \<times> string \<Rightarrow> string" where
  "env_line kv = fst kv @ ''='' @ snd kv"

definition render_env ::
  "((string \<times> string) list \<Rightarrow> (string \<times> string) list) \<Rightarrow> (string \<times> string) list \<Rightarrow> string" where
  "render_env order m = unlines (''# Supabase instance environment variables'' # map env_line (written_entries order m))"

definition updateEnvFile ::
  "'x host \<Rightarrow> ((string \<times> string) list \<Rightarrow> (string \<times> string) list) \<Rightarrow> string \<Rightarrow> RotateCredentialsConfig
    \<Rightarrow> ('x, error option) io" where
  "updateEnvFile h order envFilePath config = do {
     r \<leftarrow> os_read h envFilePath;
     case r of
       Inl e \<Rightarrow> ret (Some (''failed to open .env file: '' @ err_text e))
     | Inr content \<Rightarrow>
         (case scan_err content of
            Some e \<Rightarrow> ret (Some (''failed to read .env file: '' @ e))
          | None \<Rightarrow>
              (case new_credentials config of
                 None \<Rightarrow> ret (Some (''unknown credential type: '' @ ro_CredentialType config))
               | Some ups \<Rightarrow> do {
                   err \<leftarrow> os_write h envFilePath (render_env order (set_all ups (parse_env content))) 420;
                   ret (map_option (\<lambda>e. ''failed to write .env file: '' @ err_text e) err)
                 }))
   }"

section \<open>Restart and health of the containers\<close>

definition getContainersToRestart :: "string \<Rightarrow> string list" where
  "getContainersToRestart credentialType =
     (if credentialType = ''postgres'' then [''postgres'']
      else if credentialType = ''jwt'' then [''kong'']
      else if credentialType = ''api_keys'' then [''kong'']
      else if credentialType = ''all'' then [''postgres'', ''kong'', ''studio'']
      else [''postgres'', ''kong'', ''studio''])"

fun restart_each :: "'x host \<Rightarrow> string \<Rightarrow> string list \<Rightarrow> ('x, error option) io" where
  "restart_each h instanceDir [] = ret None"
| "restart_each h instanceDir (container # cs) = do {
     r \<leftarrow> run_cmd h instanceDir [''sudo'', ''docker-compose'', ''restart'', container] [];
     case cr_status r of
       Some e \<Rightarrow> ret (Some (''failed to restart '' @ container @ '': '' @ e @ '' (output: '' @ cr_all r @ '')''))
     | None \<Rightarrow> restart_each h instanceDir cs
   }"

definition restartContainers :: "'x host \<Rightarrow> string \<Rightarrow> string list \<Rightarrow> ('x, error option) io" where
  "restartContainers h instanceDir containers = do {
     err \<leftarrow> restart_each h instanceDir containers;
     case err of Some e \<Rightarrow> ret (Some e)
     | None \<Rightarrow> do { _ \<leftarrow> sleep (seconds 2); ret None }
   }"

definition reads_healthy :: "string \<Rightarrow> bool" where
  "reads_healthy outputStr \<longleftrightarrow> str_contains outputStr ''Up'' \<or> str_contains outputStr ''healthy''"

text \<open>The attempts that are left for one container.\<close>

fun health_attempts :: "'x host \<Rightarrow> string \<Rightarrow> string \<Rightarrow> nat \<Rightarrow> ('x, error + bool) io" where
  "health_attempts h instanceDir container 0 = ret (Inr False)"
| "health_attempts h instanceDir container (Suc n) = do {
     r \<leftarrow> run_cmd h instanceDir [''sudo'', ''docker-compose'', ''ps'', container] [];
     case cr_status r of
       Some e \<Rightarrow> ret (Inl (''failed to check '' @ container @ '' status: '' @ e))
     | None \<Rightarrow>
         if reads_healthy (cr_all r) then ret (Inr True)
         else do {
           _ \<leftarrow> (if 0 < n then sleep (seconds 2) else ret ());
           health_attempts h instanceDir container n
         }
   }"

fun verify_each :: "'x host \<Rightarrow> string \<Rightarrow> string list \<Rightarrow> ('x, error option) io" where
  "verify_each h instanceDir [] = ret None"
| "verify_each h instanceDir (container # cs) = do {
     r \<leftarrow> health_attempts h instanceDir container 30;
     case r of
       Inl e \<Rightarrow> ret (Some e)
     | Inr healthy \<Rightarrow>
         if \<not> healthy then ret (Some (''container '' @ container @ '' did not become healthy after restart''))
         else verify_each h instanceDir cs
   }"

definition verifyContainerHealth :: "'x host \<Rightarrow> string \<Rightarrow> string list \<Rightarrow> ('x, error option) io" where
  "verifyContainerHealth h instanceDir containers = verify_each h instanceDir containers"

section \<open>The operation\<close>

definition startStep :: "string \<Rightarrow> ('x, StepResult) io" where
  "startStep name = do { t \<leftarrow> time_now; ret (new_step name ''in_progress'' (rfc3339 t)) }"

definition completeStep :: "StepResult \<Rightarrow> string \<Rightarrow> ('x, StepResult) io" where
  "completeStep step message = do {
     t \<leftarrow> time_now;
     ret (step\<lparr>st_Status := ''completed'', st_Message := message, st_EndTime := rfc3339 t\<rparr>)
   }"

definition failStep :: "StepResult \<Rightarrow> string \<Rightarrow> ('x, StepResult) io" where
  "failStep step message = do {
     t \<leftarrow> time_now;
     ret (step\<lparr>st_Status := ''failed'', st_Message := message, st_EndTime := rfc3339 t\<rparr>)
   }"

text \<open>
  One step of the operation: it is started, run, and completed or failed; a failure ends the
  operation with the message, a success continues it with the steps so far. \<^verbatim>\<open>os.Stat\<close> errors
  other than a missing file do not fail the first two steps.
\<close>

definition rotate_step ::
  "string \<Rightarrow> ('x, error option) io \<Rightarrow> string \<Rightarrow> RotateCredentialsResult
     \<Rightarrow> (RotateCredentialsResult \<Rightarrow> ('x, RotateCredentialsResult) io) \<Rightarrow> ('x, RotateCredentialsResult) io" where
  "rotate_step name act done result k = do {
     step \<leftarrow> startStep name;
     err \<leftarrow> act;
     case err of
       Some msg \<Rightarrow> do {
         st \<leftarrow> failStep step msg;
         ret (result\<lparr>rs_Steps := rs_Steps result @ [st], rs_ErrorMessage := msg, rs_FailedStep := name\<rparr>)
       }
     | None \<Rightarrow> do {
         st \<leftarrow> completeStep step done;
         k (result\<lparr>rs_Steps := rs_Steps result @ [st]\<rparr>)
       }
   }"

definition missing :: "'x host \<Rightarrow> string \<Rightarrow> string \<Rightarrow> ('x, error option) io" where
  "missing h path msg = do {
     r \<leftarrow> os_stat h path;
     ret (case r of Inl e \<Rightarrow> if is_not_exist e then Some msg else None | Inr n \<Rightarrow> None)
   }"

definition with_prefix :: "string \<Rightarrow> ('x, error option) io \<Rightarrow> ('x, error option) io" where
  "with_prefix what m = do { err \<leftarrow> m; ret (map_option (\<lambda>e. what @ e) err) }"

fun rotate_steps ::
  "(string \<times> ('x, error option) io \<times> string) list \<Rightarrow> RotateCredentialsResult \<Rightarrow> ('x, RotateCredentialsResult) io" where
  "rotate_steps [] result = ret (result\<lparr>rs_Success := True\<rparr>)"
| "rotate_steps ((name, act, done) # rest) result = rotate_step name act done result (rotate_steps rest)"

definition rotation_plan ::
  "'x host \<Rightarrow> ((string \<times> string) list \<Rightarrow> (string \<times> string) list) \<Rightarrow> RotateCredentialsConfig
    \<Rightarrow> (string \<times> ('x, error option) io \<times> string) list" where
  "rotation_plan h order config = (
     let baseDir = (if ro_BaseDir config = [] then ''/opt/supabase'' else ro_BaseDir config);
         instanceDir = path_join [baseDir, ro_InstanceID config];
         envFilePath = path_join [instanceDir, ''.env''];
         containers = getContainersToRestart (ro_CredentialType config) in
     [(''validate_instance'', missing h instanceDir (''Instance directory not found: '' @ instanceDir),
         ''Instance directory validated''),
      (''validate_env_file'', missing h envFilePath (''.env file not found: '' @ envFilePath), ''.env file validated''),
      (''update_credentials'', with_prefix ''Failed to update .env file: '' (updateEnvFile h order envFilePath config),
         ''Credentials updated in .env file''),
      (''restart_containers'', with_prefix ''Failed to restart containers: '' (restartContainers h instanceDir containers),
         ''Restarted containers: '' @ join '', '' containers),
      (''verify_health'', with_prefix ''Health check failed: '' (verifyContainerHealth h instanceDir containers),
         ''All containers healthy'')])"

definition RotateCredentials ::
  "'x host \<Rightarrow> ((string \<times> string) list \<Rightarrow> (string \<times> string) list) \<Rightarrow> RotateCredentialsConfig
    \<Rightarrow> ('x, RotateCredentialsResult) io" where
  "RotateCredentials h order config = rotate_steps (rotation_plan h order config)
     \<lparr>rs_Success = False, rs_InstanceID = ro_InstanceID config, rs_Steps = [],
      rs_ErrorMessage = [], rs_FailedStep = []\<rparr>"

section \<open>Lemmas\<close>

lemma foldl_update_map_of:
  "map_of (foldl (\<lambda>m (k, v). AList.update k v m) m ups) = map_of m ++ map_of (rev ups)"
  by (induction ups arbitrary: m) (auto simp: update_conv' map_add_def fun_eq_iff split: option.splits)

lemma map_of_rev_distinct: "distinct (map fst xs) \<Longrightarrow> map_of (rev xs) = map_of xs"
  by (subst map_of_inject_set) (simp_all flip: rev_map)

lemma set_foldl_update:
  fixes m ups :: "(string \<times> string) list"
  shows "set (foldl (\<lambda>m (k, v). AList.update k v m) m ups) \<subseteq> set m \<union> set ups"
proof (induction ups arbitrary: m)
  case (Cons kv ups)
  have "set (AList.update k v m) \<subseteq> set m \<union> {(k, v)}" for k v :: string and m
    by (induction m) auto
  from this [of "fst kv" "snd kv" m] Cons [of "AList.update (fst kv) (snd kv) m"] show ?case
    by (cases kv) (simp, blast)
qed simp

lemma distinct_foldl_update:
  "distinct (map fst m) \<Longrightarrow> distinct (map fst (foldl (\<lambda>m (k, v). AList.update k v m) m ups))"
  by (induction ups arbitrary: m) (auto simp: distinct_update)

text \<open>A line that the parser reads back as the entry it was written for.\<close>

definition good_entry :: "string \<times> string \<Rightarrow> bool" where
  "good_entry kv \<longleftrightarrow> NL \<notin> set (env_line kv) \<and> CHR 0x0D \<notin> set (env_line kv) \<and> length (env_line kv) < max_token
     \<and> env_entry (env_line kv) = Some kv"

lemma drop_cr_set: "c \<in> set (drop_cr l) \<Longrightarrow> c \<in> set l"
  by (auto simp: drop_cr_def dest: in_set_butlastD split: if_splits)

lemma scan_lines_lines: "l \<in> set (scan_lines s) \<Longrightarrow> NL \<notin> set l \<and> length l < max_token"
proof -
  assume "l \<in> set (scan_lines s)"
  then obtain r where r: "l = drop_cr r" "r \<in> set (takeWhile (\<lambda>l. length l < max_token) (raw_lines s))"
    by (auto simp: scan_lines_def)
  then have "r \<in> set (raw_lines s)" "length r < max_token" by (auto dest: set_takeWhileD)
  moreover have "set (raw_lines s) \<subseteq> set (split_char NL s)"
    by (auto simp: raw_lines_def Let_def dest: in_set_butlastD)
  ultimately have "NL \<notin> set r" using split_char_parts by blast
  moreover have "length (drop_cr r) \<le> length r" by (simp add: drop_cr_def)
  ultimately show ?thesis using r(1) \<open>length r < max_token\<close> drop_cr_set by fastforce
qed

lemma length_trim_space: "length (trim_space s) \<le> length s"
proof -
  have "length (dropWhile P xs) \<le> length xs" for P :: "char \<Rightarrow> bool" and xs by (rule length_dropWhile_le)
  then have "length (trim_right P xs) \<le> length xs" "length (trim_left P xs) \<le> length xs" for P and xs
    unfolding trim_right_def trim_left_def by (metis length_rev)+
  then show ?thesis unfolding trim_space_def using order_trans by blast
qed

lemma env_entry_good:
  assumes "env_entry l = Some kv" and "NL \<notin> set l" and "CHR 0x0D \<notin> set (trim_space l)" and "length l < max_token"
  shows "good_entry kv"
proof -
  obtain k v where kv: "kv = (k, v)" by force
  have line: "trim_space l \<noteq> []" "\<not> has_prefix (trim_space l) ''#''" and eq: "trim_space l = env_line kv"
    using assms(1) cut_char_Some [of "CHR ''=''" "trim_space l" k v] kv
    by (auto simp: env_entry_def env_line_def Let_def split: if_splits)
  have "env_entry (env_line kv) = env_entry l" unfolding eq [symmetric] by (simp add: env_entry_def)
  moreover have "NL \<notin> set (env_line kv)" using assms(2) set_trim_space [of l] eq by auto
  moreover have "length (env_line kv) < max_token" using assms(4) length_trim_space [of l] eq by simp
  ultimately show ?thesis using assms(1,3) eq by (simp add: good_entry_def)
qed

text \<open>The text of a file without carriage returns has none in its lines.\<close>

lemma parse_env_good:
  assumes "CHR 0x0D \<notin> set content" and "kv \<in> set (parse_env content)"
  shows "good_entry kv"
proof -
  have "kv \<in> set (List.map_filter env_entry (scan_lines content))"
    using set_foldl_update [of "[]"] assms(2) by (auto simp: parse_env_def)
  then obtain l where l: "l \<in> set (scan_lines content)" "env_entry l = Some kv"
    by (auto simp: List.map_filter_def)
  have "set (raw_lines content) \<subseteq> set (split_char NL content)"
    by (auto simp: raw_lines_def Let_def dest: in_set_butlastD)
  moreover have "w \<in> set (split_char NL content) \<Longrightarrow> set w \<subseteq> set content" for w
    using set_join [of w "split_char NL content" "[NL]"] by (simp add: join_split_char)
  ultimately have "CHR 0x0D \<notin> set l"
    using l(1) assms(1) drop_cr_set by (fastforce simp: scan_lines_def dest: set_takeWhileD)
  then have "CHR 0x0D \<notin> set (trim_space l)" using set_trim_space by blast
  with env_entry_good [OF l(2)] scan_lines_lines [OF l(1)] show ?thesis by blast
qed

lemma in_map_filter: "x \<in> set (List.map_filter f xs) \<longleftrightarrow> (\<exists>y \<in> set xs. f y = Some x)"
  by (induction xs) (auto simp: List.map_filter_simps split: option.splits)

lemma map_of_written:
  assumes "mset (order m) = mset m" and "distinct (map fst m)"
  shows "map_of (written_entries order m) = map_of m" and "distinct (map fst (written_entries order m))"
    and "set (written_entries order m) \<subseteq> set m"
proof -
  let ?fixed = "List.map_filter (\<lambda>k. map_option (\<lambda>v. (k, v)) (map_of m k)) orderedKeys"
  have set_order: "set (order m) = set m" using assms(1) by (rule mset_eq_setD)
  have d: "distinct (map fst (order m))" using assms by (metis mset_eq_imp_distinct_iff mset_map)
  have fst_fixed: "map fst (List.map_filter (\<lambda>k. map_option (\<lambda>v. (k, v)) (map_of m k)) ks) = filter (\<lambda>k. k \<in> dom (map_of m)) ks" for ks
    by (induction ks) (auto simp: List.map_filter_simps split: option.splits)
  have "distinct orderedKeys" by (simp add: orderedKeys_def)
  then show dw: "distinct (map fst (written_entries order m))"
    using d by (auto simp: written_entries_def fst_fixed distinct_map_filter)
  show sub: "set (written_entries order m) \<subseteq> set m"
  proof
    fix kv assume "kv \<in> set (written_entries order m)"
    then consider k where "map_option (\<lambda>v. (k, v)) (map_of m k) = Some kv" | "kv \<in> set (order m)"
      unfolding written_entries_def set_append set_filter Un_iff in_map_filter mem_Collect_eq by blast
    then show "kv \<in> set m"
    proof cases
      case 1
      then obtain v where "map_of m k = Some v" "kv = (k, v)" by blast
      then show ?thesis by (simp add: map_of_SomeD)
    next
      case 2
      with set_order show ?thesis by simp
    qed
  qed
  have "set m \<subseteq> set (written_entries order m)"
  proof
    fix kv assume kv: "kv \<in> set m"
    obtain k v where p: "kv = (k, v)" by force
    have look: "map_of m k = Some v" using kv p assms(2) by simp
    show "kv \<in> set (written_entries order m)"
    proof (cases "k \<in> set orderedKeys")
      case True
      with look show ?thesis unfolding p written_entries_def set_append by (simp add: in_map_filter)
    next
      case False
      with kv set_order show ?thesis unfolding p written_entries_def by simp
    qed
  qed
  with sub have "set (written_entries order m) = set m" by blast
  then show "map_of (written_entries order m) = map_of m"
    using map_of_inject_set [OF dw assms(2)] by blast
qed

lemma map_filter_good:
  "\<forall>kv \<in> set kvs. good_entry kv \<Longrightarrow> List.map_filter env_entry (map env_line kvs) = kvs"
  by (induction kvs) (auto simp: List.map_filter_simps good_entry_def)

text \<open>Reading back what was written gives the entries that were written.\<close>

lemma parse_render_env:
  assumes "mset (order m) = mset m" and "distinct (map fst m)" and "\<forall>kv \<in> set m. good_entry kv"
  shows "scan_err (render_env order m) = None" and "map_of (parse_env (render_env order m)) = map_of m"
proof -
  let ?head = "''# Supabase instance environment variables''" and ?w = "written_entries order m"
  note w = map_of_written [of order m, OF assms(1,2)]
  have good: "\<forall>kv \<in> set ?w. good_entry kv" using w(3) assms(3) by blast
  have lines: "\<forall>l \<in> set (?head # map env_line ?w). NL \<notin> set l \<and> CHR 0x0D \<notin> set l \<and> length l < max_token"
    using good by (auto simp: good_entry_def max_token_def)
  note scan = scan_unlines [OF lines]
  show "scan_err (render_env order m) = None" using scan(2) by (simp add: render_env_def)
  have "env_entry ?head = None" by (simp add: env_entry_def trim_space_id is_space_def Let_def)
  then have "parse_env (render_env order m) = foldl (\<lambda>m (k, v). AList.update k v m) [] ?w"
    unfolding parse_env_def render_env_def scan(1)
    by (simp add: List.map_filter_simps map_filter_good [OF good])
  then have "map_of (parse_env (render_env order m)) = map_of (rev ?w)"
    by (simp add: foldl_update_map_of)
  also have "\<dots> = map_of ?w" using w(2) by (intro map_of_rev_distinct)
  finally show "map_of (parse_env (render_env order m)) = map_of m" using w(1) by simp
qed

section \<open>Properties\<close>

text \<open>
  C4: rotating credentials changes the environment by exactly the new credentials: reading the
  file that was written gives every variable of the old file, with the new values for the
  rotated ones, in whatever order the variables without a fixed place are written. The old
  file has no carriage returns, and the new values are entries a line can hold.
\<close>

theorem rotate_env_exact:
  assumes "scan_err content = None" and "CHR 0x0D \<notin> set content"
    and "new_credentials config = Some ups" and "\<forall>kv \<in> set ups. good_entry kv"
    and "\<forall>m. mset (order m) = mset m"
    and "run_state (updateEnvFile h order path config) s = (None, s')"
    and "lookup_node s path = Some (File content mode)"
  shows "\<exists>new m. lookup_node s' path = Some (File new m) \<and> scan_err new = None
    \<and> map_of (parse_env new) = map_of (parse_env content) ++ map_of ups"
proof -
  let ?m = "set_all ups (parse_env content)"
  have dist: "distinct (map fst ?m)"
    unfolding set_all_def parse_env_def by (intro distinct_foldl_update) simp
  have good: "\<forall>kv \<in> set ?m. good_entry kv"
    using set_foldl_update [of "parse_env content" ups] parse_env_good [OF assms(2)] assms(4)
    by (auto simp: set_all_def)
  have "distinct (map fst ups)"
    using assms(3) by (auto simp: new_credentials_def nonempty_value_def Let_def split: if_splits)
  then have ups: "map_of ?m = map_of (parse_env content) ++ map_of ups"
    by (simp add: set_all_def foldl_update_map_of map_of_rev_distinct)
  have read: "run_state (os_read h path) s = (Inr content, s)"
    using assms(6,7) by (auto simp: updateEnvFile_def os_read_def split: option.splits)
  then have "run_state (os_write h path (render_env order ?m) 420) s = (None, s')"
    using assms(1,3,6) by (auto simp: updateEnvFile_def split: prod.splits)
  then have "\<exists>m. lookup_node s' path = Some (File (render_env order ?m) m)" by (rule os_write_ok)
  with parse_render_env [of order ?m, OF assms(5) [rule_format] dist good] ups show ?thesis by auto
qed

text \<open>The run of one step.\<close>

lemma run_rotate_step:
  assumes "run_state act s = (err, s1)"
  shows "run_state (rotate_step name act done result k) s =
    (case err of
       Some msg \<Rightarrow> (result\<lparr>rs_Steps := rs_Steps result @ [(new_step name ''failed'' (rfc3339 (now s)))
           \<lparr>st_Message := msg, st_EndTime := rfc3339 (now s1)\<rparr>], rs_ErrorMessage := msg, rs_FailedStep := name\<rparr>, s1)
     | None \<Rightarrow> run_state (k (result\<lparr>rs_Steps := rs_Steps result @ [(new_step name ''completed'' (rfc3339 (now s)))
           \<lparr>st_Message := done, st_EndTime := rfc3339 (now s1)\<rparr>]\<rparr>)) s1)"
  using assms
  by (auto simp: rotate_step_def startStep_def failStep_def completeStep_def new_step_def split: option.splits)

lemma rotate_steps_report:
  "run_state (rotate_steps steps result) s = (res, s') \<Longrightarrow>
   \<not> rs_Success result \<and> rs_FailedStep result = [] \<and> rs_ErrorMessage result = [] \<Longrightarrow>
     \<exists>new. rs_Steps res = rs_Steps result @ new \<and>
       report_ok (map fst steps) (rs_Success res) new (rs_FailedStep res) (rs_ErrorMessage res)"
proof (induction steps arbitrary: result s)
  case Nil
  then show ?case by (auto simp: report_ok_def)
next
  case (Cons st steps)
  obtain name act fin where st: "st = (name, act, fin)" by (cases st)
  obtain err s1 where x: "run_state act s = (err, s1)" by (cases "run_state act s")
  note run = Cons.prems(1) [unfolded st rotate_steps.simps run_rotate_step [OF x]]
  show ?case
  proof (cases err)
    case (Some msg)
    with run Cons.prems(2) st show ?thesis by (auto simp: report_ok_def new_step_def)
  next
    case None
    let ?st = "(new_step name ''completed'' (rfc3339 (now s)))\<lparr>st_Message := fin, st_EndTime := rfc3339 (now s1)\<rparr>"
    from None run have "run_state (rotate_steps steps (result\<lparr>rs_Steps := rs_Steps result @ [?st]\<rparr>)) s1 = (res, s')" by simp
    from Cons.IH [OF this] Cons.prems(2) obtain new where
      "rs_Steps res = rs_Steps result @ ?st # new"
      "report_ok (map fst steps) (rs_Success res) new (rs_FailedStep res) (rs_ErrorMessage res)" by auto
    then show ?thesis
      by (intro exI [of _ "?st # new"]) (auto simp: st report_ok_def new_step_def split: if_splits)
  qed
qed

text \<open>A run that fails within its first steps has only the effects of those.\<close>

lemma rotate_steps_early:
  "run_state (rotate_steps (pre @ post) result) s = (res, s') \<Longrightarrow> \<not> rs_Success res \<Longrightarrow>
   length (rs_Steps res) \<le> length (rs_Steps result) + length pre \<Longrightarrow>
   \<forall>(name, act, fin) \<in> set pre. emits P act \<Longrightarrow>
     \<exists>es. trace s' = trace s @ es \<and> list_all P es"
proof (induction pre arbitrary: result s)
  case Nil
  have "length (rs_Steps result) < length (rs_Steps res)"
    using Nil.prems(1,2)
  proof (induction post arbitrary: result s)
    case (Cons st post)
    obtain name act fin where st: "st = (name, act, fin)" by (cases st)
    obtain err s1 where x: "run_state act s = (err, s1)" by (cases "run_state act s")
    note run = Cons.prems(1) [unfolded st append_Nil rotate_steps.simps run_rotate_step [OF x]]
    show ?case
    proof (cases err)
      case (Some msg)
      with run show ?thesis by auto
    next
      case None
      with run Cons.IH Cons.prems(2) show ?thesis by (fastforce dest: Suc_lessD)
    qed
  qed auto
  with Nil.prems(3) show ?case by simp
next
  case (Cons st pre)
  obtain name act fin where st: "st = (name, act, fin)" by (cases st)
  obtain err s1 where x: "run_state act s = (err, s1)" by (cases "run_state act s")
  note run = Cons.prems(1) [unfolded st append_Cons rotate_steps.simps run_rotate_step [OF x]]
  have "emits P act" using Cons.prems(4) st by simp
  then obtain es where es: "trace s1 = trace s @ es" "list_all P es" using x by (blast dest: emitsD)
  show ?case
  proof (cases err)
    case (Some msg)
    with run es show ?thesis by auto
  next
    case None
    let ?st = "(new_step name ''completed'' (rfc3339 (now s)))\<lparr>st_Message := fin, st_EndTime := rfc3339 (now s1)\<rparr>"
    from None run have r: "run_state (rotate_steps (pre @ post) (result\<lparr>rs_Steps := rs_Steps result @ [?st]\<rparr>)) s1 = (res, s')" by simp
    have "\<exists>es. trace s' = trace s1 @ es \<and> list_all P es"
      by (rule Cons.IH [OF r Cons.prems(2)]) (use Cons.prems(3,4) in auto)
    with es show ?thesis by auto
  qed
qed

text \<open>The effects of the steps: the first three run no command.\<close>

definition is_command :: "event \<Rightarrow> bool" where
  "is_command e \<longleftrightarrow> (case e of EvExec d a \<Rightarrow> True | _ \<Rightarrow> False)"

lemma quiet_steps:
  "emits (\<lambda>e. \<not> is_command e) (missing h path msg)"
  "emits (\<lambda>e. \<not> is_command e) (with_prefix what (updateEnvFile h order path config))"
  unfolding missing_def with_prefix_def updateEnvFile_def
  by (intro emits_intros; simp add: is_command_def)+

text \<open>A step that always fails ends the run where it stands.\<close>

lemma rotate_steps_stuck:
  assumes "\<And>t. fst (run_state act t) \<noteq> None"
  shows "run_state (rotate_steps (pre @ (name, act, fin) # post) result) s = (res, s') \<Longrightarrow> \<not> rs_Success result \<Longrightarrow>
     \<not> rs_Success res \<and> length (rs_Steps res) \<le> length (rs_Steps result) + length pre + 1"
proof (induction pre arbitrary: result s)
  case Nil
  obtain err s1 where x: "run_state act s = (err, s1)" by (cases "run_state act s")
  with assms [of s] obtain m where "err = Some m" by (cases err) auto
  with Nil show ?case by (auto simp: run_rotate_step [OF x])
next
  case (Cons st pre)
  obtain n a f where st: "st = (n, a, f)" by (cases st)
  obtain err s1 where x: "run_state a s = (err, s1)" by (cases "run_state a s")
  note run = Cons.prems(1) [unfolded st append_Cons rotate_steps.simps run_rotate_step [OF x]]
  show ?case
  proof (cases err)
    case (Some m)
    with run Cons.prems(2) show ?thesis by auto
  next
    case None
    with run Cons.IH Cons.prems(2) show ?thesis by fastforce
  qed
qed

lemma rotation_plan_split:
  obtains pre path fin post where
    "rotation_plan h order config = pre @
       (''update_credentials'', with_prefix ''Failed to update .env file: '' (updateEnvFile h order path config), fin) # post"
    "length pre = 2" "\<forall>(name, act, fin) \<in> set pre. emits (\<lambda>e. \<not> is_command e) act"
proof -
  let ?plan = "rotation_plan h order config"
  obtain a b path fin c d where
    "?plan = [a, b, (''update_credentials'', with_prefix ''Failed to update .env file: '' (updateEnvFile h order path config), fin), c, d]"
    "(\<lambda>(name, act, fin). emits (\<lambda>e. \<not> is_command e) act) a" "(\<lambda>(name, act, fin). emits (\<lambda>e. \<not> is_command e) act) b"
    unfolding rotation_plan_def Let_def using quiet_steps(1) by fastforce
  then show thesis by (intro that [of "[a, b]"]) auto
qed

lemma unknown_credentials_fail:
  "new_credentials config = None \<Longrightarrow>
     fst (run_state (with_prefix what (updateEnvFile h order path config)) t) \<noteq> None"
  by (auto simp: with_prefix_def updateEnvFile_def split: prod.splits sum.splits option.splits)

text \<open>
  \<^verbatim>\<open>RotateCredentials\<close> reports its five steps correctly, and credentials are in the file before
  anything is restarted: when it fails in one of its first three steps, no command has run, so
  no container was touched; an unknown type of credentials is such a failure.
\<close>

theorem rotate_restarts_after_update:
  "case run_state (RotateCredentials h order config) s of (res, s') \<Rightarrow>
     report_ok [''validate_instance'', ''validate_env_file'', ''update_credentials'', ''restart_containers'', ''verify_health'']
       (rs_Success res) (rs_Steps res) (rs_FailedStep res) (rs_ErrorMessage res)
   \<and> (if \<not> rs_Success res \<and> length (rs_Steps res) \<le> 3
      then \<exists>es. trace s' = trace s @ es \<and> list_all (\<lambda>e. \<not> is_command e) es else True)
   \<and> (if new_credentials config = None then \<not> rs_Success res \<and> length (rs_Steps res) \<le> 3 else True)"
proof -
  let ?r0 = "\<lparr>rs_Success = False, rs_InstanceID = ro_InstanceID config, rs_Steps = [], rs_ErrorMessage = [], rs_FailedStep = []\<rparr>"
  let ?plan = "rotation_plan h order config"
  obtain res s' where x: "run_state (RotateCredentials h order config) s = (res, s')"
    by (cases "run_state (RotateCredentials h order config) s")
  then have run: "run_state (rotate_steps ?plan ?r0) s = (res, s')" by (simp add: RotateCredentials_def)
  have names: "map fst ?plan =
      [''validate_instance'', ''validate_env_file'', ''update_credentials'', ''restart_containers'', ''verify_health'']"
    by (simp add: rotation_plan_def Let_def)
  have rep: "report_ok (map fst ?plan) (rs_Success res) (rs_Steps res) (rs_FailedStep res) (rs_ErrorMessage res)"
    using rotate_steps_report [OF run] by auto
  obtain pre path fin post where plan: "?plan = pre @
       (''update_credentials'', with_prefix ''Failed to update .env file: '' (updateEnvFile h order path config), fin) # post"
    and len: "length pre = 2" and quiet: "\<forall>(name, act, fin) \<in> set pre. emits (\<lambda>e. \<not> is_command e) act"
    by (rule rotation_plan_split)
  let ?upd = "(''update_credentials'', with_prefix ''Failed to update .env file: '' (updateEnvFile h order path config), fin)"
  have quiet3: "\<forall>(name, act, fin) \<in> set (pre @ [?upd]). emits (\<lambda>e. \<not> is_command e) act"
    using quiet quiet_steps(2) by auto
  have "run_state (rotate_steps ((pre @ [?upd]) @ post) ?r0) s = (res, s')" using run plan by simp
  from rotate_steps_early [OF this _ _ quiet3] len
  have early: "\<not> rs_Success res \<and> length (rs_Steps res) \<le> 3 \<longrightarrow>
      (\<exists>es. trace s' = trace s @ es \<and> list_all (\<lambda>e. \<not> is_command e) es)" by simp
  have unknown: "new_credentials config = None \<longrightarrow> \<not> rs_Success res \<and> length (rs_Steps res) \<le> 3"
    using rotate_steps_stuck [OF unknown_credentials_fail run [unfolded plan]] len by auto
  show ?thesis using x rep early unknown unfolding names by auto
qed

text \<open>
  the health check of a rotation accepts a container that docker reports as unhealthy,
  because it looks for the word healthy anywhere in the output.
\<close>

theorem rotate_accepts_unhealthy:
  assumes "\<And>s. \<exists>s'. hexec h dir [''sudo'', ''docker-compose'', ''ps'', c] [] s
      = (\<lparr>cr_out = out, cr_err = [], cr_all = out, cr_status = None\<rparr>, s')"
    and "str_contains out ''(unhealthy)''"
  shows "fst (run_state (verifyContainerHealth h dir [c]) s) = None"
proof -
  have "sublist ''healthy'' ''(unhealthy)''"
    unfolding sublist_def by (intro exI [of _ "''(un''"] exI [of _ "'')''"]) simp
  moreover have "sublist ''(unhealthy)'' out" using assms(2) by (simp add: str_contains_iff)
  ultimately have "reads_healthy out"
    unfolding reads_healthy_def str_contains_iff using sublist_order.order_trans by blast
  moreover obtain s' where "hexec h dir [''sudo'', ''docker-compose'', ''ps'', c] [] s
      = (\<lparr>cr_out = out, cr_err = [], cr_all = out, cr_status = None\<rparr>, s')" using assms(1) by blast
  ultimately show ?thesis
    by (simp add: verifyContainerHealth_def numeral_eq_Suc run_cmd_def)
qed

lemma rotate_accepts_unhealthy_witness:
  "fst (run_state (verifyContainerHealth (command_host (\<lambda>argv s. (ok_res ''kong Up 5 seconds (unhealthy)'', s)))
     ''/opt/supabase/a'' [''kong'']) (start_sys [] ())) = None"
  by (rule rotate_accepts_unhealthy [where out = "''kong Up 5 seconds (unhealthy)''"])
    (simp_all add: ok_res_def)

definition demo_config :: RotateCredentialsConfig where
  "demo_config = \<lparr>ro_InstanceID = ''a'', ro_CredentialType = ''postgres'', ro_PostgresPassword = ''new'', ro_JWTSecret = ''unused'',
     ro_PublishableKey = [], ro_SecretKey = [], ro_BaseDir = []\<rparr>"

definition demo_env :: string where
  "demo_env = unlines [''# old'', ''EXTRA=1'', ''POSTGRES_PASSWORD=old'']"

lemma rotate_env_exact_witness:
  "\<exists>new m. lookup_node (snd (run_state (updateEnvFile (command_host (\<lambda>argv s. (ok_res [], s))) id ''/e'' demo_config)
       (start_sys [(''/e'', File demo_env 384)] ()))) ''/e'' = Some (File new m)
     \<and> map_of (parse_env new) = map_of (parse_env demo_env) ++ [''POSTGRES_PASSWORD'' \<mapsto> ''new'']"
proof -
  let ?run = "run_state (updateEnvFile (command_host (\<lambda>argv s. (ok_res [], s))) id ''/e'' demo_config)
       (start_sys [(''/e'', File demo_env 384)] ())"
  have new: "new_credentials demo_config = Some [(''POSTGRES_PASSWORD'', ''new'')]" by code_simp
  have good: "\<forall>kv \<in> set [(''POSTGRES_PASSWORD'', ''new'')]. good_entry kv" by code_simp
  have "fst ?run = None" by code_simp
  then have run: "?run = (None, snd ?run)" by (metis prod.collapse)
  have "lookup_node (start_sys [(''/e'', File demo_env 384)] ()) ''/e'' = Some (File demo_env 384)"
    by (simp add: lookup_node_def start_sys_def)
  moreover have "scan_err demo_env = None" "CHR 0x0D \<notin> set demo_env" by code_simp+
  ultimately show ?thesis
    using rotate_env_exact [OF _ _ new good _ run] by auto
qed

end
