(* ===== verification/SelfUpgrade.thy ===== *)
theory SelfUpgrade
  imports AgentTypes
begin

text \<open>
  \<^verbatim>\<open>internal/selfupgrade/selfupgrade.go\<close>: replacing the binary of the running agent. The digest is
  a parameter, any function from contents to hexadecimal texts; the restart is the function of
  the options, as in the code. \<^verbatim>\<open>os.Executable\<close>, the resolution of links and the architecture
  are options of the model.
\<close>

section \<open>Operations\<close>

record UpConfig =
  su_BinaryURL :: string
  su_SHA256 :: string
  su_Version :: string
  su_Service :: string

record UpResult =
  sr_Success :: bool
  sr_OldVersion :: string
  sr_NewVersion :: string
  sr_BinaryURL :: string
  sr_Message :: string
  sr_Error :: string

record Options =
  so_CurrentVersion :: string
  so_ExecutablePath :: string
  so_Executable :: "error + string"
  so_EvalSymlinks :: "string \<Rightarrow> string option"
  so_GOARCH :: string

definition DefaultService :: string where "DefaultService = ''vmkit-agent''"
definition restartDelay :: nat where "restartDelay = seconds 3"

definition scheduleSystemctlRestart :: "'x host \<Rightarrow> string \<Rightarrow> ('x, unit) io" where
  "scheduleSystemctlRestart h service = do {
     _ \<leftarrow> sleep restartDelay;
     _ \<leftarrow> exec_cmd h [''systemctl'', ''restart'', service];
     ret ()
   }"

definition fail_result :: "UpResult \<Rightarrow> string \<Rightarrow> UpResult" where
  "fail_result res msg = res\<lparr>sr_Success := False, sr_Error := msg\<rparr>"

definition equal_fold :: "string \<Rightarrow> string \<Rightarrow> bool" where
  "equal_fold a b \<longleftrightarrow> to_lower a = to_lower b"

definition check_download :: "(string \<Rightarrow> string) \<Rightarrow> string \<Rightarrow> string \<Rightarrow> error option" where
  "check_download digest wantSHA content =
     (if length content = 0 then Some ''downloaded binary is empty''
      else if wantSHA \<noteq> [] \<and> \<not> equal_fold (digest content) wantSHA then
        Some (''sha256 mismatch: want '' @ wantSHA @ '', got '' @ digest content)
      else None)"

definition download ::
  "'x host \<Rightarrow> (string \<Rightarrow> string) \<Rightarrow> string \<Rightarrow> string \<Rightarrow> string \<Rightarrow> ('x, error option) io" where
  "download h digest url dst wantSHA = do {
     r \<leftarrow> http_req h ''GET'' url [];
     case r of
       Inl e \<Rightarrow> ret (Some (''download '' @ url @ '': '' @ e))
     | Inr resp \<Rightarrow>
         if fst resp \<noteq> 200 then ret (Some (''download '' @ url @ '': HTTP '' @ itoa (fst resp)))
         else do {
           err \<leftarrow> os_write h dst [] 493;
           case err of
             Some e \<Rightarrow> ret (Some (''create temp file '' @ dst @ '': '' @ err_text e))
           | None \<Rightarrow> do {
               copyErr \<leftarrow> os_write h dst (snd resp) 493;
               closeErr \<leftarrow> os_close h dst;
               case copyErr of
                 Some e \<Rightarrow> ret (Some (''write binary: '' @ err_text e))
               | None \<Rightarrow>
                   (case closeErr of
                      Some e \<Rightarrow> ret (Some (''close temp file: '' @ e))
                    | None \<Rightarrow> ret (check_download digest wantSHA (snd resp)))
             }
         }
   }"

definition exec_path :: "Options \<Rightarrow> error + string" where
  "exec_path opts =
     (if so_ExecutablePath opts = [] then
        (case so_Executable opts of
           Inl e \<Rightarrow> Inl (''cannot resolve running binary path: '' @ e)
         | Inr p \<Rightarrow> Inr (case so_EvalSymlinks opts p of Some resolved \<Rightarrow> resolved | None \<Rightarrow> p))
      else Inr (so_ExecutablePath opts))"

definition http_url :: "string \<Rightarrow> bool" where
  "http_url url \<longleftrightarrow> has_prefix url ''http://'' \<or> has_prefix url ''https://''"

text \<open>An error after the download was begun removes the temporary file.\<close>

definition drop_tmp :: "'x host \<Rightarrow> string \<Rightarrow> 'a \<Rightarrow> ('x, 'a) io" where
  "drop_tmp h tmpPath res = do { _ \<leftarrow> os_remove h tmpPath; ret res }"

definition Run ::
  "'x host \<Rightarrow> (string \<Rightarrow> string) \<Rightarrow> (string \<Rightarrow> ('x, unit) io) \<Rightarrow> UpConfig \<Rightarrow> Options \<Rightarrow> ('x, UpResult) io" where
  "Run h digest restart cfg opts = (
     let url = replace_all (su_BinaryURL cfg) ''{arch}'' (so_GOARCH opts);
         res = \<lparr>sr_Success = False, sr_OldVersion = so_CurrentVersion opts, sr_NewVersion = [],
                sr_BinaryURL = url, sr_Message = [], sr_Error = []\<rparr> in
     if url = [] then ret (fail_result res ''binary_url is required'')
     else if \<not> http_url url then
       ret (fail_result res (''binary_url must be an http(s) URL: '' @ go_quoted url))
     else (case exec_path opts of
         Inl e \<Rightarrow> ret (fail_result res e)
       | Inr execPath \<Rightarrow> do {
           let tmpPath = execPath @ ''.new'';
           err \<leftarrow> download h digest url tmpPath (su_SHA256 cfg);
           case err of
             Some e \<Rightarrow> drop_tmp h tmpPath (fail_result res e)
           | None \<Rightarrow> do {
               err \<leftarrow> os_chmod h tmpPath 493;
               case err of
                 Some e \<Rightarrow> drop_tmp h tmpPath (fail_result res (''chmod new binary: '' @ err_text e))
               | None \<Rightarrow> do {
                   err \<leftarrow> os_rename h tmpPath execPath;
                   case err of
                     Some e \<Rightarrow> drop_tmp h tmpPath (fail_result res (''replace running binary: '' @ err_text e))
                   | None \<Rightarrow> do {
                       let service = (if su_Service cfg = [] then DefaultService else su_Service cfg);
                       _ \<leftarrow> restart service;
                       ret (res\<lparr>sr_Success := True,
                         sr_NewVersion := (if su_Version cfg = [] then ''latest'' else su_Version cfg),
                         sr_Message := ''binary replaced at '' @ execPath @ ''; restarting '' @ service\<rparr>)
                     }
                 }
             }
         }))"

section \<open>Lemmas\<close>

lemma tmp_neq [simp]: "p @ ''.new'' \<noteq> p" "p \<noteq> p @ ''.new''"
  by (metis append_self_conv list.distinct(1))+

lemma download_other:
  "run_state (download h digest url dst sha) s = (err, s') \<Longrightarrow> q \<noteq> dst \<Longrightarrow> lookup_node s' q = lookup_node s q"
  by (auto simp: download_def split: prod.splits sum.splits option.splits if_splits
      dest!: http_req_fs os_write_other os_close_state)

lemma download_ok:
  assumes "run_state (download h digest url dst sha) s = (None, s')"
  obtains body mode where "lookup_node s' dst = Some (File body mode)"
    "check_download digest sha body = None" "fst (hhttp h ''GET'' url [] s) = Inr (200, body)"
proof -
  obtain r s1 where 1: "run_state (http_req h ''GET'' url []) s = (r, s1)" by (cases "run_state (http_req h ''GET'' url []) s")
  then have r: "r = fst (hhttp h ''GET'' url [] s)" by (auto simp: http_req_def split: prod.splits)
  obtain status body where body: "r = Inr (status, body)" "status = 200"
    using assms 1 by (cases r) (auto simp: download_def split: if_splits)
  obtain e2 s2 where 2: "run_state (os_write h dst [] 493) s1 = (e2, s2)" by (cases "run_state (os_write h dst [] 493) s1")
  obtain e3 s3 where 3: "run_state (os_write h dst body 493) s2 = (e3, s3)" by (cases "run_state (os_write h dst body 493) s2")
  obtain e4 s4 where 4: "run_state (os_close h dst) s3 = (e4, s4)" by (cases "run_state (os_close h dst) s3")
  have "e3 = None" "s4 = s'" "check_download digest sha body = None"
    using assms body by (auto simp: download_def 1 2 3 4 split: option.splits)
  with os_write_ok [of h dst body 493 s2 s3] 3 os_close_state [OF 4] r body show thesis
    by (auto intro: that)
qed

text \<open>The parts of a run.\<close>

lemma run_Run_success:
  assumes "run_state (Run h digest restart cfg opts) s = (res, s')" and "sr_Success res"
  obtains path s1 s2 s3 where
    "http_url (replace_all (su_BinaryURL cfg) ''{arch}'' (so_GOARCH opts))" "exec_path opts = Inr path"
    "run_state (download h digest (replace_all (su_BinaryURL cfg) ''{arch}'' (so_GOARCH opts)) (path @ ''.new'') (su_SHA256 cfg)) s = (None, s1)"
    "run_state (os_chmod h (path @ ''.new'') 493) s1 = (None, s2)"
    "run_state (os_rename h (path @ ''.new'') path) s2 = (None, s3)"
    "run_state (restart (if su_Service cfg = [] then DefaultService else su_Service cfg)) s3 = ((), s')"
proof -
  let ?url = "replace_all (su_BinaryURL cfg) ''{arch}'' (so_GOARCH opts)"
  have "?url \<noteq> []" and url: "http_url ?url"
    using assms by (auto simp: Run_def Let_def fail_result_def split: if_splits)
  obtain path where path: "exec_path opts = Inr path"
    using assms url by (cases "exec_path opts") (auto simp: Run_def Let_def fail_result_def split: if_splits)
  obtain e1 s1 where 1: "run_state (download h digest ?url (path @ ''.new'') (su_SHA256 cfg)) s = (e1, s1)"
    by (cases "run_state (download h digest ?url (path @ ''.new'') (su_SHA256 cfg)) s")
  obtain e2 s2 where 2: "run_state (os_chmod h (path @ ''.new'') 493) s1 = (e2, s2)"
    by (cases "run_state (os_chmod h (path @ ''.new'') 493) s1")
  obtain e3 s3 where 3: "run_state (os_rename h (path @ ''.new'') path) s2 = (e3, s3)"
    by (cases "run_state (os_rename h (path @ ''.new'') path) s2")
  have none: "e1 = None" "e2 = None" "e3 = None"
    and last: "run_state (restart (if su_Service cfg = [] then DefaultService else su_Service cfg)) s3 = ((), s')"
    using assms url path \<open>?url \<noteq> []\<close>
    by (auto simp: Run_def Let_def fail_result_def drop_tmp_def 1 2 3 split: option.splits prod.splits)
  show thesis using that url path 1 2 3 none last by blast
qed

lemma run_Run_failure:
  assumes "run_state (Run h digest restart cfg opts) s = (res, s')" and "\<not> sr_Success res"
  shows "s' = s \<or> (\<exists>path e s1. exec_path opts = Inr path \<and> run_state (os_remove h (path @ ''.new'')) s1 = (e, s')
    \<and> lookup_node s1 path = lookup_node s path)"
proof -
  let ?url = "replace_all (su_BinaryURL cfg) ''{arch}'' (so_GOARCH opts)"
  show ?thesis
  proof (cases "?url = [] \<or> \<not> http_url ?url \<or> (\<exists>e. exec_path opts = Inl e)")
    case True
    with assms show ?thesis by (auto simp: Run_def Let_def split: if_splits)
  next
    case False
    then obtain path where path: "exec_path opts = Inr path" by (cases "exec_path opts") auto
    obtain e1 s1 where 1: "run_state (download h digest ?url (path @ ''.new'') (su_SHA256 cfg)) s = (e1, s1)"
      by (cases "run_state (download h digest ?url (path @ ''.new'') (su_SHA256 cfg)) s")
    obtain e2 s2 where 2: "run_state (os_chmod h (path @ ''.new'') 493) s1 = (e2, s2)"
      by (cases "run_state (os_chmod h (path @ ''.new'') 493) s1")
    obtain e3 s3 where 3: "run_state (os_rename h (path @ ''.new'') path) s2 = (e3, s3)"
      by (cases "run_state (os_rename h (path @ ''.new'') path) s2")
    have k1: "lookup_node s1 path = lookup_node s path" using download_other [OF 1] by simp
    have k2: "lookup_node s2 path = lookup_node s path" using os_chmod_other [OF 2] k1 by simp
    have k3: "lookup_node s3 path = lookup_node s path" if "e3 = Some e" for e
      using os_rename_failed 3 that k2 by metis
    from assms False path k1 k2 k3 show ?thesis
      by (cases e1; cases e2; cases e3)
        (auto simp: Run_def Let_def fail_result_def drop_tmp_def 1 2 3 split: prod.splits)
  qed
qed

section \<open>Properties\<close>

text \<open>
  C3: a self-upgrade that reports success has put exactly the bytes of a successful HTTP answer
  in the place of the running binary, executable, from an http(s) URL; they are not empty and
  have the wanted digest when one was given; the service is restarted only after that.
\<close>

theorem upgrade_installs_verified_binary:
  assumes "run_state (Run h digest restart cfg opts) s = (res, s')" and "sr_Success res"
  shows "\<exists>path body s1. exec_path opts = Inr path
    \<and> fst (hhttp h ''GET'' (replace_all (su_BinaryURL cfg) ''{arch}'' (so_GOARCH opts)) [] s) = Inr (200, body)
    \<and> http_url (replace_all (su_BinaryURL cfg) ''{arch}'' (so_GOARCH opts))
    \<and> body \<noteq> [] \<and> (su_SHA256 cfg \<noteq> [] \<longrightarrow> to_lower (digest body) = to_lower (su_SHA256 cfg))
    \<and> lookup_node s1 path = Some (File body 493)
    \<and> run_state (restart (if su_Service cfg = [] then DefaultService else su_Service cfg)) s1 = ((), s')"
proof -
  obtain path s1 s2 s3 where
    url: "http_url (replace_all (su_BinaryURL cfg) ''{arch}'' (so_GOARCH opts))" and path: "exec_path opts = Inr path"
    and 1: "run_state (download h digest (replace_all (su_BinaryURL cfg) ''{arch}'' (so_GOARCH opts)) (path @ ''.new'') (su_SHA256 cfg)) s = (None, s1)"
    and 2: "run_state (os_chmod h (path @ ''.new'') 493) s1 = (None, s2)"
    and 3: "run_state (os_rename h (path @ ''.new'') path) s2 = (None, s3)"
    and 4: "run_state (restart (if su_Service cfg = [] then DefaultService else su_Service cfg)) s3 = ((), s')"
    using run_Run_success [OF assms] by metis
  from 1 obtain body mode where body: "lookup_node s1 (path @ ''.new'') = Some (File body mode)"
    "check_download digest (su_SHA256 cfg) body = None"
    "fst (hhttp h ''GET'' (replace_all (su_BinaryURL cfg) ''{arch}'' (so_GOARCH opts)) [] s) = Inr (200, body)"
    by (rule download_ok)
  have "lookup_node s3 path = Some (File body 493)"
    using os_rename_ok [OF 3] os_chmod_ok [OF 2 body(1)] by simp
  moreover have "body \<noteq> []" "su_SHA256 cfg \<noteq> [] \<longrightarrow> to_lower (digest body) = to_lower (su_SHA256 cfg)"
    using body(2) by (auto simp: check_download_def equal_fold_def split: if_splits)
  ultimately show ?thesis using url path body(3) 4 by blast
qed

text \<open>
  C14: a self-upgrade that reports a failure leaves the running binary as it was, whatever went
  wrong and whatever the restart function would do, and leaves no temporary file when it got as
  far as the download and removing a file works.
\<close>

theorem upgrade_failure_keeps_binary:
  assumes "run_state (Run h digest restart cfg opts) s = (res, s')" and "\<not> sr_Success res"
    and "exec_path opts = Inr path"
  shows "lookup_node s' path = lookup_node s path
    \<and> ((\<forall>t. hfault h (OpRemove (path @ ''.new'')) t = None) \<longrightarrow> s' = s \<or> lookup_node s' (path @ ''.new'') = None)"
proof (cases "s' = s")
  case False
  with run_Run_failure [OF assms(1,2)] assms(3) obtain e s1 where
    rm: "run_state (os_remove h (path @ ''.new'')) s1 = (e, s')" and "lookup_node s1 path = lookup_node s path"
    by auto
  with os_remove_other [OF rm, of path] os_remove_gone [OF rm] show ?thesis by simp
qed simp

text \<open>A host that serves a binary, for the examples.\<close>

definition mirror :: "unit host" where
  "mirror = (command_host (\<lambda>argv s. (ok_res [], s)))\<lparr>hhttp := \<lambda>meth url body s. (Inr (200, ''ELF''), s)\<rparr>"

definition demo_options :: Options where
  "demo_options = \<lparr>so_CurrentVersion = ''1'', so_ExecutablePath = ''/usr/bin/agent'', so_Executable = Inl [],
     so_EvalSymlinks = (\<lambda>p. None), so_GOARCH = ''amd64''\<rparr>"

definition demo_upgrade :: "string \<Rightarrow> UpConfig" where
  "demo_upgrade sha = \<lparr>su_BinaryURL = ''https://x/{arch}'', su_SHA256 = sha, su_Version = [], su_Service = []\<rparr>"

definition record_restart :: "string \<Rightarrow> (unit, unit) io" where
  "record_restart service = do { _ \<leftarrow> exec_cmd mirror [''systemctl'', ''restart'', service]; ret () }"

abbreviation demo_run :: "string \<Rightarrow> UpResult \<times> unit sys" where
  "demo_run sha \<equiv> run_state (Run mirror (\<lambda>content. ''abc'') record_restart (demo_upgrade sha) demo_options)
     (start_sys [(''/usr/bin/agent'', File ''old'' 493)] ())"

lemma upgrade_installs_verified_binary_witness:
  "\<exists>body s1. lookup_node s1 ''/usr/bin/agent'' = Some (File body 493)
     \<and> run_state (record_restart DefaultService) s1 = ((), snd (demo_run ''ABC''))"
proof -
  have "sr_Success (fst (demo_run ''ABC''))" by code_simp
  from upgrade_installs_verified_binary [OF prod.collapse [symmetric] this] show ?thesis
    by (auto simp: exec_path_def demo_options_def demo_upgrade_def)
qed

lemma upgrade_failure_keeps_binary_witness:
  "lookup_node (snd (demo_run ''123'')) ''/usr/bin/agent'' = Some (File ''old'' 493)"
proof -
  have "\<not> sr_Success (fst (demo_run ''123''))" by code_simp
  from upgrade_failure_keeps_binary [OF prod.collapse [symmetric] this, of "''/usr/bin/agent''"] show ?thesis
    by (simp add: exec_path_def demo_options_def start_sys_def lookup_node_def)
qed

end
