(* ===== verification/Floats.thy ===== *)
theory Floats
  imports Complex_Main Prelude
begin

text \<open>
  Go's \<^verbatim>\<open>float64\<close> as the health checks and the metrics use it: numbers read from the output of
  programs, multiplied, divided, compared, cut to an integer and printed. A finite number is the
  rational it stands for, and every operation rounds the exact result to the nearest number with 53
  bits, ties to the even one, which is what IEEE 754 asks for. Minus zero is not told apart from zero.
\<close>

section \<open>Rounding\<close>

datatype float64 = Fin rat | Inf bool | NaN

definition pow2 :: "int \<Rightarrow> rat" where
  "pow2 e = (if 0 \<le> e then 2 ^ nat e else 1 / 2 ^ nat (- e))"

function bit_count :: "int \<Rightarrow> int" where
  "bit_count n = (if n \<le> 0 then 0 else 1 + bit_count (n div 2))"
  by pat_completeness auto
termination
  by (relation "measure nat") auto

declare bit_count.simps [simp del]

text \<open>The exponent of the greatest power of two that is not above a positive number.\<close>

definition ilog2 :: "rat \<Rightarrow> int" where
  "ilog2 x = (case quotient_of x of (n, d) \<Rightarrow>
     let e = bit_count n - bit_count d in if x < pow2 e then e - 1 else e)"

definition nearest_even :: "rat \<Rightarrow> int" where
  "nearest_even x = (let f = \<lfloor>x\<rfloor>; r = x - of_int f in
     if r < 1 / 2 then f else if 1 / 2 < r then f + 1 else if even f then f else f + 1)"

text \<open>The exponent of the last of the 53 bits of a number, which subnormal numbers share.\<close>

definition ulp_exp :: "rat \<Rightarrow> int" where
  "ulp_exp x = max (ilog2 \<bar>x\<bar> - 52) (- 1074)"

definition rounded :: "rat \<Rightarrow> rat" where
  "rounded x = (if x = 0 then 0
     else let y = of_int (nearest_even (\<bar>x\<bar> / pow2 (ulp_exp x))) * pow2 (ulp_exp x) in
       if x < 0 then - y else y)"

definition round64 :: "rat \<Rightarrow> float64" where
  "round64 x = (let y = rounded x in if pow2 1024 \<le> \<bar>y\<bar> then Inf (y < 0) else Fin y)"

section \<open>Arithmetic\<close>

definition float_of_int :: "int \<Rightarrow> float64" where
  "float_of_int i = round64 (of_int i)"

definition is_neg :: "float64 \<Rightarrow> bool" where
  "is_neg x = (case x of Fin a \<Rightarrow> a < 0 | Inf n \<Rightarrow> n | NaN \<Rightarrow> False)"

fun fmul :: "float64 \<Rightarrow> float64 \<Rightarrow> float64" where
  "fmul (Fin a) (Fin b) = round64 (a * b)"
| "fmul NaN y = NaN"
| "fmul x NaN = NaN"
| "fmul x y = (if x = Fin 0 \<or> y = Fin 0 then NaN else Inf (is_neg x \<noteq> is_neg y))"

fun fdiv :: "float64 \<Rightarrow> float64 \<Rightarrow> float64" where
  "fdiv (Fin a) (Fin b) = (if b = 0 then (if a = 0 then NaN else Inf (a < 0)) else round64 (a / b))"
| "fdiv (Inf n) (Fin b) = Inf (n \<noteq> (b < 0))"
| "fdiv (Fin a) (Inf n) = Fin 0"
| "fdiv x y = NaN"

fun fadd :: "float64 \<Rightarrow> float64 \<Rightarrow> float64" where
  "fadd (Fin a) (Fin b) = round64 (a + b)"
| "fadd (Inf n) (Inf m) = (if n = m then Inf n else NaN)"
| "fadd (Inf n) (Fin b) = Inf n"
| "fadd (Fin a) (Inf n) = Inf n"
| "fadd x y = NaN"

fun fless :: "float64 \<Rightarrow> float64 \<Rightarrow> bool" where
  "fless (Fin a) (Fin b) \<longleftrightarrow> a < b"
| "fless (Fin a) (Inf n) \<longleftrightarrow> \<not> n"
| "fless (Inf n) (Fin b) \<longleftrightarrow> n"
| "fless (Inf n) (Inf m) \<longleftrightarrow> n \<and> \<not> m"
| "fless x y \<longleftrightarrow> False"

definition truncated :: "rat \<Rightarrow> int" where
  "truncated x = (if x < 0 then \<lceil>x\<rceil> else \<lfloor>x\<rfloor>)"

text \<open>The conversion to \<^verbatim>\<open>int\<close> drops the fraction; what does not fit becomes the least integer, as on
  amd64.\<close>

definition int_of_float :: "float64 \<Rightarrow> int" where
  "int_of_float x = (case x of
     Fin a \<Rightarrow> (if - (2 ^ 63) \<le> truncated a \<and> truncated a < 2 ^ 63 then truncated a else - (2 ^ 63))
   | _ \<Rightarrow> - (2 ^ 63))"

section \<open>Reading\<close>

text \<open>
  \<^verbatim>\<open>strconv.ParseFloat\<close> on decimal numbers and the names of the special values; its hexadecimal forms and
  underscores, which no program writes, are rejected. Like \<open>atoi\<close> it gives a value with the error.
\<close>

definition pow10 :: "int \<Rightarrow> rat" where
  "pow10 e = (if 0 \<le> e then 10 ^ nat e else 1 / 10 ^ nat (- e))"

definition digits_int :: "string \<Rightarrow> int" where
  "digits_int s = foldl (\<lambda>n c. 10 * n + (of_char c - 48)) 0 s"

function idec :: "int \<Rightarrow> string" where
  "idec n = (if n < 10 then [digit (nat n)] else idec (n div 10) @ [digit (nat (n mod 10))])"
  by pat_completeness auto
termination
  by (relation "measure nat") auto

declare idec.simps [simp del]

text \<open>The digits before and after the point and the rest.\<close>

definition mantissa :: "string \<Rightarrow> string \<times> string \<times> string" where
  "mantissa s = (let i = takeWhile is_digit s; r = drop (length i) s in
     case r of [] \<Rightarrow> (i, [], [])
     | c # cs \<Rightarrow> if c = CHR ''.'' then (let f = takeWhile is_digit cs in (i, f, drop (length f) cs)) else (i, [], r))"

definition exp_part :: "string \<Rightarrow> int option" where
  "exp_part s = (case s of [] \<Rightarrow> Some 0
     | c # cs \<Rightarrow>
         if c = CHR ''e'' \<or> c = CHR ''E'' then
           (case atoi_parts cs of (neg, ds) \<Rightarrow>
              if ds = [] \<or> \<not> list_all is_digit ds then None
              else Some (let n = min (digits_int ds) 10000 in if neg then - n else n))
         else None)"

definition decimal :: "string \<Rightarrow> rat option" where
  "decimal s = (case mantissa s of (i, f, r) \<Rightarrow>
     if i @ f = [] then None
     else map_option (\<lambda>e. of_int (digits_int (i @ f)) * pow10 (e - int (length f))) (exp_part r))"

definition with_sign :: "bool \<Rightarrow> float64 \<Rightarrow> float64" where
  "with_sign neg x = (case x of Fin a \<Rightarrow> Fin (if neg then - a else a) | Inf n \<Rightarrow> Inf (n \<noteq> neg) | NaN \<Rightarrow> NaN)"

definition ParseFloat :: "string \<Rightarrow> float64 \<times> num_err option" where
  "ParseFloat s =
     (let (neg, t) = atoi_parts s; l = to_lower t in
      if l = ''inf'' \<or> l = ''infinity'' then (Inf neg, None)
      else if to_lower s = ''nan'' then (NaN, None)
      else case decimal t of
        None \<Rightarrow> (Fin 0, Some NumSyntax)
      | Some x \<Rightarrow> (let y = round64 x in
          (with_sign neg y, case y of Inf n \<Rightarrow> Some NumRange | _ \<Rightarrow> None)))"

section \<open>Printing\<close>

text \<open>The verb \<^verbatim>\<open>%.nf\<close>.\<close>

definition fixed_point :: "nat \<Rightarrow> int \<Rightarrow> string" where
  "fixed_point prec m = idec (m div 10 ^ prec) @
     (if prec = 0 then [] else CHR ''.'' # pad_dec prec (nat (m mod 10 ^ prec)))"

definition format_f :: "nat \<Rightarrow> float64 \<Rightarrow> string" where
  "format_f prec x = (case x of
     Fin a \<Rightarrow> (if a < 0 then ''-'' else []) @ fixed_point prec (nearest_even (\<bar>a\<bar> * 10 ^ prec))
   | Inf n \<Rightarrow> (if n then ''-Inf'' else ''+Inf'')
   | NaN \<Rightarrow> ''NaN'')"

text \<open>
  \<^verbatim>\<open>encoding/json\<close> writes the shortest decimal that reads back as the number, the nearest of them if
  there are several; very small and very large numbers get an exponent.
\<close>

fun log10_below :: "nat \<Rightarrow> rat \<Rightarrow> int \<Rightarrow> int" where
  "log10_below 0 x e = e"
| "log10_below (Suc n) x e = (if pow10 e \<le> x then e else log10_below n x (e - 1))"

definition reads_as :: "rat \<Rightarrow> int \<Rightarrow> int \<Rightarrow> bool" where
  "reads_as x m e \<longleftrightarrow> round64 (of_int m * pow10 e) = Fin x"

definition with_exp :: "rat \<Rightarrow> int \<Rightarrow> (int \<times> int) option" where
  "with_exp x e =
     (let lo = \<lfloor>x / pow10 e\<rfloor>; hi = lo + 1; near = x / pow10 e - of_int lo \<le> 1 / 2 in
      if reads_as x lo e \<and> (near \<or> \<not> reads_as x hi e) then Some (lo, e)
      else if reads_as x hi e then Some (hi, e) else None)"

fun shortest_from :: "nat \<Rightarrow> rat \<Rightarrow> int \<Rightarrow> int \<times> int" where
  "shortest_from 0 x e = (max 1 \<lfloor>x / pow10 e\<rfloor>, e)"
| "shortest_from (Suc n) x e = (case with_exp x e of Some me \<Rightarrow> me | None \<Rightarrow> shortest_from n x (e - 1))"

definition shortest :: "rat \<Rightarrow> int \<times> int" where
  "shortest x = shortest_from 17 x (log10_below 4 x ((ilog2 x + 1) * 30103 div 100000 + 1))"

text \<open>The digits \<open>ds\<close> with the last one at the power \<open>e\<close> of ten.\<close>

definition plain_decimal :: "string \<Rightarrow> int \<Rightarrow> string" where
  "plain_decimal ds e =
     (if 0 \<le> e then ds @ replicate (nat e) (CHR ''0'')
      else let k = nat (- e) in
        if k < length ds then take (length ds - k) ds @ CHR ''.'' # drop (length ds - k) ds
        else ''0.'' @ replicate (k - length ds) (CHR ''0'') @ ds)"

definition exp_decimal :: "string \<Rightarrow> int \<Rightarrow> string" where
  "exp_decimal ds e = (let x = e + int (length ds) - 1 in
     take 1 ds @ (if length ds = 1 then [] else CHR ''.'' # drop 1 ds) @ ''e'' @
     (if x < 0 then ''-'' else ''+'') @ idec \<bar>x\<bar>)"

definition format_json :: "float64 \<Rightarrow> string option" where
  "format_json x = (case x of
     Fin a \<Rightarrow> Some ((if a < 0 then ''-'' else []) @
       (if a = 0 then ''0''
        else case shortest \<bar>a\<bar> of (m, e) \<Rightarrow>
          let t = trim_right (\<lambda>c. c = CHR ''0'') (idec m); e' = e + int (length (idec m) - length t) in
          if \<bar>a\<bar> < 1 / 10 ^ 6 \<or> 10 ^ 21 \<le> \<bar>a\<bar> then exp_decimal t e' else plain_decimal t e'))
   | _ \<Rightarrow> None)"

section \<open>The error of rounding\<close>

lemma pow2_pos [simp]: "0 < pow2 e" "pow2 e \<noteq> 0" "\<not> pow2 e < 0" "0 \<le> pow2 e"
  by (simp_all add: pow2_def)

lemma pow2_powr: "real_of_rat (pow2 e) = 2 powr e"
  by (simp add: pow2_def of_rat_divide of_rat_power powr_real_of_int inverse_eq_divide)

lemma pow2_add: "pow2 (a + b) = pow2 a * pow2 b"
proof -
  have "real_of_rat (pow2 (a + b)) = real_of_rat (pow2 a * pow2 b)"
    by (simp add: pow2_powr of_rat_mult powr_add)
  then show ?thesis by (simp only: of_rat_eq_iff)
qed

lemma pow2_mono: "a \<le> b \<Longrightarrow> pow2 a \<le> pow2 b"
proof -
  assume "a \<le> b"
  then have "real_of_rat (pow2 a) \<le> real_of_rat (pow2 b)" by (simp add: pow2_powr)
  then show ?thesis by (simp only: of_rat_less_eq)
qed

lemma pow2_diff: "pow2 (a - b) = pow2 a / pow2 b"
  using pow2_add [of "a - b" b] by (simp add: field_simps)

lemma pow2_small [simp]: "pow2 0 = 1" "pow2 1 = 2"
  by (simp_all add: pow2_def)

lemma bit_count_bounds:
  assumes "0 < n"
  shows "0 < bit_count n \<and> pow2 (bit_count n - 1) \<le> of_int n \<and> of_int n < pow2 (bit_count n)"
  using assms
proof (induction n rule: bit_count.induct)
  case (1 n)
  show ?case
  proof (cases "n = 1")
    case True
    have "bit_count 1 = 1" by (subst bit_count.simps) (simp add: bit_count.simps)
    with True show ?thesis by simp
  next
    case False
    let ?m = "n div 2"
    have m: "0 < ?m" using 1(2) False by linarith
    with 1 have ih: "0 < bit_count ?m" "pow2 (bit_count ?m - 1) \<le> of_int ?m" "of_int ?m < pow2 (bit_count ?m)" by auto
    have b: "bit_count n = 1 + bit_count ?m" using 1(2) by (subst bit_count.simps) simp
    have p: "pow2 (1 + k) = of_int (2 ^ nat (1 + k))" if "0 \<le> k" for k using that by (simp add: pow2_def)
    have q: "pow2 (bit_count ?m) = of_int (2 ^ nat (bit_count ?m))" using ih(1) by (simp add: pow2_def)
    have "?m < 2 ^ nat (bit_count ?m)" using ih(3) unfolding q of_int_less_iff .
    then have "n < 2 * 2 ^ nat (bit_count ?m)" by linarith
    then have up: "of_int n < pow2 (1 + bit_count ?m)" using ih(1) unfolding p [OF less_imp_le [OF ih(1)]] of_int_less_iff
      by (simp add: nat_add_distrib)
    have "2 * pow2 (bit_count ?m - 1) = pow2 (bit_count ?m)" using pow2_add [of 1 "bit_count ?m - 1"] by simp
    moreover have "2 * (of_int ?m :: rat) \<le> of_int n"
    proof -
      have "2 * ?m \<le> n" by linarith
      then have "(of_int (2 * ?m) :: rat) \<le> of_int n" by (simp only: of_int_le_iff)
      then show ?thesis by simp
    qed
    ultimately have "pow2 (bit_count ?m) \<le> of_int n" using ih(2) by linarith
    with up ih(1) b show ?thesis by simp
  qed
qed

lemma ilog2_bounds:
  assumes "0 < x"
  shows "pow2 (ilog2 x) \<le> x" and "x < pow2 (ilog2 x + 1)"
proof -
  obtain n d where q: "quotient_of x = (n, d)" by force
  have d: "0 < d" using q quotient_of_denom_pos by blast
  have x: "x = of_int n / of_int d" using q by (rule quotient_of_div)
  have n: "0 < n" using assms d unfolding x by (simp add: zero_less_divide_iff)
  note bn = bit_count_bounds [OF n] and bd = bit_count_bounds [OF d]
  let ?e = "bit_count n - bit_count d"
  have lo: "pow2 (?e - 1) \<le> x"
  proof -
    have "pow2 (?e - 1) * of_int d \<le> pow2 (?e - 1) * pow2 (bit_count d)" using bd by (intro mult_left_mono) auto
    also have "\<dots> = pow2 (bit_count n - 1)" by (simp flip: pow2_add)
    also have "\<dots> \<le> of_int n" using bn by simp
    finally show ?thesis using d by (simp add: x pos_le_divide_eq)
  qed
  have hi: "x < pow2 (?e + 1)"
  proof -
    have "of_int n < pow2 (bit_count n)" using bn by simp
    also have "\<dots> = pow2 (?e + 1) * pow2 (bit_count d - 1)" by (simp flip: pow2_add)
    also have "\<dots> \<le> pow2 (?e + 1) * of_int d" using bd by (intro mult_left_mono) auto
    finally show ?thesis using d by (simp add: x pos_divide_less_eq)
  qed
  have "ilog2 x = (if x < pow2 ?e then ?e - 1 else ?e)" by (simp add: ilog2_def q Let_def)
  then show "pow2 (ilog2 x) \<le> x" "x < pow2 (ilog2 x + 1)" using lo hi by (auto split: if_splits)
qed

lemma pow2_less: "pow2 a < pow2 b \<longleftrightarrow> a < b"
proof -
  have "pow2 a < pow2 b \<longleftrightarrow> real_of_rat (pow2 a) < real_of_rat (pow2 b)" by (simp only: of_rat_less)
  then show ?thesis by (simp add: pow2_powr)
qed

lemma ilog2_eqI: "pow2 k \<le> x \<Longrightarrow> x < pow2 (k + 1) \<Longrightarrow> ilog2 x = k"
proof -
  assume k: "pow2 k \<le> x" "x < pow2 (k + 1)"
  then have "0 < x" using pow2_pos(1) less_le_trans by blast
  note b = ilog2_bounds [OF this]
  have "pow2 k < pow2 (ilog2 x + 1)" "pow2 (ilog2 x) < pow2 (k + 1)" using k b by linarith+
  then show ?thesis by (simp add: pow2_less)
qed

lemma nearest_even_error: "\<bar>of_int (nearest_even x) - x\<bar> \<le> 1 / 2"
proof -
  have "of_int \<lfloor>x\<rfloor> \<le> x" "x < of_int \<lfloor>x\<rfloor> + 1" using floor_correct [of x] by simp_all
  then show ?thesis by (auto simp: nearest_even_def Let_def abs_le_iff)
qed

lemma rounded_error: "\<bar>rounded x - x\<bar> \<le> pow2 (ulp_exp x) / 2"
proof (cases "x = 0")
  case False
  let ?u = "pow2 (ulp_exp x)" and ?m = "nearest_even (\<bar>x\<bar> / pow2 (ulp_exp x))"
  have "\<bar>of_int ?m - \<bar>x\<bar> / ?u\<bar> * ?u \<le> 1 / 2 * ?u"
    by (intro mult_right_mono nearest_even_error) simp
  moreover have "\<bar>of_int ?m - \<bar>x\<bar> / ?u\<bar> * ?u = \<bar>of_int ?m * ?u - \<bar>x\<bar>\<bar>"
  proof -
    have "(of_int ?m - \<bar>x\<bar> / ?u) * ?u = of_int ?m * ?u - \<bar>x\<bar>" by (simp add: left_diff_distrib)
    then show ?thesis by (metis abs_mult abs_of_pos pow2_pos(1))
  qed
  ultimately have "\<bar>of_int ?m * ?u - \<bar>x\<bar>\<bar> \<le> ?u / 2" by simp
  then show ?thesis using False by (auto simp: rounded_def Let_def abs_if split: if_splits)
qed (simp add: rounded_def)

text \<open>For numbers that are not subnormal the error is relative to the number.\<close>

lemma rounded_relative:
  assumes "x = 0 \<or> pow2 (- 1022) \<le> \<bar>x\<bar>"
  shows "\<bar>rounded x - x\<bar> \<le> \<bar>x\<bar> / 2 ^ 53"
proof (cases "x = 0")
  case False
  note b = ilog2_bounds [of "\<bar>x\<bar>"]
  have "- 1022 < ilog2 \<bar>x\<bar> + 1"
    using assms b(2) False by (intro pow2_less [THEN iffD1]) (auto intro: le_less_trans)
  then have u: "ulp_exp x = ilog2 \<bar>x\<bar> - 52" by (simp add: ulp_exp_def)
  have "pow2 (ilog2 \<bar>x\<bar> - 52) / 2 = pow2 (ilog2 \<bar>x\<bar>) / 2 ^ 53"
    unfolding pow2_diff by (simp add: pow2_def [of 52])
  also have "\<dots> \<le> \<bar>x\<bar> / 2 ^ 53" using b(1) False by (intro divide_right_mono) auto
  finally show ?thesis using rounded_error [of x] u by simp
qed (simp add: rounded_def)

lemma rounded_nonneg: "0 \<le> x \<Longrightarrow> 0 \<le> rounded x"
proof -
  assume x: "0 \<le> x"
  have "0 \<le> nearest_even y" if "0 \<le> y" for y :: rat
    using that by (auto simp: nearest_even_def Let_def)
  then show ?thesis using x by (auto simp: rounded_def Let_def)
qed

lemma round64_Fin: "\<bar>rounded x\<bar> < pow2 1024 \<Longrightarrow> round64 x = Fin (rounded x)"
  by (simp add: round64_def Let_def)

lemma floor_rat_numeral: "\<lfloor>numeral a / numeral b :: rat\<rfloor> = numeral a div numeral b"
  using floor_divide_of_int_eq [of "numeral a" "numeral b", where 'a = rat] by simp

text \<open>To round a positive number, find the power of two below it.\<close>

lemma rounded_eval:
  assumes "pow2 k \<le> x" and "x < pow2 (k + 1)" and "- 1022 \<le> k"
  shows "rounded x = of_int (nearest_even (x / pow2 (k - 52))) * pow2 (k - 52)"
proof -
  have x: "0 < x" using assms(1) pow2_pos(1) less_le_trans by blast
  then have "ulp_exp x = k - 52" using ilog2_eqI [OF assms(1,2)] assms(3) by (simp add: ulp_exp_def)
  then show ?thesis using x by (simp add: rounded_def)
qed

section \<open>Whole numbers\<close>

text \<open>Integers of at most 53 bits are represented exactly.\<close>

lemma nearest_even_of_int [simp]: "nearest_even (of_int k) = k"
  by (simp add: nearest_even_def)

lemma rounded_of_int:
  assumes "\<bar>i\<bar> < 2 ^ 53"
  shows "rounded (of_int i) = of_int i"
proof (cases "i = 0")
  case False
  let ?x = "of_int i :: rat"
  note b = ilog2_bounds [of "\<bar>?x\<bar>"]
  have "of_int \<bar>i\<bar> < (of_int (2 ^ 53) :: rat)" using assms by (subst of_int_less_iff)
  then have "\<bar>?x\<bar> < pow2 53" by (simp add: pow2_def)
  then have "ilog2 \<bar>?x\<bar> < 53" using b(1) False by (intro pow2_less [THEN iffD1]) (auto intro: le_less_trans)
  then have u: "ulp_exp ?x \<le> 0" by (simp add: ulp_exp_def)
  let ?k = "nat (- ulp_exp ?x)"
  have p: "pow2 (ulp_exp ?x) = 1 / 2 ^ ?k" using u by (auto simp: pow2_def)
  then have "\<bar>?x\<bar> / pow2 (ulp_exp ?x) = of_int (\<bar>i\<bar> * 2 ^ ?k)" by simp
  then have "nearest_even (\<bar>?x\<bar> / pow2 (ulp_exp ?x)) = \<bar>i\<bar> * 2 ^ ?k" by (simp only: nearest_even_of_int)
  then show ?thesis using False by (auto simp: rounded_def p Let_def)
qed (simp add: rounded_def)

lemma round64_of_int:
  assumes "\<bar>i\<bar> < 2 ^ 53"
  shows "round64 (of_int i) = Fin (of_int i)"
proof -
  have "of_int \<bar>i\<bar> < (of_int (2 ^ 53) :: rat)" using assms by (subst of_int_less_iff)
  then have "\<bar>of_int i :: rat\<bar> < pow2 53" by (simp add: pow2_def)
  also have "pow2 53 \<le> pow2 1024" by (rule pow2_mono) simp
  finally show ?thesis using rounded_of_int [OF assms] by (simp add: round64_Fin)
qed

lemma int_of_float_of_int [simp]: "- (2 ^ 63) \<le> i \<Longrightarrow> i < 2 ^ 63 \<Longrightarrow> int_of_float (Fin (of_int i)) = i"
  by (simp add: int_of_float_def truncated_def)

lemma digits_int_val:
  assumes "list_all is_digit s"
  shows "digits_int s = int (digits_val s)"
proof -
  have "foldl (\<lambda>n c. 10 * n + (of_char c - 48)) (int k) s = int (foldl (\<lambda>n c. 10 * n + (of_char c - 48)) k s)" for k
    using assms
  proof (induction s arbitrary: k)
    case (Cons c s)
    then have "48 \<le> (of_char c :: nat)" by (simp add: is_digit_def)
    then have "10 * int k + (of_char c - 48) = int (10 * k + (of_char c - 48))"
      by (simp add: of_nat_diff of_nat_of_char)
    with Cons.IH [of "10 * k + (of_char c - 48)"] Cons.prems show ?case by simp
  qed simp
  from this [of 0] show ?thesis by (simp add: digits_int_def digits_val_def)
qed

lemma mantissa_dec: "(r = [] \<or> \<not> is_digit (hd r) \<and> hd r \<noteq> CHR ''.'') \<Longrightarrow> mantissa (dec n @ r) = (dec n, [], r)"
proof -
  assume r: "r = [] \<or> \<not> is_digit (hd r) \<and> hd r \<noteq> CHR ''.''"
  have "\<forall>c \<in> set (dec n). is_digit c" using dec_digits [of n] by (simp add: list_all_iff)
  then have "takeWhile is_digit (dec n @ r) = dec n @ takeWhile is_digit r" by (simp add: takeWhile_append2)
  also have "takeWhile is_digit r = []" using r by (cases r) auto
  finally have tw: "takeWhile is_digit (dec n @ r) = dec n" by simp
  show ?thesis unfolding mantissa_def tw Let_def using r by (cases r) simp_all
qed

lemma dec_not_name: "hd t = CHR ''i'' \<or> hd t = CHR ''n'' \<Longrightarrow> to_lower (dec n @ r) \<noteq> t"
proof
  assume t: "hd t = CHR ''i'' \<or> hd t = CHR ''n''" and e: "to_lower (dec n @ r) = t"
  obtain c cs where c: "dec n = c # cs" by (cases "dec n") auto
  then have "is_digit c" using dec_digits [of n] by simp
  then have "lower_char c = c" by (auto simp: lower_char_def is_digit_def)
  with c e t \<open>is_digit c\<close> show False by (auto simp: to_lower_def is_digit_def)
qed

lemma atoi_parts_dec_append: "atoi_parts (dec n @ r) = (False, dec n @ r)"
  using dec_sign [of n] by (cases "dec n") (auto simp: atoi_parts_def)

lemma ParseFloat_dec:
  assumes "n < 2 ^ 53"
  shows "ParseFloat (dec n) = (Fin (of_nat n), None)"
proof -
  have "decimal (dec n) = Some (of_int (int n))"
    using mantissa_dec [of "[]" n] by (simp add: decimal_def exp_part_def digits_int_val [OF dec_digits] pow10_def)
  moreover have "round64 (of_int (int n)) = Fin (of_int (int n))" using assms by (intro round64_of_int) simp
  ultimately show ?thesis
    using dec_not_name [of "''inf''" n "[]"] dec_not_name [of "''infinity''" n "[]"] dec_not_name [of "''nan''" n "[]"]
    by (simp add: ParseFloat_def atoi_parts_dec with_sign_def)
qed

lemma ParseFloat_dec_junk:
  assumes "\<not> is_digit c" and "c \<notin> set ''.eE''"
  shows "ParseFloat (dec n @ c # r) = (Fin 0, Some NumSyntax)"
proof -
  have "decimal (dec n @ c # r) = None"
    using mantissa_dec [of "c # r" n] assms by (simp add: decimal_def exp_part_def)
  then show ?thesis
    using dec_not_name [of "''inf''" n "c # r"] dec_not_name [of "''infinity''" n "c # r"] dec_not_name [of "''nan''" n "c # r"]
    by (simp add: ParseFloat_def atoi_parts_dec_append)
qed

end
