(* ===== verification/Calendar.thy ===== *)
theory Calendar
  imports Floats World
begin

text \<open>
  Points in time as texts: \<^verbatim>\<open>time.RFC3339\<close> as the results carry it and as Docker prints it, and the date
  of a certificate as \<^verbatim>\<open>openssl\<close> prints it. A point in time is the number of nanoseconds since the
  beginning of 1970; the clock of the machine shows UTC. Durations are what \<^verbatim>\<open>time.Duration\<close> makes of
  them, with 64 bits and floating-point hours.
\<close>

section \<open>The calendar\<close>

definition leap :: "int \<Rightarrow> bool" where
  "leap y \<longleftrightarrow> 4 dvd y \<and> (\<not> 100 dvd y \<or> 400 dvd y)"

definition year_days :: "int \<Rightarrow> int" where
  "year_days y = (if leap y then 366 else 365)"

definition month_days :: "int \<Rightarrow> int list" where
  "month_days y = [31, if leap y then 29 else 28, 31, 30, 31, 30, 31, 31, 30, 31, 30, 31]"

text \<open>The days between the beginning of 1970 and that of a year.\<close>

definition days_before :: "int \<Rightarrow> int" where
  "days_before y = 365 * (y - 1) + (y - 1) div 4 - (y - 1) div 100 + (y - 1) div 400 - 719162"

text \<open>The year of a day, with the days of the year before it; the month likewise.\<close>

function find_year :: "int \<Rightarrow> int \<Rightarrow> int \<times> int" where
  "find_year y d = (if d < year_days y then (y, d) else find_year (y + 1) (d - year_days y))"
  by pat_completeness auto
termination
  by (relation "measure (\<lambda>(y, d). nat d)") (auto simp: year_days_def split: if_splits)

declare find_year.simps [simp del]

fun find_month :: "int list \<Rightarrow> int \<Rightarrow> int \<Rightarrow> int \<times> int" where
  "find_month [] m d = (m, d)"
| "find_month (l # ls) m d = (if d < l then (m, d) else find_month ls (m + 1) (d - l))"

definition civil :: "int \<Rightarrow> int \<times> int \<times> int" where
  "civil days = (case find_year 1970 days of (y, d) \<Rightarrow>
     (case find_month (month_days y) 1 d of (m, e) \<Rightarrow> (y, m, e + 1)))"

definition date_days :: "int \<Rightarrow> int \<Rightarrow> int \<Rightarrow> int" where
  "date_days y m d = days_before y + sum_list (take (nat (m - 1)) (month_days y)) + d - 1"

definition two_digits :: "int \<Rightarrow> string" where
  "two_digits n = pad_dec 2 (nat n)"

definition rfc3339_text :: "int \<Rightarrow> string" where
  "rfc3339_text t = (case civil (t div 86400) of (y, m, d) \<Rightarrow>
     let s = t mod 86400 in
     pad_dec 4 (nat y) @ ''-'' @ two_digits m @ ''-'' @ two_digits d @ ''T'' @
     two_digits (s div 3600) @ '':'' @ two_digits (s div 60 mod 60) @ '':'' @ two_digits (s mod 60) @ ''Z'')"

definition stamp_text :: "stamp \<Rightarrow> string" where
  "stamp_text st = (case st of None \<Rightarrow> [] | Some n \<Rightarrow> rfc3339_text (int n))"

section \<open>Reading a date\<close>

text \<open>A parser gives its result and the rest of the text.\<close>

definition pthen :: "('a \<times> string) option \<Rightarrow> ('a \<Rightarrow> string \<Rightarrow> 'b option) \<Rightarrow> 'b option" where
  "pthen p f = (case p of None \<Rightarrow> None | Some (a, r) \<Rightarrow> f a r)"

definition expect :: "string \<Rightarrow> string \<Rightarrow> (unit \<times> string) option" where
  "expect p s = (if has_prefix s p then Some ((), drop (length p) s) else None)"

text \<open>One or two_digits digits, exactly two_digits when \<open>fixed\<close>.\<close>

definition getnum :: "bool \<Rightarrow> string \<Rightarrow> (int \<times> string) option" where
  "getnum fixed s = (case s of [] \<Rightarrow> None
     | c # cs \<Rightarrow>
         if \<not> is_digit c then None
         else if cs \<noteq> [] \<and> is_digit (hd cs) then Some (digits_int [c, hd cs], tl cs)
         else if fixed then None else Some (digits_int [c], cs))"

definition four_digits :: "string \<Rightarrow> (int \<times> string) option" where
  "four_digits s = (let d = take 4 s in
     if length d = 4 \<and> list_all is_digit d then Some (digits_int d, drop 4 s) else None)"

text \<open>A fraction of a second is accepted although the layouts have none; nine digits count.\<close>

definition frac_nanos :: "string \<Rightarrow> (int \<times> string) option" where
  "frac_nanos s = (case s of
     c # e # cs \<Rightarrow>
       (if (c = CHR ''.'' \<or> c = CHR '','') \<and> is_digit e then
          (let ds = takeWhile is_digit (e # cs); k = take 9 ds in
           Some (digits_int k * 10 ^ (9 - length k), drop (length ds) (e # cs)))
        else Some (0, s))
   | _ \<Rightarrow> Some (0, s))"

definition clock_time :: "string \<Rightarrow> (int \<times> string) option" where
  "clock_time s = pthen (getnum False s) (\<lambda>hh s. pthen (expect '':'' s) (\<lambda>_ s. pthen (getnum True s) (\<lambda>mm s.
     pthen (expect '':'' s) (\<lambda>_ s. pthen (getnum True s) (\<lambda>ss s. pthen (frac_nanos s) (\<lambda>ns s.
     if hh < 24 \<and> mm < 60 \<and> ss < 60 then Some ((hh * 3600 + mm * 60 + ss) * 10 ^ 9 + ns, s) else None))))))"

definition zone_offset :: "string \<Rightarrow> (int \<times> string) option" where
  "zone_offset s = (case s of
     c # cs \<Rightarrow>
       (if c = CHR ''Z'' then Some (0, cs)
        else if c = CHR ''+'' \<or> c = CHR ''-'' then
          pthen (getnum True cs) (\<lambda>hh s. pthen (expect '':'' s) (\<lambda>_ s. pthen (getnum True s) (\<lambda>mm s.
            if hh \<le> 24 \<and> mm \<le> 60 then Some ((if c = CHR ''-'' then -1 else 1) * (hh * 3600 + mm * 60), s) else None)))
        else None)
   | [] \<Rightarrow> None)"

definition valid_date :: "int \<Rightarrow> int \<Rightarrow> int \<Rightarrow> bool" where
  "valid_date y m d \<longleftrightarrow> 1 \<le> m \<and> m \<le> 12 \<and> 1 \<le> d \<and> d \<le> month_days y ! nat (m - 1)"

definition nanos :: "int \<Rightarrow> int \<Rightarrow> int \<Rightarrow> int \<Rightarrow> int \<Rightarrow> int" where
  "nanos y m d clk off = (date_days y m d * 86400 - off) * 10 ^ 9 + clk"

definition parse_time :: "string \<Rightarrow> int option" where
  "parse_time s = pthen (four_digits s) (\<lambda>y s. pthen (expect ''-'' s) (\<lambda>_ s. pthen (getnum True s) (\<lambda>m s.
     pthen (expect ''-'' s) (\<lambda>_ s. pthen (getnum True s) (\<lambda>d s. pthen (expect ''T'' s) (\<lambda>_ s.
     pthen (clock_time s) (\<lambda>clk s. pthen (zone_offset s) (\<lambda>off s.
     if s = [] \<and> valid_date y m d then Some (nanos y m d clk off) else None))))))))"

definition month_names :: "string list" where
  "month_names = [''jan'', ''feb'', ''mar'', ''apr'', ''may'', ''jun'', ''jul'', ''aug'', ''sep'', ''oct'', ''nov'', ''dec'']"

definition month_name :: "string \<Rightarrow> (int \<times> string) option" where
  "month_name s = map_option (\<lambda>i. (i + 1, drop 3 s))
     (map_of (zip month_names [0 .. 11]) (to_lower (take 3 s)))"

text \<open>A space of a layout stands for one or more spaces.\<close>

definition blanks :: "string \<Rightarrow> (unit \<times> string) option" where
  "blanks s = (if s = [] \<or> hd s = CHR '' '' then Some ((), dropWhile (\<lambda>c. c = CHR '' '') s) else None)"

definition parse_openssl_date :: "string \<Rightarrow> int option" where
  "parse_openssl_date s = pthen (month_name s) (\<lambda>m s. pthen (blanks s) (\<lambda>_ s. pthen (getnum False s) (\<lambda>d s.
     pthen (blanks s) (\<lambda>_ s. pthen (clock_time s) (\<lambda>clk s. pthen (blanks s) (\<lambda>_ s. pthen (four_digits s) (\<lambda>y s.
     pthen (blanks s) (\<lambda>_ s. pthen (expect ''GMT'' s) (\<lambda>_ s.
     if s = [] \<and> valid_date y m d then Some (nanos y m d clk 0) else None)))))))))"

section \<open>Durations\<close>

definition clamp64 :: "int \<Rightarrow> int" where
  "clamp64 d = max (- (2 ^ 63)) (min d (2 ^ 63 - 1))"

text \<open>Division as Go does it, towards zero.\<close>

definition quot :: "int \<Rightarrow> int \<Rightarrow> int" where
  "quot a b = (if a < 0 then - ((- a) div b) else a div b)"

definition rmd :: "int \<Rightarrow> int \<Rightarrow> int" where
  "rmd a b = a - quot a b * b"

definition in_units :: "int \<Rightarrow> int \<Rightarrow> float64" where
  "in_units u d = fadd (float_of_int (quot d u)) (fdiv (float_of_int (rmd d u)) (float_of_int u))"

definition dur_hours :: "int \<Rightarrow> float64" where
  "dur_hours d = in_units (3600 * 10 ^ 9) d"

definition dur_minutes :: "int \<Rightarrow> float64" where
  "dur_minutes d = in_units (60 * 10 ^ 9) d"

definition dur_days :: "int \<Rightarrow> int" where
  "dur_days d = int_of_float (fdiv (dur_hours d) (Fin 24))"

definition milliseconds :: "nat \<Rightarrow> int" where
  "milliseconds d = int d div 10 ^ 6"

section \<open>What is written is read back\<close>

lemma days_before_Suc: "days_before (y + 1) = days_before y + year_days y"
proof -
  have d: "y div k = (y - 1) div k + (if k dvd y then 1 else 0)" if "0 < k" for k :: int
  proof (cases "k dvd y")
    case True
    then obtain q where "y = k * q" ..
    moreover from that have "(k * q - 1) div k = q - 1"
      by (intro int_div_pos_eq [where r = "k - 1"]) (auto simp: algebra_simps)
    ultimately show ?thesis using that by simp
  next
    case False
    have "y mod k \<noteq> 0" using False by (simp add: dvd_eq_mod_eq_0)
    then have "1 \<le> y mod k" using that by (metis pos_mod_sign linorder_not_less zless_imp_add1_zle add_0 order_le_less)
    moreover have "y mod k < k" using that by simp
    ultimately have "(y - 1) div k = y div k"
      by (intro int_div_pos_eq [where r = "y mod k - 1"]) (auto simp: algebra_simps mult_div_mod_eq)
    with False show ?thesis by simp
  qed
  have dvd: "400 dvd y \<Longrightarrow> 100 dvd y" "100 dvd y \<Longrightarrow> 4 dvd y"
    by (erule dvd_trans [rotated], simp)+
  have key: "365 * y + q4 - q100 + q400 - c = 365 * (y - 1) + p4 - p100 + p400 - c
      + (if by4 \<and> (\<not> by100 \<or> by400) then 366 else 365)"
    if "q4 = p4 + (if by4 then 1 else 0)" "q100 = p100 + (if by100 then 1 else 0)"
      "q400 = p400 + (if by400 then 1 else 0)" "by400 \<Longrightarrow> by100" "by100 \<Longrightarrow> by4"
    for q4 q100 q400 p4 p100 p400 c by4 by100 by400
    using that by (cases by4; cases by100; cases by400) simp_all
  have "days_before (y + 1) = 365 * y + y div 4 - y div 100 + y div 400 - 719162" by (simp add: days_before_def)
  also have "\<dots> = days_before y + year_days y" unfolding days_before_def year_days_def leap_def
    by (rule key [OF d d d dvd]) simp_all
  finally show ?thesis .
qed

lemma find_year_correct:
  "0 \<le> d \<Longrightarrow> find_year y d = (y', e) \<Longrightarrow> y \<le> y' \<and> days_before y' + e = days_before y + d \<and> 0 \<le> e \<and> e < year_days y'"
proof (induction y d arbitrary: y' e rule: find_year.induct)
  case (1 y d)
  show ?case
  proof (cases "d < year_days y")
    case True
    with 1 show ?thesis by (simp add: find_year.simps [of y d])
  next
    case False
    with 1 show ?thesis by (simp add: find_year.simps [of y d] days_before_Suc)
  qed
qed

lemma find_month_correct:
  "0 \<le> d \<Longrightarrow> d < sum_list ls \<Longrightarrow> find_month ls m d = (m', e) \<Longrightarrow>
     m \<le> m' \<and> m' < m + int (length ls) \<and> 0 \<le> e \<and> e < ls ! nat (m' - m) \<and> sum_list (take (nat (m' - m)) ls) + e = d"
proof (induction ls arbitrary: m d)
  case (Cons l ls)
  show ?case
  proof (cases "d < l")
    case True
    with Cons.prems show ?thesis by auto
  next
    case False
    with Cons.IH [of "d - l" "m + 1"] Cons.prems
    have ih: "m + 1 \<le> m'" "m' < m + 1 + int (length ls)" "0 \<le> e" "e < ls ! nat (m' - (m + 1))"
      "sum_list (take (nat (m' - (m + 1))) ls) + e = d - l" by auto
    have "nat (m' - m) = Suc (nat (m' - (m + 1)))" using ih(1) by simp
    with ih show ?thesis by simp
  qed
qed simp

lemma civil_correct:
  assumes "0 \<le> n" and "civil n = (y, m, d)"
  shows "1970 \<le> y" and "valid_date y m d" and "date_days y m d = n"
proof -
  obtain y' e where y: "find_year 1970 n = (y', e)" by force
  note fy = find_year_correct [OF assms(1) y]
  obtain m' f where m: "find_month (month_days y') 1 e = (m', f)" by force
  have "sum_list (month_days y') = year_days y'" by (simp add: month_days_def year_days_def)
  with fy find_month_correct [OF _ _ m] have fm: "1 \<le> m'" "m' < 1 + int (length (month_days y'))" "0 \<le> f"
    "f < month_days y' ! nat (m' - 1)" "sum_list (take (nat (m' - 1)) (month_days y')) + f = e" by auto
  have len: "length (month_days y') = 12" by (simp add: month_days_def)
  have "y = y'" "m = m'" "d = f + 1" using assms(2) y m by (simp_all add: civil_def)
  moreover have "days_before 1970 = 0" by (simp add: days_before_def)
  ultimately show "1970 \<le> y" "valid_date y m d" "date_days y m d = n"
    using fy fm len by (simp_all add: valid_date_def date_days_def)
qed

end
