(* ===== verification/Harden.thy ===== *)
theory Harden
  imports Steps Paths Calendar
begin

text \<open>
  \<^verbatim>\<open>internal/harden/harden.go\<close>: locking down a VM in nine steps, with a rollback when SSH or the
  firewall could not be set up. A command runs with a time limit: one that would take longer is
  killed at the limit and counts as failed, whatever it did until then. Times are UTC.
\<close>

section \<open>Time stamps in names\<close>

text \<open>\<^verbatim>\<open>Format("20060102-150405")\<close>; the other stamps are \<^const>\<open>stamp_text\<close>.\<close>

definition backup_stamp :: "nat \<Rightarrow> string" where
  "backup_stamp t =
     (let secs = int (t div 10 ^ 9); r = secs mod 86400 in
      case civil (secs div 86400) of (y, m, d) \<Rightarrow>
        pad_dec 4 (nat y) @ two_digits m @ two_digits d @ ''-'' @
        two_digits (r div 3600) @ two_digits (r div 60 mod 60) @ two_digits (r mod 60))"

section \<open>Commands with a time limit\<close>

definition backupDir :: string where "backupDir = ''/var/backups/supabyoi''"
definition sshdConfigDir :: string where "sshdConfigDir = ''/etc/ssh/sshd_config.d''"
definition sshdConfigFile :: string where "sshdConfigFile = ''/etc/ssh/sshd_config.d/supabyoi.conf''"
definition rollbackScriptPath :: string where "rollbackScriptPath = ''/usr/local/bin/supabyoi-rollback-hardening.sh''"

definition timed_cmd :: "'x host \<Rightarrow> nat \<Rightarrow> string list \<Rightarrow> ('x, cmdres) io" where
  "timed_cmd h timeout argv = State (\<lambda>s.
     let (r, s') = run_state (exec_cmd h argv) s in
     if now s + timeout < now s'
     then (r\<lparr>cr_status := Some ''signal: killed''\<rparr>, s'\<lparr>now := now s + timeout\<rparr>)
     else (r, s'))"

definition runCmd :: "'x host \<Rightarrow> nat \<Rightarrow> string list \<Rightarrow> ('x, error option) io" where
  "runCmd h timeout argv = do {
     r \<leftarrow> timed_cmd h (seconds timeout) argv;
     ret (cr_status r)
   }"

definition runCmdOutput :: "'x host \<Rightarrow> nat \<Rightarrow> string list \<Rightarrow> ('x, string \<times> error option) io" where
  "runCmdOutput h timeout argv = do {
     r \<leftarrow> timed_cmd h (seconds timeout) argv;
     ret (cr_out r, cr_status r)
   }"

text \<open>Run a command whose failure is an error, and go on otherwise.\<close>

definition must ::
  "'x host \<Rightarrow> nat \<Rightarrow> string list \<Rightarrow> string \<Rightarrow> ('x, error option) io \<Rightarrow> ('x, error option) io" where
  "must h timeout argv what k = do {
     err \<leftarrow> runCmd h timeout argv;
     case err of Some e \<Rightarrow> ret (Some (what @ '': '' @ e)) | None \<Rightarrow> k
   }"

definition best_effort :: "'x host \<Rightarrow> nat \<Rightarrow> string list \<Rightarrow> ('x, 'a) io \<Rightarrow> ('x, 'a) io" where
  "best_effort h timeout argv k = do { _ \<leftarrow> runCmd h timeout argv; k }"

definition must_write ::
  "'x host \<Rightarrow> string \<Rightarrow> string \<Rightarrow> nat \<Rightarrow> string \<Rightarrow> ('x, error option) io \<Rightarrow> ('x, error option) io" where
  "must_write h path content mode what k = do {
     err \<leftarrow> os_write h path content mode;
     case err of Some e \<Rightarrow> ret (Some (what @ '': '' @ err_text e)) | None \<Rightarrow> k
   }"

definition must_mkdir :: "'x host \<Rightarrow> string \<Rightarrow> string \<Rightarrow> ('x, error option) io \<Rightarrow> ('x, error option) io" where
  "must_mkdir h path what k = do {
     err \<leftarrow> os_mkdir_all h path;
     case err of Some e \<Rightarrow> ret (Some (what @ '': '' @ err_text e)) | None \<Rightarrow> k
   }"

section \<open>The steps\<close>

text \<open>The checks come with the configuration they leave, in which the user is not empty.\<close>

definition preflightChecks :: "'x host \<Rightarrow> HardenConfig \<Rightarrow> ('x, error + HardenConfig) io" where
  "preflightChecks h cfg =
     (if heuid h \<noteq> 0 then ret (Inl ''hardening must run as root or with sudo'')
      else if hc_SSHPublicKey cfg = [] then ret (Inl ''SSH public key is required'')
      else if \<not> has_prefix (hc_SSHPublicKey cfg) ''ssh-'' then ret (Inl ''invalid SSH public key format'')
      else if hc_SSHPort cfg < 1 \<or> 65535 < hc_SSHPort cfg then ret (Inl ''SSH port must be between 1 and 65535'')
      else do {
        r \<leftarrow> os_stat h ''/etc/debian_version'';
        case r of
          Inl e \<Rightarrow> ret (Inl ''currently only Ubuntu/Debian systems are supported'')
        | Inr n \<Rightarrow> do {
            let cfg = (if hc_VMUser cfg = [] then cfg\<lparr>hc_VMUser := ''supabyoi''\<rparr> else cfg);
            err \<leftarrow> os_mkdir_all h backupDir;
            ret (case err of Some e \<Rightarrow> Inl (''cannot create backup directory: '' @ err_text e) | None \<Rightarrow> Inr cfg)
          }
      })"

fun backup_files :: "'x host \<Rightarrow> string \<Rightarrow> string list \<Rightarrow> ('x, error option) io" where
  "backup_files h timestamp [] = ret None"
| "backup_files h timestamp (file # files) = do {
     r \<leftarrow> os_stat h file;
     case r of
       Inl e \<Rightarrow> backup_files h timestamp files
     | Inr n \<Rightarrow> must h 10 [''cp'', ''-p'', file, path_join [backupDir, path_base file @ ''.'' @ timestamp]]
         (''failed to backup '' @ file) (backup_files h timestamp files)
   }"

definition createBackups :: "'x host \<Rightarrow> ('x, error option) io" where
  "createBackups h = do {
     t \<leftarrow> time_now;
     backup_files h (backup_stamp t) [''/etc/ssh/sshd_config'', ''/root/.ssh/authorized_keys'']
   }"

fun extra_keys :: "string list \<Rightarrow> error + string" where
  "extra_keys [] = Inr []"
| "extra_keys (extra # extras) =
     (let trimmed = trim_space extra in
      if trimmed = [] then extra_keys extras
      else if \<not> has_prefix trimmed ''ssh-'' then
        Inl (''invalid extra SSH public key (must start with '' @ [CHR 0x27] @ ''ssh-'' @ [CHR 0x27] @ ''): '' @ go_quoted trimmed)
      else (case extra_keys extras of Inl e \<Rightarrow> Inl e | Inr b \<Rightarrow> Inr (trimmed @ [NL] @ b)))"

definition buildAuthorizedKeys :: "string \<Rightarrow> string list \<Rightarrow> error + string" where
  "buildAuthorizedKeys primary extras =
     (case extra_keys extras of Inl e \<Rightarrow> Inl e | Inr b \<Rightarrow> Inr (primary @ [NL] @ b))"

definition install_keys :: "'x host \<Rightarrow> HardenConfig \<Rightarrow> ('x, error option) io" where
  "install_keys h cfg = (
     let sshDir = ''/home/'' @ hc_VMUser cfg @ ''/.ssh'' in
     must_mkdir h sshDir ''failed to create .ssh directory''
       (case buildAuthorizedKeys (hc_SSHPublicKey cfg) (hc_ExtraAuthorizedKeys cfg) of
          Inl e \<Rightarrow> ret (Some e)
        | Inr content \<Rightarrow>
            must_write h (path_join [sshDir, ''authorized_keys'']) content 384 ''failed to write authorized_keys''
             (must h 10 [''chown'', ''-R'', hc_VMUser cfg @ '':'' @ hc_VMUser cfg, sshDir] ''failed to set ownership''
               (must h 10 [''sudo'', ''-u'', hc_VMUser cfg, ''sudo'', ''-n'', ''true''] ''user cannot sudo without password''
                 (ret None)))))"

definition configure_sudo :: "'x host \<Rightarrow> HardenConfig \<Rightarrow> ('x, error option) io" where
  "configure_sudo h cfg = (
     let sudoersFile = ''/etc/sudoers.d/'' @ hc_VMUser cfg in
     must_write h sudoersFile (hc_VMUser cfg @ '' ALL=(ALL) NOPASSWD:ALL'' @ [NL]) 288 ''failed to configure sudo''
       (do {
          err \<leftarrow> runCmd h 5 [''visudo'', ''-c'', ''-f'', sudoersFile];
          case err of
            Some e \<Rightarrow> do { _ \<leftarrow> os_remove h sudoersFile; ret (Some (''invalid sudoers configuration: '' @ e)) }
          | None \<Rightarrow> install_keys h cfg
        }))"

definition add_to_groups :: "'x host \<Rightarrow> HardenConfig \<Rightarrow> ('x, error option) io" where
  "add_to_groups h cfg =
     must h 10 [''usermod'', ''-aG'', ''sudo'', hc_VMUser cfg] ''failed to add user to sudo group''
      (must h 10 [''usermod'', ''-aG'', ''docker'', hc_VMUser cfg]
         ''failed to add user to docker group (is Docker installed?)''
        (do {
           (out, err) \<leftarrow> runCmdOutput h 5 [''groups'', hc_VMUser cfg];
           if err \<noteq> None \<or> \<not> str_contains out ''docker''
           then ret (Some (''usermod -aG docker succeeded but '' @ hc_VMUser cfg @ '' is not in docker group (groups: ''
             @ trim_space out @ '')''))
           else configure_sudo h cfg
         }))"

definition configureUser :: "'x host \<Rightarrow> HardenConfig \<Rightarrow> ('x, error option) io" where
  "configureUser h cfg = do {
     missing \<leftarrow> runCmd h 5 [''id'', ''-u'', hc_VMUser cfg];
     if missing \<noteq> None
     then must h 10 [''useradd'', ''-m'', ''-s'', ''/bin/bash'', hc_VMUser cfg] ''failed to create user'' (add_to_groups h cfg)
     else add_to_groups h cfg
   }"

definition sshd_config :: "nat \<Rightarrow> int \<Rightarrow> string" where
  "sshd_config t port = unlines
     [''# VMKit SSH Security Configuration'',
      ''# Generated on '' @ stamp_text (rfc3339 t),
      [],
      ''Port '' @ itoa port,
      ''PermitRootLogin no'',
      ''PasswordAuthentication no'',
      ''PubkeyAuthentication yes'',
      ''KbdInteractiveAuthentication no'',
      ''UsePAM yes'']"

definition configureSSH :: "'x host \<Rightarrow> HardenConfig \<Rightarrow> ('x, error option) io" where
  "configureSSH h cfg =
     must_mkdir h sshdConfigDir ''failed to create sshd config directory''
      (do {
         t \<leftarrow> time_now;
         must_write h sshdConfigFile (sshd_config t (hc_SSHPort cfg)) 420 ''failed to write SSH config''
          (do {
             _ \<leftarrow> os_mkdir_all h ''/run/sshd'';
             r \<leftarrow> timed_cmd h (seconds 10) [''/usr/sbin/sshd'', ''-t''];
             case cr_status r of
               Some e \<Rightarrow> do {
                 _ \<leftarrow> os_remove h sshdConfigFile;
                 ret (Some (''invalid SSH configuration ('' @ e @ ''): '' @ trim_space (cr_all r)))
               }
             | None \<Rightarrow> ret None
           })
       })"

text \<open>The ten attempts to see the service active.\<close>

fun await_active :: "'x host \<Rightarrow> string \<Rightarrow> nat \<Rightarrow> ('x, unit) io" where
  "await_active h serviceName 0 = ret ()"
| "await_active h serviceName (Suc n) = do {
     err \<leftarrow> runCmd h 5 [''systemctl'', ''is-active'', serviceName];
     if err = None then ret ()
     else do { _ \<leftarrow> sleep (seconds 1); await_active h serviceName n }
   }"

definition listening_on :: "string \<Rightarrow> int \<Rightarrow> bool" where
  "listening_on output port = str_contains output ('':'' @ itoa port)"

definition restart_service :: "'x host \<Rightarrow> HardenConfig \<Rightarrow> string \<Rightarrow> ('x, error option) io" where
  "restart_service h cfg serviceName =
     must h 15 [''systemctl'', ''enable'', serviceName] (''failed to enable '' @ serviceName @ '' service'')
      (must h 30 [''systemctl'', ''restart'', serviceName] ''failed to restart SSH service''
        (do {
           _ \<leftarrow> await_active h serviceName 10;
           (output, err) \<leftarrow> runCmdOutput h 10 [''ss'', ''-tuln''];
           case err of
             Some e \<Rightarrow> ret (Some (''failed to check listening ports: '' @ e))
           | None \<Rightarrow>
               if \<not> listening_on output (hc_SSHPort cfg)
               then ret (Some (''SSH is not listening on port '' @ itoa (hc_SSHPort cfg)))
               else must h 10 [''timeout'', ''5'', ''nc'', ''-z'', ''localhost'', itoa (hc_SSHPort cfg)]
                 (''cannot connect to SSH on port '' @ itoa (hc_SSHPort cfg)) (ret None)
         }))"

definition restartAndTestSSH :: "'x host \<Rightarrow> HardenConfig \<Rightarrow> ('x, error option) io" where
  "restartAndTestSSH h cfg = do {
     (out, err) \<leftarrow> runCmdOutput h 5 [''systemctl'', ''cat'', ''ssh.service''];
     let serviceName = (if err \<noteq> None then ''sshd'' else ''ssh'');
     let socketName = serviceName @ ''.socket'';
     inactive \<leftarrow> runCmd h 5 [''systemctl'', ''is-active'', socketName];
     if inactive = None then
       must h 30 [''systemctl'', ''stop'', socketName] (''failed to stop '' @ socketName @ '' (required for port change)'')
        (must h 15 [''systemctl'', ''disable'', socketName]
           (''failed to disable '' @ socketName @ '' (required for port change)'')
          (do {
             _ \<leftarrow> sleep (5 * 10 ^ 8);
             inactive \<leftarrow> runCmd h 5 [''systemctl'', ''is-active'', socketName];
             if inactive = None
             then ret (Some (socketName @ '' is still active after stop/disable - systemd may be auto-restarting it''))
             else restart_service h cfg serviceName
           }))
     else restart_service h cfg serviceName
   }"

definition allow_ssh :: "int \<Rightarrow> string list" where
  "allow_ssh port = [''ufw'', ''allow'', itoa port @ ''/tcp'']"

definition enable_ufw :: "string list" where
  "enable_ufw = [''ufw'', ''--force'', ''enable'']"

definition firewall_rules :: "'x host \<Rightarrow> HardenConfig \<Rightarrow> ('x, error option) io" where
  "firewall_rules h cfg =
     must h 15 (allow_ssh (hc_SSHPort cfg)) ''failed to allow SSH port''
      (best_effort h 15 [''ufw'', ''allow'', ''80/tcp'']
       (best_effort h 15 [''ufw'', ''allow'', ''443/tcp'']
        (must h 15 [''ufw'', ''default'', ''deny'', ''incoming''] ''failed to set default deny''
         (must h 15 [''ufw'', ''default'', ''allow'', ''outgoing''] ''failed to set default allow outgoing''
          (must h 30 enable_ufw ''failed to enable UFW''
           (do {
              (output, err) \<leftarrow> runCmdOutput h 10 [''ufw'', ''status''];
              ret (case err of
                  Some e \<Rightarrow> Some (''failed to check UFW status: '' @ e)
                | None \<Rightarrow>
                    if \<not> str_contains output ''Status: active'' then Some ''UFW is not active after enabling''
                    else if \<not> str_contains output (itoa (hc_SSHPort cfg) @ ''/tcp'')
                    then Some (''SSH port '' @ itoa (hc_SSHPort cfg) @ '' is not allowed in UFW'')
                    else None)
            }))))))"

definition install_if_missing :: "'x host \<Rightarrow> string \<Rightarrow> string \<Rightarrow> ('x, error option) io \<Rightarrow> ('x, error option) io" where
  "install_if_missing h tool package k = do {
     missing \<leftarrow> runCmd h 5 [''which'', tool];
     if missing \<noteq> None
     then best_effort h 60 [''apt-get'', ''update'']
       (must h 120 [''apt-get'', ''install'', ''-y'', package] (''failed to install '' @ (if tool = ''ufw'' then ''UFW'' else package)) k)
     else k
   }"

definition configureFirewall :: "'x host \<Rightarrow> HardenConfig \<Rightarrow> ('x, error option) io" where
  "configureFirewall h cfg = install_if_missing h ''ufw'' ''ufw'' (firewall_rules h cfg)"

definition jail_config :: "int \<Rightarrow> string" where
  "jail_config port = unlines
     [''[sshd]'', ''enabled = true'', ''port = '' @ itoa port, ''filter = sshd'', ''logpath = /var/log/auth.log'',
      ''maxretry = 3'', ''bantime = 3600'', ''findtime = 600'']"

definition installFail2Ban :: "'x host \<Rightarrow> HardenConfig \<Rightarrow> ('x, error option) io" where
  "installFail2Ban h cfg = install_if_missing h ''fail2ban-client'' ''fail2ban''
     (must_write h ''/etc/fail2ban/jail.d/supabyoi-sshd.conf'' (jail_config (hc_SSHPort cfg)) 420
        ''failed to write fail2ban config''
       (must h 30 [''systemctl'', ''restart'', ''fail2ban''] ''failed to restart fail2ban''
         (must h 15 [''systemctl'', ''enable'', ''fail2ban''] ''failed to enable fail2ban'' (ret None))))"

definition autoUpgradeConfig :: string where
  \<open>autoUpgradeConfig = unlines
     [''APT::Periodic::Update-Package-Lists "1";'',
      ''APT::Periodic::Unattended-Upgrade "1";'',
      ''APT::Periodic::AutocleanInterval "7";'']\<close>

definition unattendedConfig :: string where
  \<open>unattendedConfig = unlines
     [''Unattended-Upgrade::Allowed-Origins {'',
      ''    "${distro_id}:${distro_codename}-security";'',
      ''};'',
      ''Unattended-Upgrade::AutoFixInterruptedDpkg "true";'',
      ''Unattended-Upgrade::MinimalSteps "true";'']\<close>

definition enableAutoUpdates :: "'x host \<Rightarrow> ('x, error option) io" where
  "enableAutoUpdates h = install_if_missing h ''unattended-upgrade'' ''unattended-upgrades''
     (must_write h ''/etc/apt/apt.conf.d/20auto-upgrades'' autoUpgradeConfig 420 ''failed to write auto-upgrade config''
       (do {
          r \<leftarrow> os_stat h ''/etc/apt/apt.conf.d/50unattended-upgrades'';
          if (case r of Inl e \<Rightarrow> is_not_exist e | Inr n \<Rightarrow> False)
          then must_write h ''/etc/apt/apt.conf.d/50unattended-upgrades'' unattendedConfig 420
            ''failed to write unattended-upgrades config'' (ret None)
          else ret None
        }))"

definition rollback_script :: string where
  \<open>rollback_script = unlines
     [''#!/bin/bash'',
      ''# Supabyoi VM Hardening Emergency Rollback Script'',
      ''# This script should be run from console access if you get locked out'',
      ''# Usage: sudo '' @ rollbackScriptPath,
      [],
      ''set -e'',
      [],
      ''echo "=== Supabyoi VM Hardening Rollback ==="'',
      ''echo "This will restore SSH configuration from backups"'',
      ''echo ""'',
      [],
      ''BACKUP_DIR="'' @ backupDir @ ''"'',
      [],
      ''# Find latest backups'',
      ''LATEST_SSHD=$(ls -t $BACKUP_DIR/sshd_config.* 2>/dev/null | head -1)'',
      [],
      ''if [ -z "$LATEST_SSHD" ]; then'',
      ''    echo "ERROR: No backup files found in $BACKUP_DIR"'',
      ''    exit 1'',
      ''fi'',
      [],
      ''echo "Found backups:"'',
      ''echo "  SSH config: $LATEST_SSHD"'',
      ''echo ""'',
      [],
      ''# Restore sshd_config'',
      ''echo "Restoring SSH configuration..."'',
      ''cp -f "$LATEST_SSHD" /etc/ssh/sshd_config'',
      [],
      ''# Remove custom config'',
      ''if [ -f "'' @ sshdConfigFile @ ''" ]; then'',
      ''    echo "Removing custom SSH config..."'',
      ''    rm -f "'' @ sshdConfigFile @ ''"'',
      ''fi'',
      [],
      ''# Temporarily enable root login on port 22'',
      ''echo "Temporarily enabling root login on port 22..."'',
      ''sed -i '' @ [CHR 0x27] @ ''s/^#*PermitRootLogin.*/PermitRootLogin yes/'' @ [CHR 0x27] @ '' /etc/ssh/sshd_config'',
      ''sed -i '' @ [CHR 0x27] @ ''s/^#*Port.*/Port 22/'' @ [CHR 0x27] @ '' /etc/ssh/sshd_config'',
      [],
      ''# Restart SSH'',
      ''echo "Restarting SSH service..."'',
      ''systemctl restart ssh 2>/dev/null || systemctl restart sshd'',
      [],
      ''# Disable UFW if active'',
      ''if command -v ufw >/dev/null 2>&1; then'',
      ''    echo "Disabling UFW firewall..."'',
      ''    ufw --force disable'',
      ''fi'',
      [],
      ''echo ""'',
      ''echo "=== Rollback Complete ==="'',
      ''echo "You should now be able to connect via:"'',
      ''echo "  ssh root@<server-ip> -p 22"'',
      ''echo ""'',
      ''echo "IMPORTANT: Re-run hardening with correct configuration"'',
      ''exit 0'']\<close>

definition createRollbackScript :: "'x host \<Rightarrow> ('x, error option) io" where
  "createRollbackScript h =
     must_write h rollbackScriptPath rollback_script 493 ''failed to write rollback script'' (ret None)"

section \<open>Rollback\<close>

text \<open>A command whose success is a line of the report.\<close>

definition noted :: "'x host \<Rightarrow> nat \<Rightarrow> string list \<Rightarrow> string \<Rightarrow> ('x, string list) io" where
  "noted h timeout argv what = do {
     err \<leftarrow> runCmd h timeout argv;
     ret (if err = None then [what] else [])
   }"

definition latest_backup :: "(string \<times> bool) list \<Rightarrow> string option" where
  "latest_backup files =
     (case filter (\<lambda>(n, d). has_prefix n ''sshd_config.'') (rev files) of
        [] \<Rightarrow> None
      | f # fs' \<Rightarrow> Some (path_join [backupDir, fst f]))"

definition restore_sshd_config :: "'x host \<Rightarrow> (string \<times> bool) list \<Rightarrow> ('x, string list) io" where
  "restore_sshd_config h files =
     (case latest_backup files of
        None \<Rightarrow> ret []
      | Some latest \<Rightarrow> noted h 10 [''cp'', ''-f'', latest, ''/etc/ssh/sshd_config''] ''Restored /etc/ssh/sshd_config'')"

definition remove_custom_config :: "'x host \<Rightarrow> ('x, string list) io" where
  "remove_custom_config h = do {
     r \<leftarrow> os_stat h sshdConfigFile;
     case r of
       Inl e \<Rightarrow> ret []
     | Inr n \<Rightarrow> do { _ \<leftarrow> os_remove h sshdConfigFile; ret [''Removed '' @ sshdConfigFile] }
   }"

definition restore_socket :: "'x host \<Rightarrow> ('x, string list) io" where
  "restore_socket h = do {
     err \<leftarrow> runCmd h 30 [''systemctl'', ''stop'', ''ssh''];
     if err = None
     then noted h 15 [''systemctl'', ''start'', ''ssh.socket''] ''Restored SSH socket activation''
     else best_effort h 30 [''systemctl'', ''stop'', ''sshd'']
       (best_effort h 15 [''systemctl'', ''enable'', ''sshd.socket'']
         (noted h 15 [''systemctl'', ''start'', ''sshd.socket''] ''Restored SSH socket activation (sshd)''))
   }"

definition rollback_details :: "string list \<Rightarrow> string" where
  "rollback_details rollbackSteps =
     (if rollbackSteps \<noteq> [] then ''Rollback completed: '' @ join ''; '' rollbackSteps
      else ''Rollback attempted but no steps could be completed'')"

text \<open>The value is the text of \<^verbatim>\<open>RollbackDetails\<close>.\<close>

definition rollback :: "'x host \<Rightarrow> ('x, string) io" where
  "rollback h = do {
     r \<leftarrow> os_read_dir h backupDir;
     case r of
       Inl e \<Rightarrow> ret (''Failed to read backup directory: '' @ err_text e)
     | Inr files \<Rightarrow> do {
         restored \<leftarrow> restore_sshd_config h files;
         removed \<leftarrow> remove_custom_config h;
         enabled \<leftarrow> noted h 15 [''systemctl'', ''enable'', ''ssh.socket''] ''Re-enabled SSH socket activation'';
         socket \<leftarrow> restore_socket h;
         disabled \<leftarrow> noted h 15 [''ufw'', ''--force'', ''disable''] ''Disabled UFW firewall'';
         ret (rollback_details (restored @ removed @ enabled @ socket @ disabled))
       }
   }"

section \<open>The operation\<close>

definition harden_startStep :: "string \<Rightarrow> ('x, StepResult) io" where
  "harden_startStep name = do {
     t \<leftarrow> time_now;
     ret (new_step name ''in_progress'' (rfc3339 t))
   }"

text \<open>The duration is read back from the two time stamps, so it is a number of whole seconds.\<close>

definition finishStep :: "StepResult \<Rightarrow> ('x, StepResult) io" where
  "finishStep step = do {
     t \<leftarrow> time_now;
     let duration = parse_rfc3339 (rfc3339 t) - parse_rfc3339 (st_StartTime step);
     ret (step\<lparr>st_EndTime := rfc3339 t, st_Duration := dec (duration div 10 ^ 9) @ ''.00s''\<rparr>)
   }"

definition finish_as :: "StepResult \<Rightarrow> string \<Rightarrow> string \<Rightarrow> ('x, StepResult) io" where
  "finish_as step status message = finishStep (step\<lparr>st_Status := status, st_Message := message\<rparr>)"

text \<open>The steps after the checks and before the script: name, operation, message when done, and
  whether a failure is rolled back.\<close>

type_synonym 'x harden_step = "string \<times> ('x, error option) io \<times> string \<times> bool"

definition harden_steps :: "'x host \<Rightarrow> HardenConfig \<Rightarrow> 'x harden_step list" where
  "harden_steps h cfg =
     [(''Create Configuration Backups'', createBackups h, ''Configuration files backed up successfully'', False),
      (''Configure System User'', configureUser h cfg, ''User '' @ hc_VMUser cfg @ '' configured with sudo access'', False),
      (''Configure SSH Security'', configureSSH h cfg,
       ''SSH configured on port '' @ itoa (hc_SSHPort cfg) @ '' with key-based auth only'', True),
      (''Restart SSH and Validate Connection'', restartAndTestSSH h cfg,
       ''SSH service restarted and connection verified'', True)]
     @ (if hc_EnableFirewall cfg
        then [(''Configure UFW Firewall'', configureFirewall h cfg, ''UFW firewall configured and enabled'', True)] else [])
     @ (if hc_EnableFail2Ban cfg
        then [(''Install and Configure Fail2Ban'', installFail2Ban h cfg, ''Fail2Ban installed and configured'', False)] else [])
     @ (if hc_EnableAutoUpdates cfg
        then [(''Enable Automatic Security Updates'', enableAutoUpdates h, ''Automatic security updates enabled'', False)]
        else [])"

definition harden_failed :: "StepResult list \<Rightarrow> HardenResult" where
  "harden_failed steps = \<lparr>hr_Success = False, hr_Steps = steps, hr_ErrorMessage = st_Message (last steps),
     hr_FailedStep = st_Name (last steps), hr_RollbackApplied = False, hr_RollbackDetails = []\<rparr>"

definition script_step :: "'x host \<Rightarrow> StepResult list \<Rightarrow> ('x, HardenResult) io" where
  "script_step h earlier = do {
     step \<leftarrow> harden_startStep ''Create Emergency Rollback Script'';
     err \<leftarrow> createRollbackScript h;
     steps \<leftarrow> (case err of
         Some e \<Rightarrow> do {
           failed \<leftarrow> finish_as step ''failed'' e;
           warned \<leftarrow> finish_as step ''completed'' (''Warning: Could not create rollback script: '' @ e);
           ret [failed, warned]
         }
       | None \<Rightarrow> do {
           created \<leftarrow> finish_as step ''completed'' (''Emergency rollback script created at '' @ rollbackScriptPath);
           ret [created]
         });
     ret \<lparr>hr_Success = True, hr_Steps = earlier @ steps, hr_ErrorMessage = [], hr_FailedStep = [],
       hr_RollbackApplied = False, hr_RollbackDetails = []\<rparr>
   }"

fun harden_from :: "'x host \<Rightarrow> StepResult list \<Rightarrow> 'x harden_step list \<Rightarrow> ('x, HardenResult) io" where
  "harden_from h earlier [] = script_step h earlier"
| "harden_from h earlier ((name, action, message, rolls_back) # steps) = do {
     step \<leftarrow> harden_startStep name;
     err \<leftarrow> action;
     case err of
       Some e \<Rightarrow> do {
         failed \<leftarrow> finish_as step ''failed'' e;
         let result = harden_failed (earlier @ [failed]);
         if rolls_back then do {
           details \<leftarrow> rollback h;
           ret (result\<lparr>hr_RollbackApplied := True, hr_RollbackDetails := details\<rparr>)
         } else ret result
       }
     | None \<Rightarrow> do {
         completed \<leftarrow> finish_as step ''completed'' message;
         harden_from h (earlier @ [completed]) steps
       }
   }"

definition Harden :: "'x host \<Rightarrow> HardenConfig \<Rightarrow> ('x, HardenResult) io" where
  "Harden h cfg = do {
     step \<leftarrow> harden_startStep ''Pre-flight Safety Checks'';
     r \<leftarrow> preflightChecks h cfg;
     case r of
       Inl e \<Rightarrow> do {
         failed \<leftarrow> finish_as step ''failed'' e;
         ret (harden_failed [failed])
       }
     | Inr cfg \<Rightarrow> do {
         completed \<leftarrow> finish_as step ''completed'' ''All safety checks passed'';
         harden_from h [completed] (harden_steps h cfg)
       }
   }"

section \<open>What the steps do to the trace and to a file\<close>

lemma emits_timed_cmd [emits_intros]: "P (EvExec [] argv) \<Longrightarrow> emits P (timed_cmd h timeout argv)"
  using emits_exec_cmd [of P argv h] unfolding emits_def timed_cmd_def
  by (auto split: prod.splits) (metis snd_conv)+

lemma leaves_timed_cmd [leaves_intros]: "commands_keep h p \<Longrightarrow> leaves p (timed_cmd h timeout argv)"
  using leaves_exec_cmd [of h p argv] unfolding leaves_def timed_cmd_def
  by (auto split: prod.splits) (metis snd_conv)+

lemma logs_timed_cmd: "logs (EvExec [] argv) (timed_cmd h timeout argv)"
  using logs_run_cmd [of "[]" argv h "[]"] unfolding logs_def timed_cmd_def exec_cmd_def
  by (auto split: prod.splits) (metis snd_conv)+

lemma emits_runCmd [emits_intros]: "P (EvExec [] argv) \<Longrightarrow> emits P (runCmd h timeout argv)"
  and emits_runCmdOutput [emits_intros]: "P (EvExec [] argv) \<Longrightarrow> emits P (runCmdOutput h timeout argv)"
  unfolding runCmd_def runCmdOutput_def by (intro emits_intros, assumption)+

lemma leaves_runCmd [leaves_intros]: "commands_keep h p \<Longrightarrow> leaves p (runCmd h timeout argv)"
  and leaves_runCmdOutput [leaves_intros]: "commands_keep h p \<Longrightarrow> leaves p (runCmdOutput h timeout argv)"
  unfolding runCmd_def runCmdOutput_def by (intro leaves_intros, assumption)+

lemma logs_runCmd: "logs (EvExec [] argv) (runCmd h timeout argv)"
  unfolding runCmd_def by (intro logs_bind_left logs_timed_cmd emits_intros)

lemma emits_must [emits_intros]:
  "P (EvExec [] argv) \<Longrightarrow> emits P k \<Longrightarrow> emits P (must h timeout argv what k)"
  and emits_best_effort [emits_intros]:
  "P (EvExec [] argv) \<Longrightarrow> emits P k' \<Longrightarrow> emits P (best_effort h timeout argv k')"
  and emits_must_write [emits_intros]:
  "P (EvWrite p c mode) \<Longrightarrow> emits P k \<Longrightarrow> emits P (must_write h p c mode what k)"
  and emits_must_mkdir [emits_intros]:
  "P (EvMkdir p) \<Longrightarrow> emits P k \<Longrightarrow> emits P (must_mkdir h p what k)"
  unfolding must_def best_effort_def must_write_def must_mkdir_def by (intro emits_intros; assumption)+

lemma leaves_must [leaves_intros]:
  "commands_keep h p \<Longrightarrow> leaves p k \<Longrightarrow> leaves p (must h timeout argv what k)"
  and leaves_best_effort [leaves_intros]:
  "commands_keep h p \<Longrightarrow> leaves p k' \<Longrightarrow> leaves p (best_effort h timeout argv k')"
  and leaves_must_write [leaves_intros]:
  "p \<noteq> q \<Longrightarrow> leaves p k \<Longrightarrow> leaves p (must_write h q c mode what k)"
  and leaves_must_mkdir [leaves_intros]:
  "p \<notin> set (path_prefixes [] q) \<Longrightarrow> leaves p k \<Longrightarrow> leaves p (must_mkdir h q what k)"
  unfolding must_def best_effort_def must_write_def must_mkdir_def by (intro leaves_intros; assumption)+

lemma guards_runCmd [guards_intros]: "\<not> B (EvExec [] argv) \<Longrightarrow> guards A B (runCmd h timeout argv)"
  and guards_runCmdOutput [guards_intros]: "\<not> B (EvExec [] argv) \<Longrightarrow> guards A B (runCmdOutput h timeout argv)"
  by (rule guards_without, rule emits_intros, assumption)+

lemma guards_must [guards_intros]:
  "\<not> B (EvExec [] argv) \<Longrightarrow> guards A B k \<Longrightarrow> guards A B (must h timeout argv what k)"
  and guards_best_effort [guards_intros]:
  "\<not> B (EvExec [] argv) \<Longrightarrow> guards A B k \<Longrightarrow> guards A B (best_effort h timeout argv k)"
  and guards_must_write [guards_intros]:
  "\<not> B (EvWrite p c mode) \<Longrightarrow> guards A B k \<Longrightarrow> guards A B (must_write h p c mode what k)"
  and guards_must_mkdir [guards_intros]:
  "\<not> B (EvMkdir p) \<Longrightarrow> guards A B k \<Longrightarrow> guards A B (must_mkdir h p what k)"
  unfolding must_def best_effort_def must_write_def must_mkdir_def
  by (intro guards_intros; assumption)+

text \<open>The command that is waited for has been run when the rest begins.\<close>

lemma guards_must_this:
  assumes "A (EvExec [] argv)" and "\<not> B (EvExec [] argv)" and "extends_trace k"
  shows "guards A B (must h timeout argv what k)"
  unfolding must_def
  by (rule guards_after [OF _ logs_runCmd])
    (use assms in \<open>auto intro!: guards_without emits_intros\<close>)

lemma logs_on_must [logs_on_intros]:
  "logs_on (\<lambda>r. r = None) e k \<Longrightarrow> logs_on (\<lambda>r. r = None) e (must h timeout argv what k)"
  and logs_on_must_write [logs_on_intros]:
  "logs_on (\<lambda>r. r = None) e k \<Longrightarrow> logs_on (\<lambda>r. r = None) e (must_write h p c mode what k)"
  and logs_on_must_mkdir [logs_on_intros]:
  "logs_on (\<lambda>r. r = None) e k \<Longrightarrow> logs_on (\<lambda>r. r = None) e (must_mkdir h p what k)"
  unfolding must_def must_write_def must_mkdir_def by (intro logs_on_intros emits_intros; simp)+

section \<open>The order of the dangerous commands\<close>

lemma emits_backup_files [emits_intros]:
  "(\<And>argv. P (EvExec [] (''cp'' # argv))) \<Longrightarrow> emits P (backup_files h timestamp files)"
  by (induction files) (auto intro!: emits_intros)

lemma emits_await_active [emits_intros]:
  "(\<And>argv. P (EvExec [] (''systemctl'' # ''is-active'' # argv))) \<Longrightarrow> (\<And>d. P (EvSleep d)) \<Longrightarrow>
     emits P (await_active h serviceName n)"
  by (induction n) (auto intro!: emits_intros)

definition test_sshd :: "string list" where
  "test_sshd = [''/usr/sbin/sshd'', ''-t'']"

text \<open>The commands that can lock the operator out: enabling the firewall, and putting a changed
  SSH configuration into force.\<close>

definition enables_ufw :: "event \<Rightarrow> bool" where
  "enables_ufw e \<longleftrightarrow> e = EvExec [] enable_ufw"

definition restarts_ssh :: "event \<Rightarrow> bool" where
  "restarts_ssh e \<longleftrightarrow> e = EvExec [] [''systemctl'', ''restart'', ''ssh''] \<or> e = EvExec [] [''systemctl'', ''restart'', ''sshd'']"

lemmas harden_step_defs = createBackups_def configureUser_def add_to_groups_def configure_sudo_def install_keys_def
  configureSSH_def installFail2Ban_def enableAutoUpdates_def install_if_missing_def createRollbackScript_def

lemmas rollback_defs = rollback_def restore_sshd_config_def remove_custom_config_def restore_socket_def noted_def

lemmas restart_defs = restartAndTestSSH_def restart_service_def

lemmas firewall_defs = configureFirewall_def firewall_rules_def install_if_missing_def

lemma no_ufw_steps:
  "emits (\<lambda>e. \<not> enables_ufw e) (createBackups h)" "emits (\<lambda>e. \<not> enables_ufw e) (configureUser h cfg)"
  "emits (\<lambda>e. \<not> enables_ufw e) (configureSSH h cfg)" "emits (\<lambda>e. \<not> enables_ufw e) (restartAndTestSSH h cfg)"
  "emits (\<lambda>e. \<not> enables_ufw e) (installFail2Ban h cfg)" "emits (\<lambda>e. \<not> enables_ufw e) (enableAutoUpdates h)"
  "emits (\<lambda>e. \<not> enables_ufw e) (createRollbackScript h)" "emits (\<lambda>e. \<not> enables_ufw e) (rollback h)"
  unfolding harden_step_defs restart_defs rollback_defs
  by (intro emits_intros emits_os_read_dir; simp add: enables_ufw_def enable_ufw_def)+

lemma no_restart_steps:
  "emits (\<lambda>e. \<not> restarts_ssh e) (createBackups h)" "emits (\<lambda>e. \<not> restarts_ssh e) (configureUser h cfg)"
  "emits (\<lambda>e. \<not> restarts_ssh e) (configureSSH h cfg)" "emits (\<lambda>e. \<not> restarts_ssh e) (configureFirewall h cfg)"
  "emits (\<lambda>e. \<not> restarts_ssh e) (installFail2Ban h cfg)" "emits (\<lambda>e. \<not> restarts_ssh e) (enableAutoUpdates h)"
  "emits (\<lambda>e. \<not> restarts_ssh e) (createRollbackScript h)" "emits (\<lambda>e. \<not> restarts_ssh e) (rollback h)"
  unfolding harden_step_defs firewall_defs rollback_defs
  by (intro emits_intros emits_os_read_dir; simp add: restarts_ssh_def enable_ufw_def allow_ssh_def)+

lemma emits_restart: "extends_trace (restartAndTestSSH h cfg)"
  unfolding restart_defs Let_def by (intro emits_intros) simp_all

lemma firewall_guarded:
  "guards (\<lambda>e. e = EvExec [] (allow_ssh (hc_SSHPort cfg))) enables_ufw (configureFirewall h cfg)"
proof -
  have rules: "guards (\<lambda>e. e = EvExec [] (allow_ssh (hc_SSHPort cfg))) enables_ufw (firewall_rules h cfg)"
    unfolding firewall_rules_def
    by (rule guards_must_this)
      (simp_all add: enables_ufw_def enable_ufw_def allow_ssh_def, (intro emits_intros; simp))
  show ?thesis
    unfolding configureFirewall_def install_if_missing_def
    by (intro guards_intros rules) (simp_all add: enables_ufw_def enable_ufw_def)
qed

lemma sshd_tested: "logs_on (\<lambda>r. r = None) (EvExec [] test_sshd) (configureSSH h cfg)"
  unfolding configureSSH_def test_sshd_def
  by (intro logs_on_intros logs_on_logs [OF logs_bind_left] logs_timed_cmd emits_intros) simp_all

lemma emits_startStep [emits_intros]: "emits P (harden_startStep name)"
  and emits_finish_as [emits_intros]: "emits P (finish_as step status message)"
  unfolding harden_startStep_def finish_as_def finishStep_def Let_def by (intro emits_intros)+

lemma guards_startStep [guards_intros]: "guards A B (harden_startStep name)"
  and guards_finish_as [guards_intros]: "guards A B (finish_as step status message)"
  by (intro guards_without emits_intros)+

lemma guards_script_step:
  "emits (\<lambda>e. \<not> B e) (createRollbackScript h) \<Longrightarrow> guards A B (script_step h earlier)"
  unfolding script_step_def by (intro guards_without emits_intros)

lemma guards_harden_from:
  assumes "guards A B (rollback h)" and "\<And>earlier. guards A B (harden_from h earlier rest)"
    and "\<forall>(name, action, more) \<in> set steps. guards A B action"
  shows "guards A B (harden_from h earlier (steps @ rest))"
  using assms(3)
proof (induction steps arbitrary: earlier)
  case (Cons step steps)
  obtain name action message rolls where "step = (name, action, message, rolls)" by (cases step)
  with Cons show ?case by (auto simp: Let_def intro!: guards_intros assms(1))
qed (simp add: assms(2))

lemma emits_preflight:
  "(\<And>p. P (EvMkdir p)) \<Longrightarrow> emits P (preflightChecks h cfg)"
  unfolding preflightChecks_def Let_def by (intro emits_intros)

lemma preflight_config:
  "run_state (preflightChecks h cfg) s = (Inr cfg', s') \<Longrightarrow>
     cfg' = (if hc_VMUser cfg = [] then cfg\<lparr>hc_VMUser := ''supabyoi''\<rparr> else cfg)"
  by (auto simp: preflightChecks_def Let_def split: if_splits sum.splits prod.splits option.splits)

lemma guards_harden:
  assumes "\<And>p. \<not> B (EvMkdir p)"
    and "\<And>cfg' earlier. hc_SSHPort cfg' = hc_SSHPort cfg \<Longrightarrow> guards A B (harden_from h earlier (harden_steps h cfg'))"
  shows "guards A B (Harden h cfg)"
  unfolding Harden_def
proof (rule guards_bind [OF guards_startStep], rule guards_bind_run)
  show "guards A B (preflightChecks h cfg)" by (intro guards_without emits_preflight assms(1))
next
  fix s r s'
  assume "run_state (preflightChecks h cfg) s = (r, s')"
  then show "guards A B (case r of Inl e \<Rightarrow> finish_as step ''failed'' e \<bind> (\<lambda>failed. ret (harden_failed [failed]))
      | Inr cfg \<Rightarrow> finish_as step ''completed'' ''All safety checks passed'' \<bind>
          (\<lambda>completed. harden_from h [completed] (harden_steps h cfg)))" for step
    by (cases r) (auto intro!: guards_intros assms(2) dest: preflight_config)
qed

lemma ufw_guarded:
  "guards (\<lambda>e. e = EvExec [] (allow_ssh (hc_SSHPort cfg))) enables_ufw (Harden h cfg)"
proof (rule guards_harden)
  fix cfg' :: HardenConfig and earlier
  assume "hc_SSHPort cfg' = hc_SSHPort cfg"
  then have "guards (\<lambda>e. e = EvExec [] (allow_ssh (hc_SSHPort cfg))) enables_ufw (configureFirewall h cfg')"
    using firewall_guarded [of cfg' h] by simp
  then show "guards (\<lambda>e. e = EvExec [] (allow_ssh (hc_SSHPort cfg))) enables_ufw
      (harden_from h earlier (harden_steps h cfg'))"
    by (intro guards_harden_from [where rest = "[]", simplified] guards_script_step)
      (auto simp: harden_steps_def intro!: no_ufw_steps no_ufw_steps [THEN guards_without])
qed (simp add: enables_ufw_def)

lemma emits_harden_from:
  assumes "emits P (rollback h)" and "emits P (createRollbackScript h)"
    and "\<forall>(name, action, rest) \<in> set steps. emits P action"
  shows "emits P (harden_from h earlier steps)"
  using assms(3)
proof (induction steps arbitrary: earlier)
  case Nil
  show ?case unfolding harden_from.simps script_step_def by (intro emits_intros assms(2))
next
  case (Cons step steps)
  obtain name action message rolls where "step = (name, action, message, rolls)" by (cases step)
  with Cons show ?case by (auto simp: Let_def intro!: emits_intros assms(1))
qed

text \<open>Once a step of the list guarantees \<open>A\<close> when it succeeds, the rest is free.\<close>

lemma guards_harden_tested:
  assumes "guards A B action" and "logs_on (\<lambda>r. r = None) e action" and "A e"
    and "guards A B (rollback h)" and "extends_trace (rollback h)"
    and "\<And>earlier. extends_trace (harden_from h earlier steps)"
  shows "guards A B (harden_from h earlier ((name, action, message, rolls) # steps))"
  unfolding harden_from.simps
proof (rule guards_bind [OF guards_startStep], rule guards_bind_on [where Q = "\<lambda>r. r = None"])
  fix step and r :: "error option"
  let ?f = "case r of None \<Rightarrow> finish_as step ''completed'' message \<bind> (\<lambda>completed. harden_from h (earlier @ [completed]) steps)
    | Some e \<Rightarrow> finish_as step ''failed'' e \<bind> (\<lambda>failed. let result = harden_failed (earlier @ [failed]) in
        if rolls then rollback h \<bind> (\<lambda>details. ret (result\<lparr>hr_RollbackApplied := True, hr_RollbackDetails := details\<rparr>))
        else ret result)"
  show "extends_trace ?f" by (auto simp: Let_def intro!: emits_intros assms)
  show "guards A B ?f" if "r \<noteq> None"
    using that by (cases r) (auto simp: Let_def intro!: guards_intros assms)
qed (use assms in auto)

lemma restart_guarded: "guards (\<lambda>e. e = EvExec [] test_sshd) restarts_ssh (Harden h cfg)"
proof (rule guards_harden)
  fix cfg' :: HardenConfig and earlier
  let ?G = "\<lambda>m. guards (\<lambda>e. e = EvExec [] test_sshd) restarts_ssh m"
  note free = no_restart_steps [THEN guards_without] no_restart_steps [THEN emits_mono, of "\<lambda>_. True"] emits_restart
  obtain before after where steps: "harden_steps h cfg' = before @
      (''Configure SSH Security'', configureSSH h cfg',
       ''SSH configured on port '' @ itoa (hc_SSHPort cfg') @ '' with key-based auth only'', True) # after"
    and before: "\<forall>(name, action, more) \<in> set before. ?G action"
    and after: "\<forall>(name, action, more) \<in> set after. extends_trace action"
    by (rule that [of "take 2 (harden_steps h cfg')" "drop 3 (harden_steps h cfg')"])
      (auto simp: harden_steps_def intro!: free)
  have "extends_trace (harden_from h e after)" for e by (intro emits_harden_from free after) simp_all
  then show "?G (harden_from h earlier (harden_steps h cfg'))"
    unfolding steps
    by (intro guards_harden_from guards_harden_tested [OF _ sshd_tested] free before) simp_all
qed (simp add: restarts_ssh_def)


section \<open>The report\<close>

definition is_step :: "string \<Rightarrow> string \<Rightarrow> StepResult \<Rightarrow> bool" where
  "is_step name status step \<longleftrightarrow> st_Name step = name \<and> st_Status step = status"

lemma run_startStep: "run_state (harden_startStep name) s = (new_step name ''in_progress'' (rfc3339 (now s)), s)"
  by (simp add: harden_startStep_def)

lemma run_finish_as:
  "run_state (finish_as step status message) s = (r, s') \<Longrightarrow>
     s' = s \<and> st_Name r = st_Name step \<and> st_Status r = status \<and> st_Message r = message"
  by (auto simp: finish_as_def finishStep_def Let_def)

definition script_reports :: "StepResult list \<Rightarrow> bool" where
  "script_reports rs \<longleftrightarrow>
     map st_Name rs = replicate (length rs) ''Create Emergency Rollback Script''
     \<and> map st_Status rs \<in> {[''completed''], [''failed'', ''completed'']}"

lemma run_script_step:
  assumes "run_state (script_step h earlier) s = (r, s')"
  shows "hr_Success r \<and> hr_FailedStep r = [] \<and> hr_ErrorMessage r = [] \<and> \<not> hr_RollbackApplied r
    \<and> (\<exists>rs. hr_Steps r = earlier @ rs \<and> script_reports rs)"
  using assms
  by (auto simp: script_step_def run_startStep script_reports_def split: prod.splits option.splits dest!: run_finish_as)

text \<open>
  What a result says: on success every step of the plan completed, followed by the script step,
  which may be reported twice; otherwise the report ends with the failed step, and the rollback
  was applied exactly when that step is one that is rolled back.
\<close>

definition harden_report :: "StepResult list \<Rightarrow> (string \<times> bool) list \<Rightarrow> HardenResult \<Rightarrow> bool" where
  "harden_report earlier plan r \<longleftrightarrow>
     (if hr_Success r
      then \<not> hr_RollbackApplied r \<and> hr_FailedStep r = [] \<and> hr_ErrorMessage r = []
        \<and> (\<exists>rs script. hr_Steps r = earlier @ rs @ script \<and> list_all2 (\<lambda>p. is_step (fst p) ''completed'') plan rs
            \<and> script_reports script)
      else \<exists>rs failed p plan1 plan2. hr_Steps r = earlier @ rs @ [failed] \<and> plan = plan1 @ p # plan2
        \<and> list_all2 (\<lambda>p. is_step (fst p) ''completed'') plan1 rs \<and> is_step (fst p) ''failed'' failed
        \<and> hr_FailedStep r = fst p \<and> hr_ErrorMessage r = st_Message failed \<and> hr_RollbackApplied r = snd p)"

lemma harden_report_step:
  assumes "harden_report (earlier @ [c]) plan r" and "is_step name ''completed'' c"
  shows "harden_report earlier ((name, rolls) # plan) r"
proof (cases "hr_Success r")
  case True
  with assms(1) obtain rs script where *: "hr_Steps r = earlier @ (c # rs) @ script"
      "list_all2 (\<lambda>p. is_step (fst p) ''completed'') plan rs" "script_reports script"
    by (auto simp: harden_report_def)
  with assms True show ?thesis
    unfolding harden_report_def if_P [OF True]
    by (intro conjI exI [of _ "c # rs"] exI [of _ script]) auto
next
  case False
  with assms(1) obtain rs failed p plan1 plan2 where *: "hr_Steps r = earlier @ (c # rs) @ [failed]"
      "plan = plan1 @ p # plan2" "list_all2 (\<lambda>p. is_step (fst p) ''completed'') plan1 rs"
      "is_step (fst p) ''failed'' failed" "hr_FailedStep r = fst p" "hr_ErrorMessage r = st_Message failed"
      "hr_RollbackApplied r = snd p"
    by (auto simp: harden_report_def)
  show ?thesis
    unfolding harden_report_def if_not_P [OF False]
    by (intro exI [of _ "c # rs"] exI [of _ failed] exI [of _ p] exI [of _ "(name, rolls) # plan1"] exI [of _ plan2])
      (use * assms(2) in auto)
qed

lemma run_harden_from:
  "run_state (harden_from h earlier steps) s = (r, s') \<Longrightarrow>
     harden_report earlier (map (\<lambda>(name, action, message, rolls). (name, rolls)) steps) r"
proof (induction steps arbitrary: earlier s)
  case Nil
  then show ?case by (auto simp: harden_report_def dest!: run_script_step)
next
  case (Cons step steps)
  obtain name action message rolls where step: "step = (name, action, message, rolls)" by (cases step)
  obtain err s1 where a: "run_state action s = (err, s1)" by (cases "run_state action s")
  show ?case
  proof (cases err)
    case None
    obtain c s2 where c: "run_state (finish_as (new_step name ''in_progress'' (rfc3339 (now s))) ''completed'' message) s1 = (c, s2)"
      by (cases "run_state (finish_as (new_step name ''in_progress'' (rfc3339 (now s))) ''completed'' message) s1")
    from Cons.prems have "run_state (harden_from h (earlier @ [c]) steps) s2 = (r, s')"
      by (simp add: step run_startStep a None c)
    from Cons.IH [OF this] run_finish_as [OF c] show ?thesis
      by (simp add: step harden_report_step is_step_def)
  next
    case (Some e)
    obtain f s2 where f: "run_state (finish_as (new_step name ''in_progress'' (rfc3339 (now s))) ''failed'' e) s1 = (f, s2)"
      by (cases "run_state (finish_as (new_step name ''in_progress'' (rfc3339 (now s))) ''failed'' e) s1")
    from Cons.prems run_finish_as [OF f] have "hr_Steps r = earlier @ [] @ [f]" "\<not> hr_Success r" "hr_FailedStep r = name"
        "hr_ErrorMessage r = st_Message f" "hr_RollbackApplied r = rolls" "is_step name ''failed'' f"
      by (auto simp: step run_startStep a Some f Let_def harden_failed_def is_step_def split: if_splits prod.splits)
    then show ?thesis by (fastforce simp: step harden_report_def)
  qed
qed

definition harden_plan :: "HardenConfig \<Rightarrow> (string \<times> bool) list" where
  "harden_plan cfg =
     [(''Pre-flight Safety Checks'', False), (''Create Configuration Backups'', False), (''Configure System User'', False),
      (''Configure SSH Security'', True), (''Restart SSH and Validate Connection'', True)]
     @ (if hc_EnableFirewall cfg then [(''Configure UFW Firewall'', True)] else [])
     @ (if hc_EnableFail2Ban cfg then [(''Install and Configure Fail2Ban'', False)] else [])
     @ (if hc_EnableAutoUpdates cfg then [(''Enable Automatic Security Updates'', False)] else [])"

text \<open>
  The result of \<^verbatim>\<open>Harden\<close> tells what happened. On success all steps of the plan (the optional
  ones as the configuration asks) are reported completed in their order, followed by the script
  step, which is completed although it may first be reported as failed. Otherwise the steps before
  the failing one are reported completed, the failing one is last and named in \<^verbatim>\<open>FailedStep\<close> with
  its message, and the rollback was applied exactly when it is one of the steps that change the SSH
  configuration, restart SSH or set up the firewall.
\<close>

theorem harden_reports: "harden_report [] (harden_plan cfg) (fst (run_state (Harden h cfg) s))"
proof -
  obtain v s1 where v: "run_state (preflightChecks h cfg) s = (v, s1)" by (cases "run_state (preflightChecks h cfg) s")
  let ?step = "new_step ''Pre-flight Safety Checks'' ''in_progress'' (rfc3339 (now s))"
  show ?thesis
  proof (cases v)
    case (Inl e)
    obtain f s2 where f: "run_state (finish_as ?step ''failed'' e) s1 = (f, s2)"
      by (cases "run_state (finish_as ?step ''failed'' e) s1")
    then have "fst (run_state (Harden h cfg) s) = harden_failed [f]" by (simp add: Harden_def run_startStep v Inl f)
    with run_finish_as [OF f] show ?thesis
      by (fastforce simp: harden_report_def harden_plan_def harden_failed_def is_step_def)
  next
    case (Inr cfg')
    obtain c s2 where c: "run_state (finish_as ?step ''completed'' ''All safety checks passed'') s1 = (c, s2)"
      by (cases "run_state (finish_as ?step ''completed'' ''All safety checks passed'') s1")
    obtain r s3 where r: "run_state (harden_from h [c] (harden_steps h cfg')) s2 = (r, s3)"
      by (cases "run_state (harden_from h [c] (harden_steps h cfg')) s2")
    have "harden_plan cfg = (''Pre-flight Safety Checks'', False)
        # map (\<lambda>(name, action, message, rolls). (name, rolls)) (harden_steps h cfg')"
      using preflight_config [OF v [unfolded Inr]] by (auto simp: harden_plan_def harden_steps_def)
    moreover have "fst (run_state (Harden h cfg) s) = r" by (simp add: Harden_def run_startStep v Inr c r)
    ultimately show ?thesis
      using run_harden_from [OF r] run_finish_as [OF c] by (simp add: harden_report_step is_step_def)
  qed
qed

section \<open>The checks come first\<close>

text \<open>
  C13: A configuration that cannot be used is rejected before anything happens. Without root, with a
  public key that does not start like one or with a port outside the range, \<^verbatim>\<open>Harden\<close> fails in its
  first step, names it, applies no rollback and leaves the machine exactly as it was.
\<close>

theorem harden_rejects_untouched:
  assumes "heuid h \<noteq> 0 \<or> \<not> has_prefix (hc_SSHPublicKey cfg) ''ssh-'' \<or> hc_SSHPort cfg < 1 \<or> 65535 < hc_SSHPort cfg"
    and "run_state (Harden h cfg) s = (r, s')"
  shows "s' = s \<and> \<not> hr_Success r \<and> hr_FailedStep r = ''Pre-flight Safety Checks'' \<and> \<not> hr_RollbackApplied r
    \<and> map st_Status (hr_Steps r) = [''failed'']"
proof -
  have "\<exists>e. run_state (preflightChecks h cfg) s = (Inl e, s)"
    using assms(1) unfolding preflightChecks_def
    by (cases "heuid h \<noteq> 0"; cases "hc_SSHPublicKey cfg = []"; cases "has_prefix (hc_SSHPublicKey cfg) ''ssh-''") simp_all
  then obtain e where "run_state (preflightChecks h cfg) s = (Inl e, s)" by blast
  with assms(2) show ?thesis
    by (auto simp: Harden_def run_startStep harden_failed_def split: prod.splits dest!: run_finish_as)
qed

definition demo_harden_cfg :: HardenConfig where
  "demo_harden_cfg = \<lparr>hc_VMUser = ''supabyoi'', hc_SSHPort = 2222, hc_SSHPublicKey = ''ssh-ed25519 AAAA'',
     hc_ExtraAuthorizedKeys = [''  ssh-rsa BBBB '', '' ''], hc_EnableFirewall = True, hc_EnableFail2Ban = False,
     hc_EnableAutoUpdates = False\<rparr>"

definition quiet_host :: "unit host" where
  "quiet_host = command_host (\<lambda>argv s. (ok_res [], s))"

theorem harden_rejects_untouched_witness:
  "snd (run_state (Harden quiet_host (demo_harden_cfg\<lparr>hc_SSHPort := 0\<rparr>)) (start_sys [] ())) = start_sys [] ()
   \<and> hr_FailedStep (fst (run_state (Harden quiet_host (demo_harden_cfg\<lparr>hc_SSHPort := 0\<rparr>)) (start_sys [] ())))
     = ''Pre-flight Safety Checks''"
  using harden_rejects_untouched [OF _ prod.collapse [symmetric], of quiet_host "demo_harden_cfg\<lparr>hc_SSHPort := 0\<rparr>"
      "start_sys [] ()"]
  by simp

section \<open>The keys\<close>

definition key_lines :: "string list \<Rightarrow> string list" where
  "key_lines extras = filter (\<lambda>k. k \<noteq> []) (map trim_space extras)"

lemma extra_keys_exact:
  "extra_keys extras = Inr b \<longleftrightarrow> (\<forall>k \<in> set (key_lines extras). has_prefix k ''ssh-'') \<and> b = unlines (key_lines extras)"
proof (induction extras arbitrary: b)
  case (Cons extra extras)
  then show ?case by (cases "extra_keys extras") (auto simp: key_lines_def Let_def)
qed (auto simp: key_lines_def)

text \<open>
  \<^verbatim>\<open>buildAuthorizedKeys\<close> gives a file exactly when every extra key that is not blank starts with
  \<^verbatim>\<open>ssh-\<close> once trimmed, and the file then consists of the primary key and those keys, trimmed and in
  their order, one on a line.
\<close>

theorem build_authorized_keys_exact:
  "buildAuthorizedKeys primary extras = Inr content \<longleftrightarrow>
     list_all (\<lambda>k. has_prefix k ''ssh-'') (key_lines extras) \<and> content = unlines (primary # key_lines extras)"
proof (cases "extra_keys extras")
  case (Inl e)
  then have "\<not> list_all (\<lambda>k. has_prefix k ''ssh-'') (key_lines extras)"
    using extra_keys_exact [of extras "unlines (key_lines extras)"] by (auto simp: list_all_iff)
  with Inl show ?thesis by (simp add: buildAuthorizedKeys_def)
next
  case (Inr b)
  with extra_keys_exact [of extras b] show ?thesis
    by (auto simp: buildAuthorizedKeys_def list_all_iff)
qed

section \<open>The SSH configuration after a success\<close>

lemma run_must_mkdir:
  "run_state (must_mkdir h p what k) s = (None, s') \<Longrightarrow> \<exists>s1. run_state k s1 = (None, s')"
  by (auto simp: must_mkdir_def split: prod.splits option.splits)

lemma run_must_write:
  "run_state (must_write h p c mode what k) s = (None, s') \<Longrightarrow>
     \<exists>s1 m. lookup_node s1 p = Some (File c m) \<and> run_state k s1 = (None, s')"
  by (auto simp: must_write_def dest: os_write_ok split: prod.splits option.splits) (metis os_write_ok)

lemma configured:
  assumes keep: "commands_keep h sshdConfigFile" and run: "run_state (configureSSH h cfg) s = (None, s')"
  shows "\<exists>t m. lookup_node s' sshdConfigFile = Some (File (sshd_config t (hc_SSHPort cfg)) m)"
proof -
  let ?test = "do {
      _ \<leftarrow> os_mkdir_all h ''/run/sshd'';
      r \<leftarrow> timed_cmd h (seconds 10) [''/usr/sbin/sshd'', ''-t''];
      case cr_status r of
        Some e \<Rightarrow> do {
          _ \<leftarrow> os_remove h sshdConfigFile;
          ret (Some (''invalid SSH configuration ('' @ e @ ''): '' @ trim_space (cr_all r)))
        }
      | None \<Rightarrow> ret None
    }"
  from run_must_mkdir [OF run [unfolded configureSSH_def]] obtain s1 where
    "run_state (must_write h sshdConfigFile (sshd_config (now s1) (hc_SSHPort cfg)) 420 ''failed to write SSH config'' ?test) s1
       = (None, s')" by auto
  from run_must_write [OF this] obtain s2 m where s2: "run_state ?test s2 = (None, s')"
      "lookup_node s2 sshdConfigFile = Some (File (sshd_config (now s1) (hc_SSHPort cfg)) m)" by blast
  obtain e s3 where m: "run_state (os_mkdir_all h ''/run/sshd'') s2 = (e, s3)"
    by (cases "run_state (os_mkdir_all h ''/run/sshd'') s2")
  obtain r s4 where c: "run_state (timed_cmd h (seconds 10) [''/usr/sbin/sshd'', ''-t'']) s3 = (r, s4)"
    by (cases "run_state (timed_cmd h (seconds 10) [''/usr/sbin/sshd'', ''-t'']) s3")
  have "sshdConfigFile \<notin> set (path_prefixes [] ''/run/sshd'')" by (simp add: sshdConfigFile_def)
  from leavesD [OF leaves_os_mkdir_all [OF this] m] leavesD [OF leaves_timed_cmd [OF keep] c]
  have "lookup_node s4 sshdConfigFile = lookup_node s2 sshdConfigFile" by simp
  moreover have "s' = s4" using s2(1) m c by (auto split: option.splits prod.splits)
  ultimately show ?thesis using s2(2) by auto
qed

lemma leaves_await_active [leaves_intros]: "commands_keep h p \<Longrightarrow> leaves p (await_active h serviceName n)"
  by (induction n) (auto intro!: leaves_intros)

lemma later_steps_leave:
  assumes "commands_keep h sshdConfigFile"
  shows "leaves sshdConfigFile (restartAndTestSSH h cfg)" and "leaves sshdConfigFile (configureFirewall h cfg)"
    and "leaves sshdConfigFile (installFail2Ban h cfg)" and "leaves sshdConfigFile (enableAutoUpdates h)"
    and "leaves sshdConfigFile (createRollbackScript h)"
  unfolding restart_defs firewall_defs installFail2Ban_def enableAutoUpdates_def createRollbackScript_def Let_def
  by (intro leaves_intros assms; simp add: sshdConfigFile_def rollbackScriptPath_def)+

lemma leaves_finish_as [leaves_intros]: "leaves p (finish_as step status message)"
  and leaves_startStep [leaves_intros]: "leaves p (harden_startStep name)"
  unfolding finish_as_def finishStep_def harden_startStep_def Let_def by (intro leaves_intros)+

text \<open>A successful run went through the first step and then through the others.\<close>

lemma harden_from_first:
  assumes "run_state (harden_from h earlier ((name, action, message, rolls) # steps)) s = (r, s')" and "hr_Success r"
  shows "\<exists>s1 earlier'. run_state action s = (None, s1) \<and> run_state (harden_from h earlier' steps) s1 = (r, s')"
proof -
  let ?step = "new_step name ''in_progress'' (rfc3339 (now s))"
  obtain err s1 where a: "run_state action s = (err, s1)" by (cases "run_state action s")
  show ?thesis
  proof (cases err)
    case None
    obtain c s2 where c: "run_state (finish_as ?step ''completed'' message) s1 = (c, s2)"
      by (cases "run_state (finish_as ?step ''completed'' message) s1")
    with assms a None run_finish_as [OF c] show ?thesis by (auto simp: run_startStep)
  next
    case (Some e)
    obtain f s2 where f: "run_state (finish_as ?step ''failed'' e) s1 = (f, s2)"
      by (cases "run_state (finish_as ?step ''failed'' e) s1")
    with assms a Some show ?thesis
      by (auto simp: run_startStep Let_def harden_failed_def split: if_splits prod.splits)
  qed
qed

lemma harden_from_leaves:
  assumes "\<forall>(name, action, more) \<in> set steps. leaves p action" and "leaves p (createRollbackScript h)"
    and "run_state (harden_from h earlier steps) s = (r, s')" and "hr_Success r"
  shows "lookup_node s' p = lookup_node s p"
  using assms(1,3)
proof (induction steps arbitrary: earlier s)
  case Nil
  have "leaves p (script_step h earlier)" unfolding script_step_def by (intro leaves_intros assms(2))
  with Nil show ?case by (auto dest: leavesD)
next
  case (Cons step steps)
  obtain name action message rolls where step: "step = (name, action, message, rolls)" by (cases step)
  from harden_from_first [OF Cons.prems(2) [unfolded step] assms(4)] obtain s1 e where
    "run_state action s = (None, s1)" "run_state (harden_from h e steps) s1 = (r, s')" by blast
  with Cons step show ?case by (auto dest: leavesD)
qed

lemma sshd_config_in_place:
  assumes keep: "commands_keep h sshdConfigFile" and run: "run_state (Harden h cfg) s = (r, s')" and ok: "hr_Success r"
  shows "\<exists>t m. lookup_node s' sshdConfigFile = Some (File (sshd_config t (hc_SSHPort cfg)) m)"
proof -
  obtain v s1 where v: "run_state (preflightChecks h cfg) s = (v, s1)" by (cases "run_state (preflightChecks h cfg) s")
  obtain cfg' where cfg': "v = Inr cfg'"
    using run ok v by (cases v) (auto simp: Harden_def run_startStep harden_failed_def split: prod.splits)
  then have port: "hc_SSHPort cfg' = hc_SSHPort cfg" using preflight_config [OF v [unfolded cfg']] by simp
  from run v cfg' obtain e s2 where "run_state (harden_from h e (harden_steps h cfg')) s2 = (r, s')"
    by (auto simp: Harden_def run_startStep split: prod.splits)
  moreover obtain n1 a1 m1 r1 n2 a2 m2 r2 m3 after where steps:
      "harden_steps h cfg' = (n1, a1, m1, r1) # (n2, a2, m2, r2) # (''Configure SSH Security'', configureSSH h cfg', m3, True) # after"
    and after: "\<forall>(name, action, more) \<in> set after. leaves sshdConfigFile action"
    by (rule that [of _ _ _ _ _ _ _ _ _ "drop 3 (harden_steps h cfg')"])
      (auto simp: harden_steps_def keep intro: later_steps_leave)
  ultimately obtain s4 s5 e' where c: "run_state (configureSSH h cfg') s4 = (None, s5)"
      and f: "run_state (harden_from h e' after) s5 = (r, s')"
    using harden_from_first [OF _ ok] by metis
  have "lookup_node s' sshdConfigFile = lookup_node s5 sshdConfigFile"
    by (rule harden_from_leaves [OF after later_steps_leave(5) [OF keep] f ok])
  with configured [OF keep c] port show ?thesis by simp
qed

text \<open>
  C12: After a successful \<^verbatim>\<open>Harden\<close> the drop-in of the SSH daemon is in place: it holds the generated
  text with the port of the configuration, which forbids root logins and passwords, whatever the later
  steps did. The hypothesis is that the programs run on the machine do not rewrite that file.
\<close>

theorem harden_config_in_place:
  assumes "commands_keep h sshdConfigFile" and "run_state (Harden h cfg) s = (r, s')" and "hr_Success r"
  shows "\<exists>t m. lookup_node s' sshdConfigFile = Some (File (unlines
     [''# VMKit SSH Security Configuration'', ''# Generated on '' @ stamp_text (rfc3339 t), [], ''Port '' @ itoa (hc_SSHPort cfg),
      ''PermitRootLogin no'', ''PasswordAuthentication no'', ''PubkeyAuthentication yes'',
      ''KbdInteractiveAuthentication no'', ''UsePAM yes'']) m)"
  using sshd_config_in_place [OF assms] by (simp add: sshd_config_def)

text \<open>A machine on which SSH runs without a socket and every command succeeds at once.\<close>

definition answer_host :: "(string list \<Rightarrow> cmdres) \<Rightarrow> unit host" where
  "answer_host g = command_host (\<lambda>argv s. (g argv, s))"

definition debian_answers :: "string list \<Rightarrow> cmdres" where
  "debian_answers argv =
     (if argv = [''systemctl'', ''is-active'', ''ssh.socket''] then fail_res [] ''exit status 3''
      else if argv = [''groups'', ''supabyoi''] then ok_res ''supabyoi : supabyoi sudo docker''
      else if argv = [''ss'', ''-tuln''] then ok_res ''tcp LISTEN 0 128 0.0.0.0:2222 0.0.0.0:*''
      else if argv = [''ufw'', ''status''] then ok_res ''Status: active 2222/tcp ALLOW Anywhere''
      else ok_res [])"

definition debian_sys :: "unit sys" where
  "debian_sys = start_sys [(''/etc/debian_version'', File ''12.5'' 420)] ()"

lemma run_timed_answer:
  "run_state (timed_cmd (answer_host g) timeout argv) s = (g argv, s\<lparr>trace := trace s @ [EvExec [] argv]\<rparr>)"
  by (simp add: timed_cmd_def run_exec_cmd answer_host_def)

lemma run_runCmd_answer:
  "run_state (runCmd (answer_host g) timeout argv) s = (cr_status (g argv), s\<lparr>trace := trace s @ [EvExec [] argv]\<rparr>)"
  "run_state (runCmdOutput (answer_host g) timeout argv) s =
     ((cr_out (g argv), cr_status (g argv)), s\<lparr>trace := trace s @ [EvExec [] argv]\<rparr>)"
  by (simp_all add: runCmd_def runCmdOutput_def run_timed_answer)

text \<open>States with directories and files where this run expects them.\<close>

definition debian_files :: "string set" where
  "debian_files = {''/etc/debian_version'', ''/etc/sudoers.d/supabyoi'', ''/home/supabyoi/.ssh/authorized_keys'',
     sshdConfigFile, rollbackScriptPath}"

definition roomy :: "unit sys \<Rightarrow> bool" where
  "roomy s \<longleftrightarrow> lookup_node s ''/etc/debian_version'' \<noteq> None \<and>
     (\<forall>p n. lookup_node s p = Some n \<longrightarrow> (if p \<in> debian_files then n \<noteq> Dir else n = Dir))"

text \<open>\<open>gives P m\<close>: on the example machine \<open>m\<close> returns a value with \<open>P\<close> and keeps the files in shape.\<close>

named_theorems gives_intros \<open>what programs return on the example machine\<close>

definition gives :: "('a \<Rightarrow> bool) \<Rightarrow> (unit, 'a) io \<Rightarrow> bool" where
  "gives P m \<longleftrightarrow> (\<forall>s. roomy s \<longrightarrow> (case run_state m s of (a, s') \<Rightarrow> P a \<and> roomy s'))"

abbreviation works :: "(unit, error option) io \<Rightarrow> bool" where
  "works m \<equiv> gives (\<lambda>r. r = None) m"

abbreviation debian :: "unit host" where
  "debian \<equiv> answer_host debian_answers"

lemma gives_return [gives_intros]: "P a \<Longrightarrow> gives P (ret a)"
  by (simp add: gives_def)

lemma givesD: "gives P m \<Longrightarrow> roomy s \<Longrightarrow> run_state m s = (a, s') \<Longrightarrow> P a \<and> roomy s'"
  by (auto simp: gives_def)

lemma gives_bind:
  assumes "gives P m" and "\<And>a. P a \<Longrightarrow> gives Q (f a)"
  shows "gives Q (State_Monad.bind m f)"
  unfolding gives_def
proof (intro allI impI)
  fix s
  assume "roomy s"
  obtain a u where m: "run_state m s = (a, u)" by (cases "run_state m s")
  from givesD [OF assms(1) \<open>roomy s\<close> m] have "P a" "roomy u" by auto
  with assms(2) show "case run_state (m \<bind> f) s of (b, t) \<Rightarrow> Q b \<and> roomy t"
    by (auto simp: m dest: givesD)
qed

lemma roomy_now [simp]: "roomy (s\<lparr>now := t\<rparr>) = roomy s"
  and roomy_trace [simp]: "roomy (s\<lparr>trace := es\<rparr>) = roomy s"
  and roomy_log [simp]: "roomy (World.log e s) = roomy s"
  by (simp_all add: roomy_def)

lemma gives_time_now: "gives (\<lambda>_. True) time_now"
  by (simp add: gives_def)

lemma gives_runCmd: "gives (\<lambda>r. r = cr_status (debian_answers argv)) (runCmd debian timeout argv)"
  and gives_runCmdOutput:
  "gives (\<lambda>r. r = (cr_out (debian_answers argv), cr_status (debian_answers argv))) (runCmdOutput debian timeout argv)"
  and gives_timed_cmd: "gives (\<lambda>r. r = debian_answers argv) (timed_cmd debian timeout argv)"
  by (simp_all add: gives_def run_runCmd_answer run_timed_answer)

lemma gives_after_cmd [gives_intros]:
  "gives Q (f (cr_status (debian_answers argv))) \<Longrightarrow> gives Q (runCmd debian timeout argv \<bind> f)"
  and gives_after_output [gives_intros]:
  "gives Q (g (cr_out (debian_answers argv), cr_status (debian_answers argv))) \<Longrightarrow>
     gives Q (runCmdOutput debian timeout argv \<bind> g)"
  and gives_after_timed [gives_intros]:
  "gives Q (k (debian_answers argv)) \<Longrightarrow> gives Q (timed_cmd debian timeout argv \<bind> k)"
  by (rule gives_bind [OF gives_runCmd], simp) (rule gives_bind [OF gives_runCmdOutput], simp,
    rule gives_bind [OF gives_timed_cmd], simp)

lemma gives_after_stat [gives_intros]: "(\<And>r. gives Q (f r)) \<Longrightarrow> gives Q (os_stat debian p \<bind> f)"
  by (rule gives_bind [where P = "\<lambda>_. True"]) (simp_all add: gives_def os_stat_def)

lemma gives_sum [gives_intros]:
  "(\<And>e. gives Q (f e)) \<Longrightarrow> (\<And>n. gives Q (g n)) \<Longrightarrow> gives Q (case r of Inl e \<Rightarrow> f e | Inr n \<Rightarrow> g n)"
  by (cases r) auto

lemma gives_after_time [gives_intros]: "(\<And>t. gives Q (f t)) \<Longrightarrow> gives Q (time_now \<bind> f)"
  by (rule gives_bind [OF gives_time_now])

lemma gives_must [gives_intros]:
  "cr_status (debian_answers argv) = None \<Longrightarrow> works k \<Longrightarrow> works (must debian timeout argv what k)"
  and gives_best_effort [gives_intros]: "works k \<Longrightarrow> works (best_effort debian timeout argv k)"
  unfolding must_def best_effort_def by (rule gives_bind [OF gives_runCmd], simp)+

lemma gives_must_write [gives_intros]:
  assumes "p \<in> debian_files" and "works k"
  shows "works (must_write debian p c mode what k)"
proof -
  have "gives (\<lambda>r. r = None) (os_write debian p c mode)"
    using assms(1) by (auto simp: gives_def os_write_def answer_host_def roomy_def split: option.splits node.splits prod.splits)
  then show ?thesis unfolding must_write_def by (rule gives_bind) (simp add: assms(2))
qed

lemma map_of_mk_dirs: "map_of (mk_dirs ds m) p = (if p \<in> set ds \<and> map_of m p = None then Some Dir else map_of m p)"
  by (induction ds arbitrary: m) (auto simp: update_conv')

lemma gives_mkdir:
  assumes "list_all (\<lambda>q. q \<notin> debian_files) (path_prefixes [] p)"
  shows "gives (\<lambda>r. r = None) (os_mkdir_all debian p)"
proof -
  have "\<not> list_ex (\<lambda>q. case lookup_node s q of Some (File c m) \<Rightarrow> True | _ \<Rightarrow> False) (path_prefixes [] p)"
    if "roomy s" for s
    using that assms by (fastforce simp: roomy_def list_all_iff list_ex_iff split: option.splits node.splits)
  moreover have "roomy (s\<lparr>fs := mk_dirs (path_prefixes [] p) (fs s)\<rparr>)" if "roomy s" for s
    using that assms by (auto simp: roomy_def lookup_node_def map_of_mk_dirs list_all_iff)
  ultimately show ?thesis
    by (simp add: gives_def os_mkdir_all_def answer_host_def)
qed

lemma gives_after_mkdir [gives_intros]:
  "list_all (\<lambda>q. q \<notin> debian_files) (path_prefixes [] p) \<Longrightarrow> gives Q (f None) \<Longrightarrow> gives Q (os_mkdir_all debian p \<bind> f)"
  by (rule gives_bind [OF gives_mkdir]) simp_all

lemma gives_must_mkdir [gives_intros]:
  "list_all (\<lambda>q. q \<notin> debian_files) (path_prefixes [] p) \<Longrightarrow> works k \<Longrightarrow> works (must_mkdir debian p what k)"
  unfolding must_mkdir_def by (rule gives_bind [OF gives_mkdir]) simp_all

lemma demo_harden_cfg_sel [simp]:
  "hc_VMUser demo_harden_cfg = ''supabyoi''" "hc_SSHPort demo_harden_cfg = 2222"
  "hc_SSHPublicKey demo_harden_cfg = ''ssh-ed25519 AAAA''" "hc_EnableFirewall demo_harden_cfg"
  "\<not> hc_EnableFail2Ban demo_harden_cfg" "\<not> hc_EnableAutoUpdates demo_harden_cfg"
  by (simp_all add: demo_harden_cfg_def)

lemma debian_texts:
  "str_contains ''supabyoi : supabyoi sudo docker'' ''docker''"
  "listening_on ''tcp LISTEN 0 128 0.0.0.0:2222 0.0.0.0:*'' 2222"
  "str_contains ''Status: active 2222/tcp ALLOW Anywhere'' ''Status: active''"
  "str_contains ''Status: active 2222/tcp ALLOW Anywhere'' (itoa 2222 @ ''/tcp'')"
  "buildAuthorizedKeys ''ssh-ed25519 AAAA'' (hc_ExtraAuthorizedKeys demo_harden_cfg) =
     Inr (unlines [''ssh-ed25519 AAAA'', ''ssh-rsa BBBB''])"
  "path_join [''/home/supabyoi/.ssh'', ''authorized_keys''] = ''/home/supabyoi/.ssh/authorized_keys''"
  by code_simp+

lemmas debian_simps = debian_answers_def debian_texts debian_files_def sshdConfigFile_def rollbackScriptPath_def
  backupDir_def sshdConfigDir_def allow_ssh_def enable_ufw_def

lemma works_user: "works (configureUser debian demo_harden_cfg)"
  unfolding configureUser_def add_to_groups_def configure_sudo_def install_keys_def Let_def
  by (intro gives_intros | simp add: debian_simps del: unlines.simps)+

lemma works_backups: "works (createBackups debian)"
  unfolding createBackups_def by (intro gives_intros | simp add: debian_simps)+

lemma works_ssh: "works (configureSSH debian demo_harden_cfg)"
  unfolding configureSSH_def by (intro gives_intros | simp add: debian_simps)+

lemma works_restart: "works (restartAndTestSSH debian demo_harden_cfg)"
  unfolding restart_defs Let_def by (intro gives_intros | simp add: debian_simps numeral_eq_Suc)+

lemma works_firewall: "works (configureFirewall debian demo_harden_cfg)"
  unfolding firewall_defs by (intro gives_intros | simp add: debian_simps del: str_contains.simps)+

lemma works_script: "works (createRollbackScript debian)"
  unfolding createRollbackScript_def by (intro gives_intros | simp add: debian_simps)+

lemma harden_from_succeeds:
  "\<forall>(name, action, more) \<in> set steps. works action \<Longrightarrow> roomy s \<Longrightarrow>
     hr_Success (fst (run_state (harden_from debian earlier steps) s))"
proof (induction steps arbitrary: earlier s)
  case Nil
  then show ?case by (cases "run_state (script_step debian earlier) s") (auto dest: run_script_step)
next
  case (Cons step steps)
  obtain name action message rolls where step: "step = (name, action, message, rolls)" by (cases step)
  obtain err s1 where a: "run_state action s = (err, s1)" by (cases "run_state action s")
  with Cons.prems step have "err = None" "roomy s1" by (auto dest: givesD)
  with Cons show ?case by (auto simp: step run_startStep a split: prod.splits dest!: run_finish_as)
qed

lemma preflight_passes: "gives (\<lambda>r. r = Inr demo_harden_cfg) (preflightChecks debian demo_harden_cfg)"
proof -
  have root: "heuid debian = 0" by (simp add: answer_host_def command_host_def)
  have version: "gives (\<lambda>r. \<exists>n. r = Inr n) (os_stat debian ''/etc/debian_version'')"
    by (auto simp: gives_def os_stat_def answer_host_def roomy_def split: option.splits)
  show ?thesis
    unfolding preflightChecks_def Let_def
    by (simp add: root, rule gives_bind [OF version])
      (elim exE, hypsubst, simp only: sum.case, (intro gives_intros | simp add: debian_simps)+)
qed

lemma debian_succeeds: "hr_Success (fst (run_state (Harden debian demo_harden_cfg) debian_sys))"
proof -
  have "roomy debian_sys"
    by (simp add: roomy_def debian_sys_def start_sys_def lookup_node_def debian_files_def)
  obtain v s1 where v: "run_state (preflightChecks debian demo_harden_cfg) debian_sys = (v, s1)"
    by (cases "run_state (preflightChecks debian demo_harden_cfg) debian_sys")
  from givesD [OF preflight_passes \<open>roomy debian_sys\<close> v]
  have pre: "run_state (preflightChecks debian demo_harden_cfg) debian_sys = (Inr demo_harden_cfg, s1)" "roomy s1"
    using v by auto
  have "hr_Success (fst (run_state (harden_from debian [c] (harden_steps debian demo_harden_cfg)) s1))" for c
    by (rule harden_from_succeeds [OF _ pre(2)])
      (simp add: harden_steps_def works_user works_backups works_ssh works_restart works_firewall)
  then show ?thesis
    by (auto simp: Harden_def run_startStep pre(1) split: prod.splits dest!: run_finish_as)
qed

text \<open>A state after the run that the theorem speaks about.\<close>

theorem harden_config_in_place_witness:
  "\<exists>t m. lookup_node (snd (run_state (Harden debian demo_harden_cfg) debian_sys)) sshdConfigFile = Some (File (unlines
     [''# VMKit SSH Security Configuration'', ''# Generated on '' @ stamp_text (rfc3339 t), [], ''Port '' @ itoa (hc_SSHPort demo_harden_cfg),
      ''PermitRootLogin no'', ''PasswordAuthentication no'', ''PubkeyAuthentication yes'',
      ''KbdInteractiveAuthentication no'', ''UsePAM yes'']) m)"
proof -
  have "commands_keep debian sshdConfigFile" by (simp add: commands_keep_def answer_host_def)
  then show ?thesis by (rule harden_config_in_place [OF _ prod.collapse [symmetric] debian_succeeds])
qed

end
