(* ===== verification/Daemon.thy ===== *)
theory Daemon
  imports World Json "HOL-Library.Multiset"
begin

text \<open>
  \<^verbatim>\<open>internal/daemon/daemon.go\<close>: the connection of the agent to its gateway. The parts that one
  goroutine runs are programs of the machine; the goroutines, the send channel and the reconnecting
  loop are a step relation on a state that holds the machine. The websocket library is not code of
  the repository: whether dialling, reading and writing succeed, and what is read, are choices of
  the steps. Logging is left out. A handler runs in one step of its goroutine.
\<close>

section \<open>Messages\<close>

text \<open>Parameters and results are kept as JSON values; \<^const>\<open>None\<close> is a field that is left out.
  A handler gives an error or a result, which \<^verbatim>\<open>json.Marshal\<close> may reject (\<^const>\<open>None\<close>).\<close>

type_synonym 'x handler = "json option \<Rightarrow> ('x, error + json option) io"

record daemon_config =
  dc_GatewayURL :: string
  dc_InstanceID :: string
  dc_BootstrapPath :: string
  dc_SessionPath :: string
  dc_Version :: string

record jsonRPCError =
  er_Code :: int
  er_Message :: string

record jsonRPCResponse =
  rp_Result :: "json option"
  rp_Error :: "jsonRPCError option"
  rp_ID :: string

record welcomeResult =
  we_SessionID :: string
  we_SessionToken :: "string option"
  we_HeartbeatIntervalSeconds :: int

definition opt_member :: "string \<Rightarrow> json option \<Rightarrow> (string \<times> json) list" where
  "opt_member name v = (case v of None \<Rightarrow> [] | Some j \<Rightarrow> [(name, j)])"

text \<open>A request without an id is a notification.\<close>

definition request_json :: "string \<Rightarrow> json \<Rightarrow> string option \<Rightarrow> json" where
  "request_json meth params i = JObj
     ([(''jsonrpc'', JStr ''2.0''), (''method'', JStr meth), (''params'', params)] @ opt_member ''id'' (map_option JStr i))"

definition error_json :: "jsonRPCError \<Rightarrow> json" where
  "error_json e = JObj [(''code'', json_int (er_Code e)), (''message'', JStr (er_Message e))]"

definition response_json :: "string \<Rightarrow> json option \<Rightarrow> jsonRPCError option \<Rightarrow> json" where
  "response_json i result rpcErr = JObj
     ([(''jsonrpc'', JStr ''2.0'')] @ opt_member ''result'' result @ opt_member ''error'' (map_option error_json rpcErr)
      @ [(''id'', JStr i)])"

definition dec_error :: "json \<Rightarrow> jsonRPCError option" where
  "dec_error j = (case j of
     JObj ms \<Rightarrow> (case (int_field ''code'' ms, str_field ''message'' ms) of
         (Inr c, Inr m) \<Rightarrow> Some \<lparr>er_Code = c, er_Message = m\<rparr>
       | _ \<Rightarrow> None)
   | _ \<Rightarrow> None)"

definition dec_response :: "(string \<times> json) list \<Rightarrow> error + jsonRPCResponse" where
  "dec_response ms =
     sbind (str_field ''jsonrpc'' ms) (\<lambda>_.
     sbind (ptr_field dec_error ''error'' ms) (\<lambda>err.
     sbind (str_field ''id'' ms) (\<lambda>i.
     Inr \<lparr>rp_Result = raw_field ''result'' ms, rp_Error = err, rp_ID = i\<rparr>)))"

definition dec_welcome :: "(string \<times> json) list \<Rightarrow> error + welcomeResult" where
  "dec_welcome ms =
     sbind (str_field ''session_id'' ms) (\<lambda>sid.
     sbind (ptr_field dec_str ''session_token'' ms) (\<lambda>tok.
     sbind (int_field ''heartbeat_interval_seconds'' ms) (\<lambda>hb.
     Inr \<lparr>we_SessionID = sid, we_SessionToken = tok, we_HeartbeatIntervalSeconds = hb\<rparr>)))"

section \<open>The handshake\<close>

definition readToken :: "'x host \<Rightarrow> daemon_config \<Rightarrow> ('x, error + string) io" where
  "readToken h cfg = do {
     r \<leftarrow> os_read h (dc_SessionPath cfg);
     if (case r of Inl e \<Rightarrow> False | Inr data \<Rightarrow> data \<noteq> [])
     then ret (case r of Inl e \<Rightarrow> Inl (err_text e) | Inr data \<Rightarrow> Inr (trim_space data))
     else do {
       r \<leftarrow> os_read h (dc_BootstrapPath cfg);
       ret (case r of
           Inl e \<Rightarrow> Inl (''no token available: cannot read bootstrap ('' @ dc_BootstrapPath cfg @ '') or session ('' @
             dc_SessionPath cfg @ '')'')
         | Inr data \<Rightarrow>
             if data = [] then Inl (''bootstrap token file is empty: '' @ dc_BootstrapPath cfg)
             else Inr (trim_space data))
     }
   }"

definition hello_message :: "daemon_config \<Rightarrow> string \<Rightarrow> string" where
  "hello_message cfg token = render (request_json ''hello''
     (JObj [(''instance_id'', JStr (dc_InstanceID cfg)), (''token'', JStr token), (''version'', JStr (dc_Version cfg))])
     (Some ''hello-1''))"

text \<open>The message to write, or the error that ends the attempt.\<close>

definition sendHello :: "'x host \<Rightarrow> daemon_config \<Rightarrow> ('x, error + string) io" where
  "sendHello h cfg = do {
     r \<leftarrow> readToken h cfg;
     ret (case r of Inl e \<Rightarrow> Inl e | Inr token \<Rightarrow> Inr (hello_message cfg token))
   }"

definition rotateToken :: "'x host \<Rightarrow> daemon_config \<Rightarrow> string \<Rightarrow> ('x, error option) io" where
  "rotateToken h cfg sessionToken = do {
     err \<leftarrow> os_write h (dc_SessionPath cfg) sessionToken 384;
     case err of
       Some e \<Rightarrow> ret (Some (''write session file: '' @ err_text e))
     | None \<Rightarrow> do { _ \<leftarrow> os_remove h (dc_BootstrapPath cfg); ret None }
   }"

definition recvWelcome :: "'x host \<Rightarrow> daemon_config \<Rightarrow> string \<Rightarrow> ('x, error option) io" where
  "recvWelcome h cfg data =
     (case unmarshal dec_response data of
        Inl e \<Rightarrow> ret (Some (''unmarshal welcome: '' @ e))
      | Inr resp \<Rightarrow>
          (case rp_Error resp of
             Some e \<Rightarrow> ret (Some (''welcome error '' @ itoa (er_Code e) @ '': '' @ er_Message e))
           | None \<Rightarrow>
               (case rp_Result resp of
                  None \<Rightarrow> ret (Some ''welcome missing result'')
                | Some result \<Rightarrow>
                    (case decode_struct dec_welcome result of
                       Inl e \<Rightarrow> ret (Some (''unmarshal welcome result: '' @ e))
                     | Inr welcome \<Rightarrow>
                         (case we_SessionToken welcome of
                            None \<Rightarrow> ret None
                          | Some tok \<Rightarrow> do { _ \<leftarrow> rotateToken h cfg tok; ret None })))))"

section \<open>Requests\<close>

datatype incoming =
    Answer string
  | Request string "json option" string
  | Notification string "json option"
  | Ignored

record frame =
  fr_Method :: string
  fr_Params :: "json option"
  fr_ID :: "string option"

definition dec_frame :: "(string \<times> json) list \<Rightarrow> error + frame" where
  "dec_frame ms =
     sbind (str_field ''jsonrpc'' ms) (\<lambda>_.
     sbind (str_field ''method'' ms) (\<lambda>m.
     sbind (ptr_field dec_error ''error'' ms) (\<lambda>_.
     sbind (ptr_field dec_str ''id'' ms) (\<lambda>i.
     Inr \<lparr>fr_Method = m, fr_Params = raw_field ''params'' ms, fr_ID = i\<rparr>))))"

text \<open>What the read loop makes of a message.\<close>

definition classify :: "string \<Rightarrow> incoming" where
  "classify data = (case unmarshal dec_frame data of
     Inl e \<Rightarrow> Ignored
   | Inr f \<Rightarrow>
       (case fr_ID f of
          Some i \<Rightarrow> (if fr_Method f = [] then Answer i else Request (fr_Method f) (fr_Params f) i)
        | None \<Rightarrow> (if fr_Method f = [] then Ignored else Notification (fr_Method f) (fr_Params f))))"

text \<open>The text of the one response a request gets.\<close>

definition handleRequest ::
  "(string \<times> 'x handler) list \<Rightarrow> string \<Rightarrow> json option \<Rightarrow> string \<Rightarrow> ('x, string) io" where
  "handleRequest handlers meth params i =
     (case map_of handlers meth of
        None \<Rightarrow> ret (render (response_json i None (Some \<lparr>er_Code = - 32601, er_Message = ''method not found: '' @ meth\<rparr>)))
      | Some handler \<Rightarrow> do {
          r \<leftarrow> handler params;
          ret (case r of
              Inl e \<Rightarrow> render (response_json i None (Some \<lparr>er_Code = - 32000, er_Message = e\<rparr>))
            | Inr None \<Rightarrow> render (response_json i None (Some \<lparr>er_Code = - 32603, er_Message = ''failed to marshal result''\<rparr>))
            | Inr (Some result) \<Rightarrow> render (response_json i (Some result) None))
        })"

definition handleNotification :: "(string \<times> 'x handler) list \<Rightarrow> string \<Rightarrow> json option \<Rightarrow> ('x, unit) io" where
  "handleNotification handlers meth params =
     (case map_of handlers meth of
        None \<Rightarrow> ret ()
      | Some handler \<Rightarrow> do { _ \<leftarrow> handler params; ret () })"

section \<open>The state of the daemon\<close>

text \<open>
  A message waiting in the send channel or written to the connection, with the id of the request
  it answers. A task is a goroutine that runs a handler. A loop is a goroutine of the session,
  running or returned with the error of its function; \<open>gr_Err\<close> is the first error that one of them
  returned, which cancels the context they share, and \<open>gr_Tick\<close> the time of the next tick of the
  heartbeat.
\<close>

record out_msg =
  om_ID :: "string option"
  om_Text :: string

record task =
  ta_Method :: string
  ta_Params :: "json option"
  ta_ID :: "string option"

datatype loop = Running | Returned "error option"

record group =
  gr_Read :: loop
  gr_Write :: loop
  gr_Beat :: loop
  gr_Close :: loop
  gr_Err :: "error option"
  gr_Tick :: nat

datatype conn_phase =
    Dialing
  | Helloing
  | Welcoming
  | InSession group
  | Failed error
  | Stopped

record 'x daemon =
  da_sys :: "'x sys"
  da_phase :: conn_phase
  da_backoff :: nat
  da_shutdown :: bool
  da_sendCh :: "out_msg list"
  da_pending :: "string list"
  da_tasks :: "task list"
  da_start :: nat
  da_sent :: "out_msg list"
  da_asked :: "string list"
  da_lost :: "string list"

definition sendCh_cap :: nat where "sendCh_cap = 64"
definition first_backoff :: nat where "first_backoff = seconds 1"
definition max_backoff :: nat where "max_backoff = seconds 60"

definition new_daemon :: "'x sys \<Rightarrow> 'x daemon" where
  "new_daemon s = \<lparr>da_sys = s, da_phase = Dialing, da_backoff = first_backoff, da_shutdown = False, da_sendCh = [],
     da_pending = [], da_tasks = [], da_start = now s, da_sent = [], da_asked = [], da_lost = []\<rparr>"

text \<open>The ids that a message answers.\<close>

definition msg_ids :: "out_msg list \<Rightarrow> string list" where
  "msg_ids ms = concat (map (\<lambda>m. case om_ID m of None \<Rightarrow> [] | Some i \<Rightarrow> [i]) ms)"

definition task_ids :: "task list \<Rightarrow> string list" where
  "task_ids ts = concat (map (\<lambda>t. case ta_ID t of None \<Rightarrow> [] | Some i \<Rightarrow> [i]) ts)"

text \<open>A send that does not wait: a full channel drops the message.\<close>

definition enqueue :: "out_msg \<Rightarrow> 'x daemon \<Rightarrow> 'x daemon" where
  "enqueue m d =
     (if length (da_sendCh d) < sendCh_cap then d\<lparr>da_sendCh := da_sendCh d @ [m]\<rparr>
      else d\<lparr>da_lost := da_lost d @ msg_ids [m]\<rparr>)"

definition uptime :: "'x daemon \<Rightarrow> int" where
  "uptime d = int ((now (da_sys d) - da_start d) div 10 ^ 9)"

definition heartbeat :: "'x daemon \<Rightarrow> out_msg" where
  "heartbeat d = \<lparr>om_ID = None,
     om_Text = render (request_json ''heartbeat'' (JObj [(''uptime_seconds'', json_int (uptime d))]) None)\<rparr>"

text \<open>A message that has been read, in the read loop.\<close>

definition on_message :: "string \<Rightarrow> 'x daemon \<Rightarrow> 'x daemon" where
  "on_message data d = (case classify data of
     Ignored \<Rightarrow> d
   | Answer i \<Rightarrow> d\<lparr>da_pending := remove1 i (da_pending d)\<rparr>
   | Request m p i \<Rightarrow>
       d\<lparr>da_tasks := da_tasks d @ [\<lparr>ta_Method = m, ta_Params = p, ta_ID = Some i\<rparr>], da_asked := da_asked d @ [i]\<rparr>
   | Notification m p \<Rightarrow> d\<lparr>da_tasks := da_tasks d @ [\<lparr>ta_Method = m, ta_Params = p, ta_ID = None\<rparr>]\<rparr>)"

text \<open>A goroutine that runs a handler comes to its end.\<close>

definition run_task :: "(string \<times> 'x handler) list \<Rightarrow> task \<Rightarrow> 'x daemon \<Rightarrow> 'x daemon" where
  "run_task handlers t d = (case ta_ID t of
     None \<Rightarrow> d\<lparr>da_sys := snd (run_state (handleNotification handlers (ta_Method t) (ta_Params t)) (da_sys d))\<rparr>
   | Some i \<Rightarrow>
       (case run_state (handleRequest handlers (ta_Method t) (ta_Params t) i) (da_sys d) of
          (body, s') \<Rightarrow> enqueue \<lparr>om_ID = Some i, om_Text = body\<rparr> (d\<lparr>da_sys := s'\<rparr>)))"

section \<open>Steps\<close>

text \<open>The first error is kept; it cancels the context of the group.\<close>

definition return_err :: "error option \<Rightarrow> group \<Rightarrow> group" where
  "return_err e g = (if gr_Err g = None then g\<lparr>gr_Err := e\<rparr> else g)"

definition beat_period :: nat where "beat_period = seconds 30"

definition new_group :: "nat \<Rightarrow> group" where
  "new_group t = \<lparr>gr_Read = Running, gr_Write = Running, gr_Beat = Running, gr_Close = Running, gr_Err = None,
     gr_Tick = t + beat_period\<rparr>"

text \<open>The ticker keeps one tick for a receiver that is late and drops the others.\<close>

definition next_tick :: "nat \<Rightarrow> group \<Rightarrow> nat" where
  "next_tick t g = gr_Tick g + ((t - gr_Tick g) div beat_period + 1) * beat_period"

text \<open>The context of the session is done.\<close>

definition cancelled :: "'x daemon \<Rightarrow> group \<Rightarrow> bool" where
  "cancelled d g \<longleftrightarrow> gr_Err g \<noteq> None \<or> da_shutdown d"

definition next_backoff :: "nat \<Rightarrow> error option \<Rightarrow> nat" where
  "next_backoff b err = (case err of None \<Rightarrow> first_backoff | Some e \<Rightarrow> min (b * 2) max_backoff)"

text \<open>\<^verbatim>\<open>runOnce\<close> returns \<open>err\<close> to the loop of \<^verbatim>\<open>Run\<close>.\<close>

definition returns :: "error option \<Rightarrow> 'x daemon \<Rightarrow> 'x daemon" where
  "returns err d = (case err of
     None \<Rightarrow> d\<lparr>da_phase := (if da_shutdown d then Stopped else Dialing), da_backoff := next_backoff (da_backoff d) None\<rparr>
   | Some e \<Rightarrow> d\<lparr>da_phase := (if da_shutdown d then Stopped else Failed e)\<rparr>)"

inductive dstep :: "'x host \<Rightarrow> daemon_config \<Rightarrow> (string \<times> 'x handler) list \<Rightarrow> 'x daemon \<Rightarrow> 'x daemon \<Rightarrow> bool"
  for h cfg handlers where
  dial_ok: "da_phase d = Dialing \<Longrightarrow> \<not> da_shutdown d \<Longrightarrow> dstep h cfg handlers d (d\<lparr>da_phase := Helloing\<rparr>)"
| dial_failed: "da_phase d = Dialing \<Longrightarrow> dstep h cfg handlers d (returns (Some (''dial: '' @ e)) d)"
| hello_failed: "da_phase d = Helloing \<Longrightarrow> run_state (sendHello h cfg) (da_sys d) = (Inl e, s') \<Longrightarrow>
    dstep h cfg handlers d (returns (Some (''hello: '' @ e)) (d\<lparr>da_sys := s'\<rparr>))"
| hello_unwritten: "da_phase d = Helloing \<Longrightarrow> run_state (sendHello h cfg) (da_sys d) = (Inr m, s') \<Longrightarrow>
    dstep h cfg handlers d (returns (Some (''hello: '' @ e)) (d\<lparr>da_sys := s'\<rparr>))"
| hello_ok: "da_phase d = Helloing \<Longrightarrow> run_state (sendHello h cfg) (da_sys d) = (Inr m, s') \<Longrightarrow>
    dstep h cfg handlers d (d\<lparr>da_sys := s', da_phase := Welcoming, da_sent := da_sent d @ [\<lparr>om_ID = None, om_Text = m\<rparr>]\<rparr>)"
| welcome_unread: "da_phase d = Welcoming \<Longrightarrow>
    dstep h cfg handlers d (returns (Some (''welcome: read welcome: '' @ e)) d)"
| welcome_failed: "da_phase d = Welcoming \<Longrightarrow> run_state (recvWelcome h cfg data) (da_sys d) = (Some e, s') \<Longrightarrow>
    dstep h cfg handlers d (returns (Some (''welcome: '' @ e)) (d\<lparr>da_sys := s'\<rparr>))"
| welcome_ok: "da_phase d = Welcoming \<Longrightarrow> run_state (recvWelcome h cfg data) (da_sys d) = (None, s') \<Longrightarrow>
    dstep h cfg handlers d (d\<lparr>da_sys := s', da_phase := InSession (new_group (now s'))\<rparr>)"
| read_message: "da_phase d = InSession g \<Longrightarrow> gr_Read g = Running \<Longrightarrow>
    dstep h cfg handlers d (on_message data d)"
| read_closed: "da_phase d = InSession g \<Longrightarrow> gr_Read g = Running \<Longrightarrow>
    dstep h cfg handlers d (d\<lparr>da_phase := InSession (g\<lparr>gr_Read := Returned None\<rparr>)\<rparr>)"
| read_failed: "da_phase d = InSession g \<Longrightarrow> gr_Read g = Running \<Longrightarrow>
    dstep h cfg handlers d
      (d\<lparr>da_phase := InSession (return_err (Some (''read: '' @ e)) (g\<lparr>gr_Read := Returned (Some (''read: '' @ e))\<rparr>))\<rparr>)"
| read_cancelled: "da_phase d = InSession g \<Longrightarrow> gr_Read g = Running \<Longrightarrow> cancelled d g \<Longrightarrow>
    dstep h cfg handlers d
      (d\<lparr>da_phase := InSession (return_err (Some ''context canceled'') (g\<lparr>gr_Read := Returned (Some ''context canceled'')\<rparr>))\<rparr>)"
| write_ok: "da_phase d = InSession g \<Longrightarrow> gr_Write g = Running \<Longrightarrow> da_sendCh d = m # q \<Longrightarrow>
    dstep h cfg handlers d (d\<lparr>da_sendCh := q, da_sent := da_sent d @ [m]\<rparr>)"
| write_failed: "da_phase d = InSession g \<Longrightarrow> gr_Write g = Running \<Longrightarrow> da_sendCh d = m # q \<Longrightarrow>
    dstep h cfg handlers d
      (d\<lparr>da_sendCh := q, da_lost := da_lost d @ msg_ids [m],
         da_phase := InSession (return_err (Some (''write: '' @ e)) (g\<lparr>gr_Write := Returned (Some (''write: '' @ e))\<rparr>))\<rparr>)"
| write_cancelled: "da_phase d = InSession g \<Longrightarrow> gr_Write g = Running \<Longrightarrow> cancelled d g \<Longrightarrow>
    dstep h cfg handlers d
      (d\<lparr>da_phase := InSession (return_err (Some ''context canceled'') (g\<lparr>gr_Write := Returned (Some ''context canceled'')\<rparr>))\<rparr>)"
| beat: "da_phase d = InSession g \<Longrightarrow> gr_Beat g = Running \<Longrightarrow> gr_Tick g \<le> now (da_sys d) \<Longrightarrow>
    dstep h cfg handlers d
      (enqueue (heartbeat d) (d\<lparr>da_phase := InSession (g\<lparr>gr_Tick := next_tick (now (da_sys d)) g\<rparr>)\<rparr>))"
| beat_cancelled: "da_phase d = InSession g \<Longrightarrow> gr_Beat g = Running \<Longrightarrow> cancelled d g \<Longrightarrow>
    dstep h cfg handlers d
      (d\<lparr>da_phase := InSession (return_err (Some ''context canceled'') (g\<lparr>gr_Beat := Returned (Some ''context canceled'')\<rparr>))\<rparr>)"
| closed: "da_phase d = InSession g \<Longrightarrow> gr_Close g = Running \<Longrightarrow> cancelled d g \<Longrightarrow>
    dstep h cfg handlers d (d\<lparr>da_phase := InSession (return_err e (g\<lparr>gr_Close := Returned e\<rparr>))\<rparr>)"
| session_over: "da_phase d = InSession \<lparr>gr_Read = Returned r, gr_Write = Returned w, gr_Beat = Returned b,
      gr_Close = Returned c, gr_Err = err, gr_Tick = n\<rparr> \<Longrightarrow>
    dstep h cfg handlers d (returns err d)"
| backoff_over: "da_phase d = Failed e \<Longrightarrow> da_sys d = s \<Longrightarrow>
    dstep h cfg handlers d (d\<lparr>da_phase := Dialing, da_backoff := next_backoff (da_backoff d) (Some e),
      da_sys := s\<lparr>now := now s + da_backoff d\<rparr>\<rparr>)"
| backoff_cancelled: "da_phase d = Failed e \<Longrightarrow> da_shutdown d \<Longrightarrow> dstep h cfg handlers d (d\<lparr>da_phase := Stopped\<rparr>)"
| task_over: "da_tasks d = ts @ t # us \<Longrightarrow>
    dstep h cfg handlers d (run_task handlers t (d\<lparr>da_tasks := ts @ us\<rparr>))"
| time_passes: "dstep h cfg handlers d (d\<lparr>da_sys := da_sys d\<lparr>now := now (da_sys d) + n\<rparr>\<rparr>)"
| shutdown: "dstep h cfg handlers d (d\<lparr>da_shutdown := True\<rparr>)"

inductive reachable ::
  "'x host \<Rightarrow> daemon_config \<Rightarrow> (string \<times> 'x handler) list \<Rightarrow> 'x daemon \<Rightarrow> 'x daemon \<Rightarrow> bool"
  for h cfg handlers d0 where
  start: "reachable h cfg handlers d0 d0"
| more: "reachable h cfg handlers d0 d \<Longrightarrow> dstep h cfg handlers d d' \<Longrightarrow> reachable h cfg handlers d0 d'"

section \<open>Requests are answered at most once\<close>

text \<open>What the gateway can rely on: a request is open until it is answered or lost.\<close>

record rpc =
  open_reqs :: "string multiset"
  answered :: "string multiset"
  lost :: "string multiset"

inductive rpc_step :: "rpc \<Rightarrow> rpc \<Rightarrow> bool" where
  idle: "rpc_step r r"
| asks: "rpc_step r (r\<lparr>open_reqs := add_mset i (open_reqs r)\<rparr>)"
| answers: "i \<in># open_reqs r \<Longrightarrow>
    rpc_step r (r\<lparr>open_reqs := open_reqs r - {#i#}, answered := add_mset i (answered r)\<rparr>)"
| loses: "i \<in># open_reqs r \<Longrightarrow> rpc_step r (r\<lparr>open_reqs := open_reqs r - {#i#}, lost := add_mset i (lost r)\<rparr>)"

definition rpc_of :: "'x daemon \<Rightarrow> rpc" where
  "rpc_of d = \<lparr>open_reqs = mset (task_ids (da_tasks d)) + mset (msg_ids (da_sendCh d)),
     answered = mset (msg_ids (da_sent d)), lost = mset (da_lost d)\<rparr>"

lemma msg_ids_simps [simp]:
  "msg_ids [] = []" "msg_ids (m # ms) = (case om_ID m of None \<Rightarrow> [] | Some i \<Rightarrow> [i]) @ msg_ids ms"
  "msg_ids (ms @ ns) = msg_ids ms @ msg_ids ns"
  by (simp_all add: msg_ids_def)

lemma task_ids_simps [simp]:
  "task_ids [] = []" "task_ids (t # ts) = (case ta_ID t of None \<Rightarrow> [] | Some i \<Rightarrow> [i]) @ task_ids ts"
  "task_ids (ts @ us) = task_ids ts @ task_ids us"
  by (simp_all add: task_ids_def)

lemma rpc_idle: "r' = r \<Longrightarrow> rpc_step r r'"
  by (simp add: rpc_step.idle)

lemma returns_sel [simp]:
  "da_sys (returns e d) = da_sys d" "da_sendCh (returns e d) = da_sendCh d" "da_sent (returns e d) = da_sent d"
  "da_tasks (returns e d) = da_tasks d" "da_lost (returns e d) = da_lost d" "da_asked (returns e d) = da_asked d"
  "da_pending (returns e d) = da_pending d"
  by (simp_all add: returns_def split: option.splits)

lemma enqueue_sel [simp]:
  "da_sys (enqueue m d) = da_sys d" "da_phase (enqueue m d) = da_phase d" "da_tasks (enqueue m d) = da_tasks d"
  "da_sent (enqueue m d) = da_sent d" "da_asked (enqueue m d) = da_asked d" "da_pending (enqueue m d) = da_pending d"
  "da_backoff (enqueue m d) = da_backoff d" "da_shutdown (enqueue m d) = da_shutdown d"
  by (simp_all add: enqueue_def)

text \<open>Moving one id out of the open requests.\<close>

lemma rpc_answers:
  assumes "open_reqs r = add_mset i (open_reqs r')" "answered r' = add_mset i (answered r)" "lost r' = lost r"
  shows "rpc_step r r'"
proof -
  have "r' = r\<lparr>open_reqs := open_reqs r - {#i#}, answered := add_mset i (answered r)\<rparr>"
    using assms by (cases r; cases r') simp
  moreover have "i \<in># open_reqs r" using assms(1) by simp
  ultimately show ?thesis by (simp only: rpc_step.answers)
qed

lemma rpc_loses:
  assumes "open_reqs r = add_mset i (open_reqs r')" "answered r' = answered r" "lost r' = add_mset i (lost r)"
  shows "rpc_step r r'"
proof -
  have "r' = r\<lparr>open_reqs := open_reqs r - {#i#}, lost := add_mset i (lost r)\<rparr>"
    using assms by (cases r; cases r') simp
  moreover have "i \<in># open_reqs r" using assms(1) by simp
  ultimately show ?thesis by (simp only: rpc_step.loses)
qed

lemma rpc_asks:
  assumes "open_reqs r' = add_mset i (open_reqs r)" "answered r' = answered r" "lost r' = lost r"
  shows "rpc_step r r'"
proof -
  have "r' = r\<lparr>open_reqs := add_mset i (open_reqs r)\<rparr>" using assms by (cases r; cases r') simp
  then show ?thesis by (simp only:) (rule rpc_step.asks)
qed

lemma rpc_phase [simp]: "rpc_of (d\<lparr>da_phase := p\<rparr>) = rpc_of d"
  by (simp add: rpc_of_def)

lemma rpc_enqueue_none: "om_ID m = None \<Longrightarrow> rpc_of (enqueue m d) = rpc_of d"
  by (simp add: rpc_of_def enqueue_def)

lemma rpc_run_task:
  assumes "da_tasks d = ts @ t # us"
  shows "rpc_step (rpc_of d) (rpc_of (run_task handlers t (d\<lparr>da_tasks := ts @ us\<rparr>)))"
proof (cases "ta_ID t")
  case None
  then show ?thesis by (intro rpc_idle) (simp add: rpc_of_def run_task_def assms)
next
  case (Some i)
  obtain body s' where run: "run_state (handleRequest handlers (ta_Method t) (ta_Params t) i) (da_sys d) = (body, s')"
    by (cases "run_state (handleRequest handlers (ta_Method t) (ta_Params t) i) (da_sys d)")
  show ?thesis
  proof (cases "length (da_sendCh d) < sendCh_cap")
    case True
    then show ?thesis by (intro rpc_idle) (simp add: rpc_of_def run_task_def enqueue_def assms Some run)
  next
    case False
    then show ?thesis by (intro rpc_loses [where i = i]) (simp_all add: rpc_of_def run_task_def enqueue_def assms Some run)
  qed
qed

lemma rpc_on_message: "rpc_step (rpc_of d) (rpc_of (on_message data d))"
proof (cases "classify data")
  case (Request m p i)
  then show ?thesis by (intro rpc_asks [where i = i]) (simp_all add: on_message_def rpc_of_def)
qed (auto intro!: rpc_idle simp: on_message_def rpc_of_def)

text \<open>
  C15: The daemon keeps its promise to the gateway: every step of it, whatever its goroutines are doing,
  is a step of the abstract contract, in which an open request is answered once, lost once, or stays
  open. No request is answered twice, across lost connections too.
\<close>

theorem daemon_refines_rpc:
  assumes "dstep h cfg handlers d d'"
  shows "rpc_step (rpc_of d) (rpc_of d')"
  using assms
proof (cases rule: dstep.cases)
  case (write_ok g m q)
  show ?thesis
  proof (cases "om_ID m")
    case None
    with write_ok show ?thesis by (intro rpc_idle) (simp add: rpc_of_def)
  next
    case (Some i)
    with write_ok show ?thesis by (intro rpc_answers [where i = i]) (simp_all add: rpc_of_def)
  qed
next
  case (write_failed g m q e)
  show ?thesis
  proof (cases "om_ID m")
    case None
    with write_failed show ?thesis by (intro rpc_idle) (simp add: rpc_of_def)
  next
    case (Some i)
    with write_failed show ?thesis by (intro rpc_loses [where i = i]) (simp_all add: rpc_of_def)
  qed
next
  case (task_over ts t us)
  then show ?thesis using rpc_run_task by simp
next
  case (beat g)
  then show ?thesis by (intro rpc_idle) (simp add: rpc_enqueue_none heartbeat_def)
next
  case (read_message g data)
  then show ?thesis using rpc_on_message by simp
qed (simp_all add: rpc_idle rpc_of_def)

definition demo_daemon :: "unit daemon" where
  "demo_daemon = (new_daemon (start_sys [] ()))\<lparr>da_phase := InSession (new_group 0),
     da_tasks := [\<lparr>ta_Method = ''ping'', ta_Params = None, ta_ID = Some ''7''\<rparr>]\<rparr>"

definition demo_dcfg :: daemon_config where
  "demo_dcfg = \<lparr>dc_GatewayURL = ''wss://gw'', dc_InstanceID = ''a'', dc_BootstrapPath = ''/b'', dc_SessionPath = ''/s'',
     dc_Version = ''1.0''\<rparr>"

theorem daemon_refines_rpc_witness:
  "rpc_step (rpc_of demo_daemon)
     (rpc_of (run_task [] \<lparr>ta_Method = ''ping'', ta_Params = None, ta_ID = Some ''7''\<rparr> (demo_daemon\<lparr>da_tasks := []\<rparr>)))"
proof -
  have "da_tasks demo_daemon = [] @ \<lparr>ta_Method = ''ping'', ta_Params = None, ta_ID = Some ''7''\<rparr> # []"
    by (simp add: demo_daemon_def)
  then have "dstep (command_host (\<lambda>argv s. (ok_res [], s))) demo_dcfg [] demo_daemon
      (run_task [] \<lparr>ta_Method = ''ping'', ta_Params = None, ta_ID = Some ''7''\<rparr> (demo_daemon\<lparr>da_tasks := []\<rparr>))"
    using dstep.task_over [where ts = "[]" and us = "[]"] by simp
  then show ?thesis by (rule daemon_refines_rpc)
qed

section \<open>Invariants\<close>

text \<open>The writer and the heartbeat only return with an error, so a group without an error still runs
  them.\<close>

definition group_ok :: "group \<Rightarrow> bool" where
  "group_ok g \<longleftrightarrow> gr_Write g \<noteq> Returned None \<and> gr_Beat g \<noteq> Returned None
     \<and> (gr_Err g = None \<longrightarrow> gr_Write g = Running \<and> gr_Beat g = Running)"

text \<open>What the gateway may find in a message that answers \<open>i\<close>: the response that the handler of some
  request gave on some state of the machine.\<close>

definition genuine :: "(string \<times> 'x handler) list \<Rightarrow> out_msg \<Rightarrow> bool" where
  "genuine handlers m \<longleftrightarrow> (case om_ID m of None \<Rightarrow> True | Some i \<Rightarrow>
     \<exists>meth params s. om_Text m = fst (run_state (handleRequest handlers meth params i) s))"

definition daemon_ok :: "(string \<times> 'x handler) list \<Rightarrow> 'x daemon \<Rightarrow> bool" where
  "daemon_ok handlers d \<longleftrightarrow>
     length (da_sendCh d) \<le> sendCh_cap
   \<and> first_backoff \<le> da_backoff d \<and> da_backoff d \<le> max_backoff
   \<and> da_pending d = []
   \<and> mset (da_asked d) = open_reqs (rpc_of d) + answered (rpc_of d) + lost (rpc_of d)
   \<and> list_all (genuine handlers) (da_sendCh d @ da_sent d)
   \<and> (case da_phase d of InSession g \<Rightarrow> group_ok g | _ \<Rightarrow> True)"

lemma seconds_mono [simp]: "seconds a \<le> seconds b \<longleftrightarrow> a \<le> b"
  by (simp add: seconds_def)

lemma next_backoff_bounds:
  "first_backoff \<le> b \<Longrightarrow> b \<le> max_backoff \<Longrightarrow> first_backoff \<le> next_backoff b e \<and> next_backoff b e \<le> max_backoff"
  by (auto simp: next_backoff_def first_backoff_def max_backoff_def split: option.split)

lemma group_ok_new [simp]: "group_ok (new_group t)"
  by (simp add: group_ok_def new_group_def)

lemma return_err_sel [simp]:
  "gr_Write (return_err e g) = gr_Write g" "gr_Beat (return_err e g) = gr_Beat g" "gr_Read (return_err e g) = gr_Read g"
  "gr_Err (return_err (Some x) g) \<noteq> None" "gr_Close (return_err e g) = gr_Close g"
  by (auto simp: return_err_def)

lemma daemon_ok_enqueue:
  assumes "daemon_ok handlers d" and "genuine handlers m" and "om_ID m = None"
  shows "daemon_ok handlers (enqueue m d)"
  using assms by (auto simp: daemon_ok_def rpc_enqueue_none) (auto simp: enqueue_def genuine_def)

lemma daemon_ok_run_task:
  assumes "daemon_ok handlers d" and "da_tasks d = ts @ t # us"
  shows "daemon_ok handlers (run_task handlers t (d\<lparr>da_tasks := ts @ us\<rparr>))"
proof (cases "ta_ID t")
  case None
  then show ?thesis using assms by (simp add: daemon_ok_def run_task_def rpc_of_def)
next
  case (Some i)
  obtain body s' where run: "run_state (handleRequest handlers (ta_Method t) (ta_Params t) i) (da_sys d) = (body, s')"
    by (cases "run_state (handleRequest handlers (ta_Method t) (ta_Params t) i) (da_sys d)")
  then have "genuine handlers \<lparr>om_ID = Some i, om_Text = body\<rparr>" by (auto simp: genuine_def) (metis fst_conv)
  with assms show ?thesis
    by (cases "length (da_sendCh d) < sendCh_cap")
      (auto simp: daemon_ok_def run_task_def rpc_of_def Some run enqueue_def)
qed

lemma daemon_ok_on_message: "daemon_ok handlers d \<Longrightarrow> daemon_ok handlers (on_message data d)"
  by (cases "classify data") (auto simp: on_message_def daemon_ok_def rpc_of_def)

lemma daemon_ok_returns:
  "daemon_ok handlers d \<Longrightarrow> daemon_ok handlers (returns e d)"
  using next_backoff_bounds [of "da_backoff d" e]
  by (auto simp: daemon_ok_def returns_def rpc_of_def split: option.splits)

lemma daemon_ok_sys [simp]: "daemon_ok handlers (d\<lparr>da_sys := s\<rparr>) = daemon_ok handlers d"
  by (simp add: daemon_ok_def rpc_of_def)

lemma daemon_ok_new: "daemon_ok handlers (new_daemon s)"
  by (simp add: daemon_ok_def new_daemon_def rpc_of_def first_backoff_def max_backoff_def)

lemma daemon_ok_step:
  assumes "dstep h cfg handlers d d'" and "daemon_ok handlers d"
  shows "daemon_ok handlers d'"
  using assms
proof (cases rule: dstep.cases)
  case (task_over ts t us)
  then show ?thesis using daemon_ok_run_task [OF assms(2)] by simp
next
  case (backoff_over e s)
  with assms(2) show ?thesis
    using next_backoff_bounds [of "da_backoff d" "Some e"] by (simp add: daemon_ok_def rpc_of_def)
next
  case (write_ok g m q)
  with assms(2) show ?thesis by (auto simp: daemon_ok_def rpc_of_def)
next
  case (write_failed g m q e)
  with assms(2) show ?thesis by (auto simp: daemon_ok_def rpc_of_def group_ok_def)
next
  case (beat g)
  have "daemon_ok handlers (d\<lparr>da_phase := InSession (g\<lparr>gr_Tick := next_tick (now (da_sys d)) g\<rparr>)\<rparr>)"
    using assms(2) beat by (simp add: daemon_ok_def group_ok_def)
  with beat show ?thesis by (simp add: daemon_ok_enqueue heartbeat_def genuine_def)
next
  case (closed g e)
  with assms(2) show ?thesis by (auto simp: daemon_ok_def rpc_of_def group_ok_def return_err_def cancelled_def)
next
  case (hello_ok m s')
  with assms(2) show ?thesis by (auto simp: daemon_ok_def rpc_of_def genuine_def)
next
  case (welcome_ok data s')
  with assms(2) show ?thesis by (simp add: daemon_ok_def rpc_of_def)
qed (insert assms(2), ((simp add: daemon_ok_returns daemon_ok_on_message; fail)
    | (auto simp: daemon_ok_def rpc_of_def group_ok_def; fail))+)

lemma daemon_ok_reachable:
  "reachable h cfg handlers (new_daemon s) d \<Longrightarrow> daemon_ok handlers d"
  by (induction rule: reachable.induct) (auto intro: daemon_ok_new daemon_ok_step)



section \<open>Reconnecting\<close>

lemma session_ends_with_error:
  "group_ok \<lparr>gr_Read = r, gr_Write = Returned w, gr_Beat = b, gr_Close = c, gr_Err = err, gr_Tick = n\<rparr> \<Longrightarrow> err \<noteq> None"
  by (auto simp: group_ok_def)

lemma backoff_returns [simp]: "da_backoff (returns (Some e) d) = da_backoff d"
  by (simp add: returns_def)

lemma backoff_on_message [simp]: "da_backoff (on_message data d) = da_backoff d"
  by (simp add: on_message_def split: incoming.splits)

lemma backoff_run_task [simp]: "da_backoff (run_task handlers t d) = da_backoff d"
  by (simp add: run_task_def split: option.splits prod.splits)

text \<open>
  C17: The time to wait never goes back: a step of a daemon that can be reached keeps it or doubles it up to
  a minute. The reset that \<^verbatim>\<open>Run\<close> has for a connection that ended without an error is never
  taken, because the writer and the heartbeat end with an error only, and the group waits for them.
\<close>

theorem backoff_never_resets:
  assumes "reachable h cfg handlers (new_daemon s) d" and "dstep h cfg handlers d d'"
  shows "da_backoff d' = da_backoff d \<or> da_backoff d' = min (2 * da_backoff d) (seconds 60)"
  using assms(2)
proof (cases rule: dstep.cases)
  case (session_over r w b c err n)
  with daemon_ok_reachable [OF assms(1)] have "err \<noteq> None" by (auto simp: daemon_ok_def group_ok_def)
  with session_over show ?thesis by auto
qed (auto simp: next_backoff_def max_backoff_def mult.commute)

theorem backoff_never_resets_witness:
  "da_backoff (returns (Some (''dial: '' @ ''no route'')) (new_daemon (start_sys [] ()))) \<le> seconds 60"
proof -
  let ?d = "new_daemon (start_sys [] ())" and ?h = "command_host (\<lambda>argv s. (ok_res [], s))"
  have step: "dstep ?h demo_dcfg [] ?d (returns (Some (''dial: '' @ ''no route'')) ?d)"
    by (rule dstep.dial_failed) (simp add: new_daemon_def)
  have "da_backoff ?d \<le> seconds 60" by (simp add: new_daemon_def first_backoff_def)
  with backoff_never_resets [OF reachable.start step] show ?thesis by auto
qed

section \<open>Shutdown\<close>

lemma reachable_trans:
  "reachable h cfg handlers d1 d2 \<Longrightarrow> reachable h cfg handlers d0 d1 \<Longrightarrow> reachable h cfg handlers d0 d2"
  by (induction rule: reachable.induct) (auto intro: reachable.more)

lemma reachable_step: "dstep h cfg handlers d d' \<Longrightarrow> reachable h cfg handlers d d'"
  by (blast intro: reachable.intros)

text \<open>What is left to do before the daemon has stopped.\<close>

fun loop_left :: "loop \<Rightarrow> nat" where
  "loop_left Running = 1"
| "loop_left (Returned e) = 0"

fun steps_left :: "conn_phase \<Rightarrow> nat" where
  "steps_left Stopped = 0"
| "steps_left (Failed e) = 1"
| "steps_left (InSession g) = 2 + loop_left (gr_Read g) + loop_left (gr_Write g) + loop_left (gr_Beat g) + loop_left (gr_Close g)"
| "steps_left Dialing = 2"
| "steps_left Helloing = 2"
| "steps_left Welcoming = 2"

lemma returns_shutdown:
  "da_shutdown d \<Longrightarrow> da_phase (returns e d) = Stopped \<and> da_shutdown (returns e d)"
  by (auto simp: returns_def split: option.splits)

lemma shutdown_progress:
  assumes "da_shutdown d" and "da_phase d \<noteq> Stopped"
  shows "\<exists>d'. dstep h cfg handlers d d' \<and> da_shutdown d' \<and> steps_left (da_phase d') < steps_left (da_phase d)"
proof (cases "da_phase d")
  case Dialing
  from dstep.dial_failed [OF this] returns_shutdown [OF assms(1)] show ?thesis by (fastforce simp: Dialing)
next
  case Helloing
  obtain r s' where run: "run_state (sendHello h cfg) (da_sys d) = (r, s')" by (cases "run_state (sendHello h cfg) (da_sys d)")
  have "\<exists>e. dstep h cfg handlers d (returns e (d\<lparr>da_sys := s'\<rparr>))"
    using run dstep.hello_failed [OF Helloing] dstep.hello_unwritten [OF Helloing] by (cases r) blast+
  with returns_shutdown [of "d\<lparr>da_sys := s'\<rparr>"] assms(1) show ?thesis by (fastforce simp: Helloing)
next
  case Welcoming
  from dstep.welcome_unread [OF this] returns_shutdown [OF assms(1)] show ?thesis by (fastforce simp: Welcoming)
next
  case (Failed e)
  from dstep.backoff_cancelled [OF this assms(1)] show ?thesis using assms(1) by (fastforce simp: Failed)
next
  case (InSession g)
  have c: "cancelled d g" using assms(1) by (simp add: cancelled_def)
  consider "gr_Read g = Running" | "gr_Write g = Running" | "gr_Beat g = Running" | "gr_Close g = Running"
    | r w b c where "gr_Read g = Returned r" "gr_Write g = Returned w" "gr_Beat g = Returned b" "gr_Close g = Returned c"
    by (meson loop.exhaust)
  then show ?thesis
  proof cases
    case 1
    from dstep.read_cancelled [OF InSession this c] show ?thesis using assms(1) 1 by (fastforce simp: InSession)
  next
    case 2
    from dstep.write_cancelled [OF InSession this c] show ?thesis using assms(1) 2 by (fastforce simp: InSession)
  next
    case 3
    from dstep.beat_cancelled [OF InSession this c] show ?thesis using assms(1) 3 by (fastforce simp: InSession)
  next
    case 4
    from dstep.closed [OF InSession this c] show ?thesis using assms(1) 4 by (fastforce simp: InSession)
  next
    case (5 r w b c)
    then have "da_phase d = InSession \<lparr>gr_Read = Returned r, gr_Write = Returned w, gr_Beat = Returned b,
        gr_Close = Returned c, gr_Err = gr_Err g, gr_Tick = gr_Tick g\<rparr>" using InSession by simp
    from dstep.session_over [OF this] returns_shutdown [OF assms(1)] show ?thesis by (fastforce simp: InSession)
  qed
qed (use assms in simp)

text \<open>
  After \<^verbatim>\<open>Shutdown\<close> the daemon can stop, from whatever state it is in and without any help of the
  gateway: there is a run of its own steps that ends with \<^verbatim>\<open>Run\<close> having returned.
\<close>

theorem shutdown_stops:
  assumes "da_shutdown d"
  shows "\<exists>d'. reachable h cfg handlers d d' \<and> da_phase d' = Stopped"
  using assms
proof (induction "steps_left (da_phase d)" arbitrary: d rule: less_induct)
  case less
  show ?case
  proof (cases "da_phase d = Stopped")
    case False
    from shutdown_progress [OF less.prems False] obtain d1 where
      d1: "dstep h cfg handlers d d1" "da_shutdown d1" "steps_left (da_phase d1) < steps_left (da_phase d)" by blast
    from less.hyps [OF d1(3,2)] obtain d' where "reachable h cfg handlers d1 d'" "da_phase d' = Stopped" by blast
    with reachable_trans [OF _ reachable_step [OF d1(1)]] show ?thesis by blast
  qed (blast intro: reachable.start)
qed

theorem shutdown_stops_witness:
  "\<exists>d'. reachable (command_host (\<lambda>argv s. (ok_res [], s))) demo_dcfg [] (demo_daemon\<lparr>da_shutdown := True\<rparr>) d'
     \<and> da_phase d' = Stopped"
  by (rule shutdown_stops) simp

section \<open>Tokens\<close>

lemma readToken_session:
  "hfault h (OpRead (dc_SessionPath cfg)) s = None \<Longrightarrow> lookup_node s (dc_SessionPath cfg) = Some (File tok m) \<Longrightarrow> tok \<noteq> [] \<Longrightarrow>
     run_state (readToken h cfg) s = (Inr (trim_space tok), s)"
  by (simp add: readToken_def os_read_def)

text \<open>The answer of the gateway that hands out a session token.\<close>

definition welcome_text :: "string \<Rightarrow> string \<Rightarrow> string" where
  "welcome_text i tok = render (response_json i
     (Some (JObj [(''session_id'', JStr ''s1''), (''session_token'', JStr tok), (''heartbeat_interval_seconds'', json_int 30)]))
     None)"

lemma unmarshal_welcome:
  "\<exists>resp result welcome. unmarshal dec_response (welcome_text i tok) = Inr resp \<and> rp_Error resp = None
     \<and> rp_Result resp = Some result \<and> decode_struct dec_welcome result = Inr welcome \<and> we_SessionToken welcome = Some tok"
proof -
  let ?r = "JObj [(''session_id'', JStr ''s1''), (''session_token'', JStr tok), (''heartbeat_interval_seconds'', json_int 30)]"
  have "unmarshal dec_response (welcome_text i tok) = decode_struct dec_response (response_json i (Some ?r) None)"
    unfolding welcome_text_def by (intro unmarshal_render) (simp add: response_json_def opt_member_def)
  also have "\<dots> = Inr \<lparr>rp_Result = Some ?r, rp_Error = None, rp_ID = i\<rparr>"
    by (simp add: response_json_def decode_struct_def opt_member_def dec_response_def str_field_def field_of_def field_values_def
      ptr_field_def raw_field_def to_lower_def lower_char_def)
  finally show ?thesis
    by (simp add: decode_struct_def dec_welcome_def str_field_def int_field_def field_of_def field_values_def
      ptr_field_def to_lower_def lower_char_def dec_json_int)
qed

lemma run_recvWelcome:
  "run_state (recvWelcome h cfg (welcome_text i tok)) s = (None, snd (run_state (rotateToken h cfg tok) s))"
  using unmarshal_welcome [of i tok] by (auto simp: recvWelcome_def split: prod.splits)

text \<open>A machine on which the two token files can be read, written and removed.\<close>

definition token_files_usable :: "'x host \<Rightarrow> daemon_config \<Rightarrow> 'x sys \<Rightarrow> bool" where
  "token_files_usable h cfg s \<longleftrightarrow>
     dc_SessionPath cfg \<noteq> dc_BootstrapPath cfg \<and> lookup_node s (dc_SessionPath cfg) \<noteq> Some Dir
   \<and> (\<forall>t. hfault h (OpWrite (dc_SessionPath cfg)) t = None \<and> hfault h (OpRead (dc_SessionPath cfg)) t = None
        \<and> hfault h (OpRemove (dc_BootstrapPath cfg)) t = None)"

lemma rotateToken_files:
  assumes "token_files_usable h cfg s" and "run_state (rotateToken h cfg tok) s = (e, s')"
  shows "\<exists>m. lookup_node s' (dc_SessionPath cfg) = Some (File tok m)" and "lookup_node s' (dc_BootstrapPath cfg) = None"
proof -
  obtain w s1 where w: "run_state (os_write h (dc_SessionPath cfg) tok 384) s = (w, s1)"
    by (cases "run_state (os_write h (dc_SessionPath cfg) tok 384) s")
  then have "w = None" using assms(1)
    by (auto simp: token_files_usable_def os_write_def split: option.splits node.splits)
  obtain r s2 where r: "run_state (os_remove h (dc_BootstrapPath cfg)) s1 = (r, s2)"
    by (cases "run_state (os_remove h (dc_BootstrapPath cfg)) s1")
  have s': "s' = s2" using assms(2) w \<open>w = None\<close> r by (simp add: rotateToken_def)
  show "lookup_node s' (dc_BootstrapPath cfg) = None"
    using os_remove_gone [OF r] assms(1) s' by (simp add: token_files_usable_def)
  show "\<exists>m. lookup_node s' (dc_SessionPath cfg) = Some (File tok m)"
    using os_write_ok [OF w [unfolded \<open>w = None\<close>]] os_remove_other [OF r] assms(1) s' by (auto simp: token_files_usable_def)
qed

text \<open>
  C18: The session token that the gateway hands out in its welcome is the token of the next hello: after
  the welcome the bootstrap token is gone, and reading the token gives the new one, without the space
  around it.
\<close>

theorem welcome_token_used_next:
  assumes "token_files_usable h cfg s" and "tok \<noteq> []"
    and "run_state (recvWelcome h cfg (welcome_text i tok)) s = (e, s')"
  shows "e = None \<and> lookup_node s' (dc_BootstrapPath cfg) = None \<and> run_state (readToken h cfg) s' = (Inr (trim_space tok), s')"
proof -
  obtain r where rot: "run_state (rotateToken h cfg tok) s = (r, s')" and "e = None"
    using assms(3) run_recvWelcome [of h cfg i tok s] by (metis prod.collapse prod.inject)
  from rotateToken_files [OF assms(1) rot] obtain m where
    "lookup_node s' (dc_SessionPath cfg) = Some (File tok m)" "lookup_node s' (dc_BootstrapPath cfg) = None" by blast
  with readToken_session [of h cfg s' tok m] assms(1,2) \<open>e = None\<close> show ?thesis by (simp add: token_files_usable_def)
qed

lemma demo_tokens_usable:
  "token_files_usable (command_host (\<lambda>argv s. (ok_res [], s))) demo_dcfg (start_sys [(''/b'', File ''boot'' 384)] ())"
  by (simp add: token_files_usable_def demo_dcfg_def start_sys_def lookup_node_def)

theorem welcome_token_used_next_witness:
  "fst (run_state (readToken (command_host (\<lambda>argv s. (ok_res [], s))) demo_dcfg)
     (snd (run_state (recvWelcome (command_host (\<lambda>argv s. (ok_res [], s))) demo_dcfg (welcome_text ''hello-1'' ''tok''))
       (start_sys [(''/b'', File ''boot'' 384)] ())))) = Inr ''tok''"
proof -
  have "trim_space ''tok'' = ''tok''" by code_simp
  with welcome_token_used_next [OF demo_tokens_usable _ prod.collapse [symmetric], of "''tok''" "''hello-1''"]
  show ?thesis by simp
qed

text \<open>
  An empty session token locks the agent out. When the welcome carries one, the daemon accepts it,
  writes an empty session file and removes the bootstrap token, so from then on no token can be read.
\<close>

theorem empty_session_token_locks_out:
  assumes "token_files_usable h cfg s"
    and "run_state (recvWelcome h cfg (welcome_text i [])) s = (e, s')"
  shows "e = None \<and> (\<exists>msg. run_state (readToken h cfg) s' = (Inl msg, s'))"
proof -
  obtain r where rot: "run_state (rotateToken h cfg []) s = (r, s')" and "e = None"
    using assms(2) run_recvWelcome [of h cfg i "[]" s] by (metis prod.collapse prod.inject)
  from rotateToken_files [OF assms(1) rot] obtain m where
    "lookup_node s' (dc_SessionPath cfg) = Some (File [] m)" "lookup_node s' (dc_BootstrapPath cfg) = None" by blast
  with \<open>e = None\<close> show ?thesis by (auto simp: readToken_def os_read_def split: option.splits)
qed

theorem empty_session_token_locks_out_witness:
  "\<exists>msg. fst (run_state (readToken (command_host (\<lambda>argv s. (ok_res [], s))) demo_dcfg)
     (snd (run_state (recvWelcome (command_host (\<lambda>argv s. (ok_res [], s))) demo_dcfg (welcome_text ''hello-1'' []))
       (start_sys [(''/b'', File ''boot'' 384)] ())))) = Inl msg"
  using empty_session_token_locks_out [OF demo_tokens_usable prod.collapse [symmetric], of "''hello-1''"] by auto

text \<open>
  Whatever the gateway answers, the bootstrap token is given up only for a session token: when the
  bootstrap file changed, the session file has been written.
\<close>

theorem bootstrap_kept_until_rotated:
  assumes "dc_SessionPath cfg \<noteq> dc_BootstrapPath cfg"
  shows "case run_state (recvWelcome h cfg data) s of (e, s') \<Rightarrow>
     lookup_node s' (dc_BootstrapPath cfg) = lookup_node s (dc_BootstrapPath cfg)
   \<or> (\<exists>tok m. lookup_node s' (dc_SessionPath cfg) = Some (File tok m))"
proof -
  have "case run_state (rotateToken h cfg tok) s of (e, s') \<Rightarrow>
      lookup_node s' (dc_BootstrapPath cfg) = lookup_node s (dc_BootstrapPath cfg)
    \<or> (\<exists>m. lookup_node s' (dc_SessionPath cfg) = Some (File tok m))" for tok
  proof -
    obtain w s1 where w: "run_state (os_write h (dc_SessionPath cfg) tok 384) s = (w, s1)"
      by (cases "run_state (os_write h (dc_SessionPath cfg) tok 384) s")
    obtain r s2 where r: "run_state (os_remove h (dc_BootstrapPath cfg)) s1 = (r, s2)"
      by (cases "run_state (os_remove h (dc_BootstrapPath cfg)) s1")
    show ?thesis
    proof (cases w)
      case None
      with os_write_ok [of h _ tok 384 s s1] w have "\<exists>m. lookup_node s1 (dc_SessionPath cfg) = Some (File tok m)" by blast
      with None show ?thesis using os_remove_other [OF r, of "dc_SessionPath cfg"] assms by (simp add: rotateToken_def w r)
    next
      case (Some x)
      then show ?thesis using os_write_other [OF w, of "dc_BootstrapPath cfg"] assms by (simp add: rotateToken_def w)
    qed
  qed
  moreover have "(\<exists>e. recvWelcome h cfg data = ret e) \<or> (\<exists>tok. recvWelcome h cfg data = rotateToken h cfg tok \<bind> (\<lambda>_. ret None))"
    unfolding recvWelcome_def by (auto split: sum.split option.split)
  ultimately show ?thesis by (elim disjE exE) (simp, simp add: case_prod_beta, blast)
qed

theorem bootstrap_kept_until_rotated_witness:
  "case run_state (recvWelcome (command_host (\<lambda>argv s. (ok_res [], s))) demo_dcfg ''{}'')
     (start_sys [(''/b'', File ''boot'' 384)] ()) of (e, s') \<Rightarrow>
     lookup_node s' ''/b'' = Some (File ''boot'' 384) \<or> (\<exists>tok m. lookup_node s' ''/s'' = Some (File tok m))"
  using bootstrap_kept_until_rotated [of demo_dcfg "start_sys [(''/b'', File ''boot'' 384)] ()"
      "command_host (\<lambda>argv s. (ok_res [], s))" "''{}''"]
  by (auto simp: demo_dcfg_def start_sys_def lookup_node_def split: prod.splits)

section \<open>The wire\<close>

lemmas field_defs = str_field_def int_field_def field_of_def field_values_def ptr_field_def raw_field_def to_lower_def lower_char_def

lemma result_reads_back:
  assumes "renderable result"
  shows "unmarshal dec_response (render (response_json i (Some result) None))
     = Inr \<lparr>rp_Result = Some result, rp_Error = None, rp_ID = i\<rparr>"
  using assms by (subst unmarshal_render)
    (simp_all add: response_json_def opt_member_def decode_struct_def dec_response_def field_defs)

lemma error_reads_back:
  assumes "- (2 ^ 63) \<le> c" and "c < 2 ^ 63"
  shows "unmarshal dec_response (render (response_json i None (Some \<lparr>er_Code = c, er_Message = msg\<rparr>)))
     = Inr \<lparr>rp_Result = None, rp_Error = Some \<lparr>er_Code = c, er_Message = msg\<rparr>, rp_ID = i\<rparr>"
  using assms by (subst unmarshal_render)
    (simp_all add: response_json_def error_json_def opt_member_def decode_struct_def dec_response_def dec_error_def field_defs
      dec_json_int)



end
