(* ===== verification/Phases.thy ===== *)
theory Phases
  imports Steps Paths
begin

text \<open>
  What \<^verbatim>\<open>internal/backup\<close> and \<^verbatim>\<open>internal/upgrade\<close> share: an operation is a sequence of phases. A phase
  is recorded as a step in progress when it starts; when it fails the step gets the message and the
  operation returns it with the name of the phase, and when it succeeds the step is completed and
  the operation goes on. Both packages carry a copy of the helpers modelled here.
\<close>

section \<open>Steps\<close>

definition stepStart :: "string \<Rightarrow> string \<Rightarrow> ('x, StepResult) io" where
  "stepStart name message = do {
     t \<leftarrow> time_now;
     ret ((new_step name ''in_progress'' (rfc3339 t))\<lparr>st_Message := message\<rparr>)
   }"

definition step_end :: "string \<Rightarrow> StepResult \<Rightarrow> string \<Rightarrow> ('x, StepResult) io" where
  "step_end status step message = do {
     endTime \<leftarrow> time_now;
     ret \<lparr>st_Name = st_Name step, st_Status = status, st_Message = message,
       st_StartTime = st_StartTime step, st_EndTime = rfc3339 endTime,
       st_Duration = dur_string (endTime - parse_rfc3339 (st_StartTime step))\<rparr>
   }"

definition stepSuccess :: "StepResult \<Rightarrow> string \<Rightarrow> ('x, StepResult) io" where
  "stepSuccess step message = step_end ''completed'' step message"

definition stepFail :: "StepResult \<Rightarrow> string \<Rightarrow> ('x, StepResult) io" where
  "stepFail step message = step_end ''failed'' step message"

text \<open>
  One phase: \<open>body\<close> gives the message of the failure, or the message of the completed step and a
  value for the rest. What to do with the steps in either case are the last two arguments.
\<close>

definition phase ::
  "string \<Rightarrow> string \<Rightarrow> StepResult list \<Rightarrow> ('x, error + string \<times> 'a) io
    \<Rightarrow> (StepResult list \<Rightarrow> error \<Rightarrow> ('x, 'r) io) \<Rightarrow> (StepResult list \<Rightarrow> 'a \<Rightarrow> ('x, 'r) io) \<Rightarrow> ('x, 'r) io" where
  "phase name message steps body failed k = do {
     step \<leftarrow> stepStart name message;
     r \<leftarrow> body;
     case r of
       Inl e \<Rightarrow> do { st \<leftarrow> stepFail step e; failed (steps @ [st]) e }
     | Inr (m, a) \<Rightarrow> do { st \<leftarrow> stepSuccess step m; k (steps @ [st]) a }
   }"

text \<open>A phase that the configuration may leave out.\<close>

definition phase_if ::
  "bool \<Rightarrow> 'a \<Rightarrow> string \<Rightarrow> string \<Rightarrow> StepResult list \<Rightarrow> ('x, error + string \<times> 'a) io
    \<Rightarrow> (StepResult list \<Rightarrow> error \<Rightarrow> ('x, 'r) io) \<Rightarrow> (StepResult list \<Rightarrow> 'a \<Rightarrow> ('x, 'r) io) \<Rightarrow> ('x, 'r) io" where
  "phase_if b dflt name message steps body failed k =
     (if b then phase name message steps body failed k else k steps dflt)"

section \<open>Errors\<close>

definition attempt :: "string \<Rightarrow> ('x, error option) io \<Rightarrow> ('x, error + 'a) io \<Rightarrow> ('x, error + 'a) io" where
  "attempt what m k = do {
     err \<leftarrow> m;
     case err of Some e \<Rightarrow> ret (Inl (what @ e)) | None \<Rightarrow> k
   }"

definition attempt_get ::
  "string \<Rightarrow> ('x, error + 'b) io \<Rightarrow> ('b \<Rightarrow> ('x, error + 'a) io) \<Rightarrow> ('x, error + 'a) io" where
  "attempt_get what m k = do {
     r \<leftarrow> m;
     case r of Inl e \<Rightarrow> ret (Inl (what @ e)) | Inr b \<Rightarrow> k b
   }"

text \<open>The value, or the error of the operating system as a text.\<close>

definition os_text :: "('x, oserr + 'a) io \<Rightarrow> ('x, error + 'a) io" where
  "os_text m = do { r \<leftarrow> m; ret (case r of Inl e \<Rightarrow> Inl (err_text e) | Inr a \<Rightarrow> Inr a) }"

text \<open>A file that is missing fails a validation; another error of \<^verbatim>\<open>os.Stat\<close> does not.\<close>

definition require_file :: "'x host \<Rightarrow> string \<Rightarrow> string \<Rightarrow> ('x, error option) io" where
  "require_file h path msg = do {
     r \<leftarrow> os_stat h path;
     ret (case r of Inl e \<Rightarrow> if is_not_exist e then Some msg else None | Inr n \<Rightarrow> None)
   }"

text \<open>\<^verbatim>\<open>defer os.Remove(path)\<close>\<close>

definition removing :: "'x host \<Rightarrow> string \<Rightarrow> ('x, 'a) io \<Rightarrow> ('x, 'a) io" where
  "removing h path m = do { r \<leftarrow> m; _ \<leftarrow> os_remove h path; ret r }"

definition combined :: "cmdres \<Rightarrow> error option" where
  "combined r = map_option (\<lambda>e. e @ '' - '' @ cr_all r) (cr_status r)"

section \<open>Free space\<close>

text \<open>\<^verbatim>\<open>Sscanf("%d")\<close> into a \<^verbatim>\<open>uint64\<close>, its error ignored: zero when no number can be read.\<close>

definition scan_uint :: "string \<Rightarrow> nat" where
  "scan_uint s = (let d = takeWhile is_digit s; v = digits_val d in
     if d = [] \<or> 2 ^ 64 \<le> v then 0 else v)"

definition parse_df :: "string \<Rightarrow> error + nat" where
  "parse_df output =
     (let lines = split_char NL output in
      if length lines < 2 then Inl ''unexpected df output''
      else let cols = Prelude.fields (lines ! 1) in
        if length cols < 4 then Inl ''unexpected df output format''
        else Inr (scan_uint (cols ! 3)))"

definition getFreeDiskSpace :: "'x host \<Rightarrow> string \<Rightarrow> ('x, error + nat) io" where
  "getFreeDiskSpace h path = do {
     r \<leftarrow> exec_cmd h [''df'', ''-B1'', path];
     ret (case cr_status r of Some e \<Rightarrow> Inl e | None \<Rightarrow> parse_df (cr_out r))
   }"

definition GiB :: nat where "GiB = 1024 * 1024 * 1024"

definition require_space :: "'x host \<Rightarrow> string \<Rightarrow> nat \<Rightarrow> ('x, error option) io" where
  "require_space h path gb = do {
     r \<leftarrow> getFreeDiskSpace h path;
     ret (case r of
         Inl e \<Rightarrow> Some (''Failed to check disk space: '' @ e)
       | Inr free \<Rightarrow>
           if free < gb * GiB then
             Some (''Insufficient disk space: '' @ itoa (int free) @ '' bytes available, need at least '' @ itoa (int gb) @ ''GB'')
           else None)
   }"

section \<open>Lemmas\<close>

lemma emits_stepStart [emits_intros]: "emits P (stepStart n m)"
  and emits_stepSuccess [emits_intros]: "emits P (stepSuccess st m)"
  and emits_stepFail [emits_intros]: "emits P (stepFail st m)"
  unfolding stepStart_def stepSuccess_def stepFail_def step_end_def by (intro emits_intros)+

lemma leaves_stepStart [leaves_intros]: "leaves p (stepStart n m)"
  and leaves_stepSuccess [leaves_intros]: "leaves p (stepSuccess st m)"
  and leaves_stepFail [leaves_intros]: "leaves p (stepFail st m)"
  unfolding stepStart_def stepSuccess_def stepFail_def step_end_def by (intro leaves_intros)+

lemma run_phase:
  "run_state (phase name msg steps body failed k) s =
     (case run_state body s of
        (Inl e, s1) \<Rightarrow> run_state (failed (steps @ [\<lparr>st_Name = name, st_Status = ''failed'', st_Message = e,
            st_StartTime = rfc3339 (now s), st_EndTime = rfc3339 (now s1),
            st_Duration = dur_string (now s1 - parse_rfc3339 (rfc3339 (now s)))\<rparr>]) e) s1
      | (Inr (m, a), s1) \<Rightarrow> run_state (k (steps @ [\<lparr>st_Name = name, st_Status = ''completed'', st_Message = m,
            st_StartTime = rfc3339 (now s), st_EndTime = rfc3339 (now s1),
            st_Duration = dur_string (now s1 - parse_rfc3339 (rfc3339 (now s)))\<rparr>]) a) s1)"
  by (auto simp: phase_def stepStart_def stepSuccess_def stepFail_def step_end_def split: prod.splits sum.splits)

lemma emits_phase [emits_intros]:
  "emits P body \<Longrightarrow> (\<And>sts e. emits P (failed sts e)) \<Longrightarrow> (\<And>sts a. emits P (k sts a)) \<Longrightarrow>
     emits P (phase name msg steps body failed k)"
  unfolding phase_def by (intro emits_intros)

lemma emits_phase_if [emits_intros]:
  "emits P body \<Longrightarrow> (\<And>sts e. emits P (failed sts e)) \<Longrightarrow> (\<And>sts a. emits P (k sts a)) \<Longrightarrow>
     emits P (phase_if b d name msg steps body failed k)"
  unfolding phase_if_def by (intro emits_intros)

lemma emits_attempt [emits_intros]: "emits P m \<Longrightarrow> emits P k \<Longrightarrow> emits P (attempt what m k)"
  unfolding attempt_def by (intro emits_intros)

lemma emits_attempt_get [emits_intros]: "emits P m \<Longrightarrow> (\<And>b. emits P (k b)) \<Longrightarrow> emits P (attempt_get what m k)"
  unfolding attempt_get_def by (intro emits_intros)

lemma emits_os_text [emits_intros]: "emits P m \<Longrightarrow> emits P (os_text m)"
  unfolding os_text_def by (intro emits_intros)

lemma emits_require_file [emits_intros]: "emits P (require_file h path msg)"
  unfolding require_file_def by (intro emits_intros)

lemma emits_removing [emits_intros]: "P (EvRemove path) \<Longrightarrow> emits P m \<Longrightarrow> emits P (removing h path m)"
  unfolding removing_def by (intro emits_intros)

lemma emits_require_space [emits_intros]:
  "P (EvExec [] [''df'', ''-B1'', path]) \<Longrightarrow> emits P (require_space h path gb)"
  unfolding require_space_def getFreeDiskSpace_def by (intro emits_intros)

lemma leaves_phase [leaves_intros]:
  "leaves p body \<Longrightarrow> (\<And>sts e. leaves p (failed sts e)) \<Longrightarrow> (\<And>sts a. leaves p (k sts a)) \<Longrightarrow>
     leaves p (phase name msg steps body failed k)"
  unfolding phase_def by (intro leaves_intros)

lemma leaves_phase_if [leaves_intros]:
  "leaves p body \<Longrightarrow> (\<And>sts e. leaves p (failed sts e)) \<Longrightarrow> (\<And>sts a. leaves p (k sts a)) \<Longrightarrow>
     leaves p (phase_if b d name msg steps body failed k)"
  unfolding phase_if_def by (intro leaves_intros)

lemma leaves_attempt [leaves_intros]: "leaves p m \<Longrightarrow> leaves p k \<Longrightarrow> leaves p (attempt what m k)"
  unfolding attempt_def by (intro leaves_intros)

lemma leaves_attempt_get [leaves_intros]: "leaves p m \<Longrightarrow> (\<And>b. leaves p (k b)) \<Longrightarrow> leaves p (attempt_get what m k)"
  unfolding attempt_get_def by (intro leaves_intros)

lemma leaves_os_text [leaves_intros]: "leaves p m \<Longrightarrow> leaves p (os_text m)"
  unfolding os_text_def by (intro leaves_intros)

lemma leaves_require_file [leaves_intros]: "leaves p (require_file h path msg)"
  unfolding require_file_def by (intro leaves_intros)

lemma leaves_removing [leaves_intros]: "p \<noteq> path \<Longrightarrow> leaves p m \<Longrightarrow> leaves p (removing h path m)"
  unfolding removing_def by (intro leaves_intros)

text \<open>The deferred removal leaves nothing behind, unless the file cannot be removed.\<close>

lemma removing_gone:
  assumes "run_state (removing h path m) s = (r, s')" and "\<And>s. hfault h (OpRemove path) s = None"
  shows "lookup_node s' path = None"
proof -
  obtain a s1 where "run_state m s = (a, s1)" by (cases "run_state m s")
  moreover obtain e s2 where "run_state (os_remove h path) s1 = (e, s2)" by (cases "run_state (os_remove h path) s1")
  ultimately show ?thesis using assms os_remove_gone by (fastforce simp: removing_def)
qed

lemma parse_df_bound: "parse_df out = Inr n \<Longrightarrow> n < 2 ^ 64"
  by (auto simp: parse_df_def scan_uint_def Let_def split: if_splits)

section \<open>Results, and files left behind\<close>

text \<open>\<open>yields Q m\<close>: from every state, the result of \<open>m\<close> satisfies \<open>Q\<close>.\<close>

named_theorems yields_intros \<open>results of the program constructs\<close>

definition yields :: "('a \<Rightarrow> bool) \<Rightarrow> ('x, 'a) io \<Rightarrow> bool" where
  "yields Q m \<longleftrightarrow> (\<forall>s. Q (fst (run_state m s)))"

lemma yieldsD: "yields Q m \<Longrightarrow> run_state m s = (a, s') \<Longrightarrow> Q a"
  unfolding yields_def by (metis fst_conv)

lemma yields_return [yields_intros]: "Q a \<Longrightarrow> yields Q (ret a)"
  by (simp add: yields_def)

lemma yields_bind [yields_intros]: "(\<And>a. yields Q (f a)) \<Longrightarrow> yields Q (State_Monad.bind m f)"
  by (simp add: yields_def split: prod.splits)

lemma yields_bind_res: "yields R m \<Longrightarrow> (\<And>a. R a \<Longrightarrow> yields Q (f a)) \<Longrightarrow> yields Q (State_Monad.bind m f)"
  unfolding yields_def by (auto split: prod.splits) (metis fst_conv)

lemma yields_if [yields_intros]: "yields Q m \<Longrightarrow> yields Q n \<Longrightarrow> yields Q (if b then m else n)"
  by simp

lemma yields_option [yields_intros]:
  "yields Q m \<Longrightarrow> (\<And>y. yields Q (f y)) \<Longrightarrow> yields Q (case x of None \<Rightarrow> m | Some y \<Rightarrow> f y)"
  by (cases x) auto

lemma yields_sum [yields_intros]:
  "(\<And>y. yields Q (g y)) \<Longrightarrow> (\<And>y. yields Q (f y)) \<Longrightarrow> yields Q (case x of Inl y \<Rightarrow> g y | Inr y \<Rightarrow> f y)"
  by (cases x) auto

lemma yields_removing [yields_intros]: "yields Q m \<Longrightarrow> yields Q (removing h path m)"
  unfolding removing_def by (rule yields_bind_res, assumption) (intro yields_intros)

lemma yields_phase [yields_intros]:
  "(\<And>sts e. yields Q (failed sts e)) \<Longrightarrow> (\<And>sts a. yields Q (k sts a)) \<Longrightarrow>
     yields Q (phase name msg steps body failed k)"
  unfolding phase_def by (auto intro!: yields_intros split: prod.splits)

lemma yields_phase_if [yields_intros]:
  "(\<And>sts e. yields Q (failed sts e)) \<Longrightarrow> (\<And>sts a. yields Q (k sts a)) \<Longrightarrow>
     yields Q (phase_if b d name msg steps body failed k)"
  unfolding phase_if_def by (intro yields_intros)

text \<open>A phase whose body always fails.\<close>

definition failing :: "error + 'a \<Rightarrow> bool" where
  "failing r \<longleftrightarrow> (case r of Inl e \<Rightarrow> True | Inr a \<Rightarrow> False)"

lemma failing_simps [simp]: "failing (Inl e)" "\<not> failing (Inr a)"
  by (simp_all add: failing_def)

lemma yields_phase_failing:
  "yields failing body \<Longrightarrow> (\<And>sts e. yields Q (failed sts e)) \<Longrightarrow> yields Q (phase name msg steps body failed k)"
  by (simp add: phase_def)
    (rule yields_bind, rule yields_bind_res, assumption,
      auto simp: failing_def intro!: yields_intros split: sum.splits)

lemma yields_attempt_failing:
  "yields (\<lambda>e. e \<noteq> None) m \<Longrightarrow> yields failing (attempt what m k)"
  unfolding attempt_def by (rule yields_bind_res, assumption) (auto intro: yields_return split: option.splits)

lemma yields_attempt_get_failing:
  "(\<And>b. yields failing (k b)) \<Longrightarrow> yields failing (attempt_get what m k)"
  unfolding attempt_get_def by (intro yields_intros) simp_all

text \<open>\<open>tidy_at p m\<close>: what is at \<open>p\<close> is as before or gone.\<close>

named_theorems tidy_intros \<open>programs that leave no file behind\<close>

definition tidy_at :: "string \<Rightarrow> ('x, 'a) io \<Rightarrow> bool" where
  "tidy_at p m \<longleftrightarrow> (\<forall>s. lookup_node (snd (run_state m s)) p = lookup_node s p
     \<or> lookup_node (snd (run_state m s)) p = None)"

lemma tidyD:
  "tidy_at p m \<Longrightarrow> run_state m s = (a, s') \<Longrightarrow> lookup_node s' p = lookup_node s p \<or> lookup_node s' p = None"
  unfolding tidy_at_def by (metis snd_conv)

lemma tidy_leaves: "leaves p m \<Longrightarrow> tidy_at p m"
  by (simp add: leaves_def tidy_at_def)

lemma tidy_bind [tidy_intros]:
  "tidy_at p m \<Longrightarrow> (\<And>a. tidy_at p (f a)) \<Longrightarrow> tidy_at p (State_Monad.bind m f)"
  unfolding tidy_at_def by (simp split: prod.splits) (metis snd_conv)

lemma tidy_if [tidy_intros]: "tidy_at p m \<Longrightarrow> tidy_at p n \<Longrightarrow> tidy_at p (if b then m else n)"
  by simp

lemma tidy_sum [tidy_intros]:
  "(\<And>y. tidy_at p (g y)) \<Longrightarrow> (\<And>y. tidy_at p (f y)) \<Longrightarrow> tidy_at p (case x of Inl y \<Rightarrow> g y | Inr y \<Rightarrow> f y)"
  by (cases x) auto

lemma tidy_option [tidy_intros]:
  "tidy_at p m \<Longrightarrow> (\<And>y. tidy_at p (f y)) \<Longrightarrow> tidy_at p (case x of None \<Rightarrow> m | Some y \<Rightarrow> f y)"
  by (cases x) auto

lemma tidy_let [tidy_intros]: "(\<And>y. tidy_at p (f y)) \<Longrightarrow> tidy_at p (Let x f)"
  by (simp add: Let_def)

lemma tidy_phase [tidy_intros]:
  "tidy_at p body \<Longrightarrow> (\<And>sts e. tidy_at p (failed sts e)) \<Longrightarrow> (\<And>sts a. tidy_at p (k sts a)) \<Longrightarrow>
     tidy_at p (phase name msg steps body failed k)"
  unfolding phase_def
  by (auto intro!: tidy_intros tidy_leaves [OF leaves_stepStart] tidy_leaves [OF leaves_stepFail]
      tidy_leaves [OF leaves_stepSuccess] split: prod.splits)

lemma tidy_phase_if [tidy_intros]:
  "tidy_at p body \<Longrightarrow> (\<And>sts e. tidy_at p (failed sts e)) \<Longrightarrow> (\<And>sts a. tidy_at p (k sts a)) \<Longrightarrow>
     tidy_at p (phase_if b d name msg steps body failed k)"
  unfolding phase_if_def by (intro tidy_intros)

lemma tidy_removing [tidy_intros]:
  assumes "p \<noteq> path \<Longrightarrow> tidy_at p m" and "\<And>s. hfault h (OpRemove path) s = None"
  shows "tidy_at p (removing h path m)"
proof (cases "p = path")
  case True
  have "lookup_node (snd (run_state (removing h path m) s)) path = None" for s
    by (rule removing_gone [OF prod.collapse [symmetric] assms(2)])
  with True show ?thesis by (simp add: tidy_at_def)
next
  case False
  then show ?thesis
    unfolding removing_def by (intro tidy_bind assms(1) False tidy_leaves leaves_intros)
qed

text \<open>What a phase leads to, whatever its steps are.\<close>

lemma wp_phaseI:
  assumes "wp body (\<lambda>r s1. case r of Inl e \<Rightarrow> \<forall>sts. wp (failed sts e) Q s1
     | Inr (m, a) \<Rightarrow> \<forall>sts. wp (k sts a) Q s1) s"
  shows "wp (phase name msg steps body failed k) Q s"
  using assms by (auto simp: wp_def run_phase split: prod.splits sum.splits)

lemma wp_phase_ifI:
  assumes "wp body (\<lambda>r s1. case r of Inl e \<Rightarrow> \<forall>sts. wp (failed sts e) Q s1
     | Inr (m, a) \<Rightarrow> \<forall>sts. wp (k sts a) Q s1) s" and "\<not> b \<Longrightarrow> wp (k steps d) Q s"
  shows "wp (phase_if b d name msg steps body failed k) Q s"
  using assms by (auto simp: phase_if_def intro: wp_phaseI)

lemma wp_phase_run:
  assumes "run_state body s = (q, s1)" and "\<And>e sts. q = Inl e \<Longrightarrow> wp (failed sts e) Q s1"
    and "\<And>m a sts. q = Inr (m, a) \<Longrightarrow> wp (k sts a) Q s1"
  shows "wp (phase name msg steps body failed k) Q s"
  using assms by (intro wp_phaseI) (auto simp: wp_def [of body] split: sum.splits)

end
