(* ===== verification/Backup.thy ===== *)
theory Backup
  imports Phases
begin

text \<open>
  \<^verbatim>\<open>internal/backup/backup.go\<close>: the dump of an instance to a file that is uploaded, and the restore
  from one. The digest is a parameter, any function from contents to hexadecimal texts. Two programs
  joined by a pipe run one after the other in the model, the second one reading what the first one
  printed. A response that breaks off counts as a failed request.
\<close>

section \<open>Helpers\<close>

definition default_base :: "string \<Rightarrow> string" where
  "default_base dir = (if dir = [] then ''/opt/supabase'' else dir)"

definition compose_file :: "string \<Rightarrow> string" where
  "compose_file instanceDir = path_join [instanceDir, ''docker-compose.yml'']"

definition unix_str :: "nat \<Rightarrow> string" where
  "unix_str t = itoa (int (t div 10 ^ 9))"

definition isDockerAvailable :: "'x host \<Rightarrow> ('x, bool) io" where
  "isDockerAvailable h = do {
     r \<leftarrow> exec_cmd h [''docker'', ''ps''];
     ret (cr_status r = None)
   }"

definition compose_ps :: "string \<Rightarrow> string \<Rightarrow> string list" where
  "compose_ps instanceDir service =
     [''docker'', ''compose'', ''-f'', compose_file instanceDir, ''ps'', ''-q'', service]"

definition getPostgresContainer :: "'x host \<Rightarrow> string \<Rightarrow> ('x, error + string) io" where
  "getPostgresContainer h instanceDir = do {
     r \<leftarrow> exec_cmd h (compose_ps instanceDir ''postgres'');
     ret (case cr_status r of
         Some e \<Rightarrow> Inl e
       | None \<Rightarrow> let containerID = trim_space (cr_out r) in
           if containerID = [] then Inl ''postgres container not running'' else Inr containerID)
   }"

definition getStorageContainer :: "'x host \<Rightarrow> string \<Rightarrow> ('x, error + string) io" where
  "getStorageContainer h instanceDir = do {
     r \<leftarrow> exec_cmd h (compose_ps instanceDir ''storage'');
     ret (case cr_status r of Some e \<Rightarrow> Inl e | None \<Rightarrow> Inr (trim_space (cr_out r)))
   }"

definition file_size :: "node \<Rightarrow> nat" where
  "file_size n = (case n of File c m \<Rightarrow> length c | Dir \<Rightarrow> 4096)"

definition calculateFileChecksum ::
  "'x host \<Rightarrow> (string \<Rightarrow> string) \<Rightarrow> string \<Rightarrow> ('x, error + string) io" where
  "calculateFileChecksum h digest filePath = do {
     r \<leftarrow> os_read h filePath;
     ret (case r of Inl e \<Rightarrow> Inl (err_text e) | Inr content \<Rightarrow> Inr (''sha256:'' @ digest content))
   }"

definition uploadFile :: "'x host \<Rightarrow> string \<Rightarrow> string \<Rightarrow> ('x, error option) io" where
  "uploadFile h filePath uploadURL = do {
     r \<leftarrow> os_read h filePath;
     case r of
       Inl e \<Rightarrow> ret (Some (err_text e))
     | Inr content \<Rightarrow> do {
         resp \<leftarrow> http_req h ''PUT'' uploadURL content;
         ret (case resp of
             Inl e \<Rightarrow> Some e
           | Inr (code, body) \<Rightarrow>
               if code \<noteq> 200 \<and> code \<noteq> 201
               then Some (''upload failed with status '' @ itoa code @ '': '' @ body) else None)
       }
   }"

text \<open>\<^verbatim>\<open>os.Create\<close>, with the usual mask.\<close>

definition os_create :: "'x host \<Rightarrow> string \<Rightarrow> ('x, error option) io" where
  "os_create h p = do { err \<leftarrow> os_write h p [] 420; ret (map_option err_text err) }"

definition downloadFile :: "'x host \<Rightarrow> string \<Rightarrow> string \<Rightarrow> ('x, error option) io" where
  "downloadFile h downloadURL destPath = do {
     resp \<leftarrow> http_req h ''GET'' downloadURL [];
     case resp of
       Inl e \<Rightarrow> ret (Some e)
     | Inr r \<Rightarrow>
         if fst r \<noteq> 200 then ret (Some (''download failed with status '' @ itoa (fst r) @ '': '' @ snd r))
         else do {
           err \<leftarrow> os_create h destPath;
           case err of
             Some e \<Rightarrow> ret (Some e)
           | None \<Rightarrow> do {
               err \<leftarrow> os_write h destPath (snd r) 420;
               ret (map_option err_text err)
             }
         }
   }"

text \<open>Both programs are started before the first one is waited for.\<close>

definition piped ::
  "'x host \<Rightarrow> string \<Rightarrow> string list \<Rightarrow> string \<Rightarrow> string list \<Rightarrow> ('x, error + cmdres \<times> cmdres) io" where
  "piped h whatA a whatB b = attempt whatA (cmd_start h a) (do {
     ra \<leftarrow> exec_cmd h a;
     attempt whatB (cmd_start h b) (do {
       rb \<leftarrow> run_cmd h [] b (cr_out ra);
       ret (Inr (ra, rb))
     })
   })"

definition exportStorageData :: "'x host \<Rightarrow> string \<Rightarrow> string \<Rightarrow> ('x, error option) io" where
  "exportStorageData h containerID destPath = do {
     r \<leftarrow> attempt [] (os_pipe h) (attempt [] (os_create h destPath) (do {
       r \<leftarrow> piped h [] [''docker'', ''cp'', containerID @ '':/var/lib/storage'', ''-''] [] [''gzip''];
       case r of
         Inl e \<Rightarrow> ret (Inl e)
       | Inr (ra, rb) \<Rightarrow> do { _ \<leftarrow> fill_file destPath (cr_out rb); ret (Inr (ra, rb)) }
     }));
     ret (case r of
         Inl e \<Rightarrow> Some e
       | Inr (ra, rb) \<Rightarrow> (case cr_status ra of Some e \<Rightarrow> Some e | None \<Rightarrow> cr_status rb))
   }"

definition importStorageData :: "'x host \<Rightarrow> string \<Rightarrow> string \<Rightarrow> ('x, error option) io" where
  "importStorageData h containerID srcPath = do {
     r \<leftarrow> attempt [] (os_pipe h)
       (piped h [] [''gunzip'', ''-c'', srcPath] [] [''docker'', ''cp'', ''-'', containerID @ '':/var/lib/'']);
     ret (case r of
         Inl e \<Rightarrow> Some e
       | Inr (ra, rb) \<Rightarrow> (case cr_status ra of Some e \<Rightarrow> Some e | None \<Rightarrow> cr_status rb))
   }"

definition authFixupSQL :: string where
  "authFixupSQL = unlines
     [''GRANT ALL ON SCHEMA auth TO supabase_auth_admin;'',
      ''GRANT ALL ON ALL TABLES IN SCHEMA auth TO supabase_auth_admin;'',
      ''GRANT ALL ON ALL SEQUENCES IN SCHEMA auth TO supabase_auth_admin;'',
      ''DO $$'',
      ''DECLARE'',
      ''    r RECORD;'',
      ''BEGIN'',
      ''    FOR r IN SELECT tablename FROM pg_tables WHERE schemaname = '' @ squote # ''auth'' @ [squote],
      ''    LOOP'',
      ''        EXECUTE '' @ squote # ''ALTER TABLE auth.'' @ squote # '' || quote_ident(r.tablename) || ''
        @ squote # '' DISABLE ROW LEVEL SECURITY'' @ squote # '';'',
      ''    END LOOP;'',
      ''END'',
      ''$$;'']"

definition fixAuthPermissions :: "'x host \<Rightarrow> string \<Rightarrow> ('x, error option) io" where
  "fixAuthPermissions h postgresContainer = do {
     r \<leftarrow> run_cmd h [] [''docker'', ''exec'', ''-i'', postgresContainer, ''psql'', ''-U'', ''postgres'',
       ''-d'', ''postgres'', ''-v'', ''ON_ERROR_STOP=1''] authFixupSQL;
     ret (map_option (\<lambda>e. ''psql failed: '' @ e) (combined r))
   }"

definition isInstanceHealthy :: "'x host \<Rightarrow> string \<Rightarrow> ('x, bool) io" where
  "isInstanceHealthy h instanceDir = do {
     r \<leftarrow> exec_cmd h [''docker'', ''compose'', ''-f'', compose_file instanceDir, ''ps'', ''--format'', ''json''];
     ret (cr_status r = None \<and> cr_out r \<noteq> []
       \<and> \<not> str_contains (cr_out r) (quote # ''State'' @ quote # '':'' @ quote # ''exited'' @ [quote]))
   }"

text \<open>\<^verbatim>\<open>psql\<close> may end with an error after warnings only: the text on its standard error decides.\<close>

definition psql_failed :: "string \<Rightarrow> cmdres \<Rightarrow> error option" where
  "psql_failed what r = (case cr_status r of
       None \<Rightarrow> None
     | Some e \<Rightarrow> if str_contains (cr_err r) ''ERROR'' \<or> str_contains (cr_err r) ''FATAL''
         then Some (what @ e @ '' - '' @ cr_err r) else None)"

section \<open>Backup\<close>

definition validate_backup :: "'x host \<Rightarrow> string \<Rightarrow> ('x, error + string \<times> string) io" where
  "validate_backup h instanceDir =
     attempt [] (require_file h instanceDir (''Instance directory not found: '' @ instanceDir))
     (attempt [] (require_file h (compose_file instanceDir) (''Docker Compose file not found: '' @ compose_file instanceDir))
     (do {
       ok \<leftarrow> isDockerAvailable h;
       if \<not> ok then ret (Inl ''Docker is not available'')
       else attempt_get ''Failed to get Postgres container: '' (getPostgresContainer h instanceDir) (\<lambda>container.
         attempt [] (require_space h ''/tmp'' 1) (ret (Inr (''Instance validation successful'', container))))
     }))"

definition pg_dump_cmd :: "string \<Rightarrow> string list" where
  "pg_dump_cmd container = [''docker'', ''exec'', container, ''pg_dump'', ''-U'', ''postgres'', ''-d'', ''postgres'']"

definition create_dump :: "'x host \<Rightarrow> string \<Rightarrow> string \<Rightarrow> ('x, error + string \<times> nat) io" where
  "create_dump h container backupFile =
     attempt ''Failed to create dump pipe: '' (os_pipe h)
     (attempt ''Failed to create backup file: '' (os_create h backupFile)
     (attempt_get [] (piped h ''Failed to start pg_dump: '' (pg_dump_cmd container) ''Failed to start gzip: '' [''gzip''])
       (\<lambda>(dump, gzip). do {
          _ \<leftarrow> fill_file backupFile (cr_out gzip);
          case cr_status dump of
            Some e \<Rightarrow> ret (Inl (''pg_dump failed: '' @ e))
          | None \<Rightarrow>
              (case cr_status gzip of
                 Some e \<Rightarrow> ret (Inl (''gzip failed: '' @ e @ '' - '' @ cr_err gzip))
               | None \<Rightarrow> attempt_get ''Failed to stat backup file: '' (os_text (os_stat h backupFile)) (\<lambda>n.
                   ret (Inr (''Database dump created: '' @ itoa (int (file_size n)) @ '' bytes'', file_size n))))
        })))"

text \<open>The storage files never fail a backup; the value is what they add to the metadata.\<close>

definition backup_storage ::
  "'x host \<Rightarrow> (string \<Rightarrow> string) \<Rightarrow> BackupConfig \<Rightarrow> string \<Rightarrow> string \<Rightarrow> BackupMetadata
     \<Rightarrow> ('x, error + string \<times> BackupMetadata) io" where
  "backup_storage h digest config instanceDir storageFile meta = do {
     r \<leftarrow> getStorageContainer h instanceDir;
     case r of
       Inl e \<Rightarrow> ret (Inr (''Storage container not running, skipping'', meta))
     | Inr container \<Rightarrow>
         if container = [] then ret (Inr (''Storage container not running, skipping'', meta))
         else do {
           err \<leftarrow> exportStorageData h container storageFile;
           case err of
             Some e \<Rightarrow> ret (Inr (''Storage backup skipped: '' @ e, meta))
           | None \<Rightarrow> do {
               st \<leftarrow> os_stat h storageFile;
               case st of
                 Inl e \<Rightarrow> ret (Inr (''Storage directory is empty, skipping'', meta))
               | Inr n \<Rightarrow>
                   if file_size n \<le> 100 then ret (Inr (''Storage directory is empty, skipping'', meta))
                   else do {
                     sum \<leftarrow> calculateFileChecksum h digest storageFile;
                     let meta = meta\<lparr>bm_StorageSizeBytes := int (file_size n),
                       bm_StorageChecksum := (case sum of Inl e \<Rightarrow> bm_StorageChecksum meta | Inr c \<Rightarrow> c)\<rparr>;
                     err \<leftarrow> uploadFile h storageFile (bc_StorageUploadURL config);
                     ret (Inr (case err of
                         Some e \<Rightarrow> ''Storage backup upload failed: '' @ e
                       | None \<Rightarrow> ''Storage backup uploaded: '' @ itoa (int (file_size n)) @ '' bytes'', meta))
                   }
             }
         }
   }"

definition backup_failed :: "BackupResult \<Rightarrow> string \<Rightarrow> StepResult list \<Rightarrow> error \<Rightarrow> ('x, BackupResult) io" where
  "backup_failed result name steps e =
     ret (result\<lparr>br_Steps := steps, br_ErrorMessage := e, br_FailedStep := name\<rparr>)"

definition finish_backup :: "BackupConfig \<Rightarrow> BackupResult \<Rightarrow> StepResult list \<Rightarrow> BackupMetadata \<Rightarrow> ('x, BackupResult) io" where
  "finish_backup config result steps meta = do {
     t \<leftarrow> time_now;
     ret (result\<lparr>br_Success := True, br_Steps := steps, br_Metadata := meta\<lparr>bm_Status := ''completed''\<rparr>,
       br_BackupID := ''backup_'' @ bc_Subdomain config @ ''_'' @ unix_str t\<rparr>)
   }"

definition storage_phase ::
  "'x host \<Rightarrow> (string \<Rightarrow> string) \<Rightarrow> BackupConfig \<Rightarrow> string \<Rightarrow> BackupResult \<Rightarrow> StepResult list \<Rightarrow> BackupMetadata
     \<Rightarrow> ('x, BackupResult) io" where
  "storage_phase h digest config instanceDir result steps meta =
     (if bc_IncludeStorage config \<and> bc_StorageUploadURL config \<noteq> [] then do {
        t \<leftarrow> time_now;
        let storageFile = path_join [''/tmp'', bc_Subdomain config @ ''_storage_'' @ unix_str t @ ''.tar.gz''];
        removing h storageFile
          (phase ''backup_storage'' ''Backing up storage files'' steps
            (backup_storage h digest config instanceDir storageFile meta)
            (backup_failed result ''backup_storage'') (finish_backup config result))
      } else finish_backup config result steps meta)"

definition upload_phase ::
  "'x host \<Rightarrow> (string \<Rightarrow> string) \<Rightarrow> BackupConfig \<Rightarrow> string \<Rightarrow> string \<Rightarrow> BackupResult \<Rightarrow> StepResult list
     \<Rightarrow> BackupMetadata \<Rightarrow> ('x, BackupResult) io" where
  "upload_phase h digest config instanceDir backupFile result steps meta =
     phase ''upload_database'' ''Uploading database backup to storage'' steps
       (if bc_UploadURL config = []
        then ret (Inr (''Upload skipped (no upload_url configured, backup saved locally)'', ()))
        else attempt ''Failed to upload database backup: '' (uploadFile h backupFile (bc_UploadURL config))
          (ret (Inr (''Database backup uploaded successfully'', ()))))
       (backup_failed (result\<lparr>br_Metadata := meta\<rparr>) ''upload_database'')
       (\<lambda>steps _. storage_phase h digest config instanceDir (result\<lparr>br_Metadata := meta\<rparr>) steps meta)"

definition checksum_phase ::
  "'x host \<Rightarrow> (string \<Rightarrow> string) \<Rightarrow> BackupConfig \<Rightarrow> string \<Rightarrow> string \<Rightarrow> BackupResult \<Rightarrow> StepResult list
     \<Rightarrow> BackupMetadata \<Rightarrow> ('x, BackupResult) io" where
  "checksum_phase h digest config instanceDir backupFile result steps meta =
     phase ''calculate_checksum'' ''Calculating backup checksum'' steps
       (attempt_get ''Failed to calculate checksum: '' (calculateFileChecksum h digest backupFile)
          (\<lambda>checksum. ret (Inr (''Checksum: '' @ checksum, checksum))))
       (backup_failed (result\<lparr>br_Metadata := meta\<rparr>) ''calculate_checksum'')
       (\<lambda>steps checksum. upload_phase h digest config instanceDir backupFile result steps (meta\<lparr>bm_Checksum := checksum\<rparr>))"

definition dump_phases ::
  "'x host \<Rightarrow> (string \<Rightarrow> string) \<Rightarrow> BackupConfig \<Rightarrow> string \<Rightarrow> BackupResult \<Rightarrow> StepResult list \<Rightarrow> string
     \<Rightarrow> ('x, BackupResult) io" where
  "dump_phases h digest config instanceDir result steps container = do {
     t \<leftarrow> time_now;
     let backupFile = path_join [''/tmp'', bc_Subdomain config @ ''_backup_'' @ unix_str t @ ''.sql.gz''];
     removing h backupFile
       (phase ''create_dump'' ''Creating database dump with pg_dump'' steps
         (create_dump h container backupFile) (backup_failed result ''create_dump'')
         (\<lambda>steps bytes. checksum_phase h digest config instanceDir backupFile result steps
            ((br_Metadata result)\<lparr>bm_SizeBytes := int bytes\<rparr>)))
   }"

definition Backup :: "'x host \<Rightarrow> (string \<Rightarrow> string) \<Rightarrow> BackupConfig \<Rightarrow> ('x, BackupResult) io" where
  "Backup h digest config = do {
     t0 \<leftarrow> time_now;
     let meta = \<lparr>bm_BackupID = [], bm_InstanceID = bc_InstanceID config, bm_Subdomain = bc_Subdomain config,
           bm_SupabaseVersion = [], bm_Timestamp = rfc3339 t0, bm_SizeBytes = 0, bm_Checksum = [],
           bm_StorageSizeBytes = 0, bm_StorageChecksum = [], bm_Status = ''in_progress''\<rparr>;
     let result = \<lparr>br_Success = False, br_BackupID = [], br_InstanceID = bc_InstanceID config, br_Steps = [],
           br_Metadata = meta, br_ErrorMessage = [], br_FailedStep = []\<rparr>;
     let instanceDir = path_join [default_base (bc_BaseDir config), bc_Subdomain config];
     phase ''validate_instance'' ''Validating instance and checking prerequisites'' []
       (validate_backup h instanceDir) (backup_failed result ''validate_instance'')
       (dump_phases h digest config instanceDir result)
   }"

section \<open>Restore\<close>

definition validate_restore :: "'x host \<Rightarrow> string \<Rightarrow> ('x, error + string \<times> unit) io" where
  "validate_restore h instanceDir =
     attempt [] (require_file h instanceDir (''Instance directory not found: '' @ instanceDir))
     (attempt [] (require_file h (compose_file instanceDir) (''Docker Compose file not found: '' @ compose_file instanceDir))
       (ret (Inr (''Instance validated'', ()))))"

definition verify_checksum ::
  "'x host \<Rightarrow> (string \<Rightarrow> string) \<Rightarrow> string \<Rightarrow> string \<Rightarrow> ('x, error + string \<times> unit) io" where
  "verify_checksum h digest expected backupFile =
     attempt_get ''Failed to calculate checksum: '' (calculateFileChecksum h digest backupFile) (\<lambda>checksum.
       ret (if checksum \<noteq> expected then Inl (''Checksum mismatch: expected '' @ expected @ '', got '' @ checksum)
            else Inr (''Checksum verified'', ())))"

definition run_compose :: "'x host \<Rightarrow> string \<Rightarrow> string list \<Rightarrow> ('x, error option) io" where
  "run_compose h instanceDir args = do {
     r \<leftarrow> exec_cmd h ([''docker'', ''compose'', ''-f'', compose_file instanceDir] @ args);
     ret (combined r)
   }"

definition database_container :: "'x host \<Rightarrow> string \<Rightarrow> ('x, error + string) io" where
  "database_container h instanceDir = do {
     r \<leftarrow> getPostgresContainer h instanceDir;
     case r of
       Inr c \<Rightarrow> ret (Inr c)
     | Inl e \<Rightarrow> attempt ''Failed to start database container: '' (run_compose h instanceDir [''start'', ''postgres'']) (do {
         _ \<leftarrow> sleep (seconds 5);
         attempt_get ''Failed to get Postgres container after start: '' (getPostgresContainer h instanceDir)
           (\<lambda>c. ret (Inr c))
       })
   }"

definition psql_admin :: "string \<Rightarrow> string \<Rightarrow> string list" where
  "psql_admin container sql = [''docker'', ''exec'', container, ''psql'', ''-U'', ''postgres'', ''-c'', sql]"

definition drop_sql :: string where "drop_sql = ''DROP DATABASE IF EXISTS postgres;''"
definition create_sql :: string where "create_sql = ''CREATE DATABASE postgres;''"

definition psql_run :: "'x host \<Rightarrow> string \<Rightarrow> string \<Rightarrow> ('x, error option) io" where
  "psql_run h container sql = do {
     r \<leftarrow> exec_cmd h (psql_admin container sql);
     ret (combined r)
   }"

definition load_dump :: "'x host \<Rightarrow> string \<Rightarrow> string \<Rightarrow> ('x, error + string \<times> string) io" where
  "load_dump h container backupFile =
     attempt ''Failed to create gunzip pipe: '' (os_pipe h)
     (attempt_get [] (piped h ''Failed to start gunzip: '' [''gunzip'', ''-c'', backupFile]
         ''Failed to start psql: '' [''docker'', ''exec'', ''-i'', container, ''psql'', ''-U'', ''postgres'', ''-d'', ''postgres''])
       (\<lambda>(gunzip, psql).
          ret (case cr_status gunzip of
              Some e \<Rightarrow> Inl (''gunzip failed: '' @ e)
            | None \<Rightarrow> (case psql_failed ''psql failed: '' psql of
                 Some e \<Rightarrow> Inl e
               | None \<Rightarrow> Inr (''Database restored successfully'', container)))))"

definition restore_database :: "'x host \<Rightarrow> string \<Rightarrow> string \<Rightarrow> ('x, error + string \<times> string) io" where
  "restore_database h instanceDir backupFile =
     attempt_get [] (database_container h instanceDir) (\<lambda>container.
       attempt ''Failed to drop database: '' (psql_run h container drop_sql)
       (attempt ''Failed to create database: '' (psql_run h container create_sql)
       (load_dump h container backupFile)))"

definition restore_storage :: "'x host \<Rightarrow> RestoreConfig \<Rightarrow> string \<Rightarrow> string \<Rightarrow> ('x, error + string \<times> unit) io" where
  "restore_storage h config instanceDir storageFile = do {
     err \<leftarrow> downloadFile h (rc_StorageDownloadURL config) storageFile;
     case err of
       Some e \<Rightarrow> ret (Inr (''Storage restore skipped: '' @ e, ()))
     | None \<Rightarrow> do {
         r \<leftarrow> getStorageContainer h instanceDir;
         case r of
           Inl e \<Rightarrow> ret (Inr (''Storage container not available, skipping'', ()))
         | Inr container \<Rightarrow>
             if container = [] then ret (Inr (''Storage container not available, skipping'', ()))
             else do {
               err \<leftarrow> importStorageData h container storageFile;
               ret (Inr (case err of
                   Some e \<Rightarrow> ''Storage restore failed: '' @ e
                 | None \<Rightarrow> ''Storage files restored successfully'', ()))
             }
       }
   }"

definition restore_failed :: "RestoreResult \<Rightarrow> string \<Rightarrow> StepResult list \<Rightarrow> error \<Rightarrow> ('x, RestoreResult) io" where
  "restore_failed result name steps e =
     ret (result\<lparr>rr_Steps := steps, rr_ErrorMessage := e, rr_FailedStep := name\<rparr>)"

definition restart_phases :: "'x host \<Rightarrow> string \<Rightarrow> RestoreResult \<Rightarrow> StepResult list \<Rightarrow> ('x, RestoreResult) io" where
  "restart_phases h instanceDir result steps =
     phase ''restart_instance'' ''Restarting instance'' steps
       (attempt ''Failed to restart instance: '' (run_compose h instanceDir [''restart'']) (ret (Inr (''Instance restarted'', ()))))
       (restore_failed result ''restart_instance'')
       (\<lambda>steps _. phase ''health_check'' ''Performing health check'' steps
          (do {
             _ \<leftarrow> sleep (seconds 10);
             ok \<leftarrow> isInstanceHealthy h instanceDir;
             ret (if ok then Inr (''Health check passed'', ()) else Inl ''Health check failed after restore'')
           })
          (restore_failed result ''health_check'')
          (\<lambda>steps _. ret (result\<lparr>rr_Success := True, rr_Steps := steps\<rparr>)))"

definition restore_storage_phase ::
  "'x host \<Rightarrow> RestoreConfig \<Rightarrow> string \<Rightarrow> RestoreResult \<Rightarrow> StepResult list \<Rightarrow> ('x, RestoreResult) io" where
  "restore_storage_phase h config instanceDir result steps =
     (if rc_StorageDownloadURL config \<noteq> [] then do {
        t \<leftarrow> time_now;
        let storageFile = path_join [''/tmp'', rc_Subdomain config @ ''_storage_restore_'' @ unix_str t @ ''.tar.gz''];
        removing h storageFile
          (phase ''restore_storage'' ''Restoring storage files'' steps (restore_storage h config instanceDir storageFile)
            (restore_failed result ''restore_storage'') (\<lambda>steps _. restart_phases h instanceDir result steps))
      } else restart_phases h instanceDir result steps)"

text \<open>From the verified file on.\<close>

definition restore_phases ::
  "'x host \<Rightarrow> RestoreConfig \<Rightarrow> string \<Rightarrow> string \<Rightarrow> RestoreResult \<Rightarrow> StepResult list \<Rightarrow> ('x, RestoreResult) io" where
  "restore_phases h config instanceDir backupFile result steps =
     phase_if (rc_StopInstance config) () ''stop_instance'' ''Stopping instance containers'' steps
       (attempt ''Failed to stop instance: '' (run_compose h instanceDir [''stop'']) (ret (Inr (''Instance stopped'', ()))))
       (restore_failed result ''stop_instance'')
       (\<lambda>steps _. phase ''restore_database'' ''Restoring database from backup'' steps
          (restore_database h instanceDir backupFile) (restore_failed result ''restore_database'')
          (\<lambda>steps container. phase ''fix_auth_permissions'' ''Restoring auth schema grants and disabling migrated RLS'' steps
             (attempt ''Failed to fix auth permissions: '' (fixAuthPermissions h container)
               (ret (Inr (''Auth schema grants and RLS reset'', ()))))
             (restore_failed result ''fix_auth_permissions'')
             (\<lambda>steps _. restore_storage_phase h config instanceDir result steps)))"

definition verified_restore ::
  "'x host \<Rightarrow> (string \<Rightarrow> string) \<Rightarrow> RestoreConfig \<Rightarrow> string \<Rightarrow> string \<Rightarrow> RestoreResult \<Rightarrow> StepResult list
     \<Rightarrow> ('x, RestoreResult) io" where
  "verified_restore h digest config instanceDir backupFile result steps =
     phase_if (rc_VerifyChecksum config \<and> rc_ExpectedChecksum config \<noteq> []) ()
       ''verify_checksum'' ''Verifying backup integrity'' steps
       (verify_checksum h digest (rc_ExpectedChecksum config) backupFile)
       (restore_failed result ''verify_checksum'')
       (\<lambda>steps _. restore_phases h config instanceDir backupFile result steps)"

definition download_phases ::
  "'x host \<Rightarrow> (string \<Rightarrow> string) \<Rightarrow> RestoreConfig \<Rightarrow> string \<Rightarrow> RestoreResult \<Rightarrow> StepResult list
     \<Rightarrow> ('x, RestoreResult) io" where
  "download_phases h digest config instanceDir result steps = do {
     t \<leftarrow> time_now;
     let backupFile = path_join [''/tmp'', rc_Subdomain config @ ''_restore_'' @ unix_str t @ ''.sql.gz''];
     removing h backupFile
       (phase ''download_backup'' ''Downloading backup from storage'' steps
         (attempt ''Failed to download backup: '' (downloadFile h (rc_DownloadURL config) backupFile)
           (ret (Inr (''Backup downloaded successfully'', ()))))
         (restore_failed result ''download_backup'')
         (\<lambda>steps _. verified_restore h digest config instanceDir backupFile result steps))
   }"

definition Restore :: "'x host \<Rightarrow> (string \<Rightarrow> string) \<Rightarrow> RestoreConfig \<Rightarrow> ('x, RestoreResult) io" where
  "Restore h digest config = (
     let result = \<lparr>rr_Success = False, rr_InstanceID = rc_InstanceID config, rr_Steps = [],
           rr_ErrorMessage = [], rr_FailedStep = []\<rparr>;
         instanceDir = path_join [default_base (rc_BaseDir config), rc_Subdomain config] in
     phase ''validate_instance'' ''Validating instance'' []
       (validate_restore h instanceDir) (restore_failed result ''validate_instance'')
       (\<lambda>steps _. download_phases h digest config instanceDir result steps))"

section \<open>Lemmas\<close>

lemmas backup_ops =
  isDockerAvailable_def getPostgresContainer_def getStorageContainer_def calculateFileChecksum_def
  exportStorageData_def importStorageData_def piped_def fixAuthPermissions_def isInstanceHealthy_def
  run_compose_def psql_run_def

lemma extends_backup_storage: "extends_trace (backup_storage h digest config instanceDir f meta)"
  unfolding backup_storage_def backup_ops uploadFile_def os_create_def Let_def attempt_def
  by (auto intro!: emits_intros split: prod.splits sum.splits)

lemma extends_storage_phase: "extends_trace (storage_phase h digest config instanceDir result steps meta)"
  unfolding storage_phase_def Let_def finish_backup_def backup_failed_def
  by (intro emits_intros extends_backup_storage TrueI)

text \<open>The storage files change nothing in what the metadata says of the dump.\<close>

definition same_dump :: "BackupMetadata \<Rightarrow> BackupMetadata \<Rightarrow> bool" where
  "same_dump m m' \<longleftrightarrow> bm_SizeBytes m = bm_SizeBytes m' \<and> bm_Checksum m = bm_Checksum m'"

definition storage_meta :: "BackupMetadata \<Rightarrow> error + string \<times> BackupMetadata \<Rightarrow> bool" where
  "storage_meta meta r \<longleftrightarrow> (case r of Inl e \<Rightarrow> False | Inr (m, meta') \<Rightarrow> same_dump meta' meta)"

lemma backup_storage_meta: "yields (storage_meta meta) (backup_storage h digest config instanceDir f meta)"
  unfolding backup_storage_def Let_def
  by (auto intro!: yields_intros simp: storage_meta_def same_dump_def split: prod.splits sum.splits option.splits)

definition finished_with :: "BackupMetadata \<Rightarrow> BackupResult \<Rightarrow> bool" where
  "finished_with meta r \<longleftrightarrow> br_Success r \<and> same_dump (br_Metadata r) meta \<and> bm_Status (br_Metadata r) = ''completed''"

lemma finish_backup_with: "same_dump meta' meta \<Longrightarrow> yields (finished_with meta) (finish_backup config result steps meta')"
  unfolding finish_backup_def by (auto intro!: yields_intros simp: finished_with_def same_dump_def)

lemma storage_phase_finishes: "yields (finished_with meta) (storage_phase h digest config instanceDir result steps meta)"
proof -
  have "yields (finished_with meta) (phase n m sts (backup_storage h digest config instanceDir f meta)
      (backup_failed result n') (finish_backup config result))" for n m sts f n'
    unfolding phase_def
    by (rule yields_bind, rule yields_bind_res, rule backup_storage_meta)
      (auto simp: storage_meta_def intro!: yields_intros finish_backup_with split: sum.splits prod.splits)
  note storage = this
  show ?thesis
    unfolding storage_phase_def Let_def
    by (intro yields_if yields_bind yields_removing storage finish_backup_with) (simp add: same_dump_def)
qed

lemma create_dump_size:
  "run_state (create_dump h container f) s = (Inr (m, sz), s1) \<Longrightarrow>
     \<exists>n. lookup_node s1 f = Some n \<and> sz = file_size n"
  by (auto simp: create_dump_def attempt_def attempt_get_def os_text_def os_stat_def enoent_def
      split: prod.splits sum.splits option.splits if_splits)

lemma checksum_content:
  "run_state (calculateFileChecksum h digest f) s = (Inr c, s1) \<Longrightarrow>
     s1 = s \<and> (\<exists>body m. lookup_node s f = Some (File body m) \<and> c = ''sha256:'' @ digest body)"
  by (auto simp: calculateFileChecksum_def os_read_def enoent_def split: option.splits node.splits)

lemma upload_body:
  "run_state (uploadFile h f url) s = (None, s1) \<Longrightarrow> lookup_node s f = Some (File body m) \<Longrightarrow>
     trace s1 = trace s @ [EvHttp ''PUT'' url body]"
  by (auto simp: uploadFile_def os_read_def http_req_def Let_def split: option.splits prod.splits sum.splits)

section \<open>Properties\<close>

lemma wp_yields: "yields Q m \<Longrightarrow> wp m (\<lambda>a s1. Q a) s"
  by (auto intro!: wpI dest: yieldsD)

lemma wp_extends: "extends_trace m \<Longrightarrow> wp m (\<lambda>a s1. \<exists>es. trace s1 = trace s @ es) s"
  by (auto intro!: wpI dest: emitsD)

lemma wp_removingI:
  "wp m (\<lambda>a s1. \<forall>e s2. run_state (os_remove h path) s1 = (e, s2) \<longrightarrow> Q a s2) s \<Longrightarrow> wp (removing h path m) Q s"
  by (auto simp: wp_def removing_def split: prod.splits)

text \<open>What a successful backup shows: the request that sent the dump, and the metadata of its body.\<close>

definition uploaded :: "(string \<Rightarrow> string) \<Rightarrow> string \<Rightarrow> event list \<Rightarrow> BackupResult \<Rightarrow> event list \<Rightarrow> bool" where
  "uploaded digest url tr r tr' \<longleftrightarrow> (\<exists>es body. tr' = tr @ es \<and> EvHttp ''PUT'' url body \<in> set es
     \<and> bm_SizeBytes (br_Metadata r) = int (length body) \<and> bm_Checksum (br_Metadata r) = ''sha256:'' @ digest body
     \<and> bm_Status (br_Metadata r) = ''completed'')"

lemma uploaded_extend:
  assumes "trace s1 = tr @ es" and "EvHttp ''PUT'' url body \<in> set es" and "finished_with meta r"
    and "bm_SizeBytes meta = int (length body)" and "bm_Checksum meta = ''sha256:'' @ digest body"
    and "trace s2 = trace s1 @ es'"
  shows "uploaded digest url tr r (trace s2)"
  using assms unfolding uploaded_def finished_with_def same_dump_def
  by (intro exI [of _ "es @ es'"] exI [of _ body]) auto

lemma upload_phase_shows:
  assumes "lookup_node s f = Some (File body m)" and "bc_UploadURL config \<noteq> []"
    and "bm_SizeBytes meta = int (length body)" and "bm_Checksum meta = ''sha256:'' @ digest body"
    and "\<not> br_Success result"
  shows "wp (upload_phase h digest config instanceDir f result steps meta)
    (\<lambda>r s'. br_Success r \<longrightarrow> uploaded digest (bc_UploadURL config) (trace s) r (trace s')) s"
proof -
  let ?rest = "\<lambda>sts. storage_phase h digest config instanceDir (result\<lparr>br_Metadata := meta\<rparr>) sts meta"
  have "wp (?rest sts) (\<lambda>r s'. br_Success r \<longrightarrow> uploaded digest (bc_UploadURL config) (trace s) r (trace s')) s1"
    if up: "run_state (uploadFile h f (bc_UploadURL config)) s = (None, s1)" for s1 sts
  proof (rule wpI, intro impI)
    fix r s'
    assume run: "run_state (?rest sts) s1 = (r, s')"
    from emitsD [OF extends_storage_phase run] obtain es' where "trace s' = trace s1 @ es'" by blast
    moreover from yieldsD [OF storage_phase_finishes run] have "finished_with meta r" .
    ultimately show "uploaded digest (bc_UploadURL config) (trace s) r (trace s')"
      using upload_body [OF up assms(1)] assms(3,4)
      by (intro uploaded_extend [where body = body and meta = meta and ?s1.0 = s1]) auto
  qed
  then show ?thesis
    unfolding upload_phase_def using assms(2,5)
    by (intro wp_phaseI) (auto simp: attempt_def backup_failed_def wp_bind wp_return wp_option intro!: wpI split: option.splits)
qed

lemma checksum_phase_shows:
  assumes "lookup_node s f = Some n" and "bc_UploadURL config \<noteq> []" and "bm_SizeBytes meta = int (file_size n)"
    and "\<not> br_Success result"
  shows "wp (checksum_phase h digest config instanceDir f result steps meta)
    (\<lambda>r s'. br_Success r \<longrightarrow> uploaded digest (bc_UploadURL config) (trace s) r (trace s')) s"
proof -
  let ?Q = "\<lambda>r s'. br_Success r \<longrightarrow> uploaded digest (bc_UploadURL config) (trace s) r (trace s')"
  have "wp (upload_phase h digest config instanceDir f result sts (meta\<lparr>bm_Checksum := c\<rparr>)) ?Q s"
    if sum: "run_state (calculateFileChecksum h digest f) s = (Inr c, s1)" for c s1 sts
  proof -
    obtain body m where "n = File body m" "c = ''sha256:'' @ digest body"
      using checksum_content [OF sum] assms(1) by auto
    with assms show ?thesis by (intro upload_phase_shows [where body = body and m = m]) (auto simp: file_size_def)
  qed
  note next_phase = this
  obtain q s1 where x: "run_state (calculateFileChecksum h digest f) s = (q, s1)"
    by (cases "run_state (calculateFileChecksum h digest f) s")
  then have "q = Inr c \<Longrightarrow> s1 = s" for c by (auto dest: checksum_content)
  with x next_phase assms(4) show ?thesis
    unfolding checksum_phase_def
    by (intro wp_phaseI) (cases q; auto simp: attempt_get_def wp_bind wp_return wp_def backup_failed_def)
qed

lemma uploaded_between:
  "uploaded digest url (trace s1) r (trace s2) \<Longrightarrow> trace s1 = trace s @ es \<Longrightarrow> trace s3 = trace s2 @ es' \<Longrightarrow>
     uploaded digest url (trace s) r (trace s3)"
  unfolding uploaded_def by clarify (rule exI [of _ "es @ esa @ es'" for esa], auto)

lemma extends_create_dump: "extends_trace (create_dump h container f)"
  unfolding create_dump_def backup_ops os_create_def attempt_def attempt_get_def os_text_def
  by (auto intro!: emits_intros split: prod.splits sum.splits)

lemma extends_validate_backup: "extends_trace (validate_backup h instanceDir)"
  unfolding validate_backup_def backup_ops by (intro emits_intros TrueI)

lemma os_remove_trace: "run_state (os_remove h p) s = (e, s') \<Longrightarrow> trace s' = trace s @ [EvRemove p]"
  by (auto simp: os_remove_def split: option.splits)

lemma uploaded_removed:
  "uploaded digest url tr r (trace s1) \<Longrightarrow> run_state (os_remove h p) s1 = (e, s2) \<Longrightarrow>
     uploaded digest url tr r (trace s2)"
  unfolding uploaded_def by (drule os_remove_trace) fastforce

lemma dump_phases_shows:
  assumes "bc_UploadURL config \<noteq> []" and "\<not> br_Success result"
  shows "wp (dump_phases h digest config instanceDir result steps container)
    (\<lambda>r s'. br_Success r \<longrightarrow> uploaded digest (bc_UploadURL config) (trace s) r (trace s')) s"
proof -
  let ?Q = "\<lambda>r s'. br_Success r \<longrightarrow> uploaded digest (bc_UploadURL config) (trace s) r (trace s')"
  have "wp (phase ''create_dump'' ''Creating database dump with pg_dump'' steps (create_dump h container f)
      (backup_failed result ''create_dump'')
      (\<lambda>steps bytes. checksum_phase h digest config instanceDir f result steps
         ((br_Metadata result)\<lparr>bm_SizeBytes := int bytes\<rparr>))) ?Q s" for f
  proof -
    obtain q s1 where x: "run_state (create_dump h container f) s = (q, s1)"
      by (cases "run_state (create_dump h container f) s")
    with emitsD [OF extends_create_dump x] obtain es where es: "trace s1 = trace s @ es" by blast
    show ?thesis
    proof (rule wp_phase_run [OF x])
      fix m b sts
      assume "q = Inr (m, b)"
      then obtain n where "lookup_node s1 f = Some n" "b = file_size n" using create_dump_size x by blast
      then show "wp (checksum_phase h digest config instanceDir f result sts
          ((br_Metadata result)\<lparr>bm_SizeBytes := int b\<rparr>)) ?Q s1"
        by (intro wp_mono [OF checksum_phase_shows [OF _ assms(1) _ assms(2)]])
          (auto intro: uploaded_between [OF _ es])
    qed (simp add: backup_failed_def wp_return assms(2))
  qed
  then have "wp (removing h f (phase ''create_dump'' ''Creating database dump with pg_dump'' steps (create_dump h container f)
      (backup_failed result ''create_dump'')
      (\<lambda>steps bytes. checksum_phase h digest config instanceDir f result steps
         ((br_Metadata result)\<lparr>bm_SizeBytes := int bytes\<rparr>)))) ?Q s" for f
    by (rule wp_removingI [OF wp_mono]) (blast dest: uploaded_removed)
  then show ?thesis
    by (simp only: dump_phases_def Let_def wp_bind) (simp only: wp_def [of time_now] run_time_now case_prod_conv)
qed

text \<open>
  C22: What a successful backup reports is what it sent. When the upload succeeded, the size and the
  checksum in the metadata are those of the body that was put to the upload URL.
\<close>

theorem backup_metadata_exact:
  assumes "run_state (Backup h digest config) s = (r, s')" and "br_Success r" and "bc_UploadURL config \<noteq> []"
  shows "\<exists>es body. trace s' = trace s @ es \<and> EvHttp ''PUT'' (bc_UploadURL config) body \<in> set es
     \<and> bm_SizeBytes (br_Metadata r) = int (length body)
     \<and> bm_Checksum (br_Metadata r) = ''sha256:'' @ digest body
     \<and> bm_Status (br_Metadata r) = ''completed''"
proof -
  let ?Q = "\<lambda>r s'. br_Success r \<longrightarrow> uploaded digest (bc_UploadURL config) (trace s) r (trace s')"
  have "wp (Backup h digest config) ?Q s"
  proof -
    define dir where "dir = path_join [default_base (bc_BaseDir config), bc_Subdomain config]"
    obtain q s1 where x: "run_state (validate_backup h dir) s = (q, s1)" by (cases "run_state (validate_backup h dir) s")
    with emitsD [OF extends_validate_backup x] obtain es where es: "trace s1 = trace s @ es" by blast
    have "wp (dump_phases h digest config dir result sts c) ?Q s1" if "\<not> br_Success result" for result sts c
      using that by (intro wp_mono [OF dump_phases_shows [OF assms(3)]]) (auto intro: uploaded_between [OF _ es])
    then have "wp (phase n m sts (validate_backup h dir) (backup_failed result n') (dump_phases h digest config dir result)) ?Q s"
      if "\<not> br_Success result" for n m sts n' result
      using that by (intro wp_phase_run [OF x]) (auto simp: backup_failed_def wp_return)
    then show ?thesis
      unfolding Backup_def Let_def wp_bind dir_def by (simp add: wp_def [of time_now])
  qed
  with assms show ?thesis by (auto simp: wp_def uploaded_def)
qed

fun is_exec :: "event \<Rightarrow> bool" where
  "is_exec (EvExec dir argv) = True"
| "is_exec e = False"

lemma validate_restore_state: "run_state (validate_restore h dir) s = (q, s1) \<Longrightarrow> s1 = s"
  by (auto simp: validate_restore_def attempt_def require_file_def dest!: os_stat_state
      split: prod.splits option.splits sum.splits)

lemma no_exec_download: "emits (\<lambda>e. \<not> is_exec e) (downloadFile h url f)"
  unfolding downloadFile_def os_create_def by (intro emits_intros) simp_all

lemma downloaded_body:
  assumes "run_state (downloadFile h url f) s = (None, s1)"
  shows "\<exists>body m. fst (hhttp h ''GET'' url [] s) = Inr (200, body) \<and> lookup_node s1 f = Some (File body m)"
proof -
  obtain resp s2 where "run_state (http_req h ''GET'' url []) s = (resp, s2)" and
    resp: "resp = fst (hhttp h ''GET'' url [] s)"
    by (cases "hhttp h ''GET'' url [] s") (auto simp: http_req_def)
  with assms obtain r s3 where "resp = Inr r" "fst r = 200" "run_state (os_write h f (snd r) 420) s3 = (None, s1)"
    by (auto simp: downloadFile_def os_create_def split: sum.splits option.splits prod.splits if_splits)
  with os_write_ok [of h f "snd r" 420 s3 s1] resp show ?thesis by (cases r) auto
qed

text \<open>The outcome of a restore that did nothing to the instance.\<close>

definition left_alone :: "'x sys \<Rightarrow> RestoreResult \<Rightarrow> 'x sys \<Rightarrow> bool" where
  "left_alone s r s' \<longleftrightarrow> \<not> rr_Success r \<and> (\<exists>es. trace s' = trace s @ es \<and> list_all (\<lambda>e. \<not> is_exec e) es)"

lemma untouched_failed:
  "trace s1 = trace s @ es \<Longrightarrow> list_all (\<lambda>e. \<not> is_exec e) es \<Longrightarrow> \<not> rr_Success result \<Longrightarrow>
     wp (restore_failed result n sts e) (left_alone s) s1"
  by (auto simp: restore_failed_def wp_return left_alone_def)

lemma untouched_removing: "wp m (left_alone s) s1 \<Longrightarrow> wp (removing h f m) (left_alone s) s1"
  by (rule wp_removingI [OF wp_mono]) (fastforce simp: left_alone_def dest: os_remove_trace)+

lemma verified_restore_corrupt:
  assumes "rc_VerifyChecksum config" and "rc_ExpectedChecksum config \<noteq> []"
    and "''sha256:'' @ digest body \<noteq> rc_ExpectedChecksum config"
    and "lookup_node s1 f = Some (File body w)" and "\<not> rr_Success result"
    and "trace s1 = trace s @ es" and "list_all (\<lambda>e. \<not> is_exec e) es"
  shows "wp (verified_restore h digest config dir f result steps) (left_alone s) s1"
proof -
  obtain q s2 where x: "run_state (calculateFileChecksum h digest f) s1 = (q, s2)"
    by (cases "run_state (calculateFileChecksum h digest f) s1")
  have "s2 = s1" using x by (auto simp: calculateFileChecksum_def os_read_def)
  moreover have "q = Inr c \<Longrightarrow> c = ''sha256:'' @ digest body" for c
    using checksum_content [of h digest f s1 c s2] x assms(4) by auto
  ultimately have "\<exists>e. run_state (verify_checksum h digest (rc_ExpectedChecksum config) f) s1 = (Inl e, s1)"
    using x assms(3) by (cases q) (auto simp: verify_checksum_def attempt_get_def)
  then obtain e where "run_state (verify_checksum h digest (rc_ExpectedChecksum config) f) s1 = (Inl e, s1)" by blast
  then show ?thesis
    using assms by (auto simp: verified_restore_def phase_if_def intro!: wp_phase_run untouched_failed)
qed

lemma download_phases_corrupt:
  assumes "rc_VerifyChecksum config" and "rc_ExpectedChecksum config \<noteq> []"
    and "fst (hhttp h ''GET'' (rc_DownloadURL config) [] s) = Inr (code, body)"
    and "''sha256:'' @ digest body \<noteq> rc_ExpectedChecksum config" and "\<not> rr_Success result"
  shows "wp (download_phases h digest config dir result steps) (left_alone s) s"
proof -
  let ?d = "\<lambda>f. attempt ''Failed to download backup: '' (downloadFile h (rc_DownloadURL config) f)
    (ret (Inr (''Backup downloaded successfully'', ())))"
  have "wp (phase n m steps (?d f) (restore_failed result n')
      (\<lambda>steps _. verified_restore h digest config dir f result steps)) (left_alone s) s" for n m n' f
  proof -
    obtain e s1 where d: "run_state (downloadFile h (rc_DownloadURL config) f) s = (e, s1)"
      by (cases "run_state (downloadFile h (rc_DownloadURL config) f) s")
    from emitsD [OF no_exec_download d] obtain es where
      es: "trace s1 = trace s @ es" "list_all (\<lambda>e. \<not> is_exec e) es" by blast
    show ?thesis
    proof (cases e)
      case None
      then obtain w where "lookup_node s1 f = Some (File body w)"
        using downloaded_body [of h "rc_DownloadURL config" f s s1] d assms(3) by auto
      from verified_restore_corrupt [where digest = digest and body = body, OF assms(1,2,4) this assms(5) es] d None show ?thesis
        by (intro wp_phase_run [where ?s1.0 = s1]) (auto simp: attempt_def)
    next
      case (Some x)
      with d es assms(5) show ?thesis
        by (intro wp_phase_run [where ?s1.0 = s1]) (auto simp: attempt_def intro: untouched_failed)
    qed
  qed
  then have "wp (removing h f (phase n m steps (?d f) (restore_failed result n')
      (\<lambda>steps _. verified_restore h digest config dir f result steps))) (left_alone s) s" for n m n' f
    by (rule untouched_removing)
  then show ?thesis
    by (simp only: download_phases_def Let_def wp_bind) (simp only: wp_def [of time_now] run_time_now case_prod_conv)
qed

text \<open>
  C23: A restore never touches an instance with a file that is not the expected one. When the
  verification was asked for and the digest of the downloaded body differs from the expected one,
  \<^verbatim>\<open>Restore\<close> fails without having run a single command.
\<close>

theorem restore_rejects_corrupt:
  assumes "rc_VerifyChecksum config" and "rc_ExpectedChecksum config \<noteq> []"
    and "fst (hhttp h ''GET'' (rc_DownloadURL config) [] s) = Inr (code, body)"
    and "''sha256:'' @ digest body \<noteq> rc_ExpectedChecksum config"
    and "run_state (Restore h digest config) s = (r, s')"
  shows "\<not> rr_Success r \<and> (\<exists>es. trace s' = trace s @ es \<and> list_all (\<lambda>e. \<not> is_exec e) es)"
proof -
  have "wp (phase n m sts (validate_restore h dir) (restore_failed result n')
      (\<lambda>steps _. download_phases h digest config dir result steps)) (left_alone s) s"
    if "\<not> rr_Success result" for n m sts dir n' result
  proof -
    obtain q where "run_state (validate_restore h dir) s = (q, s)"
      using validate_restore_state [of h dir s] by (metis surj_pair)
    then show ?thesis
      using download_phases_corrupt [where digest = digest and body = body, OF assms(1-4) that] that
      by (intro wp_phase_run [where ?s1.0 = s]) (auto intro: untouched_failed [where es = "[]"])
  qed
  then have "wp (Restore h digest config) (left_alone s) s" by (simp add: Restore_def Let_def)
  with assms(5) show ?thesis by (auto simp: wp_def left_alone_def)
qed

text \<open>
  C24: \<^verbatim>\<open>Restore\<close> can never succeed. The step that drops the database \<^verbatim>\<open>postgres\<close> connects to that very
  database, because \<^verbatim>\<open>psql -U postgres\<close> without a database name uses the user's name, and PostgreSQL
  refuses to drop the database of the session. The hypothesis is this documented behaviour.
\<close>

theorem restore_never_succeeds:
  assumes "\<And>container s. cr_status (fst (hexec h [] (psql_admin container drop_sql) [] s)) \<noteq> None"
  shows "\<not> rr_Success (fst (run_state (Restore h digest config) s))"
proof -
  let ?Q = "\<lambda>r. \<not> rr_Success r"
  have "yields (\<lambda>e. e \<noteq> None) (psql_run h container drop_sql)" for container
    using assms by (auto simp: yields_def psql_run_def run_exec_cmd combined_def split: prod.splits) (metis fst_conv)
  then have "yields failing (restore_database h dir f)" for dir f
    unfolding restore_database_def by (intro yields_attempt_get_failing yields_attempt_failing)
  then have db: "yields ?Q (phase n m sts (restore_database h dir f) (restore_failed result n') k)"
    if "\<not> rr_Success result" for n m sts dir f result n' k
    using that by (intro yields_phase_failing) (auto simp: restore_failed_def intro: yields_return)
  have "yields ?Q (Restore h digest config)"
    unfolding Restore_def download_phases_def verified_restore_def restore_phases_def Let_def
    by (intro yields_phase yields_phase_if yields_bind yields_removing db) (auto simp: restore_failed_def intro: yields_return)
  then show ?thesis by (simp add: yields_def)
qed

section \<open>No dump is left behind\<close>

lemma leaves_uploadFile [leaves_intros]: "leaves p (uploadFile h f url)"
  unfolding uploadFile_def by (intro leaves_intros)

lemma leaves_os_create [leaves_intros]: "p \<noteq> f \<Longrightarrow> leaves p (os_create h f)"
  unfolding os_create_def by (intro leaves_intros)

lemma leaves_downloadFile [leaves_intros]: "p \<noteq> f \<Longrightarrow> leaves p (downloadFile h url f)"
  unfolding downloadFile_def by (intro leaves_intros)

lemma leaves_piped [leaves_intros]: "commands_keep h p \<Longrightarrow> leaves p (piped h wa a wb b)"
  unfolding piped_def by (intro leaves_intros)

lemma leaves_checksum [leaves_intros]: "leaves p (calculateFileChecksum h digest f)"
  unfolding calculateFileChecksum_def by (intro leaves_intros)

lemma leaves_containers [leaves_intros]:
  assumes "commands_keep h p"
  shows "leaves p (getPostgresContainer h dir)" and "leaves p (getStorageContainer h dir)"
    and "leaves p (isDockerAvailable h)" and "leaves p (run_compose h dir args)" and "leaves p (psql_run h c sql)"
    and "leaves p (fixAuthPermissions h c)" and "leaves p (isInstanceHealthy h dir)"
    and "leaves p (require_space h path gb)"
  unfolding getPostgresContainer_def getStorageContainer_def isDockerAvailable_def run_compose_def psql_run_def
    fixAuthPermissions_def isInstanceHealthy_def require_space_def getFreeDiskSpace_def
  by (intro leaves_intros assms)+

lemma leaves_export [leaves_intros]:
  "commands_keep h p \<Longrightarrow> p \<noteq> f \<Longrightarrow> leaves p (exportStorageData h c f)"
  "commands_keep h p \<Longrightarrow> leaves p (importStorageData h c f)"
  unfolding exportStorageData_def importStorageData_def by (intro leaves_intros; assumption)+

lemma leaves_create_dump: "commands_keep h p \<Longrightarrow> p \<noteq> f \<Longrightarrow> leaves p (create_dump h c f)"
  unfolding create_dump_def by (auto intro!: leaves_intros split: prod.splits)

lemma leaves_backup_storage: "commands_keep h p \<Longrightarrow> p \<noteq> f \<Longrightarrow> leaves p (backup_storage h digest config dir f meta)"
  unfolding backup_storage_def by (intro leaves_intros; assumption)

lemma leaves_restore_storage: "commands_keep h p \<Longrightarrow> p \<noteq> f \<Longrightarrow> leaves p (restore_storage h config dir f)"
  unfolding restore_storage_def by (intro leaves_intros; assumption)

lemma leaves_results [leaves_intros]:
  "leaves p (backup_failed result n sts e)" "leaves p (restore_failed res n sts e)"
  "leaves p (finish_backup config result sts meta)"
  unfolding backup_failed_def restore_failed_def finish_backup_def by (intro leaves_intros)+

lemma leaves_restart: "commands_keep h p \<Longrightarrow> leaves p (restart_phases h dir result steps)"
  unfolding restart_phases_def by (intro leaves_intros; assumption)

lemma tidy_Backup:
  assumes "commands_keep h p" and "\<And>path s. hfault h (OpRemove path) s = None"
  shows "tidy_at p (Backup h digest config)"
proof -
  note leaf = tidy_leaves [OF leaves_time_now] tidy_leaves [OF leaves_results(1)] tidy_leaves [OF leaves_results(3)]
  have storage: "tidy_at p (storage_phase h digest config dir result sts meta)" for dir result sts meta
    unfolding storage_phase_def
    by (intro tidy_intros leaf tidy_leaves [OF leaves_backup_storage] assms)
  have up: "tidy_at p (upload_phase h digest config dir f result sts meta)" for dir f result sts meta
    unfolding upload_phase_def by (intro tidy_intros leaf storage) (auto intro!: tidy_leaves leaves_intros)
  have sum: "tidy_at p (checksum_phase h digest config dir f result sts meta)" for dir f result sts meta
    unfolding checksum_phase_def by (intro tidy_intros leaf up) (auto intro!: tidy_leaves leaves_intros)
  have dump: "tidy_at p (dump_phases h digest config dir result sts c)" for dir result sts c
    unfolding dump_phases_def by (intro tidy_intros leaf sum tidy_leaves [OF leaves_create_dump] assms)
  show ?thesis
    unfolding Backup_def validate_backup_def
    by (intro tidy_intros leaf dump) (intro tidy_leaves leaves_intros assms)
qed

lemma tidy_Restore:
  assumes "commands_keep h p" and "\<And>path s. hfault h (OpRemove path) s = None"
  shows "tidy_at p (Restore h digest config)"
proof -
  note leaf = tidy_leaves [OF leaves_time_now] tidy_leaves [OF leaves_results(2)]
  have storage: "tidy_at p (restore_storage_phase h config dir result sts)" for dir result sts
    unfolding restore_storage_phase_def
    by (intro tidy_intros leaf assms tidy_leaves [OF leaves_restart] tidy_leaves [OF leaves_restore_storage])
  have phases: "tidy_at p (restore_phases h config dir f result sts)" for dir f result sts
    unfolding restore_phases_def restore_database_def database_container_def load_dump_def
    by (intro tidy_intros leaf storage) (auto intro!: tidy_leaves leaves_intros assms split: prod.splits)
  have verified: "tidy_at p (verified_restore h digest config dir f result sts)" for dir f result sts
    unfolding verified_restore_def verify_checksum_def
    by (intro tidy_intros leaf phases) (intro tidy_leaves leaves_intros)
  have "tidy_at p (download_phases h digest config dir result sts)" for dir result sts
    unfolding download_phases_def
    by (intro tidy_intros leaf verified assms) (intro tidy_leaves leaves_intros; assumption)
  then show ?thesis
    unfolding Restore_def validate_restore_def
    by (intro tidy_intros leaf) (intro tidy_leaves leaves_intros)
qed

end
