(* ===== verification/VerifyBackup.thy ===== *)
theory VerifyBackup
  imports Backup
begin

text \<open>
  \<^verbatim>\<open>internal/backup/verify.go\<close>: the verification of a stored backup, up to a test restore into a
  temporary database. Decompression is a parameter: the header error, or the content the reader
  delivers and the error it ends with, if any, which the reader gives apart from the data.
\<close>

type_synonym gunzipper = "string \<Rightarrow> error + string \<times> error option"

section \<open>Checks of the file\<close>

definition checkSuccess :: "string \<Rightarrow> string \<Rightarrow> VerificationCheck" where
  "checkSuccess name message = \<lparr>vk_Name = name, vk_Status = ''passed'', vk_Message = message, vk_Duration = []\<rparr>"

definition checkFail :: "string \<Rightarrow> string \<Rightarrow> VerificationCheck" where
  "checkFail name message = \<lparr>vk_Name = name, vk_Status = ''failed'', vk_Message = message, vk_Duration = []\<rparr>"

definition check_skipped :: "string \<Rightarrow> string \<Rightarrow> VerificationCheck" where
  "check_skipped name message = \<lparr>vk_Name = name, vk_Status = ''skipped'', vk_Message = message, vk_Duration = []\<rparr>"

definition verifyGzipIntegrity :: "'x host \<Rightarrow> string \<Rightarrow> ('x, error option) io" where
  "verifyGzipIntegrity h filePath = do {
     r \<leftarrow> exec_cmd h [''gzip'', ''-t'', filePath];
     ret (map_option (\<lambda>e. ''gzip test failed: '' @ e) (combined r))
   }"

definition dump_line :: "string \<Rightarrow> bool" where
  "dump_line line \<longleftrightarrow> str_contains line ''PostgreSQL database dump'' \<or> str_contains line ''pg_dump''
     \<or> str_contains line ''Dumped from database version''
     \<or> has_prefix line ''CREATE '' \<or> has_prefix line ''SET '' \<or> has_prefix line ''SELECT pg_catalog.''"

text \<open>The scan of the first lines; the number is how many may still be read.\<close>

fun scan_header :: "nat \<Rightarrow> string list \<Rightarrow> error option \<Rightarrow> error + bool" where
  "scan_header n [] err = (case err of Some e \<Rightarrow> Inl e | None \<Rightarrow> Inr False)"
| "scan_header n (l # ls) err =
     (if max_token \<le> length l then Inl ''bufio.Scanner: token too long''
      else if n = 0 then Inr False
      else if dump_line (drop_cr l) then Inr True
      else scan_header (n - 1) ls err)"

definition check_sql :: "gunzipper \<Rightarrow> string \<Rightarrow> error option" where
  "check_sql gunzip content =
     (case gunzip content of
        Inl e \<Rightarrow> Some (''failed to create gzip reader: '' @ e)
      | Inr (sql, err) \<Rightarrow>
          (case scan_header 50 (raw_lines sql) err of
             Inl e \<Rightarrow> Some (''error reading SQL content: '' @ e)
           | Inr found \<Rightarrow> if found then None else Some ''file does not appear to be a valid PostgreSQL dump''))"

definition verifySQLHeader :: "'x host \<Rightarrow> gunzipper \<Rightarrow> string \<Rightarrow> ('x, error option) io" where
  "verifySQLHeader h gunzip filePath = do {
     r \<leftarrow> os_read h filePath;
     ret (case r of
         Inl e \<Rightarrow> Some (''failed to open file: '' @ err_text e)
       | Inr content \<Rightarrow> check_sql gunzip content)
   }"

section \<open>The test restore\<close>

definition psql_in :: "string \<Rightarrow> string \<Rightarrow> string list \<Rightarrow> string list" where
  "psql_in container db args = [''docker'', ''exec'', container, ''psql'', ''-U'', ''postgres'', ''-d'', db] @ args"

definition count_tables_sql :: string where
  "count_tables_sql = ''SELECT COUNT(*) FROM information_schema.tables WHERE table_schema NOT IN ('' @ squote # ''pg_catalog''
     @ squote # '', '' @ squote # ''information_schema'' @ squote # '');''"

definition count_schemas_sql :: string where
  "count_schemas_sql = ''SELECT COUNT(*) FROM information_schema.schemata WHERE schema_name IN ('' @ squote # ''auth'' @ squote #
     '', '' @ squote # ''storage'' @ squote # '', '' @ squote # ''public'' @ squote # '');''"

text \<open>The third query has no influence on the outcome.\<close>

definition runSanityChecks :: "'x host \<Rightarrow> string \<Rightarrow> string \<Rightarrow> ('x, error option) io" where
  "runSanityChecks h containerID dbName = do {
     r \<leftarrow> exec_cmd h (psql_in containerID dbName [''-c'', ''SELECT 1;'']);
     case combined r of
       Some e \<Rightarrow> ret (Some (''connection test failed: '' @ e))
     | None \<Rightarrow> do {
         r \<leftarrow> exec_cmd h (psql_in containerID dbName [''-t'', ''-c'', count_tables_sql]);
         case cr_status r of
           Some e \<Rightarrow> ret (Some (''table count query failed: '' @ e))
         | None \<Rightarrow>
             if trim_space (cr_out r) = ''0'' then ret (Some ''restored database has no tables (may be empty backup)'')
             else do {
               _ \<leftarrow> exec_cmd h (psql_in containerID dbName [''-t'', ''-c'', count_schemas_sql]);
               ret None
             }
       }
   }"

definition psql_quiet :: "string \<Rightarrow> string \<Rightarrow> string list" where
  "psql_quiet container db =
     [''docker'', ''exec'', ''-i'', container, ''psql'', ''-U'', ''postgres'', ''-d'', db, ''-q'']"

definition restore_to_test :: "'x host \<Rightarrow> string \<Rightarrow> string \<Rightarrow> string \<Rightarrow> ('x, error option) io" where
  "restore_to_test h container db backupFile = do {
     r \<leftarrow> attempt ''failed to create gunzip pipe: '' (os_pipe h)
       (piped h ''failed to start gunzip: '' [''gunzip'', ''-c'', backupFile]
          ''failed to start psql: '' (psql_quiet container db));
     case r of
       Inl e \<Rightarrow> ret (Some e)
     | Inr rs \<Rightarrow>
         (case cr_status (fst rs) of
            Some e \<Rightarrow> ret (Some (''gunzip failed: '' @ e))
          | None \<Rightarrow>
              (case psql_failed ''restore to test database failed: '' (snd rs) of
                 Some e \<Rightarrow> ret (Some e)
               | None \<Rightarrow> do {
                   err \<leftarrow> runSanityChecks h container db;
                   ret (map_option (\<lambda>e. ''sanity checks failed: '' @ e) err)
                 }))
   }"

definition create_test_sql :: "string \<Rightarrow> string" where
  "create_test_sql db = ''CREATE DATABASE '' @ db @ '';''"

definition drop_test_sql :: "string \<Rightarrow> string" where
  "drop_test_sql db = ''DROP DATABASE IF EXISTS '' @ db @ '';''"

definition performDeepVerification :: "'x host \<Rightarrow> string \<Rightarrow> string \<Rightarrow> string \<Rightarrow> ('x, error option) io" where
  "performDeepVerification h backupFile subdomain baseDir = do {
     let instanceDir = path_join [default_base baseDir, subdomain];
     err \<leftarrow> require_file h (compose_file instanceDir)
       (''instance not found at '' @ instanceDir @ '' (required for deep verification)'');
     case err of
       Some e \<Rightarrow> ret (Some e)
     | None \<Rightarrow> do {
         r \<leftarrow> getPostgresContainer h instanceDir;
         case r of
           Inl e \<Rightarrow> ret (Some (''failed to get postgres container: '' @ e))
         | Inr container \<Rightarrow> do {
             t \<leftarrow> time_now;
             let db = ''verify_test_'' @ unix_str t;
             err \<leftarrow> psql_run h container (create_test_sql db);
             case err of
               Some e \<Rightarrow> ret (Some (''failed to create test database: '' @ e))
             | None \<Rightarrow> do {
                 err \<leftarrow> restore_to_test h container db backupFile;
                 _ \<leftarrow> exec_cmd h (psql_admin container (drop_test_sql db));
                 ret err
               }
           }
       }
   }"

section \<open>The operation\<close>

text \<open>
  One check: its body gives the message of a failed check and the error of the operation, or the
  message of a passed check. A failed check ends the verification.
\<close>

definition stop_verify :: "nat \<Rightarrow> VerifyBackupResult \<Rightarrow> ('x, VerifyBackupResult) io" where
  "stop_verify start result = do {
     t \<leftarrow> time_now;
     ret (result\<lparr>vr_Duration := dur_string (t - start)\<rparr>)
   }"

definition check_phase ::
  "nat \<Rightarrow> string \<Rightarrow> string \<Rightarrow> VerifyBackupResult \<Rightarrow> ('x, (error \<times> error) + string) io
     \<Rightarrow> (VerifyBackupResult \<Rightarrow> ('x, VerifyBackupResult) io) \<Rightarrow> ('x, VerifyBackupResult) io" where
  "check_phase start name status result body k = do {
     r \<leftarrow> body;
     case r of
       Inl e \<Rightarrow> stop_verify start (result\<lparr>vr_Checks := vr_Checks result @ [checkFail name (fst e)],
         vr_ErrorMessage := snd e, vr_OverallStatus := status\<rparr>)
     | Inr m \<Rightarrow> k (result\<lparr>vr_Checks := vr_Checks result @ [checkSuccess name m]\<rparr>)
   }"

definition skipped ::
  "string \<Rightarrow> string \<Rightarrow> VerifyBackupResult \<Rightarrow> (VerifyBackupResult \<Rightarrow> ('x, VerifyBackupResult) io)
     \<Rightarrow> ('x, VerifyBackupResult) io" where
  "skipped name m result k = k (result\<lparr>vr_Checks := vr_Checks result @ [check_skipped name m]\<rparr>)"

definition check_opt :: "string \<Rightarrow> string \<Rightarrow> string \<Rightarrow> ('x, error option) io \<Rightarrow> ('x, (error \<times> error) + string) io" where
  "check_opt what msg passed m = do {
     err \<leftarrow> m;
     ret (case err of Some e \<Rightarrow> Inl (what @ e, msg) | None \<Rightarrow> Inr passed)
   }"

definition file_check :: "'x host \<Rightarrow> string \<Rightarrow> ('x, (error \<times> error) + string) io" where
  "file_check h backupFile = do {
     r \<leftarrow> os_stat h backupFile;
     ret (case r of
         Inl e \<Rightarrow> Inl (''File stat failed: '' @ err_text e, ''Backup file not accessible'')
       | Inr n \<Rightarrow> if file_size n = 0 then Inl (''Backup file is empty'', ''Backup file has zero size'')
           else Inr (''File exists: '' @ itoa (int (file_size n)) @ '' bytes''))
   }"

definition checksum_check :: "'x host \<Rightarrow> (string \<Rightarrow> string) \<Rightarrow> string \<Rightarrow> string \<Rightarrow> ('x, (error \<times> error) + string) io" where
  "checksum_check h digest expected backupFile = do {
     r \<leftarrow> calculateFileChecksum h digest backupFile;
     ret (case r of
         Inl e \<Rightarrow> Inl (''Checksum calculation failed: '' @ e, ''Failed to calculate checksum'')
       | Inr actual \<Rightarrow>
           if actual \<noteq> expected
           then Inl (''Checksum mismatch: expected '' @ expected @ '', got '' @ actual,
             ''Checksum verification failed - backup may be corrupted'')
           else Inr ''Checksum verified'')
   }"

definition deep_check :: "'x host \<Rightarrow> VerifyBackupConfig \<Rightarrow> nat \<Rightarrow> string \<Rightarrow> VerifyBackupResult \<Rightarrow> ('x, VerifyBackupResult) io" where
  "deep_check h config start backupFile result = (
     let verified = (\<lambda>result. stop_verify start (result\<lparr>vr_Success := True, vr_OverallStatus := ''verified''\<rparr>)) in
     if vc_DeepVerify config then
       check_phase start ''deep_verify'' ''partial'' result
         (check_opt ''Test restore failed: '' ''Deep verification failed - backup may not be restorable''
           ''Test restore successful''
           (performDeepVerification h backupFile (vc_Subdomain config) (vc_BaseDir config))) verified
     else skipped ''deep_verify'' ''Deep verification not requested'' result verified)"

definition format_checks ::
  "'x host \<Rightarrow> gunzipper \<Rightarrow> VerifyBackupConfig \<Rightarrow> nat \<Rightarrow> string \<Rightarrow> VerifyBackupResult \<Rightarrow> ('x, VerifyBackupResult) io" where
  "format_checks h gunzip config start backupFile result =
     check_phase start ''gzip_integrity'' ''failed'' result
       (check_opt ''gzip integrity test failed: '' ''Backup file is corrupted (gzip test failed)''
         ''gzip integrity verified'' (verifyGzipIntegrity h backupFile))
       (\<lambda>result. check_phase start ''sql_header'' ''failed'' result
          (check_opt ''SQL validation failed: '' ''Invalid SQL dump format'' ''SQL dump format validated''
            (verifySQLHeader h gunzip backupFile))
          (deep_check h config start backupFile))"

definition Verify ::
  "'x host \<Rightarrow> (string \<Rightarrow> string) \<Rightarrow> gunzipper \<Rightarrow> VerifyBackupConfig \<Rightarrow> ('x, VerifyBackupResult) io" where
  "Verify h digest gunzip config = do {
     start \<leftarrow> time_now;
     let result = \<lparr>vr_Success = False, vr_BackupID = vc_BackupID config, vr_VerifiedAt = rfc3339 start, vr_Checks = [],
           vr_OverallStatus = ''failed'', vr_ErrorMessage = [], vr_Duration = []\<rparr>;
     let backupFile = path_join [''/tmp'', ''verify_'' @ vc_BackupID config @ ''_'' @ unix_str start @ ''.sql.gz''];
     removing h backupFile (do {
       err \<leftarrow> downloadFile h (vc_DownloadURL config) backupFile;
       case err of
         Some e \<Rightarrow> stop_verify start (result\<lparr>vr_Checks := [checkFail ''download_backup'' (''Download failed: '' @ e)],
           vr_ErrorMessage := ''Failed to download backup: '' @ e\<rparr>)
       | None \<Rightarrow>
           check_phase start ''file_check'' ''failed''
             (result\<lparr>vr_Checks := [checkSuccess ''download_backup'' ''Backup downloaded successfully'']\<rparr>)
             (file_check h backupFile)
             (\<lambda>result.
               if vc_ExpectedChecksum config \<noteq> [] then
                 check_phase start ''checksum_verification'' ''failed'' result
                   (checksum_check h digest (vc_ExpectedChecksum config) backupFile)
                   (format_checks h gunzip config start backupFile)
               else skipped ''checksum_verification'' ''No expected checksum provided'' result
                   (format_checks h gunzip config start backupFile))
     })
   }"

section \<open>Lemmas\<close>

definition check_names :: "string list" where
  "check_names = [''download_backup'', ''file_check'', ''checksum_verification'', ''gzip_integrity'', ''sql_header'', ''deep_verify'']"

lemma length_check_names [simp]: "length check_names = 6"
  by (simp add: check_names_def)

definition not_failed :: "VerificationCheck \<Rightarrow> bool" where
  "not_failed c \<longleftrightarrow> vk_Status c = ''passed'' \<or> vk_Status c = ''skipped''"

text \<open>The verdict that a list of checks gives.\<close>

definition verdict :: "VerifyBackupResult \<Rightarrow> bool" where
  "verdict r \<longleftrightarrow>
     (if vr_Success r then vr_OverallStatus r = ''verified'' \<and> vr_ErrorMessage r = []
        \<and> map vk_Name (vr_Checks r) = check_names \<and> list_all not_failed (vr_Checks r)
      else vr_Checks r \<noteq> [] \<and> prefix (map vk_Name (vr_Checks r)) check_names
        \<and> vk_Status (last (vr_Checks r)) = ''failed'' \<and> list_all not_failed (butlast (vr_Checks r))
        \<and> vr_OverallStatus r = (if vk_Name (last (vr_Checks r)) = ''deep_verify'' then ''partial'' else ''failed''))"

lemma check_sel [simp]:
  "vk_Name (checkSuccess n m) = n" "vk_Name (checkFail n m) = n" "vk_Name (check_skipped n m) = n"
  "not_failed (checkSuccess n m)" "not_failed (check_skipped n m)" "vk_Status (checkFail n m) = ''failed''"
  by (simp_all add: checkSuccess_def checkFail_def check_skipped_def not_failed_def)

text \<open>A verification under way: the first checks were made and none has failed.\<close>

definition under_way :: "nat \<Rightarrow> VerifyBackupResult \<Rightarrow> bool" where
  "under_way n r \<longleftrightarrow> \<not> vr_Success r \<and> vr_ErrorMessage r = [] \<and> vr_OverallStatus r = ''failed''
     \<and> map vk_Name (vr_Checks r) = take n check_names \<and> list_all not_failed (vr_Checks r)"

lemma yields_stop: "verdict r \<Longrightarrow> yields verdict (stop_verify start r)"
  unfolding stop_verify_def by (auto intro!: yields_intros simp: verdict_def)

lemma under_way_next:
  assumes "under_way n r" and "n < 6" and "check_names ! n = name"
  shows "under_way (Suc n) (r\<lparr>vr_Checks := vr_Checks r @ [checkSuccess name m]\<rparr>)"
    and "under_way (Suc n) (r\<lparr>vr_Checks := vr_Checks r @ [check_skipped name m]\<rparr>)"
  using assms by (auto simp: under_way_def take_Suc_conv_app_nth)

lemma under_way_failed:
  assumes "under_way n r" and "n < 6" and "check_names ! n = name"
    and "status = (if name = ''deep_verify'' then ''partial'' else ''failed'')"
  shows "verdict (r\<lparr>vr_Checks := vr_Checks r @ [checkFail name m], vr_ErrorMessage := e, vr_OverallStatus := status\<rparr>)"
proof -
  have "take n check_names @ [name] = take (Suc n) check_names"
    using assms(2,3) by (simp add: take_Suc_conv_app_nth)
  then have "prefix (take n check_names @ [name]) check_names" by (simp add: take_is_prefix)
  with assms show ?thesis by (auto simp: under_way_def verdict_def)
qed

lemma yields_check_phase:
  assumes "under_way n r" and "n < 6" and "check_names ! n = name"
    and "status = (if name = ''deep_verify'' then ''partial'' else ''failed'')"
    and "\<And>r. under_way (Suc n) r \<Longrightarrow> yields verdict (k r)"
  shows "yields verdict (check_phase start name status r body k)" and "yields verdict (skipped name m r k)"
  unfolding check_phase_def skipped_def
  by (intro yields_intros yields_stop under_way_failed [OF assms(1-4)] assms(5) under_way_next [OF assms(1-3)])+

lemma yields_deep: "under_way 5 r \<Longrightarrow> yields verdict (deep_check h config start f r)"
  unfolding deep_check_def Let_def
  by (intro yields_if yields_check_phase [where n = 5] yields_stop)
    (auto simp: check_names_def under_way_def verdict_def)

lemma yields_format: "under_way 3 r \<Longrightarrow> yields verdict (format_checks h gunzip config start f r)"
  unfolding format_checks_def
  by (intro yields_check_phase(1) [where n = 3] yields_check_phase(1) [where n = 4] yields_deep)
    (auto simp: check_names_def numeral_eq_Suc)

lemma yields_Verify: "yields verdict (Verify h digest gunzip config)"
proof -
  have "under_way 1 r \<Longrightarrow> yields verdict (check_phase start ''file_check'' ''failed'' r body
      (\<lambda>r. if b then check_phase start ''checksum_verification'' ''failed'' r body2 (format_checks h gunzip config start f)
           else skipped ''checksum_verification'' m r (format_checks h gunzip config start f)))" for r start body b body2 m f
    by (intro yields_check_phase(1) [where n = 1] yields_if yields_check_phase [where n = 2] yields_format)
      (auto simp: check_names_def numeral_eq_Suc)
  note rest = this
  show ?thesis
    unfolding Verify_def Let_def
    by (intro yields_bind yields_removing yields_option rest yields_stop)
      (auto simp: under_way_def verdict_def check_names_def)
qed

section \<open>Properties\<close>

text \<open>
  C26: The verdict of \<^verbatim>\<open>Verify\<close> is what its checks say. It is \<open>verified\<close>, without an error, exactly when
  all six checks were made in order and none failed; otherwise the last reported check is the one
  that failed, and the status is \<open>partial\<close> when that is the test restore and \<open>failed\<close> before it.
\<close>

theorem verify_verdict:
  "let r = fst (run_state (Verify h digest gunzip config) s) in
   if vr_Success r then vr_OverallStatus r = ''verified'' \<and> vr_ErrorMessage r = []
     \<and> map vk_Name (vr_Checks r) = check_names \<and> list_all not_failed (vr_Checks r)
   else vr_Checks r \<noteq> [] \<and> prefix (map vk_Name (vr_Checks r)) check_names
     \<and> vk_Status (last (vr_Checks r)) = ''failed'' \<and> list_all not_failed (butlast (vr_Checks r))
     \<and> vr_OverallStatus r = (if vk_Name (last (vr_Checks r)) = ''deep_verify'' then ''partial'' else ''failed'')"
  using yields_Verify [of h digest gunzip config] by (simp add: yields_def verdict_def Let_def)

lemma leaves_deep: "commands_keep h p \<Longrightarrow> leaves p (performDeepVerification h f sub base)"
  unfolding performDeepVerification_def restore_to_test_def runSanityChecks_def
  by (intro leaves_intros; assumption)

lemma tidy_Verify:
  assumes "commands_keep h p" and "\<And>path s. hfault h (OpRemove path) s = None"
  shows "tidy_at p (Verify h digest gunzip config)"
proof -
  have stop: "leaves p (stop_verify start r)" for start r
    unfolding stop_verify_def by (intro leaves_intros)
  have phase: "leaves p body \<Longrightarrow> (\<And>r. leaves p (k r)) \<Longrightarrow> leaves p (check_phase start n st r body k)" for start n st r body k
    unfolding check_phase_def by (intro leaves_intros stop)
  have skip: "(\<And>r. leaves p (k r)) \<Longrightarrow> leaves p (skipped n m r k)" for n m r k
    unfolding skipped_def .
  have opt: "leaves p (check_opt a b c m)" if "leaves p m" for a b c m
    using that unfolding check_opt_def by (intro leaves_intros)
  have deep: "leaves p (deep_check h config start f r)" for start f r
    unfolding deep_check_def Let_def
    by (intro leaves_if phase skip opt stop leaves_deep assms leaves_return)
  have fmt: "leaves p (format_checks h gunzip config start f r)" for start f r
    unfolding format_checks_def verifyGzipIntegrity_def verifySQLHeader_def
    by (intro phase opt deep leaves_intros assms)
  show ?thesis
    unfolding Verify_def Let_def file_check_def checksum_check_def
    by (intro tidy_bind tidy_removing tidy_option tidy_leaves [OF leaves_time_now] assms)
      (intro tidy_leaves leaves_intros stop phase skip fmt; assumption)+
qed

text \<open>
  C25: None of the three operations leaves a dump of the database behind: whatever happens, every file
  is afterwards what it was before or gone. In particular a backup without an upload URL, whose step
  says that it was saved locally, is nowhere when the operation returns.
\<close>

theorem dumps_do_not_stay:
  assumes "commands_keep h p" and "\<And>path s. hfault h (OpRemove path) s = None"
  shows "let kept = (\<lambda>s'. lookup_node s' p = lookup_node s p \<or> lookup_node s' p = None) in
     kept (snd (run_state (Backup h digest bc) s)) \<and> kept (snd (run_state (Restore h digest rc) s))
     \<and> kept (snd (run_state (Verify h digest gunzip vc) s))"
  using tidyD [OF tidy_Backup [OF assms] prod.collapse [symmetric]] tidyD [OF tidy_Restore [OF assms] prod.collapse [symmetric]]
    tidyD [OF tidy_Verify [OF assms] prod.collapse [symmetric]]
  by (simp add: Let_def)

section \<open>Examples\<close>

definition demo_cmds :: "string list \<Rightarrow> unit sys \<Rightarrow> cmdres \<times> unit sys" where
  "demo_cmds argv s =
     (if hd argv = ''df'' then (ok_res (''h'' @ NL # ''d 1 2 9999999999 5 /''), s)
      else if last argv = drop_sql then (fail_res ''ERROR'' ''exit status 1'', s)
      else (ok_res ''c1'', s))"

definition demo_backup_host :: "unit host" where
  "demo_backup_host = (command_host demo_cmds)\<lparr>hhttp := \<lambda>meth url body s. (Inr (200, ''c1''), s)\<rparr>"

definition demo_backup_sys :: "unit sys" where
  "demo_backup_sys = start_sys [(''/opt/supabase/a'', Dir), (''/opt/supabase/a/docker-compose.yml'', File ''x'' 420)] ()"

definition demo_backup :: BackupConfig where
  "demo_backup = \<lparr>bc_InstanceID = ''i'', bc_Subdomain = ''a'', bc_BaseDir = [], bc_UploadURL = ''u'',
     bc_StorageUploadURL = [], bc_IncludeStorage = False\<rparr>"

definition demo_restore :: RestoreConfig where
  "demo_restore = \<lparr>rc_InstanceID = ''i'', rc_Subdomain = ''a'', rc_BaseDir = [], rc_DownloadURL = ''u'',
     rc_StorageDownloadURL = [], rc_StopInstance = False, rc_VerifyChecksum = True, rc_ExpectedChecksum = ''x''\<rparr>"

lemma demo_paths:
  "path_join [default_base [], ''a''] = ''/opt/supabase/a''"
  "compose_file ''/opt/supabase/a'' = ''/opt/supabase/a/docker-compose.yml''"
  by code_simp+

lemma demo_free: "parse_df (''h'' @ NL # ''d 1 2 9999999999 5 /'') = Inr 9999999999"
proof -
  have "length (split_char NL (''h'' @ NL # ''d 1 2 9999999999 5 /'')) = 2"
    "Prelude.fields (split_char NL (''h'' @ NL # ''d 1 2 9999999999 5 /'') ! 1) = [''d'', ''1'', ''2'', ''9999999999'', ''5'', ''/'']"
    by code_simp+
  then show ?thesis by (simp add: parse_df_def scan_uint_def digits_val_def is_digit_def)
qed

lemma demo_exec: "hexec demo_backup_host dir argv stdin s = demo_cmds argv s" "hfault demo_backup_host op s = None"
  "hhttp demo_backup_host meth url body s = (Inr (200, ''c1''), s)"
  by (simp_all add: demo_backup_host_def)

lemma demo_space: "run_state (require_space demo_backup_host ''/tmp'' (Suc 0)) s = (None, s\<lparr>trace := trace s @ [EvExec [] [''df'', ''-B1'', ''/tmp'']]\<rparr>)"
  by (simp add: require_space_def getFreeDiskSpace_def run_exec_cmd demo_exec demo_cmds_def demo_free [simplified] GiB_def)

lemmas demo_backup_run = run_phase attempt_def attempt_get_def require_file_def demo_paths os_stat_def demo_exec
  isDockerAvailable_def run_exec_cmd run_cmd_def demo_cmds_def drop_sql_def demo_space getPostgresContainer_def compose_ps_def
  Let_def trim_space_def trim_left_def trim_right_def is_space_def lookup_node_def os_create_def os_write_def os_read_def
  os_pipe_def cmd_start_def piped_def fill_file_def http_req_def os_remove_def log_def os_text_def removing_def update_conv'

lemma demo_validate:
  "\<exists>m t. run_state (validate_backup demo_backup_host ''/opt/supabase/a'') demo_backup_sys
     = (Inr (m, ''c1''), demo_backup_sys\<lparr>trace := t\<rparr>)"
  by (simp add: validate_backup_def demo_backup_run demo_backup_sys_def start_sys_def)

lemma demo_dump:
  assumes "lookup_node s f = None"
  shows "\<exists>m b s'. run_state (create_dump demo_backup_host c f) s = (Inr (m, b), s') \<and> lookup_node s' f = Some (File ''c1'' 420)"
proof -
  have "fs (s\<lparr>now := t, trace := es\<rparr>) = fs s" for t es by simp
  then show ?thesis using assms
    by (simp add: create_dump_def demo_backup_run pg_dump_cmd_def)
qed

lemma demo_after_dump:
  assumes "lookup_node s f = Some (File ''c1'' 420)"
  shows "br_Success (fst (run_state (checksum_phase demo_backup_host digest demo_backup dir f result sts meta) s))"
proof -
  have sum: "run_state (calculateFileChecksum demo_backup_host digest f) s = (Inr (''sha256:'' @ digest ''c1''), s)"
    using assms by (simp add: calculateFileChecksum_def os_read_def demo_exec)
  have up: "fst (run_state (uploadFile demo_backup_host f url) s) = None" for url
    using assms by (simp add: uploadFile_def os_read_def http_req_def demo_exec)
  have storage: "br_Success (fst (run_state (storage_phase demo_backup_host digest demo_backup dir res sts m) s1))" for res sts m s1
    using storage_phase_finishes [of m demo_backup_host digest demo_backup dir res sts]
    by (simp add: yields_def finished_with_def)
  have "br_Success (fst (run_state (upload_phase demo_backup_host digest demo_backup dir f res sts m) s))" for res sts m
  proof -
    obtain s1 where "run_state (uploadFile demo_backup_host f (bc_UploadURL demo_backup)) s = (None, s1)"
      using up [of "bc_UploadURL demo_backup"] by (metis prod.collapse)
    moreover have "(if bc_UploadURL demo_backup = [] then a else b) = b" for a b :: "(unit, error + string \<times> unit) io"
      by (simp add: demo_backup_def)
    ultimately show ?thesis
      unfolding upload_phase_def run_phase attempt_def by (simp only: run_state_bind) (simp add: storage)
  qed
  with sum show ?thesis by (simp add: checksum_phase_def run_phase attempt_get_def)
qed

lemma demo_phases:
  assumes "lookup_node s f = None"
  shows "br_Success (fst (run_state (phase n m sts (create_dump demo_backup_host c f) (backup_failed result n')
     (\<lambda>sts b. checksum_phase demo_backup_host digest demo_backup dir f result sts (meta b))) s))"
  using demo_dump [OF assms, of c] demo_after_dump by (auto simp: run_phase)

lemma demo_backup_succeeds: "br_Success (fst (run_state (Backup demo_backup_host digest demo_backup) demo_backup_sys))"
proof -
  obtain m t where v: "run_state (validate_backup demo_backup_host ''/opt/supabase/a'') demo_backup_sys
      = (Inr (m, ''c1''), demo_backup_sys\<lparr>trace := t\<rparr>)" using demo_validate by blast
  let ?f = "path_join [''/tmp'', ''a_backup_'' @ unix_str 0 @ ''.sql.gz'']"
  have "unix_str 0 = ''0''" by (simp add: unix_str_def itoa_def dec.simps digit_def)
  moreover have "path_join [''/tmp'', ''a_backup_'' @ ''0'' @ ''.sql.gz''] = ''/tmp/a_backup_0.sql.gz''" by code_simp
  ultimately have "?f = ''/tmp/a_backup_0.sql.gz''" by simp
  then have f: "lookup_node (demo_backup_sys\<lparr>trace := t\<rparr>) ?f = None"
    by (simp add: demo_backup_sys_def start_sys_def lookup_node_def)
  have removed: "fst (run_state (removing h f m) s) = fst (run_state m s)" for h :: "unit host" and f and m :: "(unit, BackupResult) io" and s
    by (simp add: removing_def split: prod.split)
  have "now demo_backup_sys = 0" by (simp add: demo_backup_sys_def start_sys_def)
  then have "br_Success (fst (run_state (dump_phases demo_backup_host digest demo_backup dir result sts ''c1'') (demo_backup_sys\<lparr>trace := t\<rparr>)))"
    for dir result sts
    using demo_phases [OF f] by (simp add: dump_phases_def Let_def removed demo_backup_def [THEN arg_cong [where f = bc_Subdomain]])
  then show ?thesis
    by (simp add: Backup_def Let_def run_phase v demo_paths demo_backup_def [THEN arg_cong [where f = bc_Subdomain]]
        demo_backup_def [THEN arg_cong [where f = bc_BaseDir]])
qed

theorem backup_metadata_exact_witness:
  "\<exists>es body. trace (snd (run_state (Backup demo_backup_host (\<lambda>c. c) demo_backup) demo_backup_sys)) = trace demo_backup_sys @ es
     \<and> EvHttp ''PUT'' ''u'' body \<in> set es"
  using backup_metadata_exact [OF prod.collapse [symmetric] demo_backup_succeeds, where digest = "\<lambda>c. c"]
  by (auto simp: demo_backup_def)

theorem restore_rejects_corrupt_witness:
  "\<not> rr_Success (fst (run_state (Restore demo_backup_host (\<lambda>c. c) demo_restore) demo_backup_sys))"
  using restore_rejects_corrupt [OF _ _ _ _ prod.collapse [symmetric], where config = demo_restore and h = demo_backup_host
      and s = demo_backup_sys and digest = "\<lambda>c. c" and body = "''c1''" and code = 200]
  by (simp add: demo_restore_def demo_exec)

theorem restore_never_succeeds_witness:
  "\<not> rr_Success (fst (run_state (Restore demo_backup_host (\<lambda>c. c) (demo_restore\<lparr>rc_VerifyChecksum := False\<rparr>)) demo_backup_sys))"
  by (rule restore_never_succeeds) (simp add: demo_exec demo_cmds_def psql_admin_def)

theorem dumps_do_not_stay_witness:
  "let s' = snd (run_state (Backup demo_backup_host (\<lambda>c. c) demo_backup) demo_backup_sys) in
   lookup_node s' ''/tmp/a_backup_0.sql.gz'' = None"
  using dumps_do_not_stay [of demo_backup_host "''/tmp/a_backup_0.sql.gz''" demo_backup_sys "\<lambda>c. c" demo_backup]
  by (auto simp: Let_def commands_keep_def demo_exec demo_cmds_def demo_backup_sys_def start_sys_def lookup_node_def)

end
