(* ===== verification/Health.thy ===== *)
theory Health
  imports World
begin

text \<open>
  \<^verbatim>\<open>internal/health/health.go\<close>: the checks that decide whether an instance is up, repeated with
  growing pauses until they pass, the deadline is over or the attempts are used up.
\<close>

section \<open>Data\<close>

record ServiceHealth =
  sv_Name :: string
  sv_Healthy :: bool
  sv_Message :: string
  sv_Latency :: string
  sv_CheckedAt :: stamp

record HealthCheckResult =
  hk_AllHealthy :: bool
  hk_Services :: "ServiceHealth list"
  hk_Duration :: string

record CheckConfig =
  ck_Subdomain :: string
  ck_Timeout :: nat
  ck_RetryInterval :: nat
  ck_MaxRetries :: int
  ck_PostgresPort :: int
  ck_KongPort :: int
  ck_StudioPort :: int
  ck_UseExponential :: bool
  ck_Services :: "string list"
  ck_PostgresContainer :: string

definition DefaultCheckConfig :: "string \<Rightarrow> CheckConfig" where
  "DefaultCheckConfig subdomain = \<lparr>ck_Subdomain = subdomain, ck_Timeout = seconds 60, ck_RetryInterval = seconds 2,
     ck_MaxRetries = 30, ck_PostgresPort = 5432, ck_KongPort = 8000, ck_StudioPort = 3000, ck_UseExponential = True,
     ck_Services = [], ck_PostgresContainer = ''postgres''\<rparr>"

definition legacyServiceSuffixes :: "string list" where
  "legacyServiceSuffixes = [''postgres'', ''kong'', ''studio'']"

definition new_health :: "string \<Rightarrow> nat \<Rightarrow> ServiceHealth" where
  "new_health name t =
     \<lparr>sv_Name = name, sv_Healthy = False, sv_Message = [], sv_Latency = [], sv_CheckedAt = rfc3339 t\<rparr>"

section \<open>The checks\<close>

definition container_name :: "string \<Rightarrow> string \<Rightarrow> string" where
  "container_name subdomain suf =
     (if suf = ''realtime'' then ''realtime-dev.'' @ subdomain @ ''-realtime'' else subdomain @ ''-'' @ suf)"

definition check_container :: "'x host \<Rightarrow> string \<Rightarrow> ('x, ServiceHealth) io" where
  "check_container h container = do {
     t \<leftarrow> time_now;
     let health = new_health container t;
     r \<leftarrow> exec_cmd h [''sudo'', ''docker'', ''inspect'', ''-f'', ''{{.State.Running}}'', container];
     ret (case cr_status r of
         Some e \<Rightarrow> health\<lparr>sv_Message := ''Container not found or not accessible: '' @ e\<rparr>
       | None \<Rightarrow>
           if trim_space (cr_out r) = ''true'' then health\<lparr>sv_Healthy := True, sv_Message := ''Container is running''\<rparr>
           else health\<lparr>sv_Message := ''Container is not running''\<rparr>)
   }"

fun checkContainerStates :: "'x host \<Rightarrow> string \<Rightarrow> string list \<Rightarrow> ('x, ServiceHealth list) io" where
  "checkContainerStates h subdomain [] = ret []"
| "checkContainerStates h subdomain (suf # sufs) = do {
     health \<leftarrow> check_container h (container_name subdomain suf);
     services \<leftarrow> checkContainerStates h subdomain sufs;
     ret (health # services)
   }"

definition checkPostgres :: "'x host \<Rightarrow> string \<Rightarrow> string \<Rightarrow> int \<Rightarrow> ('x, ServiceHealth) io" where
  "checkPostgres h subdomain containerSuffix port = do {
     t \<leftarrow> time_now;
     r \<leftarrow> exec_cmd h [''sudo'', ''docker'', ''exec'', ''-i'', subdomain @ ''-'' @ containerSuffix,
       ''pg_isready'', ''-h'', ''localhost'', ''-p'', itoa port];
     t' \<leftarrow> time_now;
     let health = (new_health ''postgresql'' t)\<lparr>sv_Latency := dur_string (t' - t)\<rparr>;
     ret (case cr_status r of
         Some e \<Rightarrow> health\<lparr>sv_Message := ''pg_isready failed: '' @ cr_all r\<rparr>
       | None \<Rightarrow>
           if str_contains (cr_all r) ''accepting connections''
           then health\<lparr>sv_Healthy := True, sv_Message := ''PostgreSQL is accepting connections''\<rparr>
           else health\<lparr>sv_Message := cr_all r\<rparr>)
   }"

definition local_url :: "int \<Rightarrow> string" where
  "local_url port = ''http://localhost:'' @ itoa port @ ''/''"

definition checkKongGateway :: "'x host \<Rightarrow> int \<Rightarrow> ('x, ServiceHealth) io" where
  "checkKongGateway h port = do {
     t \<leftarrow> time_now;
     r \<leftarrow> http_req h ''GET'' (local_url port) [];
     t' \<leftarrow> time_now;
     let health = (new_health ''kong-gateway'' t)\<lparr>sv_Latency := dur_string (t' - t)\<rparr>;
     ret (case r of
         Inl e \<Rightarrow> health\<lparr>sv_Message := ''Kong not responding: '' @ e\<rparr>
       | Inr (code, body) \<Rightarrow>
           if 0 < code then health\<lparr>sv_Healthy := True, sv_Message := ''Kong responding (HTTP '' @ itoa code @ '')''\<rparr>
           else health\<lparr>sv_Message := ''Kong returned invalid response''\<rparr>)
   }"

definition checkStudio :: "'x host \<Rightarrow> int \<Rightarrow> ('x, ServiceHealth) io" where
  "checkStudio h port = do {
     t \<leftarrow> time_now;
     r \<leftarrow> http_req h ''GET'' (local_url port) [];
     t' \<leftarrow> time_now;
     let health = (new_health ''studio'' t)\<lparr>sv_Latency := dur_string (t' - t)\<rparr>;
     ret (case r of
         Inl e \<Rightarrow> health\<lparr>sv_Message := ''Studio not responding: '' @ e\<rparr>
       | Inr (code, body) \<Rightarrow>
           if 0 < code \<and> code < 500
           then health\<lparr>sv_Healthy := True, sv_Message := ''Studio responding (HTTP '' @ itoa code @ '')''\<rparr>
           else health\<lparr>sv_Message := ''Studio error (HTTP '' @ itoa code @ '')''\<rparr>)
   }"

definition runHealthChecks :: "'x host \<Rightarrow> CheckConfig \<Rightarrow> ('x, HealthCheckResult) io" where
  "runHealthChecks h config = do {
     let sufs = (if ck_Services config = [] then legacyServiceSuffixes else ck_Services config);
     containerHealth \<leftarrow> checkContainerStates h (ck_Subdomain config) sufs;
     let pgSuffix = (if ck_PostgresContainer config = [] then ''postgres'' else ck_PostgresContainer config);
     pgHealth \<leftarrow> checkPostgres h (ck_Subdomain config) pgSuffix (ck_PostgresPort config);
     kongHealth \<leftarrow> checkKongGateway h (ck_KongPort config);
     studioHealth \<leftarrow> checkStudio h (ck_StudioPort config);
     ret \<lparr>hk_AllHealthy = list_all sv_Healthy containerHealth \<and> sv_Healthy pgHealth \<and> sv_Healthy kongHealth,
       hk_Services = containerHealth @ [pgHealth, kongHealth, studioHealth], hk_Duration = []\<rparr>
   }"

section \<open>Repeating them\<close>

text \<open>The pause after the given attempt, counted from one.\<close>

definition waitTime :: "CheckConfig \<Rightarrow> nat \<Rightarrow> nat" where
  "waitTime config attempt =
     (if ck_UseExponential config then min (seconds (2 ^ min (attempt - 1) 6)) (seconds 30)
      else ck_RetryInterval config)"

definition final_check :: "'x host \<Rightarrow> CheckConfig \<Rightarrow> nat \<Rightarrow> nat \<Rightarrow> ('x, HealthCheckResult \<times> error option) io" where
  "final_check h config startTime attempt = do {
     result \<leftarrow> runHealthChecks h config;
     t \<leftarrow> time_now;
     let result = result\<lparr>hk_Duration := dur_string (t - startTime)\<rparr>;
     ret (result,
       if hk_AllHealthy result then None
       else Some (''health checks failed after '' @ itoa (int attempt) @ '' attempts ('' @ hk_Duration result @ '')''))
   }"

text \<open>The last argument is the number of attempts that are left.\<close>

fun attempts :: "'x host \<Rightarrow> CheckConfig \<Rightarrow> nat \<Rightarrow> nat \<Rightarrow> nat \<Rightarrow> nat \<Rightarrow> ('x, HealthCheckResult \<times> error option) io" where
  "attempts h config startTime deadline attempt 0 = final_check h config startTime attempt"
| "attempts h config startTime deadline attempt (Suc n) = do {
     t \<leftarrow> time_now;
     if deadline \<le> t then final_check h config startTime attempt
     else do {
       result \<leftarrow> runHealthChecks h config;
       t \<leftarrow> time_now;
       if hk_AllHealthy result then ret (result\<lparr>hk_Duration := dur_string (t - startTime)\<rparr>, None)
       else do {
         let wait = waitTime config (Suc attempt);
         _ \<leftarrow> (if 0 < n \<and> t + wait < deadline then sleep wait else ret ());
         attempts h config startTime deadline (Suc attempt) n
       }
     }
   }"

definition CheckAll :: "'x host \<Rightarrow> CheckConfig option \<Rightarrow> ('x, HealthCheckResult \<times> error option) io" where
  "CheckAll h cfg = do {
     let config = (case cfg of None \<Rightarrow> DefaultCheckConfig [] | Some c \<Rightarrow> c);
     startTime \<leftarrow> time_now;
     attempts h config startTime (startTime + ck_Timeout config) 0 (nat (ck_MaxRetries config))
   }"

section \<open>Properties\<close>

definition result_ok :: "CheckConfig \<Rightarrow> HealthCheckResult \<Rightarrow> bool" where
  "result_ok config r \<longleftrightarrow>
     map sv_Name (hk_Services r) =
       map (container_name (ck_Subdomain config)) (if ck_Services config = [] then legacyServiceSuffixes else ck_Services config)
       @ [''postgresql'', ''kong-gateway'', ''studio'']
   \<and> hk_AllHealthy r = list_all sv_Healthy (butlast (hk_Services r))"

lemma new_health_sel [simp]: "sv_Name (new_health n t) = n"
  by (simp add: new_health_def)

lemma name_check_container: "run_state (check_container h c) s = (r, s') \<Longrightarrow> sv_Name r = c"
  by (auto simp: check_container_def Let_def split: prod.splits option.splits if_splits)

lemma names_checkContainerStates:
  "run_state (checkContainerStates h sub sufs) s = (rs, s') \<Longrightarrow> map sv_Name rs = map (container_name sub) sufs"
proof (induction sufs arbitrary: s rs)
  case (Cons x xs)
  then show ?case by (auto dest: name_check_container split: prod.splits)
qed simp

lemma name_others:
  "run_state (checkPostgres h sub suf p) s = (r, s') \<Longrightarrow> sv_Name r = ''postgresql''"
  "run_state (checkKongGateway h q) s = (r, s') \<Longrightarrow> sv_Name r = ''kong-gateway''"
  "run_state (checkStudio h q) s = (r, s') \<Longrightarrow> sv_Name r = ''studio''"
  by (auto simp: checkPostgres_def checkKongGateway_def checkStudio_def Let_def
      split: prod.splits option.splits sum.splits if_splits)

lemma runHealthChecks_ok: "run_state (runHealthChecks h config) s = (r, s') \<Longrightarrow> result_ok config r"
  by (auto simp: runHealthChecks_def result_ok_def Let_def butlast_append
      dest!: names_checkContainerStates name_others split: prod.splits)

lemma attempts_ok:
  "run_state (attempts h config start deadline attempt n) s = ((r, err), s') \<Longrightarrow>
     result_ok config r \<and> (err = None \<longleftrightarrow> hk_AllHealthy r)"
proof (induction n arbitrary: attempt s)
  case 0
  then show ?case
    by (auto simp: final_check_def Let_def result_ok_def split: prod.splits dest!: runHealthChecks_ok)
next
  case (Suc n)
  show ?case
  proof (cases "deadline \<le> now s")
    case True
    with Suc.prems show ?thesis
      by (auto simp: final_check_def Let_def result_ok_def split: prod.splits dest!: runHealthChecks_ok)
  next
    case False
    obtain q s1 where q: "run_state (runHealthChecks h config) s = (q, s1)" by (cases "run_state (runHealthChecks h config) s")
    show ?thesis
    proof (cases "hk_AllHealthy q")
      case True
      with Suc.prems False q runHealthChecks_ok [OF q] show ?thesis by (auto simp: result_ok_def)
    next
      case unhealthy: False
      with Suc.prems False q
      obtain s2 where "run_state (attempts h config start deadline (Suc attempt) n) s2 = ((r, err), s')"
        by (auto simp: Let_def simp del: attempts.simps(1) split: if_splits)
      then show ?thesis by (rule Suc.IH)
    qed
  qed
qed

text \<open>
  C20: \<^verbatim>\<open>CheckAll\<close> tells the truth about the instance: it returns without an error exactly when its
  result is healthy, and the result is healthy exactly when every check except the one of the studio,
  which is optional, passed; the services it reports are the expected containers, the database, the
  gateway and the studio, in this order.
\<close>

theorem check_all_truthful:
  "case run_state (CheckAll h (Some config)) s of ((r, err), s') \<Rightarrow>
     (err = None \<longleftrightarrow> hk_AllHealthy r)
   \<and> hk_AllHealthy r = list_all sv_Healthy (butlast (hk_Services r))
   \<and> map sv_Name (hk_Services r) =
       map (container_name (ck_Subdomain config)) (if ck_Services config = [] then legacyServiceSuffixes else ck_Services config)
       @ [''postgresql'', ''kong-gateway'', ''studio'']"
  using attempts_ok [of h config "now s" "now s + ck_Timeout config" 0 "nat (ck_MaxRetries config)" s]
  by (auto simp: CheckAll_def result_ok_def split: prod.splits)

text \<open>The pauses among the effects, in their order.\<close>

fun pause_of :: "event \<Rightarrow> nat list" where
  "pause_of (EvSleep d) = [d]"
| "pause_of e = []"

definition pauses :: "event list \<Rightarrow> nat list" where
  "pauses es = concat (map pause_of es)"

lemma pauses_append [simp]: "pauses (xs @ ys) = pauses xs @ pauses ys"
  and pauses_Nil [simp]: "pauses [] = []"
  and pauses_sleep [simp]: "pauses (EvSleep d # es) = d # pauses es"
  by (simp_all add: pauses_def)

lemma no_pauses: "list_all (\<lambda>e. pause_of e = []) es \<Longrightarrow> pauses es = []"
  by (auto simp: pauses_def list_all_iff)

lemma emits_check_container [emits_intros]: "emits (\<lambda>e. pause_of e = []) (check_container h c)"
  unfolding check_container_def Let_def by (intro emits_intros) simp

lemma emits_checkContainerStates [emits_intros]:
  "emits (\<lambda>e. pause_of e = []) (checkContainerStates h sub sufs)"
  by (induction sufs) (auto intro!: emits_intros)

lemma emits_runHealthChecks: "emits (\<lambda>e. pause_of e = []) (runHealthChecks h config)"
  unfolding runHealthChecks_def checkPostgres_def checkKongGateway_def checkStudio_def Let_def
  by (intro emits_intros) simp_all

lemma forward_check_container [forward_intros]: "forward (check_container h c)"
  unfolding check_container_def Let_def by (intro forward_intros)

lemma forward_checkContainerStates [forward_intros]: "forward (checkContainerStates h sub sufs)"
  by (induction sufs) (auto intro!: forward_intros)

lemma forward_runHealthChecks: "forward (runHealthChecks h config)"
  unfolding runHealthChecks_def checkPostgres_def checkKongGateway_def checkStudio_def Let_def
  by (intro forward_intros)

lemma run_checks_quiet:
  assumes "run_state (runHealthChecks h config) s = (r, s1)"
  shows "\<exists>es. trace s1 = trace s @ es \<and> pauses es = []" and "now s \<le> now s1"
  using emitsD [OF emits_runHealthChecks assms] forwardD [OF forward_runHealthChecks assms] no_pauses by blast+

lemma final_check_quiet:
  assumes "run_state (final_check h config start attempt) s = (r, s1)"
  shows "\<exists>es. trace s1 = trace s @ es \<and> pauses es = []"
  using assms by (auto simp: final_check_def Let_def split: prod.splits dest: run_checks_quiet(1))

lemma waitTime_mono: "0 < a \<Longrightarrow> waitTime config a \<le> waitTime config (Suc a)"
proof -
  have "(2 :: nat) ^ min (a - 1) 6 \<le> 2 ^ min a 6" by (rule power_increasing) auto
  then show ?thesis by (auto simp: waitTime_def seconds_def intro: min.coboundedI1)
qed

text \<open>The pauses follow the schedule from the current attempt on, and all end before the deadline.\<close>

definition on_schedule :: "CheckConfig \<Rightarrow> nat \<Rightarrow> nat \<Rightarrow> nat list \<Rightarrow> bool" where
  "on_schedule config attempt budget ps \<longleftrightarrow>
     ps = map (\<lambda>i. waitTime config (attempt + Suc i)) [0..<length ps] \<and> (ps \<noteq> [] \<longrightarrow> sum_list ps < budget)"

lemma on_schedule_Nil [simp]: "on_schedule config attempt budget []"
  by (simp add: on_schedule_def)

lemma on_schedule_head:
  "on_schedule config attempt budget (p # ps) \<Longrightarrow> p = waitTime config (Suc attempt) \<and> p < budget"
  unfolding on_schedule_def by (auto simp: map_upt_Suc simp del: upt_Suc)

lemma on_schedule_Cons:
  assumes "on_schedule config (Suc attempt) budget ps" and "waitTime config (Suc attempt) + budget \<le> tot"
    and "waitTime config (Suc attempt) < tot"
  shows "on_schedule config attempt tot (waitTime config (Suc attempt) # ps)"
  using assms by (auto simp: on_schedule_def map_upt_Suc simp del: upt_Suc)

lemma on_schedule_none:
  assumes "on_schedule config (Suc attempt) (d - t) ps" and "d \<le> t + waitTime config (Suc attempt)"
  shows "ps = []"
proof (cases ps)
  case (Cons p qs)
  with assms(1) have "waitTime config (Suc (Suc attempt)) < d - t" by (auto dest!: on_schedule_head)
  with waitTime_mono [of "Suc attempt" config] assms(2) show ?thesis by simp
qed

lemma attempts_pauses:
  "run_state (attempts h config start deadline attempt n) s = (r, s') \<Longrightarrow>
     \<exists>es. trace s' = trace s @ es \<and> on_schedule config attempt (deadline - now s) (pauses es)
        \<and> (pauses es = [] \<or> length (pauses es) < n)"
proof (induction n arbitrary: attempt s)
  case 0
  then show ?case by (auto dest!: final_check_quiet)
next
  case (Suc n)
  obtain q s1 where q: "run_state (runHealthChecks h config) s = (q, s1)" by (cases "run_state (runHealthChecks h config) s")
  obtain es where es: "trace s1 = trace s @ es" "pauses es = []" "now s \<le> now s1" using run_checks_quiet [OF q] by blast
  let ?w = "waitTime config (Suc attempt)"
  let ?rest = "attempts h config start deadline (Suc attempt) n"
  consider "deadline \<le> now s" | "now s < deadline" "hk_AllHealthy q"
    | "now s < deadline" "\<not> hk_AllHealthy q" "0 < n" "now s1 + ?w < deadline"
        "run_state ?rest (log (EvSleep ?w) (s1\<lparr>now := now s1 + ?w\<rparr>)) = (r, s')"
    | "\<not> (0 < n \<and> now s1 + ?w < deadline)" "run_state ?rest s1 = (r, s')"
    using Suc.prems q by (auto simp: Let_def simp del: attempts.simps(1) split: if_splits)
  then show ?case
  proof cases
    case 1
    with Suc.prems show ?thesis by (auto dest!: final_check_quiet)
  next
    case 2
    with Suc.prems q es show ?thesis by (intro exI [of _ es]) auto
  next
    case 3
    from Suc.IH [OF 3(5)] obtain es' where es': "trace s' = trace s1 @ EvSleep ?w # es'"
      "on_schedule config (Suc attempt) (deadline - (now s1 + ?w)) (pauses es')"
      "pauses es' = [] \<or> length (pauses es') < n" by auto
    have "on_schedule config attempt (deadline - now s) (?w # pauses es')"
      using es'(2) by (rule on_schedule_Cons) (use 3(4) es(3) in auto)
    with es es' 3(3) show ?thesis
      by (intro exI [of _ "es @ EvSleep ?w # es'"]) auto
  next
    case 4
    from Suc.IH [OF 4(2)] obtain es' where es': "trace s' = trace s1 @ es'"
      "on_schedule config (Suc attempt) (deadline - now s1) (pauses es')"
      "pauses es' = [] \<or> length (pauses es') < n" by auto
    have "pauses es' = []" using 4(1) es'(2,3) on_schedule_none [OF es'(2)] by auto
    with es es' show ?thesis by (intro exI [of _ "es @ es'"]) simp
  qed
qed

text \<open>
  C21: \<^verbatim>\<open>CheckAll\<close> backs off as its configuration says: its pauses are the beginning of 1, 2, 4, 8,
  16, 30, 30, \<dots> seconds (of equal intervals without the exponential mode), there are fewer of them
  than attempts, and together they are shorter than the timeout.
\<close>

theorem check_all_backs_off:
  "case run_state (CheckAll h (Some config)) s of (r, s') \<Rightarrow>
     let ps = pauses (drop (length (trace s)) (trace s')) in
     ps = map (\<lambda>i. if ck_UseExponential config then seconds (if i < 5 then 2 ^ i else 30) else ck_RetryInterval config)
       [0..<length ps]
     \<and> (if ps = [] then True else int (length ps) < ck_MaxRetries config \<and> sum_list ps < ck_Timeout config)"
proof -
  obtain r s' where run: "run_state (CheckAll h (Some config)) s = (r, s')" by (cases "run_state (CheckAll h (Some config)) s")
  then obtain es where es: "trace s' = trace s @ es" "on_schedule config 0 (ck_Timeout config) (pauses es)"
      "pauses es = [] \<or> length (pauses es) < nat (ck_MaxRetries config)"
    using attempts_pauses [of h config "now s" "now s + ck_Timeout config" 0 "nat (ck_MaxRetries config)" s r s']
    by (auto simp: CheckAll_def)
  have "waitTime config (Suc i) =
      (if ck_UseExponential config then seconds (if i < 5 then 2 ^ i else 30) else ck_RetryInterval config)" for i
  proof (cases "i < 5")
    case True
    then have "i \<in> {0, 1, 2, 3, 4}" by auto
    then show ?thesis by (auto simp: waitTime_def seconds_def)
  next
    case False
    then have "min i 6 = 5 \<or> min i 6 = 6" by auto
    with False show ?thesis by (auto simp: waitTime_def seconds_def)
  qed
  with es run show ?thesis by (auto simp: on_schedule_def Let_def intro!: map_cong)
qed

end
