(* ===== verification/Upgrade.thy ===== *)
theory Upgrade
  imports Backup Health Compose
begin

text \<open>
  \<^verbatim>\<open>internal/upgrade/upgrade.go\<close>: an instance is moved to another version by rewriting its compose
  file, with a copy to go back to, a restart and a health check. \<^verbatim>\<open>cp\<close> and \<^verbatim>\<open>docker\<close> are commands of the
  host. The registry of versions is a list; the order in which Go ranges over the map is irrelevant
  to all but \<^verbatim>\<open>GetCurrentVersion\<close>, where it is a parameter.
\<close>

section \<open>Versions\<close>

definition version_info :: "string \<Rightarrow> string \<Rightarrow> string \<Rightarrow> VersionInfo" where
  "version_info pg kong studio = \<lparr>vi_Postgres = pg, vi_Kong = kong, vi_Studio = studio, vi_GoTrue = [],
     vi_PostgREST = [], vi_Realtime = [], vi_Storage = []\<rparr>"

definition versionRegistry :: "(string \<times> VersionInfo) list" where
  "versionRegistry =
     [(''1.23.0'', version_info ''supabase/postgres:15.1.0.117'' ''kong:2.8.1'' ''supabase/studio:20231123-64a766a''),
      (''1.24.0'', version_info ''supabase/postgres:15.1.1.118'' ''kong:2.8.1'' ''supabase/studio:20240101-a1b2c3d'')]"

text \<open>Go compares strings by their bytes.\<close>

fun str_less :: "string \<Rightarrow> string \<Rightarrow> bool" where
  "str_less s [] \<longleftrightarrow> False"
| "str_less [] (c # cs) \<longleftrightarrow> True"
| "str_less (a # as) (b # bs) \<longleftrightarrow> byte_val a < byte_val b \<or> a = b \<and> str_less as bs"

definition compareVersions :: "string \<Rightarrow> string \<Rightarrow> int" where
  "compareVersions v1 v2 = (if v1 = v2 then 0 else if str_less v2 v1 then 1 else - 1)"

definition validateVersionUpgrade :: "string \<Rightarrow> string \<Rightarrow> error option" where
  "validateVersionUpgrade currentVersion targetVersion =
     (if map_of versionRegistry currentVersion = None then Some (''unknown current version: '' @ currentVersion)
      else if map_of versionRegistry targetVersion = None then Some (''unknown target version: '' @ targetVersion)
      else if compareVersions targetVersion currentVersion \<le> 0 then
        Some (''downgrade not allowed: '' @ currentVersion @ '' -> '' @ targetVersion
          @ '' (use --allow-downgrade flag if intentional)'')
      else None)"

section \<open>Rewriting the compose file\<close>

definition getIndent :: "string \<Rightarrow> string" where
  "getIndent line = (if list_all (\<lambda>c. c = CHR '' '') line then [] else takeWhile (\<lambda>c. c = CHR '' '') line)"

definition opens_service :: "string \<Rightarrow> string \<Rightarrow> bool" where
  "opens_service serviceName line \<longleftrightarrow>
     str_contains line (serviceName @ '':'') \<and> has_prefix (trim_space line) (serviceName @ '':'')"

definition closes_service :: "string \<Rightarrow> bool" where
  "closes_service line \<longleftrightarrow> has_prefix line ''  '' \<and> str_contains line '':''
     \<and> \<not> has_prefix (trim_space line) ''-'' \<and> \<not> has_prefix line ''    ''"

fun replace_lines :: "string \<Rightarrow> string \<Rightarrow> bool \<Rightarrow> string list \<Rightarrow> string list" where
  "replace_lines serviceName newImage inService [] = []"
| "replace_lines serviceName newImage inService (line # lines) =
     (if opens_service serviceName line then line # replace_lines serviceName newImage True lines
      else if inService \<and> str_contains line ''image:'' then
        (getIndent line @ ''image: '' @ newImage) # replace_lines serviceName newImage False lines
      else line # replace_lines serviceName newImage (inService \<and> \<not> closes_service line) lines)"

definition replaceImageVersion :: "string \<Rightarrow> string \<Rightarrow> string \<Rightarrow> string" where
  "replaceImageVersion content serviceName newImage =
     join [NL] (replace_lines serviceName newImage False (split_char NL content))"

definition updated_compose :: "VersionInfo \<Rightarrow> string \<Rightarrow> string" where
  "updated_compose info content =
     replaceImageVersion (replaceImageVersion (replaceImageVersion content ''postgres'' (vi_Postgres info))
       ''kong'' (vi_Kong info)) ''studio'' (vi_Studio info)"

definition updateDockerCompose :: "'x host \<Rightarrow> string \<Rightarrow> VersionInfo \<Rightarrow> ('x, error option) io" where
  "updateDockerCompose h composeFile info = do {
     r \<leftarrow> os_read h composeFile;
     case r of
       Inl e \<Rightarrow> ret (Some (err_text e))
     | Inr content \<Rightarrow> do {
         err \<leftarrow> os_write h composeFile (updated_compose info content) 420;
         ret (map_option err_text err)
       }
   }"

definition image_version :: "(string \<times> VersionInfo) list \<Rightarrow> string \<Rightarrow> string option" where
  "image_version registry line =
     (if str_contains line ''image:'' \<and> str_contains line ''supabase/postgres''
      then map_option fst (find (\<lambda>(v, info). str_contains line (vi_Postgres info)) registry) else None)"

definition GetCurrentVersion ::
  "'x host \<Rightarrow> ((string \<times> VersionInfo) list \<Rightarrow> (string \<times> VersionInfo) list) \<Rightarrow> string \<Rightarrow> string
     \<Rightarrow> ('x, string \<times> error option) io" where
  "GetCurrentVersion h order subdomain baseDir = do {
     r \<leftarrow> os_read h (path_join [baseDir, subdomain, ''docker-compose.yml'']);
     ret (case r of
         Inl e \<Rightarrow> ([], Some (err_text e))
       | Inr content \<Rightarrow>
           (case List.map_filter (image_version (order versionRegistry)) (split_char NL content) of
              v # vs \<Rightarrow> (v, None)
            | [] \<Rightarrow> (''unknown'', Some ''could not determine version from docker-compose.yml'')))
   }"

section \<open>The operation\<close>

definition copyFile :: "'x host \<Rightarrow> string \<Rightarrow> string \<Rightarrow> ('x, error option) io" where
  "copyFile h src dst = do {
     r \<leftarrow> exec_cmd h [''cp'', src, dst];
     ret (cr_status r)
   }"

definition rollbackUpgrade :: "'x host \<Rightarrow> string \<Rightarrow> string \<Rightarrow> Compose \<Rightarrow> ('x, error option) io" where
  "rollbackUpgrade h backupFile composeFile c = do {
     _ \<leftarrow> compose_Stop h c;
     err \<leftarrow> copyFile h backupFile composeFile;
     case err of
       Some e \<Rightarrow> ret (Some e)
     | None \<Rightarrow> compose_Up h c
   }"

text \<open>The instance is healthy when \<^verbatim>\<open>CheckAll\<close> gives neither an error nor an unhealthy result.\<close>

definition require_healthy :: "'x host \<Rightarrow> string \<Rightarrow> error \<Rightarrow> ('x, error option) io" where
  "require_healthy h subdomain msg = do {
     r \<leftarrow> CheckAll h (Some (DefaultCheckConfig subdomain));
     ret (if snd r \<noteq> None \<or> \<not> hk_AllHealthy (fst r) then Some msg else None)
   }"

definition validate_upgrade :: "'x host \<Rightarrow> UpgradeConfig \<Rightarrow> string \<Rightarrow> ('x, error + string \<times> unit) io" where
  "validate_upgrade h config instanceDir =
     attempt [] (require_file h instanceDir (''Instance directory not found: '' @ instanceDir))
     (attempt [] (ret (validateVersionUpgrade (uc_CurrentVersion config) (uc_TargetVersion config)))
     (attempt [] (require_space h ''/var/lib/docker'' 5)
     (attempt [] (require_healthy h (uc_Subdomain config)
         ''Instance is not healthy before upgrade - fix issues before upgrading'')
       (ret (Inr (''Validation passed: '' @ uc_CurrentVersion config @ '' -> '' @ uc_TargetVersion config, ()))))))"

definition backup_first :: "'x host \<Rightarrow> (string \<Rightarrow> string) \<Rightarrow> UpgradeConfig \<Rightarrow> ('x, error + string \<times> string) io" where
  "backup_first h digest config = do {
     r \<leftarrow> Backup h digest \<lparr>bc_InstanceID = uc_InstanceID config, bc_Subdomain = uc_Subdomain config,
       bc_BaseDir = default_base (uc_BaseDir config), bc_UploadURL = uc_BackupUploadURL config,
       bc_StorageUploadURL = uc_StorageUploadURL config, bc_IncludeStorage = True\<rparr>;
     ret (if br_Success r then Inr (''Backup created: '' @ br_BackupID r, br_BackupID r)
          else Inl (''Pre-upgrade backup failed: '' @ br_ErrorMessage r))
   }"

fun pull_images :: "'x host \<Rightarrow> string list \<Rightarrow> ('x, error option) io" where
  "pull_images h [] = ret None"
| "pull_images h (img # imgs) = do {
     r \<leftarrow> exec_cmd h [''docker'', ''pull'', img];
     case combined r of
       Some e \<Rightarrow> ret (Some (''Failed to pull image '' @ img @ '': '' @ e))
     | None \<Rightarrow> pull_images h imgs
   }"

definition update_configuration :: "'x host \<Rightarrow> UpgradeConfig \<Rightarrow> string \<Rightarrow> ('x, error + string \<times> unit) io" where
  "update_configuration h config instanceDir =
     (if uc_ComposeContent config \<noteq> [] then
        attempt ''Failed to write docker-compose.yml: ''
          (do { err \<leftarrow> os_write h (compose_file instanceDir) (uc_ComposeContent config) 420; ret (map_option err_text err) })
        (attempt ''Failed to write .env: ''
          (if uc_EnvContent config = [] then ret None
           else do { err \<leftarrow> os_write h (path_join [instanceDir, ''.env'']) (uc_EnvContent config) 420; ret (map_option err_text err) })
          (ret (Inr (''Configuration updated from backend-rendered templates'', ()))))
      else (case map_of versionRegistry (uc_TargetVersion config) of
          None \<Rightarrow> ret (Inl (''Unknown target version: '' @ uc_TargetVersion config))
        | Some info \<Rightarrow>
            attempt [] (pull_images h [vi_Postgres info, vi_Kong info, vi_Studio info])
            (attempt ''Failed to update docker-compose.yml: '' (updateDockerCompose h (compose_file instanceDir) info)
              (ret (Inr (''Configuration updated via version registry'', ()))))))"

definition upgrade_failed :: "UpgradeResult \<Rightarrow> string \<Rightarrow> StepResult list \<Rightarrow> error \<Rightarrow> ('x, UpgradeResult) io" where
  "upgrade_failed result name steps e =
     ret (result\<lparr>ur_Steps := steps, ur_ErrorMessage := e, ur_FailedStep := name\<rparr>)"

text \<open>A failed configuration puts the copy back without a restart, and not for an unknown version.\<close>

definition config_failed ::
  "'x host \<Rightarrow> UpgradeConfig \<Rightarrow> string \<Rightarrow> UpgradeResult \<Rightarrow> StepResult list \<Rightarrow> error \<Rightarrow> ('x, UpgradeResult) io" where
  "config_failed h config instanceDir result steps e = do {
     _ \<leftarrow> (if uc_RollbackOnFailure config
             \<and> \<not> (uc_ComposeContent config = [] \<and> map_of versionRegistry (uc_TargetVersion config) = None)
           then copyFile h (path_join [instanceDir, ''docker-compose.yml.backup'']) (compose_file instanceDir) else ret None);
     upgrade_failed result ''update_configuration'' steps e
   }"

text \<open>From the restart on, a failure rolls the whole instance back.\<close>

definition rolled_back ::
  "'x host \<Rightarrow> UpgradeConfig \<Rightarrow> string \<Rightarrow> UpgradeResult \<Rightarrow> string \<Rightarrow> string \<Rightarrow> StepResult list \<Rightarrow> error
     \<Rightarrow> ('x, UpgradeResult) io" where
  "rolled_back h config instanceDir result name note_text steps e =
     (if uc_RollbackOnFailure config then do {
        _ \<leftarrow> rollbackUpgrade h (path_join [instanceDir, ''docker-compose.yml.backup'']) (compose_file instanceDir)
          (compose_New (uc_Subdomain config) (default_base (uc_BaseDir config)));
        upgrade_failed (result\<lparr>ur_RollbackApplied := True\<rparr>) name steps (e @ note_text)
      } else upgrade_failed result name steps e)"

definition finish_upgrade ::
  "'x host \<Rightarrow> UpgradeConfig \<Rightarrow> string \<Rightarrow> UpgradeResult \<Rightarrow> StepResult list \<Rightarrow> ('x, UpgradeResult) io" where
  "finish_upgrade h config instanceDir result steps = do {
     _ \<leftarrow> os_remove h (path_join [instanceDir, ''docker-compose.yml.backup'']);
     ret (result\<lparr>ur_Success := True, ur_Steps := steps, ur_UpgradedFrom := uc_CurrentVersion config,
       ur_UpgradedTo := uc_TargetVersion config\<rparr>)
   }"

definition restart_and_check ::
  "'x host \<Rightarrow> UpgradeConfig \<Rightarrow> string \<Rightarrow> UpgradeResult \<Rightarrow> StepResult list \<Rightarrow> ('x, UpgradeResult) io" where
  "restart_and_check h config instanceDir result steps = (
     let c = compose_New (uc_Subdomain config) (default_base (uc_BaseDir config)) in
     phase ''rolling_restart'' ''Performing rolling restart of services'' steps
       (attempt ''Failed to stop containers: '' (compose_Stop h c)
       (attempt ''Failed to start containers with new images: '' (compose_Up h c)
         (ret (Inr (''Containers restarted with new versions'', ())))))
       (rolled_back h config instanceDir result ''rolling_restart'' [])
       (\<lambda>steps _. phase ''stabilization_wait'' ''Waiting for containers to stabilize'' steps
          (do { _ \<leftarrow> sleep (seconds 10); ret (Inr (''Containers stabilized'', ())) })
          (upgrade_failed result ''stabilization_wait'')
          (\<lambda>steps _. phase ''post_upgrade_health_check'' ''Verifying upgraded instance health'' steps
             (do {
                _ \<leftarrow> sleep (seconds 15);
                attempt [] (require_healthy h (uc_Subdomain config) ''Health check failed after upgrade'')
                  (ret (Inr (''Health check passed'', ())))
              })
             (rolled_back h config instanceDir result ''post_upgrade_health_check'' '' - rollback applied'')
             (\<lambda>steps _. finish_upgrade h config instanceDir result steps))))"

definition configure_phases ::
  "'x host \<Rightarrow> UpgradeConfig \<Rightarrow> string \<Rightarrow> UpgradeResult \<Rightarrow> StepResult list \<Rightarrow> ('x, UpgradeResult) io" where
  "configure_phases h config instanceDir result steps =
     phase ''backup_configuration'' ''Backing up current configuration'' steps
       (attempt ''Failed to backup docker-compose.yml: ''
         (copyFile h (compose_file instanceDir) (path_join [instanceDir, ''docker-compose.yml.backup'']))
         (ret (Inr (''Configuration backed up'', ()))))
       (upgrade_failed result ''backup_configuration'')
       (\<lambda>steps _. phase ''update_configuration'' ''Updating docker-compose.yml with new versions'' steps
          (update_configuration h config instanceDir)
          (config_failed h config instanceDir result)
          (\<lambda>steps _. restart_and_check h config instanceDir result steps))"

definition Upgrade :: "'x host \<Rightarrow> (string \<Rightarrow> string) \<Rightarrow> UpgradeConfig \<Rightarrow> ('x, UpgradeResult) io" where
  "Upgrade h digest config = (
     let result = \<lparr>ur_Success = False, ur_InstanceID = uc_InstanceID config, ur_UpgradedFrom = [], ur_UpgradedTo = [],
           ur_Steps = [], ur_RollbackApplied = False, ur_BackupID = [], ur_ErrorMessage = [], ur_FailedStep = []\<rparr>;
         instanceDir = path_join [default_base (uc_BaseDir config), uc_Subdomain config] in
     phase ''pre_upgrade_validation'' ''Validating upgrade prerequisites'' []
       (validate_upgrade h config instanceDir) (upgrade_failed result ''pre_upgrade_validation'')
       (\<lambda>steps _. phase_if (uc_BackupBeforeUpgrade config \<and> uc_BackupUploadURL config \<noteq> []) []
          ''create_backup'' ''Creating pre-upgrade backup'' steps
          (backup_first h digest config) (upgrade_failed result ''create_backup'')
          (\<lambda>steps backupID. configure_phases h config instanceDir (result\<lparr>ur_BackupID := backupID\<rparr>) steps)))"

section \<open>What \<^verbatim>\<open>cp\<close> and the other commands do to the configuration\<close>

abbreviation copy_of :: "string \<Rightarrow> string" where "copy_of dir \<equiv> path_join [dir, ''docker-compose.yml.backup'']"
abbreviation env_of :: "string \<Rightarrow> string" where "env_of dir \<equiv> path_join [dir, ''.env'']"

definition cp_only :: "'x host \<Rightarrow> string \<Rightarrow> bool" where
  "cp_only h p \<longleftrightarrow> (\<forall>dir argv stdin s. hd argv \<noteq> ''cp'' \<longrightarrow>
     lookup_node (snd (hexec h dir argv stdin s)) p = lookup_node s p)"

text \<open>A copy of an existing file succeeds and changes the target only; without the file it fails.\<close>

definition cp_works :: "'x host \<Rightarrow> string set \<Rightarrow> string \<Rightarrow> string \<Rightarrow> bool" where
  "cp_works h P a b \<longleftrightarrow> (\<forall>s. case hexec h [] [''cp'', a, b] [] s of (r, s') \<Rightarrow>
     (\<forall>q \<in> P - {b}. lookup_node s' q = lookup_node s q)
     \<and> (case lookup_node s a of
          Some (File c m) \<Rightarrow> cr_status r = None \<and> (\<exists>m'. lookup_node s' b = Some (File c m'))
        | _ \<Rightarrow> cr_status r \<noteq> None \<and> lookup_node s' b = lookup_node s b))"

definition upgrade_host :: "'x host \<Rightarrow> string \<Rightarrow> bool" where
  "upgrade_host h dir \<longleftrightarrow> (let P = {compose_file dir, copy_of dir, env_of dir} in
     (\<forall>p \<in> P. cp_only h p) \<and> cp_works h P (compose_file dir) (copy_of dir) \<and> cp_works h P (copy_of dir) (compose_file dir))"

lemma config_comps [simp]:
  "last_comp (compose_file dir) = ''docker-compose.yml''" "last_comp (copy_of dir) = ''docker-compose.yml.backup''"
  "last_comp (env_of dir) = ''.env''"
  by (simp_all add: compose_file_def last_comp_join last_comp_plain plain_def)

lemma config_distinct [simp]:
  "compose_file dir \<noteq> copy_of dir" "compose_file dir \<noteq> env_of dir" "copy_of dir \<noteq> env_of dir"
  "copy_of dir \<noteq> compose_file dir" "env_of dir \<noteq> compose_file dir" "env_of dir \<noteq> copy_of dir"
  by (rule notI, drule arg_cong [where f = last_comp], simp)+

lemma leaves_cp_only: "cp_only h p \<Longrightarrow> hd argv \<noteq> ''cp'' \<Longrightarrow> leaves p (run_cmd h dir argv stdin)"
  unfolding cp_only_def by (intro leaves_run_cmd_keep) blast

lemma leaves_cp_only_exec: "cp_only h p \<Longrightarrow> hd argv \<noteq> ''cp'' \<Longrightarrow> leaves p (exec_cmd h argv)"
  unfolding exec_cmd_def by (rule leaves_cp_only)

section \<open>The backup and the checks leave the configuration alone\<close>

text \<open>
  The backup runs no \<^verbatim>\<open>cp\<close>: it does the same on the host whose \<^verbatim>\<open>cp\<close> does nothing, of which the
  lemmas on hosts that keep a file hold.
\<close>

definition without_cp :: "'x host \<Rightarrow> 'x host" where
  "without_cp h = h\<lparr>hexec := \<lambda>dir argv stdin s. if hd argv = ''cp'' then (fst (hexec h dir argv stdin s), s)
     else hexec h dir argv stdin s\<rparr>"

lemma without_cp_ops [simp]:
  "hd argv \<noteq> ''cp'' \<Longrightarrow> run_cmd (without_cp h) dir argv stdin = run_cmd h dir argv stdin"
  "hd argv \<noteq> ''cp'' \<Longrightarrow> exec_cmd (without_cp h) argv = exec_cmd h argv"
  "os_stat (without_cp h) p = os_stat h p" "os_read (without_cp h) p = os_read h p"
  "os_write (without_cp h) p c m = os_write h p c m" "os_remove (without_cp h) p = os_remove h p"
  "http_req (without_cp h) meth url body = http_req h meth url body"
  "os_pipe (without_cp h) = os_pipe h" "cmd_start (without_cp h) argv = cmd_start h argv"
  by (simp_all add: run_cmd_def exec_cmd_def os_stat_def os_read_def os_write_def os_remove_def http_req_def
      os_pipe_def cmd_start_def without_cp_def)

lemma commands_keep_without_cp: "cp_only h p \<Longrightarrow> commands_keep (without_cp h) p"
  by (simp add: commands_keep_def cp_only_def without_cp_def)

lemmas branch_cong = option.case_cong sum.case_cong prod.case_cong if_cong

lemma helpers_without_cp [simp]:
  "getPostgresContainer (without_cp h) dir = getPostgresContainer h dir"
  "getStorageContainer (without_cp h) dir = getStorageContainer h dir"
  "isDockerAvailable (without_cp h) = isDockerAvailable h"
  "calculateFileChecksum (without_cp h) digest f = calculateFileChecksum h digest f"
  "uploadFile (without_cp h) f url = uploadFile h f url"
  "os_create (without_cp h) f = os_create h f"
  "require_file (without_cp h) f msg = require_file h f msg"
  "require_space (without_cp h) f gb = require_space h f gb"
  "removing (without_cp h) f m = removing h f m"
  "hd a \<noteq> ''cp'' \<Longrightarrow> hd b \<noteq> ''cp'' \<Longrightarrow> piped (without_cp h) wa a wb b = piped h wa a wb b"
  by (simp_all add: getPostgresContainer_def getStorageContainer_def isDockerAvailable_def calculateFileChecksum_def
      uploadFile_def os_create_def require_file_def require_space_def getFreeDiskSpace_def removing_def compose_ps_def
      piped_def cong: branch_cong)

lemma export_without_cp [simp]: "exportStorageData (without_cp h) c f = exportStorageData h c f"
  by (simp add: exportStorageData_def cong: branch_cong)

lemma dump_without_cp [simp]: "create_dump (without_cp h) c f = create_dump h c f"
  by (simp add: create_dump_def pg_dump_cmd_def cong: branch_cong)

lemma storage_without_cp [simp]:
  "backup_storage (without_cp h) digest config dir f meta = backup_storage h digest config dir f meta"
  by (simp add: backup_storage_def Let_def cong: branch_cong)

lemma phases_without_cp [simp]:
  "storage_phase (without_cp h) digest config dir result sts meta = storage_phase h digest config dir result sts meta"
  "upload_phase (without_cp h) digest config dir f result sts meta = upload_phase h digest config dir f result sts meta"
  "checksum_phase (without_cp h) digest config dir f result sts meta = checksum_phase h digest config dir f result sts meta"
  "dump_phases (without_cp h) digest config dir result sts c = dump_phases h digest config dir result sts c"
  "validate_backup (without_cp h) dir = validate_backup h dir"
  by (simp_all add: dump_phases_def checksum_phase_def upload_phase_def storage_phase_def validate_backup_def
      Let_def cong: branch_cong)

lemma Backup_without_cp: "Backup (without_cp h) digest config = Backup h digest config"
proof -
  have "dump_phases (without_cp h) digest config dir result = dump_phases h digest config dir result" for dir result
    by (intro ext) simp
  then show ?thesis by (simp add: Backup_def)
qed

lemma leaves_Backup_keep:
  assumes keep: "commands_keep h p" and z: "last (last_comp p) \<noteq> CHR ''z''"
  shows "leaves p (Backup h digest config)"
proof -
  have other: "p \<noteq> path_join [''/tmp'', a @ b @ u @ c]" if "last c = CHR ''z''" "slash \<notin> set c" "2 < length c" for a b u c
  proof -
    have "last_comp (path_join [''/tmp'', (a @ b @ u) @ c]) = last_comp (a @ b @ u) @ c"
      by (rule last_comp_join_suffix [OF that(2,3)])
    then have "last (last_comp (path_join [''/tmp'', a @ b @ u @ c])) = CHR ''z''"
      using that(1,3) by (cases c) auto
    with z show ?thesis by auto
  qed
  have storage: "leaves p (storage_phase h digest config dir result sts meta)" for dir result sts meta
    unfolding storage_phase_def Let_def by (intro leaves_intros leaves_backup_storage keep other) simp_all
  have up: "leaves p (upload_phase h digest config dir f result sts meta)" for dir f result sts meta
    unfolding upload_phase_def by (intro leaves_intros storage)
  have sum: "leaves p (checksum_phase h digest config dir f result sts meta)" for dir f result sts meta
    unfolding checksum_phase_def by (intro leaves_intros up)
  have "leaves p (dump_phases h digest config dir result sts c)" for dir result sts c
    unfolding dump_phases_def Let_def by (intro leaves_intros sum leaves_create_dump keep other) simp_all
  then show ?thesis
    unfolding Backup_def validate_backup_def Let_def by (intro leaves_intros keep)
qed

lemma leaves_Backup:
  "cp_only h p \<Longrightarrow> last (last_comp p) \<noteq> CHR ''z'' \<Longrightarrow> leaves p (Backup h digest config)"
  using leaves_Backup_keep [OF commands_keep_without_cp, of h p] Backup_without_cp [of h digest config] by metis

lemma leaves_checkContainerStates: "cp_only h p \<Longrightarrow> leaves p (checkContainerStates h sub sufs)"
  by (induction sufs) (auto intro!: leaves_bind leaves_return leaves_time_now leaves_cp_only_exec simp: check_container_def Let_def)

lemma leaves_runHealthChecks: "cp_only h p \<Longrightarrow> leaves p (runHealthChecks h config)"
  unfolding runHealthChecks_def checkPostgres_def checkKongGateway_def checkStudio_def Let_def
  by (intro leaves_intros leaves_checkContainerStates leaves_cp_only_exec) simp_all

lemma leaves_attempts: "cp_only h p \<Longrightarrow> leaves p (attempts h config start deadline j n)"
  by (induction n arbitrary: j)
    (auto intro!: leaves_intros leaves_runHealthChecks simp: final_check_def Let_def)

lemma leaves_require_healthy: "cp_only h p \<Longrightarrow> leaves p (require_healthy h sub msg)"
  unfolding require_healthy_def CheckAll_def Let_def by (intro leaves_intros leaves_attempts)

lemma leaves_compose: "cp_only h p \<Longrightarrow> leaves p (compose_Stop h c)" "cp_only h p \<Longrightarrow> leaves p (compose_Up h c)"
  unfolding compose_Stop_def compose_Up_def in_project_def by (intro leaves_intros leaves_cp_only; simp)+

lemma leaves_validate_upgrade: "cp_only h p \<Longrightarrow> leaves p (validate_upgrade h config dir)"
  unfolding validate_upgrade_def require_space_def getFreeDiskSpace_def
  by (intro leaves_intros leaves_require_healthy leaves_cp_only_exec) simp_all

lemma leaves_pull: "cp_only h p \<Longrightarrow> leaves p (pull_images h imgs)"
  by (induction imgs) (auto intro!: leaves_bind leaves_return leaves_option leaves_cp_only_exec)

section \<open>Rolling back\<close>

text \<open>
  What the configuration holds at the end: the new compose file after a success, the old one after a
  failure; the environment file is not put back.
\<close>

definition holds :: "string \<Rightarrow> string \<Rightarrow> 'x sys \<Rightarrow> bool" where
  "holds p c s \<longleftrightarrow> (\<exists>m. lookup_node s p = Some (File c m))"

definition new_compose :: "UpgradeConfig \<Rightarrow> string \<Rightarrow> string" where
  "new_compose config old =
     (if uc_ComposeContent config \<noteq> [] then uc_ComposeContent config
      else case map_of versionRegistry (uc_TargetVersion config) of
          None \<Rightarrow> old | Some info \<Rightarrow> updated_compose info old)"

definition settled :: "UpgradeConfig \<Rightarrow> string \<Rightarrow> string \<Rightarrow> UpgradeResult \<Rightarrow> 'x sys \<Rightarrow> bool" where
  "settled config dir old r s \<longleftrightarrow>
     holds (compose_file dir) (if ur_Success r then new_compose config old else old) s
     \<and> (ur_RollbackApplied r \<and> uc_ComposeContent config \<noteq> [] \<and> uc_EnvContent config \<noteq> [] \<longrightarrow>
          holds (env_of dir) (uc_EnvContent config) s)"

lemma holds_leaves: "leaves p m \<Longrightarrow> holds p c s \<Longrightarrow> run_state m s = (a, s') \<Longrightarrow> holds p c s'"
  unfolding holds_def by (metis leavesD)

lemma cp_back:
  assumes "upgrade_host h dir" and "holds (copy_of dir) old s" and "run_state (copyFile h (copy_of dir) (compose_file dir)) s = (e, s')"
  shows "e = None" and "holds (compose_file dir) old s'" and "lookup_node s' (env_of dir) = lookup_node s (env_of dir)"
proof -
  have "cp_works h {compose_file dir, copy_of dir, env_of dir} (copy_of dir) (compose_file dir)"
    using assms(1) by (simp add: upgrade_host_def Let_def)
  with assms(2) have "case hexec h [] [''cp'', copy_of dir, compose_file dir] [] s of (r, s') \<Rightarrow>
      cr_status r = None \<and> holds (compose_file dir) old s' \<and> lookup_node s' (env_of dir) = lookup_node s (env_of dir)"
    unfolding cp_works_def holds_def by (fastforce split: prod.splits)
  with assms(3) show "e = None" "holds (compose_file dir) old s'" "lookup_node s' (env_of dir) = lookup_node s (env_of dir)"
    by (auto simp: copyFile_def run_exec_cmd holds_def split: prod.splits)
qed

lemma cp_there:
  assumes "upgrade_host h dir" and "holds (compose_file dir) old s" and "run_state (copyFile h (compose_file dir) (copy_of dir)) s = (e, s')"
  shows "e = None" and "holds (copy_of dir) old s'" and "holds (compose_file dir) old s'"
proof -
  have "cp_works h {compose_file dir, copy_of dir, env_of dir} (compose_file dir) (copy_of dir)"
    using assms(1) by (simp add: upgrade_host_def Let_def)
  with assms(2) have "case hexec h [] [''cp'', compose_file dir, copy_of dir] [] s of (r, s') \<Rightarrow>
      cr_status r = None \<and> holds (copy_of dir) old s' \<and> holds (compose_file dir) old s'"
    unfolding cp_works_def holds_def by (fastforce split: prod.splits)
  with assms(3) show "e = None" "holds (copy_of dir) old s'" "holds (compose_file dir) old s'"
    by (auto simp: copyFile_def run_exec_cmd holds_def split: prod.splits)
qed

lemma rolled_back_settles:
  assumes "upgrade_host h dir" and "uc_RollbackOnFailure config" and "\<not> ur_Success result"
    and "holds (copy_of dir) old s"
    and "uc_ComposeContent config \<noteq> [] \<and> uc_EnvContent config \<noteq> [] \<longrightarrow> holds (env_of dir) (uc_EnvContent config) s"
  shows "wp (rolled_back h config dir result n msg sts e) (settled config dir old) s"
proof -
  let ?c = "compose_New (uc_Subdomain config) (default_base (uc_BaseDir config))"
  have cp: "cp_only h (compose_file dir)" "cp_only h (copy_of dir)" "cp_only h (env_of dir)"
    using assms(1) by (simp_all add: upgrade_host_def Let_def)
  obtain x s1 where stop: "run_state (compose_Stop h ?c) s = (x, s1)" by (cases "run_state (compose_Stop h ?c) s")
  obtain y s2 where copy: "run_state (copyFile h (copy_of dir) (compose_file dir)) s1 = (y, s2)"
    by (cases "run_state (copyFile h (copy_of dir) (compose_file dir)) s1")
  obtain z s3 where up: "run_state (compose_Up h ?c) s2 = (z, s3)" by (cases "run_state (compose_Up h ?c) s2")
  have "holds (copy_of dir) old s1" using holds_leaves [OF leaves_compose(1) assms(4) stop] cp by blast
  note copied = cp_back [OF assms(1) this copy]
  have "holds (compose_file dir) old s3" using holds_leaves [OF leaves_compose(2) copied(2) up] cp by blast
  moreover have "lookup_node s3 (env_of dir) = lookup_node s (env_of dir)"
    using leavesD [OF leaves_compose(1) [OF cp(3)] stop] leavesD [OF leaves_compose(2) [OF cp(3)] up] copied(3) by simp
  ultimately show ?thesis
    using assms(2,3,5) stop copy up copied(1)
    by (auto simp: rolled_back_def rollbackUpgrade_def upgrade_failed_def wp_def settled_def holds_def)
qed

lemma restart_settles:
  assumes "upgrade_host h dir" and "uc_RollbackOnFailure config" and "\<not> ur_Success result" and "\<not> ur_RollbackApplied result"
    and "holds (copy_of dir) old s" and "holds (compose_file dir) (new_compose config old) s"
    and env: "uc_ComposeContent config \<noteq> [] \<and> uc_EnvContent config \<noteq> [] \<longrightarrow> holds (env_of dir) (uc_EnvContent config) s"
  shows "wp (restart_and_check h config dir result sts) (settled config dir old) s"
proof -
  let ?c = "compose_New (uc_Subdomain config) (default_base (uc_BaseDir config))"
  define I where "I = (\<lambda>s :: 'a sys. holds (copy_of dir) old s \<and> holds (compose_file dir) (new_compose config old) s
    \<and> (uc_ComposeContent config \<noteq> [] \<and> uc_EnvContent config \<noteq> [] \<longrightarrow> holds (env_of dir) (uc_EnvContent config) s))"
  have cp: "cp_only h (compose_file dir)" "cp_only h (copy_of dir)" "cp_only h (env_of dir)"
    using assms(1) by (simp_all add: upgrade_host_def Let_def)
  have keep: "wp body (\<lambda>r. I) s" if "I s" "\<And>p. cp_only h p \<Longrightarrow> leaves p body" for s and body :: "('a, error + string \<times> unit) io"
    using that cp holds_leaves [of _ body] unfolding I_def by (intro wpI) blast
  have phase: "wp (phase n m sts body failed k) (settled config dir old) s"
    if "I s" "\<And>p. cp_only h p \<Longrightarrow> leaves p body" "\<And>s e sts. I s \<Longrightarrow> wp (failed sts e) (settled config dir old) s"
      "\<And>s sts. I s \<Longrightarrow> wp (k sts ()) (settled config dir old) s"
    for n m sts failed k s and body :: "('a, error + string \<times> unit) io"
    by (rule wp_phaseI, rule wp_mono [OF keep [OF that(1,2)]]) (auto split: sum.split intro: that(3,4))
  have rolls: "I s \<Longrightarrow> wp (rolled_back h config dir result n msg sts e) (settled config dir old) s" for s n msg sts e
    using rolled_back_settles [OF assms(1-3)] by (simp add: I_def)
  have fin: "I s \<Longrightarrow> wp (finish_upgrade h config dir result sts) (settled config dir old) s" for s sts
    using assms(4) os_remove_other [of h "copy_of dir" s]
    by (auto simp: finish_upgrade_def wp_def settled_def I_def holds_def split: prod.splits)
  have calm: "I s \<Longrightarrow> wp (phase n m sts (do { _ \<leftarrow> sleep d; ret (Inr (w, ())) }) failed k) (settled config dir old) s"
    if "\<And>s sts. I s \<Longrightarrow> wp (k sts ()) (settled config dir old) s" for n m sts d w failed k s
    by (rule wp_phaseI) (auto simp: wp_bind wp_return wp_def [of "sleep d"] I_def holds_def intro!: that)
  have "I s \<Longrightarrow> wp (restart_and_check h config dir result sts) (settled config dir old) s" for s sts
    unfolding restart_and_check_def Let_def
    by (intro calm phase rolls fin)
      (auto intro!: leaves_attempt leaves_compose leaves_bind leaves_return leaves_sleep leaves_require_healthy)
  then show ?thesis using assms(5-7) by (simp add: I_def)
qed

lemma os_write_holds: "run_state (os_write h p c mode) s = (None, s') \<Longrightarrow> holds p c s'"
  unfolding holds_def by (blast dest: os_write_ok)

lemma os_write_holds_other: "run_state (os_write h p c mode) s = (e, s') \<Longrightarrow> q \<noteq> p \<Longrightarrow> holds q c' s \<Longrightarrow> holds q c' s'"
  unfolding holds_def by (metis os_write_other)

lemma update_compose_shows:
  assumes "holds p old s" and "run_state (updateDockerCompose h p info) s = (e, s')" and "q \<noteq> p" and "holds q c s"
  shows "holds q c s'" and "e = None \<Longrightarrow> holds p (updated_compose info old) s'"
  using assms os_write_holds [of h p "updated_compose info old" 420 s] os_write_holds_other [of h p _ 420 s _ _ q c]
  by (auto simp: updateDockerCompose_def os_read_def holds_def enoent_def split: option.splits prod.splits)

lemma update_configuration_shows:
  assumes "upgrade_host h dir" and "map_of versionRegistry (uc_TargetVersion config) \<noteq> None"
    and "holds (copy_of dir) old s" and "holds (compose_file dir) old s"
    and run: "run_state (update_configuration h config dir) s = (r, s')"
  shows "holds (copy_of dir) old s'"
    and "r = Inr v \<Longrightarrow> holds (compose_file dir) (new_compose config old) s'
       \<and> (uc_ComposeContent config \<noteq> [] \<and> uc_EnvContent config \<noteq> [] \<longrightarrow> holds (env_of dir) (uc_EnvContent config) s')"
proof -
  have cp: "cp_only h (compose_file dir)" "cp_only h (copy_of dir)" using assms(1) by (simp_all add: upgrade_host_def Let_def)
  have "holds (copy_of dir) old s' \<and> (r = Inr v \<longrightarrow> holds (compose_file dir) (new_compose config old) s'
       \<and> (uc_ComposeContent config \<noteq> [] \<and> uc_EnvContent config \<noteq> [] \<longrightarrow> holds (env_of dir) (uc_EnvContent config) s'))"
  proof (cases "uc_ComposeContent config = []")
    case True
    obtain info where info: "map_of versionRegistry (uc_TargetVersion config) = Some info" using assms(2) by blast
    let ?imgs = "[vi_Postgres info, vi_Kong info, vi_Studio info]"
    obtain e s1 where pull: "run_state (pull_images h ?imgs) s = (e, s1)" by (cases "run_state (pull_images h ?imgs) s")
    have held: "holds (copy_of dir) old s1" "holds (compose_file dir) old s1"
      using assms(3,4) cp by (auto intro: holds_leaves [OF leaves_pull _ pull])
    obtain e' s2 where upd: "run_state (updateDockerCompose h (compose_file dir) info) s1 = (e', s2)"
      by (cases "run_state (updateDockerCompose h (compose_file dir) info) s1")
    note updated = update_compose_shows [OF held(2) upd config_distinct(4) held(1)]
    show ?thesis
      using run True info pull upd held updated
      by (auto simp: update_configuration_def attempt_def new_compose_def simp del: pull_images.simps split: option.splits)
  next
    case False
    obtain e s1 where w: "run_state (os_write h (compose_file dir) (uc_ComposeContent config) 420) s = (e, s1)"
      by (cases "run_state (os_write h (compose_file dir) (uc_ComposeContent config) 420) s")
    obtain e' s2 where v: "run_state (os_write h (env_of dir) (uc_EnvContent config) 420) s1 = (e', s2)"
      by (cases "run_state (os_write h (env_of dir) (uc_EnvContent config) 420) s1")
    have "holds (copy_of dir) old s1" "holds (copy_of dir) old s2"
      using os_write_holds_other [OF w config_distinct(4) assms(3)] os_write_holds_other [OF v config_distinct(3)] by blast+
    moreover have "e = None \<Longrightarrow> holds (compose_file dir) (uc_ComposeContent config) s1"
      "e = None \<Longrightarrow> holds (compose_file dir) (uc_ComposeContent config) s2"
      "e' = None \<Longrightarrow> holds (env_of dir) (uc_EnvContent config) s2"
      using os_write_holds [of _ _ _ _ s s1] os_write_holds [of _ _ _ _ s1 s2] w v
        os_write_holds_other [OF v config_distinct(2)] by blast+
    ultimately show ?thesis
      using run False w v by (auto simp: update_configuration_def attempt_def new_compose_def split: option.splits if_splits)
  qed
  then show "holds (copy_of dir) old s'"
    and "r = Inr v \<Longrightarrow> holds (compose_file dir) (new_compose config old) s'
       \<and> (uc_ComposeContent config \<noteq> [] \<and> uc_EnvContent config \<noteq> [] \<longrightarrow> holds (env_of dir) (uc_EnvContent config) s')"
    by blast+
qed

lemma configure_settles:
  assumes "upgrade_host h dir" and "uc_RollbackOnFailure config" and "\<not> ur_Success result" and "\<not> ur_RollbackApplied result"
    and "map_of versionRegistry (uc_TargetVersion config) \<noteq> None" and "holds (compose_file dir) old s"
  shows "wp (configure_phases h config dir result sts) (settled config dir old) s"
proof -
  obtain e s1 where there: "run_state (copyFile h (compose_file dir) (copy_of dir)) s = (e, s1)"
    by (cases "run_state (copyFile h (compose_file dir) (copy_of dir)) s")
  note copied = cp_there [OF assms(1,6) there]
  obtain r s2 where upd: "run_state (update_configuration h config dir) s1 = (r, s2)"
    by (cases "run_state (update_configuration h config dir) s1")
  note updated = update_configuration_shows [OF assms(1,5) copied(2,3) upd]
  obtain e' s3 where back_again: "run_state (copyFile h (copy_of dir) (compose_file dir)) s2 = (e', s3)"
    by (cases "run_state (copyFile h (copy_of dir) (compose_file dir)) s2")
  have failed: "wp (config_failed h config dir result sts' x) (settled config dir old) s2" for sts' x
    using cp_back(2) [OF assms(1) updated(1) back_again] assms(2-5) back_again
    by (auto simp: config_failed_def upgrade_failed_def wp_def settled_def)
  have "wp (phase n m sts' (update_configuration h config dir) (config_failed h config dir result)
      (\<lambda>sts _. restart_and_check h config dir result sts)) (settled config dir old) s1" for n m sts'
    using restart_settles [OF assms(1-4) updated(1)] updated(2) failed
    by (intro wp_phase_run [OF upd]) auto
  then show ?thesis
    using there copied(1) unfolding configure_phases_def
    by - (rule wp_phase_run [where ?s1.0 = s1 and q = "Inr (''Configuration backed up'', ())"], simp_all add: attempt_def)
qed


section \<open>Versions and images\<close>

lemma version_path:
  "validateVersionUpgrade currentVersion targetVersion = None \<longleftrightarrow> currentVersion = ''1.23.0'' \<and> targetVersion = ''1.24.0''"
  by (auto simp: validateVersionUpgrade_def versionRegistry_def compareVersions_def byte_val_def)

lemma replace_lines_outside:
  "\<forall>l \<in> set ls. \<not> opens_service svc l \<Longrightarrow> replace_lines svc img False (ls @ rest) = ls @ replace_lines svc img False rest"
  by (induction ls) auto

lemma replace_lines_inside:
  "\<forall>l \<in> set ls. \<not> opens_service svc l \<and> \<not> str_contains l ''image:'' \<and> \<not> closes_service l \<Longrightarrow>
     replace_lines svc img True (ls @ rest) = ls @ replace_lines svc img True rest"
  by (induction ls) auto

lemma replace_lines_none: "\<forall>l \<in> set ls. \<not> opens_service svc l \<Longrightarrow> replace_lines svc img False ls = ls"
  using replace_lines_outside [of ls svc img "[]"] by simp

lemma replace_lines_block:
  assumes "\<forall>l \<in> set (pre @ body @ line # post). \<not> opens_service svc l" and "opens_service svc head"
    and "\<forall>l \<in> set body. \<not> str_contains l ''image:'' \<and> \<not> closes_service l" and "str_contains line ''image:''"
  shows "replace_lines svc img False (pre @ head # body @ line # post)
    = pre @ head # body @ (getIndent line @ ''image: '' @ img) # post"
  using assms by (simp add: replace_lines_outside replace_lines_inside replace_lines_none)

text \<open>
  C28: \<^verbatim>\<open>replaceImageVersion\<close> replaces one image and nothing else. In a file with one line that opens the
  service, the first \<^verbatim>\<open>image:\<close> line after it in its block gets the new image at its indentation, and
  every other line is kept. The line that opens a service is any whose first word is the name with a
  colon: in a \<^verbatim>\<open>depends_on\<close> of another service it makes the image of that service the one replaced.
\<close>

theorem replace_image_exact:
  assumes "\<forall>l \<in> set (pre @ body @ line # post). \<not> opens_service svc l" and "opens_service svc head"
    and "\<forall>l \<in> set body. \<not> str_contains l ''image:'' \<and> \<not> closes_service l" and "str_contains line ''image:''"
    and "\<forall>l \<in> set (pre @ head # body @ line # post). NL \<notin> set l"
  shows "replaceImageVersion (join [NL] (pre @ head # body @ line # post)) svc img
    = join [NL] (pre @ head # body @ (getIndent line @ ''image: '' @ img) # post)"
proof -
  have "split_char NL (join [NL] (pre @ head # body @ line # post)) = pre @ head # body @ line # post"
    using assms(5) by (intro split_char_join) auto
  then show ?thesis by (simp only: replaceImageVersion_def replace_lines_block [OF assms(1-4)])
qed

text \<open>A service whose dependencies come before its image gets the image of the dependency.\<close>

theorem replace_image_exact_witness:
  "replaceImageVersion (join [NL] [''services:'', ''  auth:'', ''    depends_on:'', ''      kong:'',
       ''        condition: service_healthy'', ''    image: supabase/gotrue:v2'', ''  rest:'', ''    image: postgrest'']) ''kong'' ''kong:2.8.1''
   = join [NL] [''services:'', ''  auth:'', ''    depends_on:'', ''      kong:'',
       ''        condition: service_healthy'', ''    image: kong:2.8.1'', ''  rest:'', ''    image: postgrest'']"
proof -
  have "\<forall>l \<in> set ([''services:'', ''  auth:'', ''    depends_on:''] @ [''        condition: service_healthy'']
      @ ''    image: supabase/gotrue:v2'' # [''  rest:'', ''    image: postgrest'']). \<not> opens_service ''kong'' l"
    and "opens_service ''kong'' ''      kong:''"
    and "\<forall>l \<in> set [''        condition: service_healthy'']. \<not> str_contains l ''image:'' \<and> \<not> closes_service l"
    and "getIndent ''    image: supabase/gotrue:v2'' @ ''image: '' @ ''kong:2.8.1'' = ''    image: kong:2.8.1''"
    by code_simp+
  from replace_image_exact [OF this(1-3)] this(4) show ?thesis by simp
qed

section \<open>An example of a rollback\<close>

text \<open>A host with a working \<^verbatim>\<open>cp\<close> on which the containers do not come up again.\<close>

definition cp_host_cmds :: "string list \<Rightarrow> unit sys \<Rightarrow> cmdres \<times> unit sys" where
  "cp_host_cmds argv s =
     (if hd argv = ''cp'' then
        (case lookup_node s (argv ! 1) of
           Some (File c m) \<Rightarrow> (ok_res [], s\<lparr>fs := AList.update (argv ! 2) (File c 420) (fs s)\<rparr>)
         | _ \<Rightarrow> (fail_res ''cp: cannot stat'' ''exit status 1'', s))
      else if last argv = ''--remove-orphans'' then (fail_res ''no space'' ''exit status 1'', s)
      else (ok_res ''true'', s))"

lemma cp_host_upgrade_host: "upgrade_host (command_host cp_host_cmds) dir"
  by (auto simp: upgrade_host_def cp_only_def cp_works_def cp_host_cmds_def Let_def split: option.split node.split)


end
