(* ===== verification/Docker.thy ===== *)
theory Docker
  imports Steps
begin

text \<open>\<^verbatim>\<open>internal/docker/docker.go\<close>: is Docker there, and its installation by the official script.\<close>

definition docker_IsInstalled :: "'x host \<Rightarrow> ('x, bool) io" where
  "docker_IsInstalled h = do {
     err \<leftarrow> look_path h ''docker'';
     if err \<noteq> None then ret False
     else do {
       err \<leftarrow> run_status h [''docker'', ''compose'', ''version''];
       ret (err = None)
     }
   }"

definition installDocker :: "'x host \<Rightarrow> ('x, error option) io" where
  "installDocker h = do {
     r \<leftarrow> exec_cmd h [''sh'', ''-c'', ''curl -fsSL https://get.docker.com | sh''];
     ret (map_option (\<lambda>e. ''Docker installation script failed: '' @ e @ [NL] @ ''Stdout: '' @ cr_out r
       @ [NL] @ ''Stderr: '' @ cr_err r) (cr_status r))
   }"

definition enableDockerService :: "'x host \<Rightarrow> ('x, error option) io" where
  "enableDockerService h =
     check_then ''failed to enable Docker service: '' (run_status h [''systemctl'', ''enable'', ''docker''])
     (check_then ''failed to start Docker service: '' (run_status h [''systemctl'', ''start'', ''docker'']) (ret None))"

definition ensureUserInDockerGroup :: "'x host \<Rightarrow> string \<Rightarrow> ('x, error option) io" where
  "ensureUserInDockerGroup h username = do {
     r \<leftarrow> exec_cmd h [''groups'', username];
     case cr_status r of
       Some e \<Rightarrow> ret (Some (''failed to check user groups: '' @ e))
     | None \<Rightarrow>
         if str_contains (cr_out r) ''docker'' then ret None
         else check_then (''failed to add user '' @ username @ '' to docker group: '')
           (run_status h [''usermod'', ''-aG'', ''docker'', username]) (ret None)
   }"

definition needs_group :: "string \<Rightarrow> bool" where
  "needs_group username \<longleftrightarrow> username \<noteq> [] \<and> username \<noteq> ''root''"

definition docker_Install :: "'x host \<Rightarrow> string \<Rightarrow> ('x, error option) io" where
  "docker_Install h username = do {
     there \<leftarrow> docker_IsInstalled h;
     if there then (if needs_group username then ensureUserInDockerGroup h username else ret None)
     else check_then ''failed to install Docker: '' (installDocker h)
       (check_then ''failed to enable Docker service: '' (enableDockerService h)
       (check_then ''failed to add user to docker group: ''
         (if needs_group username then ensureUserInDockerGroup h username else ret None)
       (do {
          there \<leftarrow> docker_IsInstalled h;
          ret (if there then None else Some ''Docker installation verification failed'')
        })))
   }"

definition command_text :: "'x host \<Rightarrow> string \<Rightarrow> string list \<Rightarrow> ('x, error + string) io" where
  "command_text h failed argv = do {
     r \<leftarrow> exec_cmd h argv;
     ret (case cr_status r of Some e \<Rightarrow> Inl (failed @ e) | None \<Rightarrow> Inr (trim_space (cr_out r)))
   }"

definition docker_GetVersion :: "'x host \<Rightarrow> ('x, error + string) io" where
  "docker_GetVersion h = command_text h ''failed to get Docker version: '' [''docker'', ''--version'']"

definition GetComposeVersion :: "'x host \<Rightarrow> ('x, error + string) io" where
  "GetComposeVersion h = command_text h ''failed to get Docker Compose version: '' [''docker'', ''compose'', ''version'']"

definition docker_IsServiceRunning :: "'x host \<Rightarrow> ('x, bool) io" where
  "docker_IsServiceRunning h = do { err \<leftarrow> run_status h [''docker'', ''info'']; ret (err = None) }"

definition WaitForDaemon :: "'x host \<Rightarrow> ('x, error option) io" where
  "WaitForDaemon h = do {
     ok \<leftarrow> docker_IsServiceRunning h;
     ret (if ok then None else Some ''Docker daemon is not running'')
   }"

lemma emits_docker_Install:
  assumes "\<And>argv. argv \<in> {[''docker'', ''compose'', ''version''], [''sh'', ''-c'', ''curl -fsSL https://get.docker.com | sh''],
      [''systemctl'', ''enable'', ''docker''], [''systemctl'', ''start'', ''docker''], [''groups'', u],
      [''usermod'', ''-aG'', ''docker'', u]} \<Longrightarrow> P (EvExec [] argv)"
  shows "emits P (docker_Install h u)"
  unfolding docker_Install_def docker_IsInstalled_def installDocker_def enableDockerService_def ensureUserInDockerGroup_def
  by (intro emits_intros assms) auto

end
