(* ===== verification/ConfigTexts.thy ===== *)
theory ConfigTexts
  imports AgentTypes
begin

text \<open>
  The texts that \<^verbatim>\<open>internal/files/files.go\<close> generates: the routes of the gateway, its entry point,
  the access rules of PostgreSQL and the script that sets the passwords. A character beyond ASCII is
  written as its bytes. The routes are read back by \<open>kong_services\<close>, and the theorem at the end says
  which of them ask for a key.
\<close>

section \<open>The gateway\<close>

definition kong_credentials :: "string list" where
  \<open>kong_credentials =
     [''_format_version: "2.1"'',
      ''_transform: true'',
      [],
      ''consumers:'',
      ''  - username: DASHBOARD'',
      ''  - username: anon'',
      ''    keyauth_credentials:'',
      ''      - key: $SUPABASE_ANON_KEY'',
      ''      - key: $SUPABASE_PUBLISHABLE_KEY'',
      ''  - username: service_role'',
      ''    keyauth_credentials:'',
      ''      - key: $SUPABASE_SERVICE_KEY'',
      ''      - key: $SUPABASE_SECRET_KEY'',
      [],
      ''acls:'',
      ''  - consumer: anon'',
      ''    group: anon'',
      ''  - consumer: service_role'',
      ''    group: admin'',
      [],
      ''basicauth_credentials:'',
      ''  - consumer: DASHBOARD'',
      ''    username: '' @ squote # ''$DASHBOARD_USERNAME'' @ [squote],
      ''    password: '' @ squote # ''$DASHBOARD_PASSWORD'' @ [squote],
      []]\<close>

definition kong_open_routes :: "string list" where
  \<open>kong_open_routes =
     [''services:'',
      ''  ## Open Auth routes'',
      ''  - name: auth-v1-open'',
      ''    url: http://auth:9999/verify'',
      ''    routes:'',
      ''      - name: auth-v1-open'',
      ''        strip_path: true'',
      ''        paths:'',
      ''          - /auth/v1/verify'',
      ''    plugins:'',
      ''      - name: cors'',
      [],
      ''  - name: auth-v1-open-callback'',
      ''    url: http://auth:9999/callback'',
      ''    routes:'',
      ''      - name: auth-v1-open-callback'',
      ''        strip_path: true'',
      ''        paths:'',
      ''          - /auth/v1/callback'',
      ''    plugins:'',
      ''      - name: cors'',
      [],
      ''  - name: auth-v1-open-authorize'',
      ''    url: http://auth:9999/authorize'',
      ''    routes:'',
      ''      - name: auth-v1-open-authorize'',
      ''        strip_path: true'',
      ''        paths:'',
      ''          - /auth/v1/authorize'',
      ''    plugins:'',
      ''      - name: cors'',
      [],
      ''  - name: auth-v1-open-health'',
      ''    url: http://auth:9999/health'',
      ''    routes:'',
      ''      - name: auth-v1-open-health'',
      ''        strip_path: true'',
      ''        paths:'',
      ''          - /auth/v1/health'',
      ''    plugins:'',
      ''      - name: cors'',
      []]\<close>

definition kong_api_routes :: "string list" where
  \<open>kong_api_routes =
     [''  ## Secure Auth routes'',
      ''  - name: auth-v1'',
      ''    url: http://auth:9999/'',
      ''    routes:'',
      ''      - name: auth-v1-all'',
      ''        strip_path: true'',
      ''        paths:'',
      ''          - /auth/v1/'',
      ''    plugins:'',
      ''      - name: cors'',
      ''      - name: key-auth'',
      ''        config:'',
      ''          hide_credentials: false'',
      ''      - name: request-transformer'',
      ''        config:'',
      ''          add:'',
      ''            headers:'',
      ''              - "Authorization: $LUA_AUTH_EXPR"'',
      ''          replace:'',
      ''            headers:'',
      ''              - "Authorization: $LUA_AUTH_EXPR"'',
      ''      - name: acl'',
      ''        config:'',
      ''          hide_groups_header: true'',
      ''          allow:'',
      ''            - admin'',
      ''            - anon'',
      [],
      ''  ## Secure PostgREST routes'',
      ''  - name: rest-v1'',
      ''    url: http://rest:3000/'',
      ''    routes:'',
      ''      - name: rest-v1-all'',
      ''        strip_path: true'',
      ''        paths:'',
      ''          - /rest/v1/'',
      ''    plugins:'',
      ''      - name: cors'',
      ''      - name: key-auth'',
      ''        config:'',
      ''          hide_credentials: false'',
      ''      - name: request-transformer'',
      ''        config:'',
      ''          add:'',
      ''            headers:'',
      ''              - "Authorization: $LUA_AUTH_EXPR"'',
      ''          replace:'',
      ''            headers:'',
      ''              - "Authorization: $LUA_AUTH_EXPR"'',
      ''      - name: acl'',
      ''        config:'',
      ''          hide_groups_header: true'',
      ''          allow:'',
      ''            - admin'',
      ''            - anon'',
      [],
      ''  ## Secure GraphQL routes'',
      ''  - name: graphql-v1'',
      ''    url: http://rest:3000/rpc/graphql'',
      ''    routes:'',
      ''      - name: graphql-v1-all'',
      ''        strip_path: true'',
      ''        paths:'',
      ''          - /graphql/v1'',
      ''    plugins:'',
      ''      - name: cors'',
      ''      - name: key-auth'',
      ''        config:'',
      ''          hide_credentials: false'',
      ''      - name: request-transformer'',
      ''        config:'',
      ''          add:'',
      ''            headers:'',
      ''              - "Content-Profile: graphql_public"'',
      ''              - "Authorization: $LUA_AUTH_EXPR"'',
      ''          replace:'',
      ''            headers:'',
      ''              - "Authorization: $LUA_AUTH_EXPR"'',
      ''      - name: acl'',
      ''        config:'',
      ''          hide_groups_header: true'',
      ''          allow:'',
      ''            - admin'',
      ''            - anon'',
      []]\<close>

definition kong_realtime_routes :: "string \<Rightarrow> string list" where
  \<open>kong_realtime_routes host =
     [''  ## Secure Realtime routes'',
      ''  - name: realtime-v1-ws'',
      ''    url: http://'' @ host @ '':4000/socket'',
      ''    protocol: ws'',
      ''    routes:'',
      ''      - name: realtime-v1-ws'',
      ''        strip_path: true'',
      ''        paths:'',
      ''          - /realtime/v1/'',
      ''    plugins:'',
      ''      - name: cors'',
      ''      - name: key-auth'',
      ''        config:'',
      ''          hide_credentials: false'',
      ''      - name: request-transformer'',
      ''        config:'',
      ''          add:'',
      ''            headers:'',
      ''              - "x-api-key:$LUA_RT_WS_EXPR"'',
      ''          replace:'',
      ''            querystring:'',
      ''              - "apikey:$LUA_RT_WS_EXPR"'',
      ''      - name: acl'',
      ''        config:'',
      ''          hide_groups_header: true'',
      ''          allow:'',
      ''            - admin'',
      ''            - anon'',
      [],
      ''  - name: realtime-v1-rest'',
      ''    url: http://'' @ host @ '':4000/api'',
      ''    routes:'',
      ''      - name: realtime-v1-rest'',
      ''        strip_path: true'',
      ''        paths:'',
      ''          - /realtime/v1/api/'',
      ''    plugins:'',
      ''      - name: cors'',
      ''      - name: key-auth'',
      ''        config:'',
      ''          hide_credentials: false'',
      ''      - name: request-transformer'',
      ''        config:'',
      ''          add:'',
      ''            headers:'',
      ''              - "Authorization: $LUA_AUTH_EXPR"'',
      ''          replace:'',
      ''            headers:'',
      ''              - "Authorization: $LUA_AUTH_EXPR"'',
      ''      - name: acl'',
      ''        config:'',
      ''          hide_groups_header: true'',
      ''          allow:'',
      ''            - admin'',
      ''            - anon'',
      []]\<close>

definition kong_plain_routes :: "string list" where
  \<open>kong_plain_routes =
     [''  ## Edge Functions routes'',
      ''  - name: functions-v1'',
      ''    url: http://functions:9000/'',
      ''    routes:'',
      ''      - name: functions-v1-all'',
      ''        strip_path: true'',
      ''        paths:'',
      ''          - /functions/v1/'',
      ''    plugins:'',
      ''      - name: cors'',
      [],
      ''  ## Storage routes (no key-auth '' @ CHR 0xE2 # CHR 0x80 # CHR 0x94 # '' S3 presigned URLs don'' @ squote # ''t carry apikey header)'',
      ''  - name: storage-v1'',
      ''    url: http://storage:5000/'',
      ''    routes:'',
      ''      - name: storage-v1-all'',
      ''        strip_path: true'',
      ''        paths:'',
      ''          - /storage/v1/'',
      ''    plugins:'',
      ''      - name: cors'',
      ''      - name: request-transformer'',
      ''        config:'',
      ''          add:'',
      ''            headers:'',
      ''              - "Authorization: $LUA_AUTH_EXPR"'',
      ''          replace:'',
      ''            headers:'',
      ''              - "Authorization: $LUA_AUTH_EXPR"'',
      ''      - name: post-function'',
      ''        config:'',
      ''          access:'',
      ''            - |'',
      ''              local auth = kong.request.get_header("authorization")'',
      ''              if auth == nil or auth == "" or auth:find("^%%s*$") then'',
      ''                kong.service.request.clear_header("authorization")'',
      ''              end'',
      []]\<close>

definition kong_dashboard_routes :: "string list" where
  \<open>kong_dashboard_routes =
     [''  ## Secure Database routes'',
      ''  - name: meta'',
      ''    url: http://meta:8080/'',
      ''    routes:'',
      ''      - name: meta-all'',
      ''        strip_path: true'',
      ''        paths:'',
      ''          - /pg/'',
      ''    plugins:'',
      ''      - name: key-auth'',
      ''        config:'',
      ''          hide_credentials: false'',
      ''      - name: acl'',
      ''        config:'',
      ''          hide_groups_header: true'',
      ''          allow:'',
      ''            - admin'',
      [],
      ''  ## Protected Dashboard '' @ CHR 0xE2 # CHR 0x80 # CHR 0x94 # '' catch all remaining routes'',
      ''  - name: dashboard'',
      ''    url: http://studio:3000/'',
      ''    routes:'',
      ''      - name: dashboard-all'',
      ''        strip_path: true'',
      ''        paths:'',
      ''          - /'',
      ''    plugins:'',
      ''      - name: cors'',
      ''      - name: basic-auth'',
      ''        config:'',
      ''          hide_credentials: true'']\<close>


definition generateKongConfig :: "DeployConfig \<Rightarrow> string" where
  "generateKongConfig config = unlines
     (kong_credentials @ kong_open_routes @ kong_api_routes
      @ kong_realtime_routes (''realtime-dev.'' @ dc_Subdomain config @ ''-realtime'')
      @ kong_plain_routes @ kong_dashboard_routes)"

section \<open>The other texts\<close>

definition generateKongEntrypoint :: string where
  \<open>generateKongEntrypoint = unlines
     [''#!/bin/bash'',
      ''# Custom entrypoint for Kong that builds Lua expressions for request-transformer'',
      ''# and performs environment variable substitution in the declarative config.'',
      [],
      ''# Legacy API keys -> pass apikey through unchanged'',
      ''export LUA_AUTH_EXPR="'' @ bslash # ''$((headers.authorization ~= nil and headers.authorization:sub(1, 10) ~= '' @ squote # ''Bearer sb_'' @ squote # '' and headers.authorization) or headers.apikey)"'',
      ''export LUA_RT_WS_EXPR="'' @ bslash # ''$(query_params.apikey)"'',
      [],
      ''# Substitute environment variables in the Kong declarative config.'',
      ''awk '' @ squote # ''{'',
      ''  result = ""'',
      ''  rest = $0'',
      ''  while (match(rest, /'' @ bslash # ''$[A-Za-z_][A-Za-z_0-9]*/)) {'',
      ''    varname = substr(rest, RSTART + 1, RLENGTH - 1)'',
      ''    if (varname in ENVIRON) {'',
      ''      result = result substr(rest, 1, RSTART - 1) ENVIRON[varname]'',
      ''    } else {'',
      ''      result = result substr(rest, 1, RSTART + RLENGTH - 1)'',
      ''    }'',
      ''    rest = substr(rest, RSTART + RLENGTH)'',
      ''  }'',
      ''  print result rest'',
      ''}'' @ squote # '' /home/kong/temp.yml > "$KONG_DECLARATIVE_CONFIG"'',
      [],
      ''# Remove empty key-auth credentials (unconfigured opaque keys)'',
      ''sed -i '' @ squote # ''/^[[:space:]]*- key:[[:space:]]*$/d'' @ squote # '' "$KONG_DECLARATIVE_CONFIG"'',
      [],
      ''exec /entrypoint.sh kong docker-start'']\<close>

definition generatePgHbaConfig :: string where
  \<open>generatePgHbaConfig = unlines
     [''# PostgreSQL Client Authentication Configuration File'',
      ''# TYPE  DATABASE        USER            ADDRESS                 METHOD'',
      [],
      ''# Allow local connections'',
      ''local   all             all                                     trust'',
      [],
      ''# IPv4 local connections'',
      ''host    all             all             127.0.0.1/32            trust'',
      [],
      ''# IPv4 connections from Docker network'',
      ''host    all             all             172.16.0.0/12           md5'',
      [],
      ''# IPv6 local connections'',
      ''host    all             all             ::1/128                 trust'',
      [],
      ''# External connections via SSL (direct Postgres access)'',
      ''hostssl all             all             0.0.0.0/0               md5'',
      ''hostssl all             all             ::/0                    md5'',
      [],
      ''# Allow replication connections'',
      ''local   replication     all                                     trust'',
      ''host    replication     all             127.0.0.1/32            trust'',
      ''host    replication     all             ::1/128                 trust'']\<close>

definition generateInitSQL :: string where
  \<open>generateInitSQL = unlines
     [''#!/bin/bash'',
      ''set -e'',
      [],
      ''psql -v ON_ERROR_STOP=1 --username "supabase_admin" --dbname "$POSTGRES_DB" <<-EOSQL'',
      ''  ALTER USER authenticator WITH PASSWORD '' @ squote # ''$POSTGRES_PASSWORD'' @ squote # '';'',
      ''  ALTER USER supabase_auth_admin WITH PASSWORD '' @ squote # ''$POSTGRES_PASSWORD'' @ squote # '';'',
      ''  ALTER USER supabase_storage_admin WITH PASSWORD '' @ squote # ''$POSTGRES_PASSWORD'' @ squote # '';'',
      ''  ALTER USER supabase_admin WITH PASSWORD '' @ squote # ''$POSTGRES_PASSWORD'' @ squote # '';'',
      ''  GRANT anon TO authenticator;'',
      ''  GRANT authenticated TO authenticator;'',
      ''  GRANT service_role TO authenticator;'',
      ''EOSQL'']\<close>

section \<open>What the routes say\<close>

text \<open>A service of the gateway: its name, where it leads, the paths it takes and its plugins.\<close>

record kong_service =
  ks_name :: string
  ks_url :: string
  ks_paths :: "string list"
  ks_plugins :: "string list"

text \<open>
  The reader goes by the indentation: a service starts with a dash at the second column, and its
  paths and plugins are listed under their heading.
\<close>

definition read_line :: "string \<times> kong_service list \<Rightarrow> string \<Rightarrow> string \<times> kong_service list" where
  "read_line st l = (case st of (heading, acc) \<Rightarrow>
     if has_prefix l ''  - name: '' then
       ([], \<lparr>ks_name = drop 10 l, ks_url = [], ks_paths = [], ks_plugins = []\<rparr> # acc)
     else case acc of
       [] \<Rightarrow> (heading, acc)
     | k # ks \<Rightarrow>
         if has_prefix l ''    url: '' then (heading, k\<lparr>ks_url := drop 9 l\<rparr> # ks)
         else if l = ''    routes:'' \<or> l = ''    plugins:'' then (l, acc)
         else if heading = ''    routes:'' \<and> has_prefix l ''          - '' then
           (heading, k\<lparr>ks_paths := ks_paths k @ [drop 12 l]\<rparr> # ks)
         else if heading = ''    plugins:'' \<and> has_prefix l ''      - name: '' then
           (heading, k\<lparr>ks_plugins := ks_plugins k @ [drop 14 l]\<rparr> # ks)
         else (heading, acc))"

definition kong_services :: "string \<Rightarrow> kong_service list" where
  "kong_services content = rev (snd (foldl read_line ([], []) (split_char NL content)))"

definition access :: "kong_service \<Rightarrow> string \<times> string list \<times> string list" where
  "access k = (ks_url k, ks_paths k, filter (\<lambda>p. p \<in> set [''key-auth'', ''acl'', ''basic-auth'']) (ks_plugins k))"

lemma kong_lines_clean:
  "\<forall>l \<in> set (kong_credentials @ kong_open_routes @ kong_api_routes). NL \<notin> set l"
  "\<forall>l \<in> set (kong_plain_routes @ kong_dashboard_routes). NL \<notin> set l"
  "NL \<notin> set host \<Longrightarrow> \<forall>l \<in> set (kong_realtime_routes host). NL \<notin> set l"
  by (simp_all add: kong_credentials_def kong_open_routes_def kong_api_routes_def kong_plain_routes_def
      kong_dashboard_routes_def kong_realtime_routes_def squote_def)

definition realtime_host :: "DeployConfig \<Rightarrow> string" where
  "realtime_host config = ''realtime-dev.'' @ dc_Subdomain config @ ''-realtime''"

text \<open>The lines of the file for any realtime host, read back.\<close>

definition kong_lines :: "string \<Rightarrow> string list" where
  "kong_lines host = kong_credentials @ kong_open_routes @ kong_api_routes @ kong_realtime_routes host
     @ kong_plain_routes @ kong_dashboard_routes"

lemma read_kong_lines:
  "map access (rev (snd (foldl read_line ([], []) (kong_lines host @ [[]])))) =
    [(''http://auth:9999/verify'', [''/auth/v1/verify''], []),
     (''http://auth:9999/callback'', [''/auth/v1/callback''], []),
     (''http://auth:9999/authorize'', [''/auth/v1/authorize''], []),
     (''http://auth:9999/health'', [''/auth/v1/health''], []),
     (''http://auth:9999/'', [''/auth/v1/''], [''key-auth'', ''acl'']),
     (''http://rest:3000/'', [''/rest/v1/''], [''key-auth'', ''acl'']),
     (''http://rest:3000/rpc/graphql'', [''/graphql/v1''], [''key-auth'', ''acl'']),
     (''http://'' @ host @ '':4000/socket'', [''/realtime/v1/''], [''key-auth'', ''acl'']),
     (''http://'' @ host @ '':4000/api'', [''/realtime/v1/api/''], [''key-auth'', ''acl'']),
     (''http://functions:9000/'', [''/functions/v1/''], []),
     (''http://storage:5000/'', [''/storage/v1/''], []),
     (''http://meta:8080/'', [''/pg/''], [''key-auth'', ''acl'']),
     (''http://studio:3000/'', [''/''], [''basic-auth''])]"
  by code_simp

section \<open>Property\<close>

text \<open>
  C29: Of the routes the agent generates when the backend sends none, exactly six need no credentials:
  four entry points of the authentication service, the functions and the storage. Every other one,
  among them the database and the studio, asks for a key with an access list or for the password of
  the dashboard, whatever the configuration.
\<close>

theorem kong_routes_protected:
  assumes "NL \<notin> set (dc_Subdomain config)"
  shows "map access (kong_services (generateKongConfig config)) =
    [(''http://auth:9999/verify'', [''/auth/v1/verify''], []),
     (''http://auth:9999/callback'', [''/auth/v1/callback''], []),
     (''http://auth:9999/authorize'', [''/auth/v1/authorize''], []),
     (''http://auth:9999/health'', [''/auth/v1/health''], []),
     (''http://auth:9999/'', [''/auth/v1/''], [''key-auth'', ''acl'']),
     (''http://rest:3000/'', [''/rest/v1/''], [''key-auth'', ''acl'']),
     (''http://rest:3000/rpc/graphql'', [''/graphql/v1''], [''key-auth'', ''acl'']),
     (''http://realtime-dev.'' @ dc_Subdomain config @ ''-realtime:4000/socket'', [''/realtime/v1/''], [''key-auth'', ''acl'']),
     (''http://realtime-dev.'' @ dc_Subdomain config @ ''-realtime:4000/api'', [''/realtime/v1/api/''], [''key-auth'', ''acl'']),
     (''http://functions:9000/'', [''/functions/v1/''], []),
     (''http://storage:5000/'', [''/storage/v1/''], []),
     (''http://meta:8080/'', [''/pg/''], [''key-auth'', ''acl'']),
     (''http://studio:3000/'', [''/''], [''basic-auth''])]"
proof -
  have "NL \<notin> set (realtime_host config)" using assms by (simp add: realtime_host_def)
  then have "\<forall>l \<in> set (kong_lines (realtime_host config)). NL \<notin> set l"
    using kong_lines_clean unfolding kong_lines_def by (metis Un_iff set_append)
  then have "split_char NL (generateKongConfig config) = kong_lines (realtime_host config) @ [[]]"
    by (simp only: generateKongConfig_def split_unlines kong_lines_def realtime_host_def)
  then show ?thesis
    by (simp only: kong_services_def read_kong_lines) (simp add: realtime_host_def)
qed

definition demo_deploy :: DeployConfig where
  "demo_deploy = \<lparr>dc_InstanceID = [], dc_Subdomain = ''x'', dc_Domain = [], dc_StudioDomain = [],
     dc_BaseDir = [], dc_EnableTLS = True, dc_VMUser = [], dc_KongPort = 8000, dc_PostgresPort = 5432, dc_StudioPort = 3000,
     dc_PostgresPassword = [], dc_JWTSecret = [], dc_PublishableKey = [], dc_SecretKey = [], dc_PgsodiumKey = [],
     dc_DashboardUsername = [], dc_DashboardPassword = [], dc_IsFirstInstance = False, dc_CertPEM = [], dc_KeyPEM = [],
     dc_PostgresImage = [], dc_ComposeContent = ''services:'', dc_EnvContent = ''A=1'', dc_KongContent = [], dc_Services = [],
     dc_PostgresContainer = [], dc_InitSQLFiles = [], dc_VolumeConfigFiles = [], dc_SupabaseExtras = [],
     dc_Environment = []\<rparr>"

text \<open>
  The pattern for a header of white space in the storage route reaches the gateway with two percent
  signs, which match a percent sign and no white space.
\<close>

theorem kong_routes_protected_witness:
  "''              if auth == nil or auth == \"\" or auth:find(\"^%%s*$\") then'' \<in> set kong_plain_routes
     \<and> length (kong_services (generateKongConfig demo_deploy)) = 13"
  using kong_routes_protected [of demo_deploy, THEN arg_cong [where f = length]]
  by (simp add: kong_plain_routes_def demo_deploy_def [THEN arg_cong [where f = dc_Subdomain]])

end
