(* ===== verification/Files.thy ===== *)
theory Files
  imports Paths ConfigTexts
begin

text \<open>
  \<^verbatim>\<open>internal/files/files.go\<close>: the directories of an instance and the files a deployment puts there.
  The order in which Go ranges over the maps of files is the parameter \<open>order\<close>. A name of such a map
  comes from the backend: the theorems show that it cannot lead out of the directory of the
  instance.
\<close>

section \<open>The manager\<close>

record Manager =
  fm_baseDir :: string
  fm_instanceID :: string
  fm_username :: string

definition DefaultFileMode :: nat where "DefaultFileMode = 420"

definition files_New :: "string \<Rightarrow> string \<Rightarrow> string \<Rightarrow> Manager" where
  "files_New instanceID baseDir username =
     \<lparr>fm_baseDir = baseDir, fm_instanceID = instanceID, fm_username = username\<rparr>"

definition files_InstanceDir :: "Manager \<Rightarrow> string" where
  "files_InstanceDir m = path_join [fm_baseDir m, fm_instanceID m]"

abbreviation in_dir :: "Manager \<Rightarrow> string list \<Rightarrow> string" where
  "in_dir m cs \<equiv> path_join (files_InstanceDir m # cs)"

definition dirExists :: "'x host \<Rightarrow> string \<Rightarrow> ('x, bool) io" where
  "dirExists h path = do {
     r \<leftarrow> os_stat h path;
     ret (case r of Inl e \<Rightarrow> False | Inr n \<Rightarrow> n = Dir)
   }"

definition FileExists :: "'x host \<Rightarrow> string \<Rightarrow> ('x, bool) io" where
  "FileExists h path = do {
     r \<leftarrow> os_stat h path;
     ret (case r of Inl e \<Rightarrow> False | Inr n \<Rightarrow> n \<noteq> Dir)
   }"

definition writeFile :: "'x host \<Rightarrow> string \<Rightarrow> string \<Rightarrow> nat \<Rightarrow> ('x, error option) io" where
  "writeFile h path content mode = do {
     let dir = path_dir path;
     there \<leftarrow> dirExists h dir;
     check_then (''failed to create parent directory '' @ dir @ '': '')
       (if there then ret None else os_err (os_mkdir_all h dir))
       (check_then (''failed to write file '' @ path @ '': '') (os_err (os_write h path content mode)) (ret None))
   }"

section \<open>Directories and ownership\<close>

text \<open>The user and group of \<^verbatim>\<open>postgres\<close> in the output of \<^verbatim>\<open>id\<close>, as \<^verbatim>\<open>uid=(\d+).*gid=(\d+)\<close> finds them:
  the first \<^verbatim>\<open>uid=\<close> that is followed by a \<^verbatim>\<open>gid=\<close> on its line, and the last such \<^verbatim>\<open>gid=\<close>.\<close>

fun last_gid :: "string \<Rightarrow> string option" where
  "last_gid [] = None"
| "last_gid (c # cs) =
     (case last_gid cs of
        Some g \<Rightarrow> Some g
      | None \<Rightarrow> let g = takeWhile is_digit (drop 4 (c # cs)) in
          if has_prefix (c # cs) ''gid='' \<and> g \<noteq> [] then Some g else None)"

fun find_ids :: "string \<Rightarrow> (string \<times> string) option" where
  "find_ids [] = None"
| "find_ids (c # cs) =
     (let u = takeWhile is_digit (drop 4 (c # cs));
          rest = takeWhile (\<lambda>x. x \<noteq> NL) (drop (4 + length u) (c # cs)) in
      if has_prefix (c # cs) ''uid='' \<and> u \<noteq> [] \<and> last_gid rest \<noteq> None
      then map_option (\<lambda>g. (u, g)) (last_gid rest) else find_ids cs)"

definition GetPostgresUIDGID :: "'x host \<Rightarrow> string \<Rightarrow> ('x, error + string) io" where
  "GetPostgresUIDGID h img =
     (if trim_space img = [] then ret (Inl ''postgres image is empty'')
      else do {
        r \<leftarrow> exec_cmd h [''sudo'', ''docker'', ''run'', ''--rm'', ''--entrypoint'', ''id'', img, ''postgres''];
        ret (case cr_status r of
            Some e \<Rightarrow> Inl (''failed to inspect postgres uid in image '' @ img @ '': '' @ e
              @ '' (output: '' @ trim_space (cr_all r) @ '')'')
          | None \<Rightarrow> (case find_ids (cr_all r) of
                None \<Rightarrow> Inl (''could not parse uid/gid from `id` output: '' @ trim_space (cr_all r))
              | Some (u, g) \<Rightarrow> Inr (u @ '':'' @ g)))
      })"

definition chown_to_postgres ::
  "'x host \<Rightarrow> string \<Rightarrow> string \<Rightarrow> string \<Rightarrow> (string \<Rightarrow> string) \<Rightarrow> ('x, error option) io" where
  "chown_to_postgres h img dir detect failed = do {
     r \<leftarrow> GetPostgresUIDGID h img;
     case r of
       Inl e \<Rightarrow> ret (Some (detect @ e))
     | Inr ids \<Rightarrow> check_then (failed ids) (run_status h [''sudo'', ''chown'', ''-R'', ids, dir]) (ret None)
   }"

definition SetOwnership :: "'x host \<Rightarrow> Manager \<Rightarrow> string \<Rightarrow> ('x, error option) io" where
  "SetOwnership h m img =
     (if fm_username m = [] \<or> fm_username m = ''root'' then ret None
      else
        let instanceDir = files_InstanceDir m; dbDataDir = path_join [instanceDir, ''volumes'', ''db'', ''data''] in
        check_then (''failed to set ownership on '' @ instanceDir @ '': '')
          (run_status h [''sudo'', ''chown'', ''-R'', fm_username m @ '':'' @ fm_username m, instanceDir])
          (do {
             there \<leftarrow> dirExists h dbDataDir;
             if there \<and> img \<noteq> [] then
               chown_to_postgres h img dbDataDir (''failed to detect postgres uid/gid for '' @ dbDataDir @ '': '')
                 (\<lambda>ids. ''failed to restore postgres ownership on '' @ dbDataDir @ '': '')
             else ret None
           }))"

fun make_dirs :: "'x host \<Rightarrow> string list \<Rightarrow> ('x, error option) io \<Rightarrow> ('x, error option) io" where
  "make_dirs h [] k = k"
| "make_dirs h (dir # dirs) k = do {
     there \<leftarrow> dirExists h dir;
     if there then make_dirs h dirs k
     else check_then (''failed to create directory '' @ dir @ '': '') (run_status h [''sudo'', ''mkdir'', ''-p'', dir])
       (make_dirs h dirs k)
   }"

definition instance_dirs :: "string \<Rightarrow> string list" where
  "instance_dirs instanceDir = instanceDir # map (\<lambda>cs. path_join (instanceDir # cs))
     [[''volumes''], [''volumes'', ''db''], [''volumes'', ''db'', ''data''], [''volumes'', ''db'', ''init''],
      [''volumes'', ''storage''], [''volumes'', ''api''], [''volumes'', ''snippets''], [''volumes'', ''logs''],
      [''volumes'', ''pooler''], [''volumes'', ''functions'']]"

definition CreateDirectoryStructure :: "'x host \<Rightarrow> Manager \<Rightarrow> ('x, error option) io" where
  "CreateDirectoryStructure h m = make_dirs h (instance_dirs (files_InstanceDir m))
     (check_then ''failed to set ownership: '' (SetOwnership h m []) (ret None))"

section \<open>Configuration files\<close>

definition WriteDockerCompose :: "'x host \<Rightarrow> Manager \<Rightarrow> DeployConfig \<Rightarrow> ('x, error option) io" where
  "WriteDockerCompose h m config =
     (if dc_ComposeContent config = []
      then ret (Some ''compose_content is required (backend must render the docker-compose.yml)'')
      else check_then ''failed to write docker-compose.yml: ''
        (writeFile h (in_dir m [''docker-compose.yml'']) (dc_ComposeContent config) DefaultFileMode) (ret None))"

definition WriteEnvFile :: "'x host \<Rightarrow> Manager \<Rightarrow> DeployConfig \<Rightarrow> ('x, error option) io" where
  "WriteEnvFile h m config =
     (if dc_EnvContent config = []
      then ret (Some ''env_content is required (backend must render the .env file)'')
      else check_then ''failed to write .env: ''
        (writeFile h (in_dir m [''.env'']) (dc_EnvContent config) DefaultFileMode) (ret None))"

definition kong_content :: "DeployConfig \<Rightarrow> string" where
  "kong_content config = (if dc_KongContent config \<noteq> [] then dc_KongContent config else generateKongConfig config)"

definition WriteKongConfig :: "'x host \<Rightarrow> Manager \<Rightarrow> DeployConfig \<Rightarrow> ('x, error option) io" where
  "WriteKongConfig h m config =
     check_then ''failed to write kong.yml: ''
       (writeFile h (in_dir m [''volumes'', ''api'', ''kong.yml'']) (kong_content config) DefaultFileMode)
     (check_then ''failed to write kong-entrypoint.sh: ''
       (writeFile h (in_dir m [''volumes'', ''api'', ''kong-entrypoint.sh'']) generateKongEntrypoint 493) (ret None))"

definition WritePgHbaConfig :: "'x host \<Rightarrow> Manager \<Rightarrow> ('x, error option) io" where
  "WritePgHbaConfig h m = check_then ''failed to write pg_hba.conf: ''
     (writeFile h (in_dir m [''volumes'', ''db'', ''pg_hba.conf'']) generatePgHbaConfig DefaultFileMode) (ret None)"

definition WriteInitSQL :: "'x host \<Rightarrow> Manager \<Rightarrow> ('x, error option) io" where
  "WriteInitSQL h m = check_then ''failed to write roles.sql: ''
     (writeFile h (in_dir m [''volumes'', ''db'', ''init'', ''roles.sh'']) generateInitSQL DefaultFileMode) (ret None)"

definition bad_init_name :: "string \<Rightarrow> bool" where
  "bad_init_name name \<longleftrightarrow> str_contains name ''/'' \<or> str_contains name ''..''"

fun write_init_files :: "'x host \<Rightarrow> string \<Rightarrow> (string \<times> string) list \<Rightarrow> ('x, error option) io" where
  "write_init_files h dbDir [] = ret None"
| "write_init_files h dbDir ((name, content) # rest) =
     (if bad_init_name name
      then ret (Some (''invalid init file name '' @ go_quoted name @ '': must not contain path separators''))
      else let path = path_join [dbDir, name] in do {
        stale \<leftarrow> dirExists h path;
        check_then (''failed to remove stale directory at '' @ path @ '': '')
          (if stale then run_status h [''sudo'', ''rm'', ''-rf'', path] else ret None)
        (check_then (''failed to write init file '' @ name @ '': '') (writeFile h path content DefaultFileMode)
          (write_init_files h dbDir rest))
      })"

definition WriteInitSQLFiles ::
  "'x host \<Rightarrow> ((string \<times> string) list \<Rightarrow> (string \<times> string) list) \<Rightarrow> Manager \<Rightarrow> (string \<times> string) list
     \<Rightarrow> ('x, error option) io" where
  "WriteInitSQLFiles h order m initFiles =
     (if initFiles = [] then ret None
      else write_init_files h (in_dir m [''volumes'', ''db'']) (order initFiles))"

definition bad_volume_path :: "string \<Rightarrow> bool" where
  "bad_volume_path relPath \<longleftrightarrow> \<not> has_prefix relPath ''volumes/'' \<or> str_contains relPath ''..''"

fun write_volume_files :: "'x host \<Rightarrow> string \<Rightarrow> (string \<times> string) list \<Rightarrow> ('x, error option) io" where
  "write_volume_files h instanceDir [] = ret None"
| "write_volume_files h instanceDir ((relPath, content) # rest) =
     (if bad_volume_path relPath
      then ret (Some (''invalid volume config path '' @ go_quoted relPath @ '': must start with ''
        @ squote # ''volumes/'' @ squote # '' and not contain '' @ squote # ''..'' @ [squote]))
      else check_then (''failed to write volume config '' @ relPath @ '': '')
        (writeFile h (path_join [instanceDir, relPath]) content DefaultFileMode)
        (write_volume_files h instanceDir rest))"

definition WriteVolumeConfigFiles ::
  "'x host \<Rightarrow> ((string \<times> string) list \<Rightarrow> (string \<times> string) list) \<Rightarrow> Manager \<Rightarrow> (string \<times> string) list
     \<Rightarrow> ('x, error option) io" where
  "WriteVolumeConfigFiles h order m configFiles =
     (if configFiles = [] then ret None else write_volume_files h (files_InstanceDir m) (order configFiles))"

definition WritePostgresSSLCerts :: "'x host \<Rightarrow> Manager \<Rightarrow> string \<Rightarrow> string \<Rightarrow> string \<Rightarrow> ('x, error option) io" where
  "WritePostgresSSLCerts h m certPEM keyPEM img = (
     let certDir = in_dir m [''volumes'', ''db'', ''certs''] in
     check_then ''failed to create certs directory: '' (run_status h [''sudo'', ''mkdir'', ''-p'', certDir])
     (check_then ''failed to write server.crt: '' (writeFile h (path_join [certDir, ''server.crt'']) certPEM 420)
     (check_then ''failed to write server.key: '' (writeFile h (path_join [certDir, ''server.key'']) keyPEM 384)
     (chown_to_postgres h img certDir ''failed to detect postgres uid/gid: ''
       (\<lambda>ids. ''failed to set cert ownership to '' @ ids @ '': '')))))"

definition WriteAllConfigFiles ::
  "'x host \<Rightarrow> ((string \<times> string) list \<Rightarrow> (string \<times> string) list) \<Rightarrow> Manager \<Rightarrow> DeployConfig \<Rightarrow> ('x, error option) io" where
  "WriteAllConfigFiles h order m config =
     check_then [] (WriteDockerCompose h m config)
     (check_then [] (WriteEnvFile h m config)
     (check_then [] (WriteKongConfig h m config)
     (check_then [] (WritePgHbaConfig h m)
     (check_then []
       (if dc_InitSQLFiles config \<noteq> [] then WriteInitSQLFiles h order m (dc_InitSQLFiles config) else WriteInitSQL h m)
     (check_then [] (WriteVolumeConfigFiles h order m (dc_VolumeConfigFiles config))
     (if dc_CertPEM config \<noteq> [] \<and> dc_KeyPEM config \<noteq> []
      then check_then [] (WritePostgresSSLCerts h m (dc_CertPEM config) (dc_KeyPEM config) (dc_PostgresImage config)) (ret None)
      else ret None))))))"

fun all_exist :: "'x host \<Rightarrow> string list \<Rightarrow> ('x, error option) io" where
  "all_exist h [] = ret None"
| "all_exist h (p # ps) = do {
     there \<leftarrow> FileExists h p;
     if \<not> there then ret (Some (''required file missing: '' @ p)) else all_exist h ps
   }"

definition files_Validate :: "'x host \<Rightarrow> Manager \<Rightarrow> ('x, error option) io" where
  "files_Validate h m =
     all_exist h [in_dir m [''docker-compose.yml''], in_dir m [''.env''], in_dir m [''volumes'', ''api'', ''kong.yml'']]"

definition files_Clean :: "'x host \<Rightarrow> Manager \<Rightarrow> ('x, error option) io" where
  "files_Clean h m = do {
     let instanceDir = files_InstanceDir m;
     there \<leftarrow> dirExists h instanceDir;
     if \<not> there then ret None
     else check_then ''failed to remove instance directory: '' (run_status h [''sudo'', ''rm'', ''-rf'', instanceDir]) (ret None)
   }"


section \<open>Where the configuration goes\<close>

text \<open>What lies in the directory with the components \<open>ds\<close>, or is that directory.\<close>

definition below :: "string list \<Rightarrow> string \<Rightarrow> bool" where
  "below ds p \<longleftrightarrow> (\<exists>cs. p = abs_path (ds @ cs) \<and> (\<forall>c \<in> set cs. plain c))"

text \<open>
  The effects the writing of the configuration may have: files and directories of the instance, the
  removal of something in its database directory, the directory of the certificates, and asking the
  image for its user.
\<close>

fun confined :: "string list \<Rightarrow> event \<Rightarrow> bool" where
  "confined ds (EvWrite p c mode) \<longleftrightarrow> below ds p"
| "confined ds (EvMkdir p) \<longleftrightarrow> below ds p"
| "confined ds (EvExec dir argv) \<longleftrightarrow>
     (\<exists>p. argv = [''sudo'', ''rm'', ''-rf'', p] \<and> below (ds @ [''volumes'', ''db'']) p)
     \<or> argv = [''sudo'', ''mkdir'', ''-p'', abs_path (ds @ [''volumes'', ''db'', ''certs''])]
     \<or> (\<exists>ids. argv = [''sudo'', ''chown'', ''-R'', ids, abs_path (ds @ [''volumes'', ''db'', ''certs''])])
     \<or> (\<exists>img. argv = [''sudo'', ''docker'', ''run'', ''--rm'', ''--entrypoint'', ''id'', img, ''postgres''])"
| "confined ds e \<longleftrightarrow> False"

lemma emits_dirExists [emits_intros]: "emits P (dirExists h p)"
  unfolding dirExists_def by (intro emits_intros)

lemma belowI: "\<forall>c \<in> set cs. plain c \<Longrightarrow> below ds (abs_path (ds @ cs))"
  by (auto simp: below_def)

lemma below_weaken: "below (ds @ es) p \<Longrightarrow> \<forall>c \<in> set es. plain c \<Longrightarrow> below ds p"
  by (auto simp: below_def) (metis Un_iff set_append)

lemma confined_writeFile:
  assumes "\<forall>c \<in> set (ds @ cs). plain c" and "cs \<noteq> []"
  shows "emits (confined ds) (writeFile h (abs_path (ds @ cs)) content mode)"
proof -
  obtain es e where cs: "cs = es @ [e]" using assms(2) by (cases cs rule: rev_cases) auto
  then have "path_dir (abs_path (ds @ cs)) = abs_path (ds @ es)"
    using path_dir_abs [of "ds @ es" e] assms(1) by simp
  then show ?thesis
    unfolding writeFile_def Let_def using assms(1) cs
    by (auto intro!: emits_intros belowI)
qed

lemma confined_chown:
  "emits (confined ds) (chown_to_postgres h img (abs_path (ds @ [''volumes'', ''db'', ''certs''])) a b)"
  unfolding chown_to_postgres_def GetPostgresUIDGID_def by (auto intro!: emits_intros split: sum.splits)

lemma plain_names [simp]:
  "plain ''volumes''" "plain ''db''" "plain ''certs''" "plain ''api''" "plain ''init''" "plain ''docker-compose.yml''"
  "plain ''.env''" "plain ''kong.yml''" "plain ''kong-entrypoint.sh''" "plain ''pg_hba.conf''" "plain ''roles.sh''"
  "plain ''server.crt''" "plain ''server.key''"
  by (simp_all add: plain_def)

lemma in_dir_plain:
  assumes "\<forall>c \<in> set (ds @ cs). plain c"
  shows "path_join (abs_path ds # cs) = abs_path (ds @ cs)"
proof -
  have "concat (map parts cs) = cs" using assms by (induction cs) (auto simp: parts_plain)
  with path_join_parts [of ds cs] assms show ?thesis by (auto simp: climbs_plain)
qed

lemma good_init_name:
  assumes "\<not> bad_init_name name" and "\<forall>c \<in> set ds. plain c"
  shows "path_join [abs_path ds, name] = abs_path (ds @ parts name)" and "\<forall>c \<in> set (parts name). plain c"
proof -
  have "\<not> climbs name" using assms(1) no_climb by (auto simp: bad_init_name_def)
  then show "path_join [abs_path ds, name] = abs_path (ds @ parts name)" "\<forall>c \<in> set (parts name). plain c"
    using path_join_parts [of ds "[name]"] plain_parts assms(2) by auto
qed

lemma confined_init_files:
  assumes "\<forall>c \<in> set ds. plain c"
  shows "emits (confined ds) (write_init_files h (abs_path (ds @ [''volumes'', ''db''])) files)"
proof (induction files)
  case (Cons f files)
  obtain name content where f: "f = (name, content)" by (cases f)
  let ?db = "ds @ [''volumes'', ''db'']"
  have db: "\<forall>c \<in> set ?db. plain c" using assms by auto
  show ?case
  proof (cases "bad_init_name name")
    case False
    note name = good_init_name [OF this db]
    have w: "emits (confined ds) (writeFile h (abs_path (?db @ parts name)) content DefaultFileMode)"
      using confined_writeFile [of ds "[''volumes'', ''db''] @ parts name" h content] assms name(2) by auto
    have "below ?db (abs_path (?db @ parts name))" by (rule belowI) (rule name(2))
    with False w Cons.IH name(1) show ?thesis
      by (auto simp: f Let_def intro!: emits_intros)
  qed (simp add: f emits_return)
qed (simp add: emits_return)

lemma confined_volume_files:
  assumes "\<forall>c \<in> set ds. plain c"
  shows "emits (confined ds) (write_volume_files h (abs_path ds) files)"
proof (induction files)
  case (Cons f files)
  obtain rel content where f: "f = (rel, content)" by (cases f)
  show ?case
  proof (cases "bad_volume_path rel")
    case False
    then have c: "\<not> climbs rel" using no_climb by (auto simp: bad_volume_path_def)
    from False obtain r where "rel = ''volumes'' @ slash # r"
      by (auto simp: bad_volume_path_def has_prefix_iff prefix_def)
    then have "parts rel = ''volumes'' # parts r" by (simp only: parts_sep) (simp add: parts_plain)
    then have "emits (confined ds) (writeFile h (abs_path (ds @ parts rel)) content DefaultFileMode)"
      using plain_parts [OF c] assms by (intro confined_writeFile) auto
    with Cons.IH False c path_join_parts [of ds "[rel]"] assms show ?thesis
      by (auto simp: f intro!: emits_intros)
  qed (simp add: f emits_return)
qed (simp add: emits_return)

lemma confined_all_files:
  assumes "files_InstanceDir m = abs_path ds" and "\<forall>c \<in> set ds. plain c"
  shows "emits (confined ds) (WriteAllConfigFiles h order m config)"
proof -
  have dir: "path_join (abs_path ds # cs) = abs_path (ds @ cs)" if "\<forall>c \<in> set cs. plain c" for cs
    using in_dir_plain [of ds cs] assms(2) that by (metis Un_iff set_append)
  have w: "emits (confined ds) (writeFile h (abs_path (ds @ c # cs)) content mode)"
    if "\<forall>c \<in> set (c # cs). plain c" for c cs content mode
    using confined_writeFile [of ds "c # cs" h content mode] assms(2) that by auto
  have certs: "path_join [abs_path (ds @ [''volumes'', ''db'', ''certs'']), e] = abs_path (ds @ [''volumes'', ''db'', ''certs'', e])"
    if "plain e" for e
    using in_dir_plain [of "ds @ [''volumes'', ''db'', ''certs'']" "[e]"] assms(2) that by auto
  show ?thesis
    unfolding WriteAllConfigFiles_def WriteDockerCompose_def WriteEnvFile_def WriteKongConfig_def WritePgHbaConfig_def
      WriteInitSQL_def WriteInitSQLFiles_def WriteVolumeConfigFiles_def WritePostgresSSLCerts_def Let_def
    by (intro emits_intros)
      (auto simp: dir certs assms(1) intro!: w confined_init_files confined_volume_files confined_chown assms(2))
qed


section \<open>What stays in place\<close>

text \<open>\<open>steady p m\<close>: what is at \<open>p\<close>, if anything, stays there.\<close>

definition steady :: "string \<Rightarrow> ('x, 'a) io \<Rightarrow> bool" where
  "steady p m \<longleftrightarrow> (\<forall>s n. lookup_node s p = Some n \<longrightarrow> lookup_node (snd (run_state m s)) p = Some n)"

lemma steadyD: "steady p m \<Longrightarrow> run_state m s = (a, s') \<Longrightarrow> lookup_node s p = Some n \<Longrightarrow> lookup_node s' p = Some n"
  unfolding steady_def by (metis snd_conv)

lemma steady_leaves: "leaves p m \<Longrightarrow> steady p m"
  by (simp add: steady_def leaves_def)

named_theorems steady_intros \<open>programs that leave in place what is at a path\<close>

lemma steady_bind [steady_intros]: "steady p m \<Longrightarrow> (\<And>a. steady p (f a)) \<Longrightarrow> steady p (State_Monad.bind m f)"
  unfolding steady_def by (auto split: prod.splits) (metis snd_conv)

lemma steady_return [steady_intros]: "steady p (ret x)"
  by (simp add: steady_def)

lemma steady_if [steady_intros]: "steady p m \<Longrightarrow> steady p n \<Longrightarrow> steady p (if b then m else n)"
  by simp

lemma steady_sum [steady_intros]:
  "(\<And>y. steady p (g y)) \<Longrightarrow> (\<And>y. steady p (f y)) \<Longrightarrow> steady p (case x of Inl y \<Rightarrow> g y | Inr y \<Rightarrow> f y)"
  by (cases x) auto

lemma steady_check_then [steady_intros]: "steady p m \<Longrightarrow> steady p k \<Longrightarrow> steady p (check_then what m k)"
  unfolding check_then_def by (rule steady_bind) (auto simp: steady_def split: option.split)

lemma steady_run_status [steady_intros]: "commands_keep h p \<Longrightarrow> steady p (run_status h argv)"
  and steady_exec_cmd [steady_intros]: "commands_keep h p \<Longrightarrow> steady p (exec_cmd h argv)"
  by (rule steady_leaves, rule leaves_intros, assumption)+

lemma mk_dirs_steady: "map_of m p = Some n \<Longrightarrow> map_of (mk_dirs ds m) p = Some n"
proof (induction ds arbitrary: m)
  case (Cons d ds)
  then show ?case by (cases "d = p") (simp_all add: update_conv')
qed simp

lemma steady_mkdir_all: "steady p (os_err (os_mkdir_all h q))"
  by (auto simp: steady_def os_err_def os_mkdir_all_def lookup_node_def mk_dirs_steady split: option.splits)

lemma steady_dirExists [steady_intros]: "steady p (dirExists h q)"
  unfolding dirExists_def by (intro steady_leaves leaves_intros)

lemma steady_os_write: "p \<noteq> q \<Longrightarrow> steady p (os_err (os_write h q content mode))"
  by (intro steady_leaves leaves_intros)

lemma steady_writeFile [steady_intros]: "p \<noteq> q \<Longrightarrow> steady p (writeFile h q content mode)"
  unfolding writeFile_def Let_def by (intro steady_intros steady_mkdir_all steady_os_write)

lemma writeFile_ok:
  "run_state (writeFile h p content mode) s = (None, s') \<Longrightarrow> \<exists>mode. lookup_node s' p = Some (File content mode)"
  unfolding writeFile_def Let_def check_then_def os_err_def
  by (auto split: prod.splits option.splits if_splits dest: os_write_ok)

lemma check_then_ok:
  assumes "run_state (check_then what m k) s = (None, s')"
  obtains s1 where "run_state m s = (None, s1)" and "run_state k s1 = (None, s')"
  using assms unfolding check_then_def by (auto split: prod.splits option.splits)

text \<open>Of the two files that start an instance, \<open>c\<close> is the name.\<close>

lemma steady_init_files:
  assumes "\<forall>c \<in> set ds. plain c" and "plain c" and "c \<noteq> ''volumes''" and "commands_keep h (abs_path (ds @ [c]))"
  shows "steady (abs_path (ds @ [c])) (write_init_files h (abs_path (ds @ [''volumes'', ''db''])) files)"
proof (induction files)
  case (Cons f files)
  obtain name content where f: "f = (name, content)" by (cases f)
  have db: "\<forall>c \<in> set (ds @ [''volumes'', ''db'']). plain c" using assms(1) by auto
  show ?case
  proof (cases "bad_init_name name")
    case False
    note name = good_init_name [OF this db]
    have "abs_path (ds @ [c]) \<noteq> abs_path ((ds @ [''volumes'', ''db'']) @ parts name)"
      using abs_path_inj [of "ds @ [c]" "ds @ [''volumes'', ''db''] @ parts name"] assms name(2) by auto
    with Cons.IH False name(1) assms(4) show ?thesis
      by (auto simp: f Let_def intro!: steady_intros)
  qed (simp add: f steady_return)
qed (simp add: steady_return)

lemma steady_volume_files:
  assumes "\<forall>c \<in> set ds. plain c" and "plain c" and "c \<noteq> ''volumes''"
  shows "steady (abs_path (ds @ [c])) (write_volume_files h (abs_path ds) files)"
proof (induction files)
  case (Cons f files)
  obtain rel content where f: "f = (rel, content)" by (cases f)
  show ?case
  proof (cases "bad_volume_path rel")
    case False
    then have climb: "\<not> climbs rel" using no_climb by (auto simp: bad_volume_path_def)
    from False obtain r where "rel = ''volumes'' @ slash # r"
      by (auto simp: bad_volume_path_def has_prefix_iff prefix_def)
    then have "parts rel = ''volumes'' # parts r" by (simp only: parts_sep) (simp add: parts_plain)
    then have "abs_path (ds @ [c]) \<noteq> abs_path (ds @ parts rel)"
      using abs_path_inj [of "ds @ [c]" "ds @ parts rel"] assms plain_parts [OF climb] by auto
    with Cons.IH False climb path_join_parts [of ds "[rel]"] assms show ?thesis
      by (auto simp: f intro!: steady_intros)
  qed (simp add: f steady_return)
qed (simp add: steady_return)

lemma steady_chown [steady_intros]: "commands_keep h p \<Longrightarrow> steady p (chown_to_postgres h img dir a b)"
  unfolding chown_to_postgres_def GetPostgresUIDGID_def by (intro steady_intros)

lemma steady_config:
  assumes "files_InstanceDir m = abs_path ds" and "\<forall>c \<in> set ds. plain c"
    and "plain c" and "c \<noteq> ''volumes''" and "commands_keep h (abs_path (ds @ [c]))"
  shows "c \<noteq> ''.env'' \<Longrightarrow> steady (abs_path (ds @ [c])) (WriteEnvFile h m config)"
    and "steady (abs_path (ds @ [c])) (WriteKongConfig h m config)"
    and "steady (abs_path (ds @ [c])) (WritePgHbaConfig h m)"
    and "steady (abs_path (ds @ [c])) (WriteInitSQL h m)"
    and "steady (abs_path (ds @ [c])) (WriteInitSQLFiles h order m fi)"
    and "steady (abs_path (ds @ [c])) (WriteVolumeConfigFiles h order m vo)"
    and "steady (abs_path (ds @ [c])) (WritePostgresSSLCerts h m cert key img)"
proof -
  have dir: "path_join (abs_path ds # cs) = abs_path (ds @ cs)" if "\<forall>c \<in> set cs. plain c" for cs
    using in_dir_plain [of ds cs] assms(2) that by (metis Un_iff set_append)
  have other: "abs_path (ds @ [c]) \<noteq> abs_path (ds @ cs)" if "\<forall>c \<in> set cs. plain c" "cs \<noteq> [c]" for cs
    using abs_path_inj [of "ds @ [c]" "ds @ cs"] assms(2,3) that by auto
  have certs: "path_join [abs_path (ds @ [''volumes'', ''db'', ''certs'']), e] = abs_path (ds @ [''volumes'', ''db'', ''certs'', e])"
    if "plain e" for e
    using in_dir_plain [of "ds @ [''volumes'', ''db'', ''certs'']" "[e]"] assms(2) that by auto
  have stay: "steady p (ret (x :: error option))" for p x by (simp add: steady_return)
  show "c \<noteq> ''.env'' \<Longrightarrow> steady (abs_path (ds @ [c])) (WriteEnvFile h m config)"
    unfolding WriteEnvFile_def assms(1) by (auto simp: dir other intro!: steady_intros)
  show "steady (abs_path (ds @ [c])) (WriteKongConfig h m config)" "steady (abs_path (ds @ [c])) (WritePgHbaConfig h m)"
    "steady (abs_path (ds @ [c])) (WriteInitSQL h m)"
    unfolding WriteKongConfig_def WritePgHbaConfig_def WriteInitSQL_def assms(1)
    by (auto simp: dir other intro!: steady_intros)
  show "steady (abs_path (ds @ [c])) (WriteInitSQLFiles h order m fi)"
    "steady (abs_path (ds @ [c])) (WriteVolumeConfigFiles h order m vo)"
    unfolding WriteInitSQLFiles_def WriteVolumeConfigFiles_def assms(1)
    using steady_init_files [OF assms(2-5)] steady_volume_files [OF assms(2-4)] by (auto simp: dir steady_return)
  show "steady (abs_path (ds @ [c])) (WritePostgresSSLCerts h m cert key img)"
    unfolding WritePostgresSSLCerts_def Let_def assms(1)
    by (auto simp: dir certs other intro!: steady_intros assms(5))
qed


section \<open>Properties\<close>

lemma instance_dir_clean:
  assumes "is_rooted (fm_baseDir m)"
  obtains ds where "files_InstanceDir m = abs_path ds" and "\<forall>c \<in> set ds. plain c"
proof -
  have "fm_baseDir m \<noteq> []" using assms by (auto simp: is_rooted_def)
  then have "files_InstanceDir m = path_clean (join [slash] (fm_baseDir m # filter (\<lambda>e. e \<noteq> []) [fm_instanceID m]))"
    by (simp add: files_InstanceDir_def path_join_def)
  moreover have "is_rooted (join [slash] (fm_baseDir m # xs))" for xs
    using assms by (cases xs) (auto simp: is_rooted_def has_prefix_iff prefix_def)
  ultimately show ?thesis using path_clean_rooted that by metis
qed

text \<open>
  C30: Whatever names and contents the backend sends, writing the configuration stays in the directory
  of the instance: every file and directory it writes is there, the only thing it ever removes is an
  entry of \<^verbatim>\<open>volumes/db\<close>, and beyond that it only prepares the directory of the certificates. The entry
  may be \<^verbatim>\<open>volumes/db\<close> itself: the name \<^verbatim>\<open>.\<close> passes the check, and the data of the instance is removed.
\<close>

theorem config_files_confined:
  assumes "is_rooted (fm_baseDir m)"
  shows "\<exists>ds es. files_InstanceDir m = abs_path ds \<and> list_all plain ds
    \<and> trace (snd (run_state (WriteAllConfigFiles h order m config) s)) = trace s @ es \<and> list_all (confined ds) es"
proof -
  obtain ds where ds: "files_InstanceDir m = abs_path ds" "\<forall>c \<in> set ds. plain c" using instance_dir_clean [OF assms] .
  then show ?thesis
    using emitsD [OF confined_all_files [OF ds] prod.collapse [symmetric]] by (fastforce simp: list_all_iff)
qed

text \<open>
  C31: After the configuration was written without an error, the compose file and the environment of
  the instance are exactly what the backend sent, and neither is empty: no other file of the
  configuration can overwrite them, on a host whose commands leave the two files alone.
\<close>

theorem config_files_in_place:
  assumes "is_rooted (fm_baseDir m)"
    and "run_state (WriteAllConfigFiles h order m config) s = (None, s')"
    and "commands_keep h (in_dir m [''docker-compose.yml''])" and "commands_keep h (in_dir m [''.env''])"
  shows "dc_ComposeContent config \<noteq> [] \<and> dc_EnvContent config \<noteq> []
    \<and> (\<exists>mode. lookup_node s' (in_dir m [''docker-compose.yml'']) = Some (File (dc_ComposeContent config) mode))
    \<and> (\<exists>mode. lookup_node s' (in_dir m [''.env'']) = Some (File (dc_EnvContent config) mode))"
proof -
  obtain ds where ds: "files_InstanceDir m = abs_path ds" "\<forall>c \<in> set ds. plain c" using instance_dir_clean [OF assms(1)] .
  have dir: "in_dir m [c] = abs_path (ds @ [c])" if "plain c" for c
    using in_dir_plain [of ds "[c]"] ds that by auto
  have keep: "commands_keep h (abs_path (ds @ [''docker-compose.yml'']))" "commands_keep h (abs_path (ds @ [''.env'']))"
    using assms(3,4) by (simp_all add: dir)
  note yml = steady_config [OF ds plain_names(6) _ keep(1), simplified] and env = steady_config [OF ds plain_names(7) _ keep(2), simplified]
  define rest where "rest = check_then [] (WriteKongConfig h m config)
     (check_then [] (WritePgHbaConfig h m)
     (check_then []
       (if dc_InitSQLFiles config \<noteq> [] then WriteInitSQLFiles h order m (dc_InitSQLFiles config) else WriteInitSQL h m)
     (check_then [] (WriteVolumeConfigFiles h order m (dc_VolumeConfigFiles config))
     (if dc_CertPEM config \<noteq> [] \<and> dc_KeyPEM config \<noteq> []
      then check_then [] (WritePostgresSSLCerts h m (dc_CertPEM config) (dc_KeyPEM config) (dc_PostgresImage config)) (ret None)
      else ret None))))"
  have rest: "steady (abs_path (ds @ [''docker-compose.yml''])) rest" "steady (abs_path (ds @ [''.env''])) rest"
    unfolding rest_def by (intro steady_intros yml env)+
  obtain s1 s2 where 1: "run_state (WriteDockerCompose h m config) s = (None, s1)"
    and 2: "run_state (WriteEnvFile h m config) s1 = (None, s2)" and 3: "run_state rest s2 = (None, s')"
    using assms(2) unfolding WriteAllConfigFiles_def rest_def [symmetric] by (elim check_then_ok) blast
  have c: "dc_ComposeContent config \<noteq> []" "\<exists>mode. lookup_node s1 (abs_path (ds @ [''docker-compose.yml'']))
      = Some (File (dc_ComposeContent config) mode)"
    using 1 by (auto simp: WriteDockerCompose_def dir dest: writeFile_ok elim!: check_then_ok split: if_splits)
  have e: "dc_EnvContent config \<noteq> []" "\<exists>mode. lookup_node s2 (abs_path (ds @ [''.env''])) = Some (File (dc_EnvContent config) mode)"
    using 2 by (auto simp: WriteEnvFile_def dir dest: writeFile_ok elim!: check_then_ok split: if_splits)
  from c e show ?thesis
    using steadyD [OF yml(1) 2] steadyD [OF rest(1) 3] steadyD [OF rest(2) 3] by (fastforce simp: dir)
qed


section \<open>Examples\<close>

definition demo_manager :: Manager where
  "demo_manager = files_New ''x'' ''/opt/supabase'' ''root''"

definition demo_files :: DeployConfig where
  "demo_files = demo_deploy\<lparr>dc_KongContent := ''k'', dc_InitSQLFiles := [(''.'', ''select 1'')]\<rparr>"

definition demo_files_sys :: "unit sys" where
  "demo_files_sys = start_sys [(''/opt/supabase/x/volumes/db'', Dir), (''/opt/supabase/x/volumes/db/data/PG_VERSION'', File ''15'' 384)] ()"

definition idle :: "unit host" where
  "idle = command_host (\<lambda>argv s. (ok_res [], s))"

lemma dot_removes:
  "list_ex (\<lambda>e. e = EvExec [] [''sudo'', ''rm'', ''-rf'', ''/opt/supabase/x/volumes/db''])
     (trace (snd (run_state (WriteAllConfigFiles idle (\<lambda>m. m) demo_manager demo_files) demo_files_sys)))"
  by code_simp

theorem config_files_confined_witness:
  "\<exists>ds es. files_InstanceDir demo_manager = abs_path ds
     \<and> trace (snd (run_state (WriteAllConfigFiles idle (\<lambda>m. m) demo_manager demo_files) demo_files_sys)) = es
     \<and> list_all (confined ds) es
     \<and> EvExec [] [''sudo'', ''rm'', ''-rf'', ''/opt/supabase/x/volumes/db''] \<in> set es"
proof -
  have "is_rooted (fm_baseDir demo_manager)" by (simp add: demo_manager_def files_New_def is_rooted_def)
  from config_files_confined [OF this, where h = idle and order = "\<lambda>m. m" and config = demo_files and s = demo_files_sys]
  show ?thesis using dot_removes by (auto simp: demo_files_sys_def start_sys_def list_ex_iff)
qed

definition demo_plain_files :: DeployConfig where
  "demo_plain_files = demo_files\<lparr>dc_InitSQLFiles := []\<rparr>"

theorem config_files_in_place_witness:
  "\<exists>mode. lookup_node (snd (run_state (WriteAllConfigFiles idle (\<lambda>m. m) demo_manager demo_plain_files) (start_sys [] ())))
     ''/opt/supabase/x/docker-compose.yml'' = Some (File ''services:'' mode)"
proof -
  have 1: "is_rooted (fm_baseDir demo_manager)" by (simp add: demo_manager_def files_New_def is_rooted_def)
  have "fst (run_state (WriteAllConfigFiles idle (\<lambda>m. m) demo_manager demo_plain_files) (start_sys [] ())) = None"
    by code_simp
  then have 2: "run_state (WriteAllConfigFiles idle (\<lambda>m. m) demo_manager demo_plain_files) (start_sys [] ())
      = (None, snd (run_state (WriteAllConfigFiles idle (\<lambda>m. m) demo_manager demo_plain_files) (start_sys [] ())))"
    by (metis prod.collapse)
  have 3: "commands_keep idle p" for p by (simp add: commands_keep_def idle_def)
  have "in_dir demo_manager [''docker-compose.yml''] = ''/opt/supabase/x/docker-compose.yml''" by code_simp
  moreover have "dc_ComposeContent demo_plain_files = ''services:''"
    by (simp add: demo_plain_files_def demo_files_def demo_deploy_def)
  ultimately show ?thesis using config_files_in_place [OF 1 2 3 3] by (simp only:)
qed

end
