(* ===== verification/Deploy.thy ===== *)
theory Deploy
  imports Docker Files Compose Nginx Health
begin

text \<open>
  \<^verbatim>\<open>internal/deploy/deploy.go\<close>: the six steps of a deployment. The progress lines on standard error are
  left out. The loops that wait for PostgreSQL sleep three seconds a round until their deadline; as in
  \<^verbatim>\<open>Compose\<close>, \<^const>\<open>None\<close> stands for more rounds than the fuel allows, which never happens.
\<close>

section \<open>Starting the containers\<close>

definition postgresService :: "DeployConfig \<Rightarrow> string" where
  "postgresService config = (if dc_PostgresContainer config \<noteq> [] then dc_PostgresContainer config else ''postgres'')"

fun poll :: "('x, bool) io \<Rightarrow> nat \<Rightarrow> nat \<Rightarrow> ('x, bool option) io" where
  "poll probe deadline 0 = ret None"
| "poll probe deadline (Suc fuel) = do {
     t \<leftarrow> time_now;
     if t < deadline then do {
       ok \<leftarrow> probe;
       if ok then ret (Some True)
       else do { _ \<leftarrow> sleep (seconds 3); poll probe deadline fuel }
     } else ret (Some False)
   }"

definition poll_fuel :: "nat \<Rightarrow> nat" where
  "poll_fuel timeout = timeout div seconds 3 + 2"

definition accepts_connections :: "'x host \<Rightarrow> Compose \<Rightarrow> string \<Rightarrow> ('x, bool) io" where
  "accepts_connections h c pgService = do {
     r \<leftarrow> compose_Exec h c pgService [''pg_isready'', ''-U'', ''postgres''];
     ret (case r of Inl e \<Rightarrow> False | Inr out \<Rightarrow> True)
   }"

definition role_query :: string where
  "role_query = ''SELECT 1 FROM pg_roles WHERE rolname='' @ squote # ''authenticator'' @ [squote]"

definition has_roles :: "'x host \<Rightarrow> Compose \<Rightarrow> string \<Rightarrow> ('x, bool) io" where
  "has_roles h c pgService = do {
     r \<leftarrow> compose_Exec h c pgService [''psql'', ''-U'', ''postgres'', ''-d'', ''postgres'', ''-tAc'', role_query];
     ret (case r of Inl e \<Rightarrow> False | Inr out \<Rightarrow> trim_space out = ''1'')
   }"

definition waitForPostgres :: "'x host \<Rightarrow> Compose \<Rightarrow> string \<Rightarrow> nat \<Rightarrow> ('x, error option option) io" where
  "waitForPostgres h c pgService timeout = do {
     start \<leftarrow> time_now;
     let deadline = start + timeout;
     up \<leftarrow> poll (accepts_connections h c pgService) deadline (poll_fuel timeout);
     t \<leftarrow> time_now;
     if up = None then ret None
     else if deadline < t then ret (Some (Some (''postgres not accepting connections within '' @ dur_string timeout)))
     else do {
       roles \<leftarrow> poll (has_roles h c pgService) deadline (poll_fuel timeout);
       ret (map_option (\<lambda>ok. if ok then None else Some (''supabase roles not created within '' @ dur_string timeout)) roles)
     }
   }"

text \<open>A wait that returns, in a sequence of operations.\<close>

definition returned :: "('x, error option option) io \<Rightarrow> ('x, error option) io" where
  "returned m = do { r \<leftarrow> m; ret (case r of None \<Rightarrow> Some ''fuel'' | Some e \<Rightarrow> e) }"

definition alter_user :: "string \<Rightarrow> string \<Rightarrow> string" where
  "alter_user user password = ''ALTER USER '' @ user @ '' WITH PASSWORD '' @ squote # password @ squote # '';''"

definition roles_sql :: "string \<Rightarrow> string" where
  "roles_sql password = unlines
     [[], alter_user ''authenticator'' password, alter_user ''supabase_auth_admin'' password,
      alter_user ''supabase_storage_admin'' password, alter_user ''supabase_admin'' password,
      ''GRANT anon TO authenticator;'', ''GRANT authenticated TO authenticator;'', ''GRANT service_role TO authenticator;'']"

definition compose_of :: "string \<Rightarrow> Compose" where
  "compose_of instanceDir = compose_New (path_base instanceDir) (path_dir instanceDir)"

definition setupDatabaseRoles :: "'x host \<Rightarrow> string \<Rightarrow> string \<Rightarrow> string \<Rightarrow> ('x, error option) io" where
  "setupDatabaseRoles h instanceDir password pgService = do {
     r \<leftarrow> compose_ExecWithEnv h (compose_of instanceDir) pgService
       [''psql'', ''-U'', ''supabase_admin'', ''-d'', ''postgres'', ''-c'', roles_sql password] [(''PGPASSWORD'', password)];
     ret (case r of Inl e \<Rightarrow> Some e | Inr out \<Rightarrow> None)
   }"

definition truncate :: "string \<Rightarrow> nat \<Rightarrow> string" where
  "truncate s maxLen = (if length s \<le> maxLen then s else take maxLen s @ ''...'')"

definition container_states :: "error + ContainerStatus slice \<Rightarrow> ContainerStatus list" where
  "container_states r = (case r of Inl e \<Rightarrow> [] | Inr sts \<Rightarrow> elems sts)"

definition await_containers :: "'x host \<Rightarrow> Compose \<Rightarrow> ('x, error option) io" where
  "await_containers h c = do {
     err \<leftarrow> returned (WaitForContainers h c (seconds 180));
     case err of
       None \<Rightarrow> ret None
     | Some e \<Rightarrow> do {
         r \<leftarrow> GetContainerStatus h c;
         logs \<leftarrow> compose_Logs h c 10;
         let sts = container_states r;
         ret (Some (''containers failed to start ('' @ itoa (int (length sts)) @ '' total): [''
           @ join '', '' (map (\<lambda>st. cs_Name st @ ''='' @ cs_State st) sts) @ '']; logs: ''
           @ truncate (case logs of Inl e \<Rightarrow> [] | Inr l \<Rightarrow> l) 1000))
       }
   }"

definition db_data_dir :: "string \<Rightarrow> string" where
  "db_data_dir instanceDir = path_join [instanceDir, ''volumes'', ''db'', ''data'']"

definition runDockerCompose :: "'x host \<Rightarrow> string \<Rightarrow> string \<Rightarrow> string \<Rightarrow> ('x, error option) io" where
  "runDockerCompose h instanceDir postgresPassword pgService = do {
     let c = compose_of instanceDir;
     _ \<leftarrow> compose_Down h c;
     _ \<leftarrow> os_remove_all h (db_data_dir instanceDir);
     check_then ''docker-compose.yml validation failed: '' (compose_Validate h c)
     (check_then ''docker compose pull failed: '' (compose_Pull h c)
     (check_then (''docker compose up '' @ pgService @ '' failed: '') (compose_UpService h c pgService)
     (check_then ''postgres failed to start: '' (returned (waitForPostgres h c pgService (seconds 300)))
     (check_then ''docker compose up failed: '' (compose_Up h c)
     (check_then ''database role setup failed: '' (setupDatabaseRoles h instanceDir postgresPassword pgService)
     (check_then ''docker compose up (post-role-setup) failed: '' (compose_Up h c)
       (do { _ \<leftarrow> sleep (seconds 10); await_containers h c })))))))
   }"

section \<open>Health and nginx\<close>

definition health_config :: "DeployConfig \<Rightarrow> nat \<Rightarrow> CheckConfig" where
  "health_config config timeout = (
     let k = (DefaultCheckConfig (dc_Subdomain config))\<lparr>ck_Timeout := timeout\<rparr>;
         k = (if 0 < dc_KongPort config then k\<lparr>ck_KongPort := dc_KongPort config\<rparr> else k);
         k = (if 0 < dc_StudioPort config then k\<lparr>ck_StudioPort := dc_StudioPort config\<rparr> else k);
         k = (if dc_Services config \<noteq> [] then k\<lparr>ck_Services := dc_Services config\<rparr> else k) in
     if dc_PostgresContainer config \<noteq> [] then k\<lparr>ck_PostgresContainer := dc_PostgresContainer config\<rparr> else k)"

definition waitForHealthy :: "'x host \<Rightarrow> DeployConfig \<Rightarrow> nat \<Rightarrow> ('x, error option) io" where
  "waitForHealthy h config timeout = do {
     (result, err) \<leftarrow> CheckAll h (Some (health_config config timeout));
     ret (case err of
         None \<Rightarrow> None
       | Some e \<Rightarrow>
           let bad = map (\<lambda>svc. sv_Name svc @ '': '' @ sv_Message svc) (filter (\<lambda>svc. \<not> sv_Healthy svc) (hk_Services result)) in
           Some (if bad \<noteq> [] then ''health checks failed: '' @ join ''; '' bad else e))
   }"

definition or_port :: "int \<Rightarrow> int \<Rightarrow> int" where
  "or_port port d = (if port = 0 then d else port)"

definition fullchain :: "string \<Rightarrow> string" where
  "fullchain domain = ''/etc/letsencrypt/live/'' @ domain @ ''/fullchain.pem''"

definition privkey :: "string \<Rightarrow> string" where
  "privkey domain = ''/etc/letsencrypt/live/'' @ domain @ ''/privkey.pem''"

definition studio_domain :: "DeployConfig \<Rightarrow> string" where
  "studio_domain config = (if dc_StudioDomain config = [] then ''studio-'' @ dc_Domain config else dc_StudioDomain config)"

definition site_config :: "DeployConfig \<Rightarrow> bool \<Rightarrow> string \<Rightarrow> SiteConfig" where
  "site_config config tlsEnabled htpasswdPath = (
     let tls = (\<lambda>p. if tlsEnabled then p else []) in
     \<lparr>sd_Subdomain = dc_Subdomain config, sd_Domain = dc_Domain config, sd_StudioDomain = studio_domain config,
      sd_KongPort = or_port (dc_KongPort config) 8000, sd_StudioPort = or_port (dc_StudioPort config) 3000,
      sd_TLSEnabled = tlsEnabled, sd_CertPath = tls (fullchain (dc_Domain config)), sd_KeyPath = tls (privkey (dc_Domain config)),
      sd_StudioCertPath = tls (fullchain (studio_domain config)), sd_StudioKeyPath = tls (privkey (studio_domain config)),
      sd_StudioHtpasswdPath = htpasswdPath\<rparr>)"

definition login_required :: string where
  "login_required = ''dashboard_username and dashboard_password are required to gate studio basic-auth''"

definition configureNginxSite :: "'x host \<Rightarrow> (string \<Rightarrow> string) \<Rightarrow> DeployConfig \<Rightarrow> bool \<Rightarrow> ('x, error option) io" where
  "configureNginxSite h sha1 config tlsEnabled =
     (if dc_DashboardUsername config = [] \<or> dc_DashboardPassword config = [] then ret (Some login_required)
      else do {
        r \<leftarrow> WriteHtpasswd h sha1 (dc_Subdomain config) (dc_DashboardUsername config) (dc_DashboardPassword config);
        case r of
          Inl e \<Rightarrow> ret (Some (''write studio htpasswd: '' @ e))
        | Inr htpasswdPath \<Rightarrow> CreateSiteConfig h (site_config config tlsEnabled htpasswdPath)
      })"

section \<open>The deployment\<close>

definition write_configuration ::
  "'x host \<Rightarrow> ((string \<times> string) list \<Rightarrow> (string \<times> string) list) \<Rightarrow> DeployConfig \<Rightarrow> ('x, error option) io" where
  "write_configuration h order config = (
     let m = files_New (dc_Subdomain config) (dc_BaseDir config) (dc_VMUser config) in
     check_then ''failed to create directory structure: '' (CreateDirectoryStructure h m)
     (check_then ''failed to write config files: '' (WriteAllConfigFiles h order m config)
     (check_then ''config validation failed: '' (files_Validate h m) (ret None))))"

definition deploy_steps ::
  "'x host \<Rightarrow> (string \<Rightarrow> string) \<Rightarrow> ((string \<times> string) list \<Rightarrow> (string \<times> string) list) \<Rightarrow> DeployConfig
     \<Rightarrow> (string \<times> ('x, error option) io) list" where
  "deploy_steps h sha1 order config =
     [(''docker_install'', do {
         there \<leftarrow> docker_IsInstalled h;
         if there then ret None else docker_Install h (dc_VMUser config)
       }),
      (''nginx_install'', nginx_Install h (dc_VMUser config)),
      (''directory_and_config_setup'', write_configuration h order config),
      (''docker_compose'', runDockerCompose h (path_join [dc_BaseDir config, dc_Subdomain config])
         (dc_PostgresPassword config) (postgresService config)),
      (''health_check'', waitForHealthy h config (seconds 60)),
      (''nginx_config'', configureNginxSite h sha1 config False)]"

definition with_base_dir :: "DeployConfig \<Rightarrow> DeployConfig" where
  "with_base_dir config = (if dc_BaseDir config = [] then config\<lparr>dc_BaseDir := ''/opt/supabase''\<rparr> else config)"

definition Deploy ::
  "'x host \<Rightarrow> (string \<Rightarrow> string) \<Rightarrow> ((string \<times> string) list \<Rightarrow> (string \<times> string) list) \<Rightarrow> DeployConfig
     \<Rightarrow> ('x, DeployResult) io" where
  "Deploy h sha1 order config = do {
     (steps, failed) \<leftarrow> run_steps (\<lambda>st. executeStep (fst st) (snd st)) (deploy_steps h sha1 order (with_base_dir config));
     ret \<lparr>dr_Success = (failed = None), dr_InstanceID = dc_InstanceID config, dr_Steps = steps,
       dr_ErrorMessage = (case failed of None \<Rightarrow> [] | Some r \<Rightarrow> st_Message r),
       dr_FailedStep = (case failed of None \<Rightarrow> [] | Some r \<Rightarrow> st_Name r)\<rparr>
   }"


section \<open>The waits return\<close>

lemma forward_accepts [forward_intros]: "forward (accepts_connections h c svc)"
  and forward_has_roles [forward_intros]: "forward (has_roles h c svc)"
  unfolding accepts_connections_def has_roles_def compose_Exec_def in_project_def by (intro forward_intros)+

lemma poll_Suc:
  "run_state (poll probe deadline (Suc fuel)) s =
     (if now s < deadline then
        (case run_state probe s of (ok, s1) \<Rightarrow> if ok then (Some True, s1)
           else run_state (poll probe deadline fuel) (log (EvSleep (seconds 3)) (s1\<lparr>now := now s1 + seconds 3\<rparr>)))
      else (Some False, s))"
  by (auto split: prod.splits)

declare poll.simps(2) [simp del]

lemma poll_returns:
  assumes "forward probe"
  shows "deadline \<le> now s + (fuel - 1) * seconds 3 \<Longrightarrow> 0 < fuel \<Longrightarrow>
     \<exists>ok s'. run_state (poll probe deadline fuel) s = (Some ok, s') \<and> now s \<le> now s'"
proof (induction fuel arbitrary: s)
  case (Suc fuel)
  obtain ok s1 where x: "run_state probe s = (ok, s1)" by (cases "run_state probe s")
  have le: "now s \<le> now s1" using forwardD [OF assms x] .
  show ?case
  proof (cases "now s < deadline \<and> \<not> ok")
    case False
    then show ?thesis using x le by (auto simp: poll_Suc)
  next
    case True
    let ?s2 = "log (EvSleep (seconds 3)) (s1\<lparr>now := now s1 + seconds 3\<rparr>)"
    have pos: "0 < fuel" using True Suc.prems by (cases fuel) auto
    then have "fuel * seconds 3 = seconds 3 + (fuel - 1) * seconds 3" by (cases fuel) simp_all
    then have "deadline \<le> now ?s2 + (fuel - 1) * seconds 3" using Suc.prems le by simp
    from Suc.IH [OF this pos] x True le show ?thesis by (fastforce simp: poll_Suc)
  qed
qed simp

lemma poll_fuel_enough: "timeout \<le> (poll_fuel timeout - 1) * seconds 3"
proof -
  have "timeout = timeout div seconds 3 * seconds 3 + timeout mod seconds 3" by simp
  moreover have "timeout mod seconds 3 < seconds 3" by simp
  ultimately have "timeout \<le> seconds 3 + timeout div seconds 3 * seconds 3" by linarith
  then show ?thesis by (simp add: poll_fuel_def)
qed

lemma poll_within:
  assumes "forward probe" and "start \<le> now s"
  obtains ok s' where "run_state (poll probe (start + timeout) (poll_fuel timeout)) s = (Some ok, s')" and "now s \<le> now s'"
proof -
  have "start + timeout \<le> now s + (poll_fuel timeout - 1) * seconds 3" using poll_fuel_enough [of timeout] assms(2) by linarith
  moreover have "0 < poll_fuel timeout" by (simp add: poll_fuel_def)
  ultimately show ?thesis using poll_returns [OF assms(1)] that by blast
qed

lemma waitForPostgres_returns: "\<exists>e s'. run_state (waitForPostgres h c svc timeout) s = (Some e, s')"
proof -
  obtain ok s1 where 1: "run_state (poll (accepts_connections h c svc) (now s + timeout) (poll_fuel timeout)) s = (Some ok, s1)"
    and le: "now s \<le> now s1" using poll_within [OF forward_accepts] by blast
  obtain ok2 s2 where "run_state (poll (has_roles h c svc) (now s + timeout) (poll_fuel timeout)) s1 = (Some ok2, s2)"
    using poll_within [OF forward_has_roles le] by blast
  with 1 show ?thesis by (auto simp: waitForPostgres_def Let_def)
qed

section \<open>Effects before the containers start\<close>

definition starts_containers :: "event \<Rightarrow> bool" where
  "starts_containers e \<longleftrightarrow> (case e of EvExec dir argv \<Rightarrow> take 4 argv = [''sudo'', ''docker'', ''compose'', ''up''] | _ \<Rightarrow> False)"

lemma starts_simps [simp]:
  "starts_containers (EvExec dir argv) \<longleftrightarrow> take 4 argv = [''sudo'', ''docker'', ''compose'', ''up'']"
  "\<not> starts_containers (EvWrite p c m)" "\<not> starts_containers (EvRemove p)" "\<not> starts_containers (EvMkdir p)"
  "\<not> starts_containers (EvRename p q)" "\<not> starts_containers (EvChmod p m)" "\<not> starts_containers (EvHttp meth url body)"
  "\<not> starts_containers (EvSleep d)"
  by (simp_all add: starts_containers_def)

abbreviation quiet :: "('x, 'a) io \<Rightarrow> bool" where
  "quiet m \<equiv> emits (\<lambda>e. \<not> starts_containers e) m"

lemma quiet_docker: "quiet (docker_Install h u)" and quiet_docker_IsInstalled: "quiet (docker_IsInstalled h)"
  unfolding docker_Install_def docker_IsInstalled_def installDocker_def enableDockerService_def ensureUserInDockerGroup_def
  by (intro emits_intros; simp)+

lemma quiet_nginx_parts:
  "quiet (TestConfig h)" "quiet (nginx_Reload h)" "quiet (ConfigureRateLimiting h)"
  "quiet (ConfigureServerNamesHashBucketSize h)" "quiet (SetupSupabaseSitesDir h u)" "quiet (EnsureIncludeDirective h)"
  "quiet (installNginxPackage h)" "quiet (enableNginxService h)"
  unfolding TestConfig_def nginx_Reload_def ConfigureRateLimiting_def ConfigureServerNamesHashBucketSize_def
    edit_nginx_conf_def SetupSupabaseSitesDir_def EnsureIncludeDirective_def installNginxPackage_def enableNginxService_def Let_def
  by (intro emits_intros; simp)+

lemma quiet_nginx_Install: "quiet (nginx_Install h u)"
proof -
  have "quiet (ensureConfiguration h u)"
    unfolding ensureConfiguration_def by (rule emits_first_error) (auto simp: quiet_nginx_parts)
  then show ?thesis
    unfolding nginx_Install_def nginx_IsInstalled_def
    by (intro emits_intros) (auto simp: quiet_nginx_parts)
qed

lemma quiet_site: "quiet (configureNginxSite h sha1 config tls)"
  unfolding configureNginxSite_def WriteHtpasswd_def CreateSiteConfig_def Let_def
  by (intro emits_intros quiet_nginx_parts; simp)

lemma quiet_writeFile [emits_intros]: "quiet (writeFile h p c m)"
  unfolding writeFile_def Let_def by (intro emits_intros; simp)

lemma quiet_chown [emits_intros]: "quiet (chown_to_postgres h img dir a b)"
  unfolding chown_to_postgres_def GetPostgresUIDGID_def by (intro emits_intros; simp)

lemma quiet_make_dirs: "quiet k \<Longrightarrow> quiet (make_dirs h dirs k)"
  by (induction dirs) (auto intro!: emits_intros)

lemma quiet_init_files: "quiet (write_init_files h db files)"
  by (induction files rule: write_init_files.induct) (auto simp: Let_def dirExists_def intro!: emits_intros)

lemma quiet_volume_files: "quiet (write_volume_files h dir files)"
  by (induction files rule: write_volume_files.induct) (auto intro!: emits_intros)

lemma quiet_all_exist: "quiet (all_exist h ps)"
  by (induction ps) (auto simp: FileExists_def intro!: emits_intros)

lemma quiet_configuration: "quiet (write_configuration h order config)"
  unfolding write_configuration_def CreateDirectoryStructure_def SetOwnership_def WriteAllConfigFiles_def
    WriteDockerCompose_def WriteEnvFile_def WriteKongConfig_def WritePgHbaConfig_def WriteInitSQL_def WriteInitSQLFiles_def
    WriteVolumeConfigFiles_def WritePostgresSSLCerts_def files_Validate_def Let_def
  by (intro emits_intros quiet_make_dirs quiet_init_files quiet_volume_files quiet_all_exist; simp)

lemma quiet_checks: "quiet (checkContainerStates h sub sufs)"
  by (induction sufs) (auto simp: check_container_def Let_def intro!: emits_intros)

lemma quiet_health_run: "quiet (runHealthChecks h config)"
  unfolding runHealthChecks_def checkPostgres_def checkKongGateway_def checkStudio_def Let_def
  by (intro emits_intros quiet_checks; simp)

lemma quiet_attempts: "quiet (attempts h config start deadline n fuel)"
  by (induction fuel arbitrary: n)
    (auto simp: final_check_def Let_def intro!: emits_intros quiet_health_run)

lemma quiet_health: "quiet (waitForHealthy h config t)"
  unfolding waitForHealthy_def CheckAll_def Let_def by (intro emits_intros quiet_attempts)

section \<open>Properties\<close>

lemma extends_compose:
  "extends_trace (compose_Validate h c)" "extends_trace (compose_Pull h c)" "extends_trace (compose_UpService h c svc)"
  "extends_trace (compose_Up h c)" "extends_trace (setupDatabaseRoles h dir pw svc)" "extends_trace (compose_Down h c)"
  unfolding compose_Validate_def compose_Pull_def compose_UpService_def compose_Up_def setupDatabaseRoles_def
    compose_ExecWithEnv_def compose_Down_def compose_down_def Let_def
  by (intro emits_intros TrueI)+

lemma extends_poll: "extends_trace probe \<Longrightarrow> extends_trace (poll probe deadline fuel)"
  by (induction fuel) (auto simp: poll.simps(2) intro!: emits_intros)

lemma extends_waits:
  "extends_trace (returned (waitForPostgres h c svc t))" "extends_trace (await_containers h c)"
proof -
  have "extends_trace (wait_loop h c timeout deadline fuel)" for timeout deadline fuel
    by (induction fuel) (auto simp: wait_loop.simps(2) IsRunning_def GetContainerStatus_def intro!: emits_intros)
  then show "extends_trace (await_containers h c)"
    unfolding await_containers_def returned_def WaitForContainers_def GetContainerStatus_def compose_Logs_def Let_def
    by (intro emits_intros TrueI)
  show "extends_trace (returned (waitForPostgres h c svc t))"
    unfolding returned_def waitForPostgres_def accepts_connections_def has_roles_def compose_Exec_def Let_def
    by (intro emits_intros extends_poll TrueI)
qed

lemma guards_run_steps:
  "(\<And>st. st \<in> set steps \<Longrightarrow> guards A B (exec st)) \<Longrightarrow> guards A B (run_steps exec steps)"
  by (induction steps) (auto intro!: guards_intros split: prod.splits)

lemma logs_os_remove_all: "logs (EvRemove p) (os_remove_all h p)"
  by (auto simp: logs_def os_remove_all_def split: option.splits)

definition compose_config :: "string \<Rightarrow> event" where
  "compose_config instanceDir =
     EvExec (co_instanceDir (compose_of instanceDir)) [''sudo'', ''docker'', ''compose'', ''config'', ''--quiet'']"

lemma guards_compose:
  "guards (\<lambda>e. e = EvRemove (db_data_dir dir)) starts_containers (runDockerCompose h dir pw svc)"
  "guards (\<lambda>e. e = compose_config dir) starts_containers (runDockerCompose h dir pw svc)"
proof -
  have down: "quiet (compose_Down h c)" for c
    unfolding compose_Down_def compose_down_def by (intro emits_intros) simp
  have remove: "quiet (os_remove_all h p)" for p by (intro emits_intros) simp
  have validate: "quiet (compose_Validate h c)" for c
    unfolding compose_Validate_def by (intro emits_intros) simp
  show "guards (\<lambda>e. e = EvRemove (db_data_dir dir)) starts_containers (runDockerCompose h dir pw svc)"
    unfolding runDockerCompose_def Let_def
    by (rule guards_bind, rule guards_without, rule down, rule guards_after, rule guards_without, rule remove,
        rule logs_os_remove_all, simp)
      (intro emits_intros extends_compose extends_waits TrueI)
  have "logs (compose_config dir) (compose_Validate h (compose_of dir))"
    unfolding compose_Validate_def in_project_def compose_config_def
    by (rule logs_bind_left, rule logs_run_cmd) (intro emits_intros)
  then show "guards (\<lambda>e. e = compose_config dir) starts_containers (runDockerCompose h dir pw svc)"
    unfolding runDockerCompose_def Let_def
    apply (intro guards_bind guards_without [OF down] guards_without [OF remove])
    unfolding check_then_def [of "''docker-compose.yml validation failed: ''"]
    by (rule guards_after, rule guards_without, rule validate, assumption, simp)
      (intro emits_intros extends_compose extends_waits TrueI)
qed

lemmas quiet_steps = quiet_docker_IsInstalled quiet_docker quiet_nginx_Install quiet_configuration quiet_health quiet_site



text \<open>
  C33: Every deployment over an existing instance loses its database, although the command line offers
  the same operation as \<^verbatim>\<open>update\<close>. Whatever the outcome, and also when the new compose file turns out to be
  invalid, nothing that was in \<^verbatim>\<open>volumes/db/data\<close> is there after the containers were to be started, on a
  host whose commands do not create it.
\<close>

theorem redeploy_loses_data:
  assumes "in_tree (db_data_dir dir) p" and "commands_keep h p" and "\<And>s. hfault h (OpRemove (db_data_dir dir)) s = None"
    and "run_state (runDockerCompose h dir pw svc) s = (e, s')"
  shows "lookup_node s' p = None"
proof -
  obtain r s1 where 1: "run_state (compose_Down h (compose_of dir)) s = (r, s1)" by fastforce
  obtain r2 s2 where 2: "run_state (os_remove_all h (db_data_dir dir)) s1 = (r2, s2)" by fastforce
  have gone: "lookup_node s2 p = None" by (rule os_remove_all_gone [OF 2 assms(3,1)])
  have p: "leaves p (poll probe deadline fuel)" if "leaves p probe" for probe deadline fuel
    using that by (induction fuel) (auto simp: poll.simps(2) intro!: leaves_intros)
  have w: "leaves p (wait_loop h c timeout deadline fuel)" for c timeout deadline fuel
    using assms(2) by (induction fuel) (auto simp: wait_loop.simps(2) IsRunning_def GetContainerStatus_def in_project_def intro!: leaves_intros)
  define rest where "rest = check_then ''docker-compose.yml validation failed: '' (compose_Validate h (compose_of dir))
     (check_then ''docker compose pull failed: '' (compose_Pull h (compose_of dir))
     (check_then (''docker compose up '' @ svc @ '' failed: '') (compose_UpService h (compose_of dir) svc)
     (check_then ''postgres failed to start: '' (returned (waitForPostgres h (compose_of dir) svc (seconds 300)))
     (check_then ''docker compose up failed: '' (compose_Up h (compose_of dir))
     (check_then ''database role setup failed: '' (setupDatabaseRoles h dir pw svc)
     (check_then ''docker compose up (post-role-setup) failed: '' (compose_Up h (compose_of dir))
       (do { _ \<leftarrow> sleep (seconds 10); await_containers h (compose_of dir) })))))))"
  have "leaves p rest"
    unfolding rest_def compose_Validate_def compose_Pull_def compose_UpService_def compose_Up_def setupDatabaseRoles_def
      compose_ExecWithEnv_def await_containers_def returned_def WaitForContainers_def GetContainerStatus_def compose_Logs_def
      waitForPostgres_def accepts_connections_def has_roles_def compose_Exec_def in_project_def Let_def
    by (intro leaves_intros p w assms(2))
  moreover have "run_state rest s2 = (e, s')"
    using assms(4) 1 2 by (simp add: runDockerCompose_def rest_def Let_def)
  ultimately show ?thesis using gone by (auto dest: leavesD)
qed


text \<open>A compose file that is invalid, over an instance with data.\<close>

definition invalid_compose :: "unit host" where
  "invalid_compose = command_host (\<lambda>argv s.
     (if last argv = ''--quiet'' then fail_res ''yaml: line 3'' ''exit status 15'' else ok_res [], s))"

definition old_instance :: "unit sys" where
  "old_instance = start_sys [(''/opt/supabase/x/volumes/db/data/PG_VERSION'', File ''15'' 384)] ()"

theorem redeploy_loses_data_witness:
  "fst (run_state (runDockerCompose invalid_compose ''/opt/supabase/x'' ''pw'' ''db'') old_instance) \<noteq> None
   \<and> lookup_node old_instance ''/opt/supabase/x/volumes/db/data/PG_VERSION'' \<noteq> None
   \<and> lookup_node (snd (run_state (runDockerCompose invalid_compose ''/opt/supabase/x'' ''pw'' ''db'') old_instance))
       ''/opt/supabase/x/volumes/db/data/PG_VERSION'' = None"
proof -
  have "in_tree (db_data_dir ''/opt/supabase/x'') ''/opt/supabase/x/volumes/db/data/PG_VERSION''" by code_simp
  moreover have "commands_keep invalid_compose p" for p by (simp add: commands_keep_def invalid_compose_def)
  moreover have "hfault invalid_compose op s = None" for op s by (simp add: invalid_compose_def)
  ultimately have "lookup_node (snd (run_state (runDockerCompose invalid_compose ''/opt/supabase/x'' ''pw'' ''db'') old_instance))
       ''/opt/supabase/x/volumes/db/data/PG_VERSION'' = None"
    by (intro redeploy_loses_data [OF _ _ _ prod.collapse [symmetric]])
  moreover have "fst (run_state (runDockerCompose invalid_compose ''/opt/supabase/x'' ''pw'' ''db'') old_instance) \<noteq> None"
    by (simp add: runDockerCompose_def check_then_def compose_Validate_def in_project_def run_cmd_def invalid_compose_def
        command_host_def compose_Down_def compose_down_def os_remove_all_def Let_def fail_res_def)
  ultimately show ?thesis by (simp add: old_instance_def start_sys_def lookup_node_def)
qed

end
