(* ===== verification/Tls.thy ===== *)
theory Tls
  imports Deploy Calendar "HOL-Library.Multiset"
begin

text \<open>
  \<^verbatim>\<open>internal/tls/tls.go\<close>, the certificates of a domain on the disk, and \<^verbatim>\<open>internal/enabletls/enabletls.go\<close>,
  which writes the certificate of an instance and switches its site to HTTPS. Decoding PEM and X.509
  is left to two parameters. The two files of a certificate are written in the order in which Go
  iterates over a map, a parameter that permutes.
\<close>

section \<open>Certificates\<close>

definition DefaultCertDir :: string where "DefaultCertDir = ''/etc/letsencrypt''"

definition RenewalThreshold :: int where "RenewalThreshold = 30 * 24 * 3600 * 10 ^ 9"

record CertificateInfo =
  ce_Domain :: string
  ce_ExpiryDate :: int
  ce_DaysLeft :: int
  ce_NeedsRenewal :: bool
  ce_Issuer :: string

definition certificatePath :: "string \<Rightarrow> string \<Rightarrow> string" where
  "certificatePath domain certDir = path_join [certDir, ''live'', domain]"

fun write_pems :: "'x host \<Rightarrow> string \<Rightarrow> (string \<times> string) list \<Rightarrow> ('x, error option) io" where
  "write_pems h certPath [] = ret None"
| "write_pems h certPath ((filename, content) # pems) =
     check_then (''failed to write '' @ filename @ '': '')
       (os_err (os_write h (path_join [certPath, filename]) content 384)) (write_pems h certPath pems)"

definition WriteCertificate ::
  "'x host \<Rightarrow> ((string \<times> string) list \<Rightarrow> (string \<times> string) list) \<Rightarrow> string \<Rightarrow> string \<Rightarrow> string \<Rightarrow> string
    \<Rightarrow> ('x, error option) io" where
  "WriteCertificate h order domain certDir certPEM keyPEM =
     (let certPath = certificatePath domain certDir in
      check_then (''failed to create certificate directory '' @ certPath @ '': '') (os_err (os_mkdir_all h certPath))
        (write_pems h certPath (order [(''fullchain.pem'', certPEM), (''privkey.pem'', keyPEM)])))"

definition not_missing :: "oserr + node \<Rightarrow> bool" where
  "not_missing r = (case r of Inl e \<Rightarrow> \<not> is_not_exist e | Inr n \<Rightarrow> True)"

definition IsProvisionedInDir :: "'x host \<Rightarrow> string \<Rightarrow> string \<Rightarrow> ('x, bool) io" where
  "IsProvisionedInDir h domain certDir = do {
     let certPath = certificatePath domain certDir;
     r \<leftarrow> os_stat h (path_join [certPath, ''fullchain.pem'']);
     if not_missing r then do {
       r \<leftarrow> os_stat h (path_join [certPath, ''privkey.pem'']);
       ret (not_missing r)
     } else ret False
   }"

definition IsProvisioned :: "'x host \<Rightarrow> string \<Rightarrow> ('x, bool) io" where
  "IsProvisioned h domain = IsProvisionedInDir h domain DefaultCertDir"

text \<open>A PEM block is its bytes; a certificate the end of its validity and the name of its issuer.\<close>

definition GetCertificateInfo ::
  "'x host \<Rightarrow> (string \<Rightarrow> string option) \<Rightarrow> (string \<Rightarrow> error + int \<times> string) \<Rightarrow> string \<Rightarrow> string
    \<Rightarrow> ('x, error + CertificateInfo) io" where
  "GetCertificateInfo h pem_decode x509_parse domain certDir = do {
     r \<leftarrow> os_read h (path_join [certificatePath domain certDir, ''fullchain.pem'']);
     case r of
       Inl e \<Rightarrow> ret (Inl (''failed to read certificate: '' @ err_text e))
     | Inr certPEM \<Rightarrow> (case pem_decode certPEM of
         None \<Rightarrow> ret (Inl ''failed to decode certificate PEM'')
       | Some block \<Rightarrow> (case x509_parse block of
           Inl e \<Rightarrow> ret (Inl (''failed to parse certificate: '' @ e))
         | Inr (notAfter, issuer) \<Rightarrow> do {
             t \<leftarrow> time_now;
             let left = clamp64 (notAfter - int t);
             ret (Inr \<lparr>ce_Domain = domain, ce_ExpiryDate = notAfter, ce_DaysLeft = dur_days left,
               ce_NeedsRenewal = (left < RenewalThreshold), ce_Issuer = issuer\<rparr>)
           }))
   }"

section \<open>Switching an instance to HTTPS\<close>

definition tls_site :: "EnableTLSConfig \<Rightarrow> string \<Rightarrow> SiteConfig" where
  "tls_site config htpasswdPath =
     \<lparr>sd_Subdomain = et_Subdomain config, sd_Domain = et_Domain config, sd_StudioDomain = et_StudioDomain config,
      sd_KongPort = or_port (et_KongPort config) 8000, sd_StudioPort = or_port (et_StudioPort config) 3000,
      sd_TLSEnabled = True, sd_CertPath = fullchain (et_Domain config), sd_KeyPath = privkey (et_Domain config),
      sd_StudioCertPath = fullchain (et_StudioDomain config), sd_StudioKeyPath = privkey (et_StudioDomain config),
      sd_StudioHtpasswdPath = htpasswdPath\<rparr>"

definition configureNginxHTTPS :: "'x host \<Rightarrow> (string \<Rightarrow> string) \<Rightarrow> EnableTLSConfig \<Rightarrow> ('x, error option) io" where
  "configureNginxHTTPS h sha1 config =
     (if et_DashboardUsername config = [] \<or> et_DashboardPassword config = [] then ret (Some login_required)
      else do {
        r \<leftarrow> WriteHtpasswd h sha1 (et_Subdomain config) (et_DashboardUsername config) (et_DashboardPassword config);
        case r of
          Inl e \<Rightarrow> ret (Some (''write studio htpasswd: '' @ e))
        | Inr htpasswdPath \<Rightarrow> CreateSiteConfig h (tls_site config htpasswdPath)
      })"

definition write_cert_of ::
  "'x host \<Rightarrow> ((string \<times> string) list \<Rightarrow> (string \<times> string) list) \<Rightarrow> EnableTLSConfig \<Rightarrow> string \<Rightarrow> ('x, error option) io" where
  "write_cert_of h order config domain =
     WriteCertificate h order domain DefaultCertDir (et_CertPEM config) (et_KeyPEM config)"

definition tls_steps ::
  "'x host \<Rightarrow> (string \<Rightarrow> string) \<Rightarrow> ((string \<times> string) list \<Rightarrow> (string \<times> string) list) \<Rightarrow> EnableTLSConfig
    \<Rightarrow> (string \<times> ('x, error option) io) list" where
  "tls_steps h sha1 order config =
     [(''tls_write_main'', write_cert_of h order config (et_Domain config))] @
     (if et_StudioDomain config \<noteq> [] then [(''tls_write_studio'', write_cert_of h order config (et_StudioDomain config))] else []) @
     [(''nginx_https_config'', configureNginxHTTPS h sha1 config)]"

definition EnableTLS ::
  "'x host \<Rightarrow> (string \<Rightarrow> string) \<Rightarrow> ((string \<times> string) list \<Rightarrow> (string \<times> string) list) \<Rightarrow> EnableTLSConfig
    \<Rightarrow> ('x, EnableTLSResult) io" where
  "EnableTLS h sha1 order config = do {
     (steps, failed) \<leftarrow> run_steps (\<lambda>st. executeStep (fst st) (snd st)) (tls_steps h sha1 order config);
     ret \<lparr>er_Success = (failed = None), er_InstanceID = et_InstanceID config, er_Steps = steps,
       er_ErrorMessage = (case failed of None \<Rightarrow> [] | Some r \<Rightarrow> st_Message r),
       er_FailedStep = (case failed of None \<Rightarrow> [] | Some r \<Rightarrow> st_Name r)\<rparr>
   }"

section \<open>Lemmas\<close>

text \<open>The file of a certificate, by the name the site refers to it with.\<close>

definition live_dir :: "string \<Rightarrow> string" where
  "live_dir domain = ''/etc/letsencrypt/live/'' @ domain"

lemma live_paths:
  assumes "plain domain"
  shows "certificatePath domain DefaultCertDir = live_dir domain"
    and "plain file_name \<Longrightarrow> path_join [live_dir domain, file_name] = live_dir domain @ slash # file_name"
proof -
  have base: "DefaultCertDir = abs_path [''etc'', ''letsencrypt'']" by (simp add: DefaultCertDir_def abs_path_def)
  have p: "plain ''etc''" "plain ''letsencrypt''" "plain ''live''" by (simp_all add: plain_def)
  have dir: "live_dir domain = abs_path [''etc'', ''letsencrypt'', ''live'', domain]" by (simp add: live_dir_def abs_path_def)
  show "certificatePath domain DefaultCertDir = live_dir domain"
    unfolding certificatePath_def base dir using in_dir_plain [of "[''etc'', ''letsencrypt'']" "[''live'', domain]"] p assms by simp
  show "plain file_name \<Longrightarrow> path_join [live_dir domain, file_name] = live_dir domain @ slash # file_name"
    unfolding dir using in_dir_plain [of "[''etc'', ''letsencrypt'', ''live'', domain]" "[file_name]"] p assms
    by (simp add: abs_path_def)
qed

lemma pem_names: "plain ''fullchain.pem''" "plain ''privkey.pem''"
  by (simp_all add: plain_def)

lemma chain_key_paths:
  "fullchain domain = live_dir domain @ slash # ''fullchain.pem''"
  "privkey domain = live_dir domain @ slash # ''privkey.pem''"
  by (simp_all add: fullchain_def privkey_def live_dir_def)

lemma steady_write_pems:
  "(\<And>f c. (f, c) \<in> set pems \<Longrightarrow> q \<noteq> path_join [dir, f]) \<Longrightarrow> steady q (write_pems h dir pems)"
proof (induction pems)
  case (Cons fc pems)
  obtain f c where fc: "fc = (f, c)" by force
  then have "q \<noteq> path_join [dir, f]" using Cons.prems [of f c] by simp
  moreover have "steady q (write_pems h dir pems)" using Cons.prems by (intro Cons.IH) auto
  ultimately show ?case by (auto simp: fc intro!: steady_intros steady_os_write)
qed (simp add: steady_return)

lemma write_pems_ok:
  assumes "run_state (write_pems h dir pems) s = (None, s')" and "distinct (map (\<lambda>(f, c). path_join [dir, f]) pems)"
    and "(f, c) \<in> set pems"
  shows "\<exists>m. lookup_node s' (path_join [dir, f]) = Some (File c m)"
  using assms
proof (induction pems arbitrary: s)
  case (Cons fc pems)
  obtain g d where fc: "fc = (g, d)" by force
  from Cons.prems(1) fc obtain s1 where 1: "run_state (os_err (os_write h (path_join [dir, g]) d 384)) s = (None, s1)"
    and 2: "run_state (write_pems h dir pems) s1 = (None, s')" by (auto elim: check_then_ok)
  show ?case
  proof (cases "(f, c) = (g, d)")
    case True
    from 1 obtain m where "lookup_node s1 (path_join [dir, g]) = Some (File d m)"
      by (auto simp: os_err_def split: prod.splits dest: os_write_ok)
    moreover have "steady (path_join [dir, g]) (write_pems h dir pems)"
      using Cons.prems(2) fc by (intro steady_write_pems) force
    ultimately show ?thesis using steadyD [OF _ 2] True by fastforce
  qed (use Cons.IH [OF 2] Cons.prems fc in auto)
qed simp

lemma write_cert_ok:
  assumes "run_state (write_cert_of h order config domain) s = (None, s')" and "plain domain"
    and perm: "\<And>l. mset (order l) = mset l"
  shows "\<exists>m. lookup_node s' (fullchain domain) = Some (File (et_CertPEM config) m)"
    and "\<exists>m. lookup_node s' (privkey domain) = Some (File (et_KeyPEM config) m)"
proof -
  let ?pems = "[(''fullchain.pem'', et_CertPEM config), (''privkey.pem'', et_KeyPEM config)]"
  note paths = live_paths [OF assms(2)] pem_names
  obtain s1 where run: "run_state (write_pems h (live_dir domain) (order ?pems)) s1 = (None, s')"
    using assms(1) unfolding write_cert_of_def WriteCertificate_def Let_def paths by (auto elim: check_then_ok)
  have "mset (map (\<lambda>(f, c). path_join [live_dir domain, f]) (order ?pems)) = mset (map (\<lambda>(f, c). path_join [live_dir domain, f]) ?pems)"
    unfolding mset_map perm ..
  moreover have "distinct (map (\<lambda>(f, c). path_join [live_dir domain, f]) ?pems)" by (simp add: paths)
  ultimately have d: "distinct (map (\<lambda>(f, c). path_join [live_dir domain, f]) (order ?pems))"
    using mset_eq_imp_distinct_iff by blast
  have "set (order ?pems) = set ?pems" using mset_eq_setD [OF perm] .
  then show "\<exists>m. lookup_node s' (fullchain domain) = Some (File (et_CertPEM config) m)"
    "\<exists>m. lookup_node s' (privkey domain) = Some (File (et_KeyPEM config) m)"
    using write_pems_ok [OF run d, of "''fullchain.pem''" "et_CertPEM config"]
      write_pems_ok [OF run d, of "''privkey.pem''" "et_KeyPEM config"] by (simp_all add: chain_key_paths paths)
qed

lemma steady_write_cert:
  assumes "plain domain" and "q \<noteq> fullchain domain" and "q \<noteq> privkey domain" and perm: "\<And>l. mset (order l) = mset l"
  shows "steady q (write_cert_of h order config domain)"
proof -
  let ?pems = "[(''fullchain.pem'', et_CertPEM config), (''privkey.pem'', et_KeyPEM config)]"
  note paths = live_paths [OF assms(1)] pem_names
  have "set (order ?pems) = set ?pems" using mset_eq_setD [OF perm] .
  then have "f = ''fullchain.pem'' \<or> f = ''privkey.pem''" if "(f, c) \<in> set (order ?pems)" for f c using that by auto
  then have "q \<noteq> path_join [live_dir domain, f]" if "(f, c) \<in> set (order ?pems)" for f c
    using that assms(2,3) live_paths(2) [OF assms(1) pem_names(1)] live_paths(2) [OF assms(1) pem_names(2)]
    unfolding chain_key_paths by metis
  then have "steady q (write_pems h (live_dir domain) (order ?pems))" by (rule steady_write_pems)
  then show ?thesis
    unfolding write_cert_of_def WriteCertificate_def Let_def paths by (intro steady_intros steady_mkdir_all)
qed

lemma nginx_paths:
  "fullchain domain \<noteq> site_path sub" "fullchain domain \<noteq> HtpasswdPathFor sub" "fullchain domain \<noteq> nginxConf"
  "privkey domain \<noteq> site_path sub" "privkey domain \<noteq> HtpasswdPathFor sub" "privkey domain \<noteq> nginxConf"
  by (simp_all add: fullchain_def privkey_def site_path_def HtpasswdPathFor_def nginxConf_def SupabaseSitesDir_def ConfigDir_def)

lemma steady_mkdir: "steady p (os_mkdir_all h q)"
  by (auto simp: steady_def os_mkdir_all_def lookup_node_def mk_dirs_steady split: option.splits)

lemma steady_option [steady_intros]:
  "steady p m \<Longrightarrow> (\<And>y. steady p (f y)) \<Longrightarrow> steady p (case x of None \<Rightarrow> m | Some y \<Rightarrow> f y)"
  by (cases x) auto

lemma steady_nginx:
  assumes "commands_keep h q" and "q \<noteq> site_path (et_Subdomain config)" and "q \<noteq> HtpasswdPathFor (et_Subdomain config)" and "q \<noteq> nginxConf"
  shows "steady q (configureNginxHTTPS h sha1 config)"
proof -
  have site: "leaves q (CreateSiteConfig h (tls_site config p))" for p
    unfolding CreateSiteConfig_def ConfigureRateLimiting_def edit_nginx_conf_def TestConfig_def nginx_Reload_def Let_def
    using assms by (intro leaves_intros) (auto simp: tls_site_def)
  have passwd: "steady q (WriteHtpasswd h sha1 (et_Subdomain config) u p)" for u p
    unfolding WriteHtpasswd_def Let_def using assms(3)
    by (intro steady_intros steady_mkdir steady_leaves [OF leaves_os_write] steady_leaves [OF leaves_os_chmod])
  show ?thesis
    unfolding configureNginxHTTPS_def
    by (intro steady_if steady_bind steady_sum steady_return passwd steady_leaves [OF site])
qed

text \<open>A successful run has gone through every step.\<close>

lemma run_plain_steps_ok:
  assumes "run_state (run_steps (\<lambda>st. executeStep (fst st) (snd st)) (st # sts)) s = ((rs, None), s')"
  obtains s1 rs' where "run_state (snd st) s = (None, s1)"
    and "run_state (run_steps (\<lambda>st. executeStep (fst st) (snd st)) sts) s1 = ((rs', None), s')"
proof -
  obtain r s1 where x: "run_state (executeStep (fst st) (snd st)) s = (r, s1)" by force
  from executeStep_shape(3) [OF x] obtain err where e: "run_state (snd st) s = (err, s1)" "st_Status r = ''failed'' \<longleftrightarrow> err \<noteq> None"
    by blast
  have "st_Status r \<noteq> ''failed''" using assms x by auto
  then have "err = None" using e(2) by blast
  moreover obtain rs' f s2 where "run_state (run_steps (\<lambda>st. executeStep (fst st) (snd st)) sts) s1 = ((rs', f), s2)"
    by (metis prod.exhaust)
  ultimately show ?thesis using assms x e(1) \<open>st_Status r \<noteq> ''failed''\<close> that by auto
qed

text \<open>The four files the site of an instance refers to hold the two texts of its certificate.\<close>

definition certificates_in_place :: "'x sys \<Rightarrow> EnableTLSConfig \<Rightarrow> SiteConfig \<Rightarrow> bool" where
  "certificates_in_place s config site \<longleftrightarrow>
     (\<exists>m. lookup_node s (sd_CertPath site) = Some (File (et_CertPEM config) m))
     \<and> (\<exists>m. lookup_node s (sd_KeyPath site) = Some (File (et_KeyPEM config) m))
     \<and> (\<exists>m. lookup_node s (sd_StudioCertPath site) = Some (File (et_CertPEM config) m))
     \<and> (\<exists>m. lookup_node s (sd_StudioKeyPath site) = Some (File (et_KeyPEM config) m))"

lemma other_cert_steady:
  assumes "plain d" and "plain e" and perm: "\<And>l. mset (order l) = mset l"
    and "\<exists>m. lookup_node s (fullchain d) = Some (File (et_CertPEM config) m)"
    and "\<exists>m. lookup_node s (privkey d) = Some (File (et_KeyPEM config) m)"
    and run: "run_state (write_cert_of h order config e) s = (None, s')"
  shows "\<exists>m. lookup_node s' (fullchain d) = Some (File (et_CertPEM config) m)"
    and "\<exists>m. lookup_node s' (privkey d) = Some (File (et_KeyPEM config) m)"
proof -
  have keep: "steady q (write_cert_of h order config e)" if "d \<noteq> e" "q = fullchain d \<or> q = privkey d" for q
    using that by (intro steady_write_cert [OF assms(2) _ _ perm]) (auto simp: fullchain_def privkey_def append_eq_append_conv2 Cons_eq_append_conv)
  show "\<exists>m. lookup_node s' (fullchain d) = Some (File (et_CertPEM config) m)"
    "\<exists>m. lookup_node s' (privkey d) = Some (File (et_KeyPEM config) m)"
    using assms(4,5) write_cert_ok [OF run assms(2) perm] steadyD [OF keep run] by (cases "d = e"; blast)+
qed

text \<open>
  C36: After a successful switch to HTTPS the site of the instance is exactly the generated one, with TLS
  on, and the four certificate files it names hold the certificate and the key that were sent, in
  whatever order they were written, also when both domains are the same.
\<close>

theorem enable_tls_in_place:
  assumes domains: "plain (et_Domain config)" "plain (et_StudioDomain config)"
    and perm: "\<And>l. mset (order l) = mset l"
    and keep: "\<And>p. p \<in> {site_path (et_Subdomain config), fullchain (et_Domain config), privkey (et_Domain config),
      fullchain (et_StudioDomain config), privkey (et_StudioDomain config)} \<Longrightarrow> commands_keep h p"
    and removable: "\<And>s. hfault h (OpRemove (site_path (et_Subdomain config))) s = None"
    and run: "run_state (EnableTLS h sha1 order config) s = (r, s')" and ok: "er_Success r"
  shows "let site = tls_site config (HtpasswdPathFor (et_Subdomain config)) in
    (\<exists>m. lookup_node s' (site_path (et_Subdomain config)) = Some (File (generateSiteConfigContent site) m))
    \<and> certificates_in_place s' config site"
proof -
  define site where "site = tls_site config (HtpasswdPathFor (et_Subdomain config))"
  let ?exec = "\<lambda>st. executeStep (fst st) (snd st)" and ?d = "et_Domain config" and ?e = "et_StudioDomain config"
  obtain rs where steps: "run_state (run_steps ?exec (tls_steps h sha1 order config)) s = ((rs, None), s')"
    using run ok by (auto simp: EnableTLS_def split: prod.splits)
  have "tls_steps h sha1 order config = [(''tls_write_main'', write_cert_of h order config ?d),
      (''tls_write_studio'', write_cert_of h order config ?e), (''nginx_https_config'', configureNginxHTTPS h sha1 config)]"
    using domains(2) by (auto simp: tls_steps_def plain_def)
  note steps = steps [unfolded this]
  from steps obtain s1 rs1 where 1: "run_state (write_cert_of h order config ?d) s = (None, s1)"
    and steps1: "run_state (run_steps ?exec [(''tls_write_studio'', write_cert_of h order config ?e),
      (''nginx_https_config'', configureNginxHTTPS h sha1 config)]) s1 = ((rs1, None), s')"
    by (rule run_plain_steps_ok) simp
  from steps1 obtain s2 rs2 where 2: "run_state (write_cert_of h order config ?e) s1 = (None, s2)"
    and steps2: "run_state (run_steps ?exec [(''nginx_https_config'', configureNginxHTTPS h sha1 config)]) s2 = ((rs2, None), s')"
    by (rule run_plain_steps_ok) simp
  from steps2 have 3: "run_state (configureNginxHTTPS h sha1 config) s2 = (None, s')"
    by (rule run_plain_steps_ok) simp
  note main = other_cert_steady [OF domains perm write_cert_ok [OF 1 domains(1) perm] 2]
  note studio = write_cert_ok [OF 2 domains(2) perm]
  have stays: "\<exists>m. lookup_node s' q = Some (File c m)"
    if "\<exists>m. lookup_node s2 q = Some (File c m)" "q = fullchain d \<or> q = privkey d" "d = ?d \<or> d = ?e" for q c d
  proof -
    have "commands_keep h q" using that(2,3) by (intro keep) blast
    with that(2) have "steady q (configureNginxHTTPS h sha1 config)"
      by (intro steady_nginx) (auto simp: nginx_paths nginx_paths [symmetric])
    then show ?thesis using that(1) steadyD [OF _ 3] by blast
  qed
  obtain s3 where "run_state (CreateSiteConfig h site) s3 = (None, s')"
    using 3 by (auto simp: configureNginxHTTPS_def WriteHtpasswd_def Let_def site_def split: prod.splits sum.splits option.splits if_splits)
  from create_site_config_outcome [OF _ _ this] keep removable
  have "\<exists>m. lookup_node s' (site_path (et_Subdomain config)) = Some (File (generateSiteConfigContent site) m)"
    by (auto simp: site_def tls_site_def)
  moreover have "certificates_in_place s' config site"
    using stays [OF main(1) disjI1 [OF refl] disjI1 [OF refl]] stays [OF main(2) disjI2 [OF refl] disjI1 [OF refl]]
      stays [OF studio(1) disjI1 [OF refl] disjI2 [OF refl]] stays [OF studio(2) disjI2 [OF refl] disjI2 [OF refl]]
    unfolding certificates_in_place_def site_def tls_site_def by simp
  ultimately show ?thesis unfolding site_def [symmetric] Let_def by blast
qed

definition demo_tls :: "string \<Rightarrow> EnableTLSConfig" where
  "demo_tls studio = \<lparr>et_InstanceID = ''i'', et_Subdomain = ''a'', et_Domain = ''a.example.org'', et_StudioDomain = studio,
     et_BaseDir = [], et_CertPEM = ''CERT'', et_KeyPEM = ''KEY'', et_KongPort = 0, et_StudioPort = 0,
     et_DashboardUsername = ''u'', et_DashboardPassword = ''p''\<rparr>"

definition calm :: "unit host" where
  "calm = command_host (\<lambda>argv s. (ok_res [], s))"

definition no_digest :: "string \<Rightarrow> string" where "no_digest p = []"

lemma run_plain_steps_Cons:
  "run_state (snd st) s = (None, s1) \<Longrightarrow> snd (fst (run_state (run_steps (\<lambda>st. executeStep (fst st) (snd st)) (st # sts)) s)) =
     snd (fst (run_state (run_steps (\<lambda>st. executeStep (fst st) (snd st)) sts) s1))"
  by (simp add: run_executeStep new_step_def split: prod.split)

lemma enable_tls_success:
  "er_Success (fst (run_state (EnableTLS h sha1 order config) s)) \<longleftrightarrow>
     snd (fst (run_state (run_steps (\<lambda>st. executeStep (fst st) (snd st)) (tls_steps h sha1 order config)) s)) = None"
  by (simp add: EnableTLS_def split: prod.split)

lemma calm_site:
  "lookup_node s (site_path (sd_Subdomain cfg)) = None \<Longrightarrow> fst (run_state (CreateSiteConfig calm cfg) s) = None"
  by (auto simp: CreateSiteConfig_def ConfigureRateLimiting_def TestConfig_def nginx_Reload_def prefix_error_def Let_def
      run_exec_cmd calm_def ok_res_def os_write_def lookup_node_def)

theorem enable_tls_in_place_witness:
  "certificates_in_place (snd (run_state (EnableTLS calm no_digest rev (demo_tls ''studio.example.org'')) (start_sys [] ())))
     (demo_tls ''studio.example.org'') (tls_site (demo_tls ''studio.example.org'') (HtpasswdPathFor ''a''))"
proof -
  let ?c = "demo_tls ''studio.example.org''"
  have "plain (et_Domain ?c)" "plain (et_StudioDomain ?c)" by code_simp+
  moreover have "commands_keep calm p" for p by (simp add: commands_keep_def calm_def)
  moreover have "hfault calm op s = None" for op s by (simp add: calm_def)
  moreover have "et_Subdomain ?c = ''a''" by (simp add: demo_tls_def)
  moreover have "er_Success (fst (run_state (EnableTLS calm no_digest rev ?c) (start_sys [] ())))"
  proof -
    define s1 where "s1 = snd (run_state (write_cert_of calm rev ?c ''a.example.org'') (start_sys [] ()))"
    define s2 where "s2 = snd (run_state (write_cert_of calm rev ?c ''studio.example.org'') s1)"
    define s3 where "s3 = snd (run_state (WriteHtpasswd calm no_digest ''a'' ''u'' ''p'') s2)"
    have "run_state (write_cert_of calm rev ?c ''a.example.org'') (start_sys [] ()) = (None, s1)"
      unfolding s1_def by (intro prod_eqI) (simp, code_simp, simp)
    moreover have "run_state (write_cert_of calm rev ?c ''studio.example.org'') s1 = (None, s2)"
      unfolding s2_def s1_def by (intro prod_eqI) (simp, code_simp, simp)
    moreover have passwd: "run_state (WriteHtpasswd calm no_digest ''a'' ''u'' ''p'') s2 = (Inr (HtpasswdPathFor ''a''), s3)"
      unfolding s3_def s2_def s1_def by (intro prod_eqI) (simp, code_simp, simp)
    moreover have free: "lookup_node s3 (site_path ''a'') = None"
      unfolding s3_def s2_def s1_def by code_simp
    moreover have "fst (run_state (configureNginxHTTPS calm no_digest ?c) s2) = None"
    proof -
      have sel: "et_DashboardUsername ?c = ''u''" "et_DashboardPassword ?c = ''p''" "et_Subdomain ?c = ''a''"
        by (simp_all add: demo_tls_def)
      have "run_state (configureNginxHTTPS calm no_digest ?c) s2 = run_state (CreateSiteConfig calm (tls_site ?c (HtpasswdPathFor ''a''))) s3"
        unfolding configureNginxHTTPS_def sel using passwd by simp
      moreover have "sd_Subdomain (tls_site ?c p) = ''a''" for p by (simp add: tls_site_def sel)
      ultimately show ?thesis using calm_site free by metis
    qed
    then have "run_state (configureNginxHTTPS calm no_digest ?c) s2 = (None, snd (run_state (configureNginxHTTPS calm no_digest ?c) s2))"
      by (metis prod.collapse)
    moreover have "tls_steps calm no_digest rev ?c = [(''tls_write_main'', write_cert_of calm rev ?c ''a.example.org''),
        (''tls_write_studio'', write_cert_of calm rev ?c ''studio.example.org''), (''nginx_https_config'', configureNginxHTTPS calm no_digest ?c)]"
      by (simp add: tls_steps_def demo_tls_def)
    ultimately show ?thesis
      unfolding enable_tls_success by (simp add: run_plain_steps_Cons del: run_steps.simps(2))
  qed
  ultimately show ?thesis
    using enable_tls_in_place [of ?c rev calm no_digest "start_sys [] ()", OF _ _ _ _ _ prod.collapse [symmetric]]
    by (simp add: Let_def)
qed

section \<open>An instance without a studio domain\<close>

lemma path_prefixes_prefix: "x \<in> set (path_prefixes acc p) \<Longrightarrow> prefix x (rev acc @ p)"
proof (induction acc p rule: path_prefixes.induct)
  case (2 acc c cs)
  then show ?case by (auto split: if_splits)
qed (auto split: if_splits)

text \<open>The path that the generated site gets for the certificate of a studio without a domain.\<close>

definition no_studio_cert :: string where
  "no_studio_cert = ''/etc/letsencrypt/live//fullchain.pem''"

definition cert_directive :: "string \<Rightarrow> string" where
  "cert_directive path = ''ssl_certificate '' @ path @ '';''"

lemma site_names_studio_cert:
  assumes "et_StudioDomain config = []"
  shows "str_contains (generateSiteConfigContent (tls_site config p)) (cert_directive no_studio_cert)"
proof -
  let ?cfg = "tls_site config p"
  have "studio_cert ?cfg = no_studio_cert"
    by (simp add: studio_cert_def tls_site_def fullchain_def assms no_studio_cert_def)
  moreover have "sd_TLSEnabled ?cfg" by (simp add: tls_site_def)
  ultimately have "has_prefix (site_studio_head ?cfg) ((unlines [''# Studio server block'', ''server {''] @
      unlines [''    listen 443 ssl http2;'', ''    listen [::]:443 ssl http2;'', []] @ ''    '') @ cert_directive no_studio_cert)"
    by (simp add: site_studio_head_def cert_directive_def no_studio_cert_def)
  then obtain a b where "site_studio_head ?cfg = a @ cert_directive no_studio_cert @ b"
    unfolding has_prefix_iff prefix_def by (metis append_assoc)
  then have "generateSiteConfigContent ?cfg = (site_upstreams ?cfg @ site_api_server ?cfg @ a) @ cert_directive no_studio_cert @
      (b @ site_studio_location ?cfg @ site_redirect ?cfg)"
    by (simp add: generateSiteConfigContent_def)
  then show ?thesis by (rule str_containsI)
qed

lemma leaves_write_pems:
  "(\<And>f c. (f, c) \<in> set pems \<Longrightarrow> q \<noteq> path_join [dir, f]) \<Longrightarrow> leaves q (write_pems h dir pems)"
proof (induction pems)
  case (Cons fc pems)
  obtain f c where fc: "fc = (f, c)" by force
  then have "q \<noteq> path_join [dir, f]" using Cons.prems [of f c] by simp
  moreover have "leaves q (write_pems h dir pems)" using Cons.prems by (intro Cons.IH) auto
  ultimately show ?case by (auto simp: fc intro!: leaves_intros)
qed (simp add: leaves_return)

lemma no_studio_cert_untouched:
  assumes "plain (et_Domain config)" and perm: "\<And>l. mset (order l) = mset l"
  shows "leaves no_studio_cert (write_cert_of h order config (et_Domain config))"
    and "leaves no_studio_cert (WriteHtpasswd h sha1 sub u p)"
proof -
  let ?d = "et_Domain config" and ?pems = "[(''fullchain.pem'', et_CertPEM config), (''privkey.pem'', et_KeyPEM config)]"
  note paths = live_paths [OF assms(1)] pem_names
  obtain c cs where d: "?d = c # cs" "c \<noteq> slash" using assms(1) by (cases "?d") (auto simp: plain_def)
  have neq: "no_studio_cert \<noteq> live_dir ?d @ x" "\<not> prefix no_studio_cert (live_dir ?d)" for x
    using d by (simp_all add: no_studio_cert_def live_dir_def)
  have "set (order ?pems) = set ?pems" using mset_eq_setD [OF perm] .
  then have "no_studio_cert \<noteq> path_join [live_dir ?d, f]" if "(f, c) \<in> set (order ?pems)" for f c
    using that live_paths(2) [OF assms(1) pem_names(1)] live_paths(2) [OF assms(1) pem_names(2)] neq(1) by fastforce
  then have "leaves no_studio_cert (write_pems h (live_dir ?d) (order ?pems))" by (rule leaves_write_pems)
  then show "leaves no_studio_cert (write_cert_of h order config ?d)"
    unfolding write_cert_of_def WriteCertificate_def Let_def paths
    using neq(2) path_prefixes_prefix [of no_studio_cert "[]" "live_dir ?d"] by (intro leaves_intros) auto
  have "no_studio_cert \<notin> set (path_prefixes [] SupabaseSitesDir)"
    using path_prefixes_prefix [of no_studio_cert "[]" SupabaseSitesDir] by (auto simp: no_studio_cert_def SupabaseSitesDir_def)
  then show "leaves no_studio_cert (WriteHtpasswd h sha1 sub u p)"
    unfolding WriteHtpasswd_def Let_def
    by (intro leaves_intros) (simp_all add: no_studio_cert_def HtpasswdPathFor_def SupabaseSitesDir_def)
qed

lemma nginx_https_ok:
  assumes "run_state (configureNginxHTTPS h sha1 config) s = (None, s')"
  obtains u p hp s1 where "run_state (WriteHtpasswd h sha1 (et_Subdomain config) u p) s = (Inr hp, s1)"
    and "run_state (CreateSiteConfig h (tls_site config hp)) s1 = (None, s')"
proof -
  obtain r s1 where r: "run_state (WriteHtpasswd h sha1 (et_Subdomain config) (et_DashboardUsername config) (et_DashboardPassword config)) s = (r, s1)"
    by force
  then obtain hp where "r = Inr hp"
    using assms by (cases r) (auto simp: configureNginxHTTPS_def split: if_splits)
  with r assms that show ?thesis by (simp add: configureNginxHTTPS_def split: if_splits)
qed

lemma create_site_ok:
  assumes "run_state (CreateSiteConfig h cfg) s = (None, s')"
  obtains s1 s2 s3 where "run_state (ConfigureRateLimiting h) s = (None, s1)"
    and "run_state (os_write h (site_path (sd_Subdomain cfg)) (generateSiteConfigContent cfg) 420) s1 = (None, s2)"
    and "run_state (TestConfig h) s2 = (None, s3)"
  using assms unfolding CreateSiteConfig_def Let_def
  by (simp split: prod.splits option.splits)

text \<open>
  C37: The studio domain is optional in the configuration of \<^verbatim>\<open>enable-tls\<close>, but without one the operation
  cannot succeed: the site then names \<^verbatim>\<open>/etc/letsencrypt/live//fullchain.pem\<close>, which nobody writes, and
  \<^verbatim>\<open>nginx -t\<close> rejects a site whose certificate is missing. The site that served the instance until then
  is removed by the rollback.
\<close>

theorem enable_tls_needs_studio:
  assumes empty: "et_StudioDomain config = []" and domain: "plain (et_Domain config)"
    and perm: "\<And>l. mset (order l) = mset l"
    and keep: "commands_keep h no_studio_cert" and absent: "lookup_node s no_studio_cert = None"
    and nginx: "\<And>s content m. lookup_node s (site_path (et_Subdomain config)) = Some (File content m) \<Longrightarrow>
      str_contains content (cert_directive no_studio_cert) \<Longrightarrow> lookup_node s no_studio_cert = None \<Longrightarrow>
      cr_status (fst (hexec h [] [''nginx'', ''-t''] [] s)) \<noteq> None"
  shows "\<not> er_Success (fst (run_state (EnableTLS h sha1 order config) s))"
proof
  let ?exec = "\<lambda>st. executeStep (fst st) (snd st)" and ?p = "site_path (et_Subdomain config)"
  assume "er_Success (fst (run_state (EnableTLS h sha1 order config) s))"
  then obtain rs s' where steps: "run_state (run_steps ?exec (tls_steps h sha1 order config)) s = ((rs, None), s')"
    unfolding enable_tls_success by (cases "run_state (run_steps ?exec (tls_steps h sha1 order config)) s") auto
  have "tls_steps h sha1 order config = [(''tls_write_main'', write_cert_of h order config (et_Domain config)),
      (''nginx_https_config'', configureNginxHTTPS h sha1 config)]"
    by (simp add: tls_steps_def empty)
  note steps = steps [unfolded this]
  from steps obtain s1 rs1 where 1: "run_state (write_cert_of h order config (et_Domain config)) s = (None, s1)"
    and steps1: "run_state (run_steps ?exec [(''nginx_https_config'', configureNginxHTTPS h sha1 config)]) s1 = ((rs1, None), s')"
    by (rule run_plain_steps_ok) simp
  from steps1 have "run_state (configureNginxHTTPS h sha1 config) s1 = (None, s')" by (rule run_plain_steps_ok) simp
  then obtain u p hp s2 where 2: "run_state (WriteHtpasswd h sha1 (et_Subdomain config) u p) s1 = (Inr hp, s2)"
    and 3: "run_state (CreateSiteConfig h (tls_site config hp)) s2 = (None, s')"
    by (rule nginx_https_ok)
  from 3 obtain s3 s4 s5 where 4: "run_state (ConfigureRateLimiting h) s2 = (None, s3)"
    and 5: "run_state (os_write h ?p (generateSiteConfigContent (tls_site config hp)) 420) s3 = (None, s4)"
    and 6: "run_state (TestConfig h) s4 = (None, s5)"
    by (rule create_site_ok) (simp add: tls_site_def)
  have "lookup_node s2 no_studio_cert = None"
    using leavesD [OF no_studio_cert_untouched(1) [OF domain perm] 1] leavesD [OF no_studio_cert_untouched(2) [OF domain perm] 2] absent
    by simp
  moreover have "no_studio_cert \<noteq> nginxConf" "no_studio_cert \<noteq> ?p"
    by (simp_all add: no_studio_cert_def nginxConf_def ConfigDir_def site_path_def SupabaseSitesDir_def)
  ultimately have "lookup_node s4 no_studio_cert = None"
    using ConfigureRateLimiting_other [OF keep 4] os_write_other [OF 5] by simp
  with nginx [of s4] os_write_ok [OF 5] site_names_studio_cert [OF empty]
  have "cr_status (fst (hexec h [] [''nginx'', ''-t''] [] s4)) \<noteq> None" by blast
  with 6 show False by (auto simp: TestConfig_def run_exec_cmd split: prod.splits)
qed

text \<open>An nginx that rejects a site whose studio certificate is missing.\<close>

definition strict_nginx :: "unit host" where
  "strict_nginx = command_host (\<lambda>argv s.
     (case lookup_node s (site_path ''a'') of
        Some (File content m) \<Rightarrow>
          if argv = [''nginx'', ''-t''] \<and> str_contains content (cert_directive no_studio_cert) \<and> lookup_node s no_studio_cert = None
          then (fail_res [] ''cannot load certificate'', s) else (ok_res [], s)
      | _ \<Rightarrow> (ok_res [], s)))"

theorem enable_tls_needs_studio_witness:
  "\<not> er_Success (fst (run_state (EnableTLS strict_nginx no_digest rev (demo_tls [])) (start_sys [] ())))"
proof (rule enable_tls_needs_studio)
  show "commands_keep strict_nginx no_studio_cert"
    by (auto simp: commands_keep_def strict_nginx_def split: option.split node.split)
  fix s :: "unit sys" and content m
  assume "lookup_node s (site_path (et_Subdomain (demo_tls []))) = Some (File content m)"
    "str_contains content (cert_directive no_studio_cert)" "lookup_node s no_studio_cert = None"
  moreover have "et_Subdomain (demo_tls []) = ''a''" by (simp add: demo_tls_def)
  ultimately show "cr_status (fst (hexec strict_nginx [] [''nginx'', ''-t''] [] s)) \<noteq> None"
    by (simp add: strict_nginx_def fail_res_def)
qed (simp_all add: demo_tls_def plain_def lookup_node_def start_sys_def)

end
