(* ===== verification/Enhanced.thy ===== *)
theory Enhanced
  imports Calendar AgentTypes Json
begin

text \<open>
  \<^verbatim>\<open>internal/health/enhanced_health.go\<close>: the health report of an instance at one of five levels, with
  the states of its containers, connectivity checks, resource metrics and service diagnostics. The
  types of the report, from \<^verbatim>\<open>pkg/types/types.go\<close>, are here too because they hold floating-point numbers.
\<close>

section \<open>Types\<close>

type_synonym HealthCheckLevel = string

definition HealthCheckBasic :: HealthCheckLevel where "HealthCheckBasic = ''basic''"
definition HealthCheckDeep :: HealthCheckLevel where "HealthCheckDeep = ''deep''"
definition HealthCheckMetrics :: HealthCheckLevel where "HealthCheckMetrics = ''metrics''"
definition HealthCheckServices :: HealthCheckLevel where "HealthCheckServices = ''services''"
definition HealthCheckFull :: HealthCheckLevel where "HealthCheckFull = ''full''"

record EnhancedHealthCheckConfig =
  eh_InstanceID :: string
  eh_Subdomain :: string
  eh_BaseDir :: string
  eh_Level :: HealthCheckLevel
  eh_Timeout :: int

record ContainerMetrics =
  cm_Name :: string
  cm_CPUPercent :: float64
  cm_MemoryMB :: int
  cm_MemoryPercent :: float64
  cm_DiskMB :: int
  cm_NetworkRxMB :: float64
  cm_NetworkTxMB :: float64

record ServiceDiagnostics =
  sg_Name :: string
  sg_Status :: string
  sg_ResponseTimeMS :: int
  sg_Details :: "(string \<times> string) list"
  sg_Errors :: "string list"

record HealthCheck =
  hk_Name :: string
  hk_Status :: string
  hk_Message :: string
  hk_DurationMS :: int

record EnhancedContainerStatus =
  es_Name :: string
  es_Status :: string
  es_Health :: string
  es_Uptime :: string
  es_Restarts :: int
  es_Metrics :: "ContainerMetrics option"

record EnhancedHealthCheckResult =
  en_InstanceID :: string
  en_OverallStatus :: string
  en_Timestamp :: stamp
  en_Containers :: "EnhancedContainerStatus list"
  en_Services :: "ServiceDiagnostics list"
  en_Checks :: "HealthCheck list"
  en_Duration :: string
  en_Level :: string

section \<open>Sizes and durations\<close>

definition formatDuration :: "int \<Rightarrow> string" where
  "formatDuration d =
     (let dd = dur_days d; hh = rmd (int_of_float (dur_hours d)) 24; mm = rmd (int_of_float (dur_minutes d)) 60 in
      if 0 < dd then itoa dd @ ''d '' @ itoa hh @ ''h '' @ itoa mm @ ''m''
      else if 0 < hh then itoa hh @ ''h '' @ itoa mm @ ''m''
      else itoa mm @ ''m'')"

text \<open>A number with one of two units: the number and the multiplier of the unit.\<close>

definition parseMemorySize :: "string \<Rightarrow> int" where
  "parseMemorySize sizeStr =
     (let s = trim_space sizeStr;
        (multiplier, s) =
          (if has_suffix s ''GiB'' \<or> has_suffix s ''GB'' then (1024, trim_suffix (trim_suffix s ''GiB'') ''GB'')
           else if has_suffix s ''MiB'' \<or> has_suffix s ''MB'' then (1, trim_suffix (trim_suffix s ''MiB'') ''MB'')
           else if has_suffix s ''KiB'' \<or> has_suffix s ''KB'' then (1024, trim_suffix (trim_suffix s ''KiB'') ''KB'')
           else (1, s))
      in case ParseFloat s of
        (v, None) \<Rightarrow> int_of_float (fmul v (float_of_int multiplier))
      | (_, Some e) \<Rightarrow> 0)"

definition parseNetworkSize :: "string \<Rightarrow> float64" where
  "parseNetworkSize sizeStr =
     (let s = trim_space sizeStr;
        (multiplier, s) =
          (if has_suffix s ''GB'' then (round64 1024, trim_suffix s ''GB'')
           else if has_suffix s ''MB'' then (round64 1, trim_suffix s ''MB'')
           else if has_suffix s ''KB'' then (round64 (1 / 1000), trim_suffix s ''KB'')
           else if has_suffix s ''B'' then (round64 (1 / 1000000), trim_suffix s ''B'')
           else (round64 1, s))
      in case ParseFloat s of
        (v, None) \<Rightarrow> fmul v multiplier
      | (_, Some e) \<Rightarrow> Fin 0)"

section \<open>Containers\<close>

text \<open>\<^verbatim>\<open>strings.Split\<close> at a separator of several characters.\<close>

function split_at :: "string \<Rightarrow> string \<Rightarrow> string \<Rightarrow> string list" where
  "split_at sep acc s =
     (case s of [] \<Rightarrow> [rev acc]
      | c # cs \<Rightarrow>
          if sep \<noteq> [] \<and> has_prefix s sep then rev acc # split_at sep [] (drop (length sep) s)
          else split_at sep (c # acc) cs)"
  by pat_completeness auto
termination
  by (relation "measure (\<lambda>(sep, acc, s). length s)") auto

declare split_at.simps [simp del]

definition container_suffixes :: "string list" where
  "container_suffixes = [''-postgres'', ''-kong'', ''-studio'', ''-auth'', ''-rest'', ''-realtime'', ''-storage'']"

definition inspect_format :: string where
  "inspect_format = ''{{.State.Running}}|{{.State.Health.Status}}|{{.State.StartedAt}}|{{.RestartCount}}''"

definition no_container :: "string \<Rightarrow> EnhancedContainerStatus" where
  "no_container name = \<lparr>es_Name = name, es_Status = ''stopped'', es_Health = [], es_Uptime = [], es_Restarts = 0,
     es_Metrics = None\<rparr>"

definition read_inspect :: "string list \<Rightarrow> nat \<Rightarrow> EnhancedContainerStatus \<Rightarrow> EnhancedContainerStatus" where
  "read_inspect parts t status = (case parts of
     running # health # started # restarts # _ \<Rightarrow>
       status\<lparr>es_Status := (if running = ''true'' then ''running'' else es_Status status),
         es_Health := (if health \<noteq> [] \<and> health \<noteq> ''<no value>'' then health else es_Health status),
         es_Uptime := (case parse_time started of Some st \<Rightarrow> formatDuration (clamp64 (int t - st)) | None \<Rightarrow> es_Uptime status),
         es_Restarts := (case atoi restarts of (n, None) \<Rightarrow> n | (n, Some e) \<Rightarrow> es_Restarts status)\<rparr>
   | _ \<Rightarrow> status)"

definition checkSingleContainer :: "'x host \<Rightarrow> string \<Rightarrow> ('x, EnhancedContainerStatus) io" where
  "checkSingleContainer h name = do {
     r \<leftarrow> exec_cmd h [''sudo'', ''docker'', ''inspect'', name, ''--format'', inspect_format];
     if cr_status r \<noteq> None then ret ((no_container name)\<lparr>es_Status := ''not_found''\<rparr>)
     else do {
       t \<leftarrow> time_now;
       ret (read_inspect (split_char CHR ''|'' (trim_space (cr_out r))) t (no_container name))
     }
   }"

fun map_io :: "('a \<Rightarrow> ('x, 'b) io) \<Rightarrow> 'a list \<Rightarrow> ('x, 'b list) io" where
  "map_io f [] = ret []"
| "map_io f (x # xs) = do { y \<leftarrow> f x; ys \<leftarrow> map_io f xs; ret (y # ys) }"

definition checkContainerStatus :: "'x host \<Rightarrow> string \<Rightarrow> ('x, error + EnhancedContainerStatus list) io" where
  "checkContainerStatus h subdomain = do {
     containers \<leftarrow> map_io (\<lambda>suf. checkSingleContainer h (subdomain @ suf)) container_suffixes;
     ret (Inr containers)
   }"

section \<open>Checks\<close>

text \<open>A check gives whether it succeeded, a message and its duration.\<close>

type_synonym verdict = "bool \<times> string \<times> int"

definition elapsed :: "nat \<Rightarrow> ('x, int) io" where
  "elapsed start = do { t \<leftarrow> time_now; ret (milliseconds (t - start)) }"

definition in_postgres :: "string \<Rightarrow> string list \<Rightarrow> string list" where
  "in_postgres subdomain argv = [''sudo'', ''docker'', ''exec'', ''-i'', subdomain @ ''-postgres''] @ argv"

definition checkPostgresConnectivity :: "'x host \<Rightarrow> string \<Rightarrow> ('x, verdict) io" where
  "checkPostgresConnectivity h subdomain = do {
     start \<leftarrow> time_now;
     r \<leftarrow> exec_cmd h (in_postgres subdomain [''pg_isready'', ''-h'', ''localhost'', ''-p'', ''5432'']);
     duration \<leftarrow> elapsed start;
     ret (if cr_status r \<noteq> None then (False, ''PostgreSQL not ready: '' @ cr_all r, duration)
       else if str_contains (cr_all r) ''accepting connections'' then (True, ''PostgreSQL accepting connections'', duration)
       else (False, cr_all r, duration))
   }"

definition checkDatabaseQuery :: "'x host \<Rightarrow> string \<Rightarrow> ('x, verdict) io" where
  "checkDatabaseQuery h subdomain = do {
     start \<leftarrow> time_now;
     r \<leftarrow> exec_cmd h (in_postgres subdomain [''psql'', ''-U'', ''postgres'', ''-c'', ''SELECT 1;'']);
     duration \<leftarrow> elapsed start;
     ret (if cr_status r \<noteq> None then (False, ''Query execution failed: '' @ cr_all r, duration)
       else (True, ''Database query executed successfully'', duration))
   }"

definition checkKongGatewayHealth :: "'x host \<Rightarrow> int \<Rightarrow> ('x, verdict) io" where
  "checkKongGatewayHealth h port = do {
     start \<leftarrow> time_now;
     resp \<leftarrow> http_req h ''GET'' (''http://localhost:'' @ itoa port @ ''/'') [];
     duration \<leftarrow> elapsed start;
     ret (case resp of
         Inl e \<Rightarrow> (False, ''Kong not responding: '' @ e, duration)
       | Inr (status, body) \<Rightarrow>
           if 0 < status then (True, ''Kong responding (HTTP '' @ itoa status @ '')'', duration)
           else (False, ''Kong returned invalid response'', duration))
   }"

definition checkHTTPEndpoint :: "'x host \<Rightarrow> string \<Rightarrow> string \<Rightarrow> ('x, verdict) io" where
  "checkHTTPEndpoint h url serviceName = do {
     start \<leftarrow> time_now;
     resp \<leftarrow> http_req h ''GET'' url [];
     duration \<leftarrow> elapsed start;
     ret (case resp of
         Inl e \<Rightarrow> (False, serviceName @ '' not responding: '' @ e, duration)
       | Inr (status, body) \<Rightarrow>
           if status < 500 then (True, serviceName @ '' responding (HTTP '' @ itoa status @ '')'', duration)
           else (False, serviceName @ '' error (HTTP '' @ itoa status @ '')'', duration))
   }"

definition check_entry :: "string \<Rightarrow> verdict \<Rightarrow> HealthCheck" where
  "check_entry name v = (case v of (success, message, duration) \<Rightarrow>
     \<lparr>hk_Name = name, hk_Status = (if success then ''passed'' else ''failed''), hk_Message = message,
      hk_DurationMS = duration\<rparr>)"

text \<open>The checks in their order, whether one failed or not, with the error at the end.\<close>

definition perform :: "(string \<times> ('x, verdict) io) list \<Rightarrow> string \<Rightarrow> EnhancedHealthCheckResult
    \<Rightarrow> ('x, error option \<times> EnhancedHealthCheckResult) io" where
  "perform checks failure result = do {
     cs \<leftarrow> map_io (\<lambda>(name, checkFn). do { v \<leftarrow> checkFn; ret (check_entry name v) }) checks;
     ret (if list_ex (\<lambda>c. hk_Status c = ''failed'') cs then Some failure else None,
          result\<lparr>en_Checks := en_Checks result @ cs\<rparr>)
   }"

definition basic_checks :: "'x host \<Rightarrow> EnhancedHealthCheckConfig \<Rightarrow> (string \<times> ('x, verdict) io) list" where
  "basic_checks h config =
     [(''postgres_connectivity'', checkPostgresConnectivity h (eh_Subdomain config)),
      (''kong_gateway'', checkKongGatewayHealth h 8000),
      (''studio_accessibility'', checkHTTPEndpoint h ''http://localhost:3000'' ''Studio'')]"

definition deep_checks :: "'x host \<Rightarrow> EnhancedHealthCheckConfig \<Rightarrow> (string \<times> ('x, verdict) io) list" where
  "deep_checks h config =
     [(''database_query_execution'', checkDatabaseQuery h (eh_Subdomain config)),
      (''rest_api_endpoint'', checkHTTPEndpoint h ''http://localhost:8000/rest/v1/'' ''REST API''),
      (''auth_endpoint'', checkHTTPEndpoint h ''http://localhost:8000/auth/v1/health'' ''Auth''),
      (''storage_endpoint'', checkHTTPEndpoint h ''http://localhost:8000/storage/v1/'' ''Storage''),
      (''realtime_endpoint'', checkHTTPEndpoint h ''http://localhost:8000/realtime/v1/'' ''Realtime'')]"

definition performBasicChecks :: "'x host \<Rightarrow> EnhancedHealthCheckConfig \<Rightarrow> EnhancedHealthCheckResult
    \<Rightarrow> ('x, error option \<times> EnhancedHealthCheckResult) io" where
  "performBasicChecks h config result = perform (basic_checks h config) ''some basic checks failed'' result"

definition performDeepChecks :: "'x host \<Rightarrow> EnhancedHealthCheckConfig \<Rightarrow> EnhancedHealthCheckResult
    \<Rightarrow> ('x, error option \<times> EnhancedHealthCheckResult) io" where
  "performDeepChecks h config result = perform (deep_checks h config) ''some deep checks failed'' result"

section \<open>Metrics\<close>

definition no_metrics :: "string \<Rightarrow> ContainerMetrics" where
  "no_metrics name = \<lparr>cm_Name = name, cm_CPUPercent = Fin 0, cm_MemoryMB = 0, cm_MemoryPercent = Fin 0, cm_DiskMB = 0,
     cm_NetworkRxMB = Fin 0, cm_NetworkTxMB = Fin 0\<rparr>"

definition read_stats :: "string list \<Rightarrow> ContainerMetrics \<Rightarrow> ContainerMetrics" where
  "read_stats parts m = (case parts of
     cpu # mem # net # _ \<Rightarrow>
       (let m = (case ParseFloat (trim_suffix cpu ''%'') of (v, None) \<Rightarrow> m\<lparr>cm_CPUPercent := v\<rparr> | (v, Some e) \<Rightarrow> m);
          m = m\<lparr>cm_MemoryMB := parseMemorySize (hd (split_at '' / '' [] mem))\<rparr>
        in case split_at '' / '' [] net of
            rx # tx # _ \<Rightarrow> m\<lparr>cm_NetworkRxMB := parseNetworkSize rx, cm_NetworkTxMB := parseNetworkSize tx\<rparr>
          | _ \<Rightarrow> m)
   | _ \<Rightarrow> m)"

definition getContainerMetrics :: "'x host \<Rightarrow> string \<Rightarrow> ('x, ContainerMetrics) io" where
  "getContainerMetrics h name = do {
     r \<leftarrow> exec_cmd h [''sudo'', ''docker'', ''stats'', name, ''--no-stream'', ''--format'',
       ''{{.CPUPerc}}|{{.MemUsage}}|{{.NetIO}}''];
     ret (if cr_status r \<noteq> None then no_metrics name
       else read_stats (split_char CHR ''|'' (trim_space (cr_out r))) (no_metrics name))
   }"

definition collectMetrics :: "'x host \<Rightarrow> EnhancedHealthCheckConfig \<Rightarrow> EnhancedHealthCheckResult
    \<Rightarrow> ('x, error option \<times> EnhancedHealthCheckResult) io" where
  "collectMetrics h config result = do {
     cs \<leftarrow> map_io (\<lambda>c. if es_Status c = ''running''
       then do { m \<leftarrow> getContainerMetrics h (es_Name c); ret (c\<lparr>es_Metrics := Some m\<rparr>) } else ret c) (en_Containers result);
     ret (None, result\<lparr>en_Containers := cs\<rparr>)
   }"

section \<open>Diagnostics of services\<close>

definition psql_value :: "'x host \<Rightarrow> string \<Rightarrow> string \<Rightarrow> ('x, error + string) io" where
  "psql_value h subdomain query = do {
     r \<leftarrow> exec_cmd h (in_postgres subdomain [''psql'', ''-U'', ''postgres'', ''-t'', ''-c'', query]);
     ret (case cr_status r of None \<Rightarrow> Inr (trim_space (cr_out r)) | Some e \<Rightarrow> Inl e)
   }"

definition checkPostgresDiagnostics :: "'x host \<Rightarrow> string \<Rightarrow> ('x, ServiceDiagnostics) io" where
  "checkPostgresDiagnostics h subdomain = do {
     start \<leftarrow> time_now;
     conns \<leftarrow> psql_value h subdomain ''SELECT count(*) FROM pg_stat_activity;'';
     dbsize \<leftarrow> psql_value h subdomain (''SELECT pg_size_pretty(pg_database_size('' @ squote # ''postgres'' @ squote # ''));'');
     duration \<leftarrow> elapsed start;
     ret \<lparr>sg_Name = ''postgresql'',
       sg_Status = (case conns of Inr v \<Rightarrow> ''healthy'' | Inl e \<Rightarrow> ''degraded''),
       sg_ResponseTimeMS = duration,
       sg_Details = (case conns of Inr v \<Rightarrow> [(''active_connections'', v)] | Inl e \<Rightarrow> []) @
         (case dbsize of Inr v \<Rightarrow> [(''database_size'', v)] | Inl e \<Rightarrow> []),
       sg_Errors = (case conns of Inr v \<Rightarrow> [] | Inl e \<Rightarrow> [''Failed to get connection count: '' @ e])\<rparr>
   }"

text \<open>The first value of a body, decoded into a map whose numbers are floating-point.\<close>

fun numbers_fit :: "json \<Rightarrow> bool" where
  "numbers_fit (JNum t) \<longleftrightarrow> snd (ParseFloat t) = None"
| "numbers_fit (JArr js) \<longleftrightarrow> list_all numbers_fit js"
| "numbers_fit (JObj ms) \<longleftrightarrow> list_all (\<lambda>(k, v). numbers_fit v) ms"
| "numbers_fit j \<longleftrightarrow> True"

definition decode_map :: "string \<Rightarrow> (string \<times> json) list option" where
  "decode_map body = (case json_val (2 * length body + 2) body of
     Some (JObj ms, r) \<Rightarrow> (if numbers_fit (JObj ms) then Some ms else None)
   | Some (JNull, r) \<Rightarrow> Some []
   | _ \<Rightarrow> None)"

definition active_connections :: "string \<Rightarrow> (string \<times> string) list" where
  "active_connections body = (case decode_map body of None \<Rightarrow> []
     | Some ms \<Rightarrow> (case map_of (rev ms) ''server'' of
         Some (JObj srv) \<Rightarrow> (case map_of (rev srv) ''connections_active'' of
             Some (JNum t) \<Rightarrow> [(''active_connections'', format_f 0 (fst (ParseFloat t)))]
           | _ \<Rightarrow> [])
       | _ \<Rightarrow> []))"

definition checkKongDiagnostics :: "'x host \<Rightarrow> ('x, ServiceDiagnostics) io" where
  "checkKongDiagnostics h = do {
     start \<leftarrow> time_now;
     resp \<leftarrow> http_req h ''GET'' ''http://localhost:8001/status'' [];
     case resp of
       Inl e \<Rightarrow> ret \<lparr>sg_Name = ''kong'', sg_Status = ''unhealthy'', sg_ResponseTimeMS = 0, sg_Details = [],
         sg_Errors = [''Admin API not responding: '' @ e]\<rparr>
     | Inr (status, body) \<Rightarrow> do {
         duration \<leftarrow> elapsed start;
         ret \<lparr>sg_Name = ''kong'', sg_Status = (if status = 200 then ''healthy'' else ''degraded''),
           sg_ResponseTimeMS = duration,
           sg_Details = (if status = 200 then active_connections body else []),
           sg_Errors = (if status = 200 then [] else [''Admin API returned HTTP '' @ itoa status])\<rparr>
       }
   }"

definition performServiceDiagnostics :: "'x host \<Rightarrow> EnhancedHealthCheckConfig \<Rightarrow> EnhancedHealthCheckResult
    \<Rightarrow> ('x, error option \<times> EnhancedHealthCheckResult) io" where
  "performServiceDiagnostics h config result = do {
     pgDiag \<leftarrow> checkPostgresDiagnostics h (eh_Subdomain config);
     kongDiag \<leftarrow> checkKongDiagnostics h;
     ret (None, result\<lparr>en_Services := en_Services result @ [pgDiag, kongDiag]\<rparr>)
   }"

section \<open>The report\<close>

definition sick :: "EnhancedContainerStatus \<Rightarrow> bool" where
  "sick c \<longleftrightarrow> es_Status c \<noteq> ''running'' \<or> es_Health c \<noteq> [] \<and> es_Health c \<noteq> ''healthy''"

definition with_containers ::
  "error + EnhancedContainerStatus list \<Rightarrow> EnhancedHealthCheckResult \<Rightarrow> EnhancedHealthCheckResult" where
  "with_containers r result = (case r of
     Inl e \<Rightarrow> result\<lparr>en_OverallStatus := ''unhealthy'',
       en_Checks := en_Checks result @ [\<lparr>hk_Name = ''container_check'', hk_Status = ''failed'', hk_Message = e, hk_DurationMS = 0\<rparr>]\<rparr>
   | Inr containers \<Rightarrow> result\<lparr>en_Containers := containers,
       en_OverallStatus := (if list_ex sick containers then ''degraded'' else en_OverallStatus result)\<rparr>)"

definition degraded_if :: "error option \<times> EnhancedHealthCheckResult \<Rightarrow> EnhancedHealthCheckResult" where
  "degraded_if r = (case r of (Some e, result) \<Rightarrow> result\<lparr>en_OverallStatus := ''degraded''\<rparr> | (None, result) \<Rightarrow> result)"

definition after_basic :: "error option \<times> EnhancedHealthCheckResult \<Rightarrow> EnhancedHealthCheckResult" where
  "after_basic r = (if en_OverallStatus (snd r) = ''healthy'' then degraded_if r else snd r)"

definition after_metrics :: "error option \<times> EnhancedHealthCheckResult \<Rightarrow> EnhancedHealthCheckResult" where
  "after_metrics r = (case r of (None, result) \<Rightarrow> result
     | (Some e, result) \<Rightarrow> result\<lparr>en_Checks := en_Checks result @
         [\<lparr>hk_Name = ''metrics_collection'', hk_Status = ''warning'',
           hk_Message = ''Metrics collection partially failed: '' @ e, hk_DurationMS = 0\<rparr>]\<rparr>)"

definition at_levels :: "HealthCheckLevel list \<Rightarrow> EnhancedHealthCheckConfig
    \<Rightarrow> (EnhancedHealthCheckResult \<Rightarrow> ('x, EnhancedHealthCheckResult) io) \<Rightarrow> EnhancedHealthCheckResult
    \<Rightarrow> ('x, EnhancedHealthCheckResult) io" where
  "at_levels levels config m result = (if eh_Level config \<in> set levels then m result else ret result)"

definition CheckEnhanced :: "'x host \<Rightarrow> EnhancedHealthCheckConfig option
    \<Rightarrow> ('x, error + EnhancedHealthCheckResult) io" where
  "CheckEnhanced h cfg = (case cfg of None \<Rightarrow> ret (Inl ''config cannot be nil'')
     | Some config \<Rightarrow> do {
         startTime \<leftarrow> time_now;
         let result = \<lparr>en_InstanceID = eh_InstanceID config, en_OverallStatus = ''healthy'', en_Timestamp = rfc3339 startTime,
           en_Containers = [], en_Services = [], en_Checks = [], en_Duration = [], en_Level = eh_Level config\<rparr>;
         cs \<leftarrow> checkContainerStatus h (eh_Subdomain config);
         r \<leftarrow> performBasicChecks h config (with_containers cs result);
         let result = after_basic r;
         result \<leftarrow> at_levels [HealthCheckDeep, HealthCheckFull] config
           (\<lambda>result. do { r \<leftarrow> performDeepChecks h config result; ret (degraded_if r) }) result;
         result \<leftarrow> at_levels [HealthCheckMetrics, HealthCheckFull] config
           (\<lambda>result. do { r \<leftarrow> collectMetrics h config result; ret (after_metrics r) }) result;
         result \<leftarrow> at_levels [HealthCheckServices, HealthCheckFull] config
           (\<lambda>result. do { r \<leftarrow> performServiceDiagnostics h config result; ret (degraded_if r) }) result;
         t \<leftarrow> time_now;
         ret (Inr (result\<lparr>en_Duration := dur_string (t - startTime)\<rparr>))
       })"

section \<open>Lemmas\<close>

lemma wp_bind_return: "wp (State_Monad.bind m (\<lambda>a. ret (f a))) Q s = wp m (\<lambda>a. Q (f a)) s"
  by (simp add: wp_def split: prod.splits)

lemma map_io_wp:
  assumes "\<And>x s. x \<in> set xs \<Longrightarrow> wp (f x) (\<lambda>y _. R x y) s"
  shows "wp (map_io f xs) (\<lambda>ys _. list_all2 R xs ys) s"
  using assms
proof (induction xs arbitrary: s)
  case Nil
  then show ?case by (simp add: wp_simps)
next
  case (Cons x xs)
  show ?case
    unfolding map_io.simps wp_bind wp_return
    by (rule wp_mono, rule Cons.prems, simp, rule wp_mono [OF Cons.IH]) (auto simp: wp_return intro: Cons.prems)
qed

lemma emits_map_io [emits_intros]: "(\<And>x. x \<in> set xs \<Longrightarrow> emits P (f x)) \<Longrightarrow> emits P (map_io f xs)"
  by (induction xs) (auto intro!: emits_intros)

lemma perform_wp:
  "wp (perform checks failure result) (\<lambda>(e, r) _. \<exists>cs. r = result\<lparr>en_Checks := en_Checks result @ cs\<rparr>
     \<and> map hk_Name cs = map fst checks \<and> (e = None \<longleftrightarrow> list_all (\<lambda>c. hk_Status c = ''passed'') cs)) s"
proof -
  let ?R = "\<lambda>(name, fn) (c :: HealthCheck). hk_Name c = name \<and> (hk_Status c = ''passed'' \<or> hk_Status c = ''failed'')"
  have "wp (map_io (\<lambda>(name, checkFn). do { v \<leftarrow> checkFn; ret (check_entry name v) }) checks)
      (\<lambda>cs _. list_all2 ?R checks cs) s"
    by (rule map_io_wp) (auto simp: wp_def check_entry_def split: prod.splits)
  then show ?thesis
    unfolding perform_def wp_bind_return
  proof (rule wp_mono)
    fix cs s'
    assume a: "list_all2 ?R checks cs"
    then have "map hk_Name cs = map fst checks" by (induction rule: list_all2_induct) auto
    moreover have "list_all (\<lambda>c. (hk_Status c = ''failed'') = (hk_Status c \<noteq> ''passed'')) cs"
      using a by (induction rule: list_all2_induct) auto
    then have "list_ex (\<lambda>c. hk_Status c = ''failed'') cs \<longleftrightarrow> \<not> list_all (\<lambda>c. hk_Status c = ''passed'') cs"
      by (auto simp: list_ex_iff list_all_iff)
    ultimately show "(\<lambda>(e, r) _. \<exists>cs. r = result\<lparr>en_Checks := en_Checks result @ cs\<rparr> \<and> map hk_Name cs = map fst checks
          \<and> (e = None \<longleftrightarrow> list_all (\<lambda>c. hk_Status c = ''passed'') cs))
        (if list_ex (\<lambda>c. hk_Status c = ''failed'') cs then Some failure else None,
          result\<lparr>en_Checks := en_Checks result @ cs\<rparr>) s'"
      by auto
  qed
qed

text \<open>
  What a report owes its reader at every stage: the checks so far, by their names, and the state that
  follows from the containers and the checks. \<open>C\<close> is what is known about the containers, of which only
  the name and whether they are well count.
\<close>

definition outline :: "EnhancedContainerStatus list \<Rightarrow> (string \<times> bool) list" where
  "outline cs = map (\<lambda>c. (es_Name c, sick c)) cs"

definition report_so_far ::
  "((string \<times> bool) list \<Rightarrow> bool) \<Rightarrow> EnhancedHealthCheckConfig \<Rightarrow> string list \<Rightarrow> EnhancedHealthCheckResult \<Rightarrow> bool" where
  "report_so_far C config names r \<longleftrightarrow>
     C (outline (en_Containers r))
     \<and> map hk_Name (en_Checks r) = names
     \<and> en_InstanceID r = eh_InstanceID config \<and> en_Level r = eh_Level config
     \<and> en_OverallStatus r = (if list_all (\<lambda>c. \<not> sick c) (en_Containers r)
         \<and> list_all (\<lambda>c. hk_Status c = ''passed'') (en_Checks r) then ''healthy'' else ''degraded'')"

definition basic_names :: "string list" where
  "basic_names = [''postgres_connectivity'', ''kong_gateway'', ''studio_accessibility'']"

definition deep_names :: "string list" where
  "deep_names = [''database_query_execution'', ''rest_api_endpoint'', ''auth_endpoint'', ''storage_endpoint'', ''realtime_endpoint'']"

lemma check_names: "map fst (basic_checks h config) = basic_names" "map fst (deep_checks h config) = deep_names"
  by (simp_all add: basic_checks_def deep_checks_def basic_names_def deep_names_def)

lemma basic_wp:
  assumes "C (outline cs)"
    and "result = \<lparr>en_InstanceID = eh_InstanceID config, en_OverallStatus = ''healthy'', en_Timestamp = t,
      en_Containers = [], en_Services = [], en_Checks = [], en_Duration = [], en_Level = eh_Level config\<rparr>"
  shows "wp (performBasicChecks h config (with_containers (Inr cs) result))
    (\<lambda>r _. report_so_far C config basic_names (after_basic r)) s"
  unfolding performBasicChecks_def
  by (rule wp_mono [OF perform_wp])
    (auto simp: assms report_so_far_def after_basic_def degraded_if_def with_containers_def check_names
      list_ex_iff list_all_iff split: option.splits if_splits)

lemma deep_wp:
  "report_so_far C config names result \<Longrightarrow>
     wp (performDeepChecks h config result) (\<lambda>r _. report_so_far C config (names @ deep_names) (degraded_if r)) s"
  unfolding performDeepChecks_def
  by (rule wp_mono [OF perform_wp])
    (auto simp: report_so_far_def degraded_if_def check_names split: option.splits)

lemma metrics_wp:
  assumes "report_so_far C config names result"
  shows "wp (collectMetrics h config result) (\<lambda>r _. report_so_far C config names (after_metrics r)) s"
proof -
  let ?R = "\<lambda>(c :: EnhancedContainerStatus) (d :: EnhancedContainerStatus). es_Name d = es_Name c \<and> sick d = sick c"
  let ?f = "\<lambda>c. if es_Status c = ''running'' then do { m \<leftarrow> getContainerMetrics h (es_Name c); ret (c\<lparr>es_Metrics := Some m\<rparr>) } else ret c"
  have "wp (map_io ?f (en_Containers result)) (\<lambda>cs _. list_all2 ?R (en_Containers result) cs) s"
    by (rule map_io_wp) (auto simp: wp_def sick_def split: prod.splits)
  then show ?thesis
    unfolding collectMetrics_def wp_bind wp_return
  proof (rule wp_mono)
    fix cs s'
    assume a: "list_all2 ?R (en_Containers result) cs"
    have "outline cs = outline (en_Containers result)"
      using a by (induction rule: list_all2_induct) (auto simp: outline_def)
    moreover have "list_all (\<lambda>c. \<not> sick c) cs = list_all (\<lambda>c. \<not> sick c) (en_Containers result)"
      using a by (induction rule: list_all2_induct) auto
    ultimately show "report_so_far C config names (after_metrics (None, result\<lparr>en_Containers := cs\<rparr>))"
      using assms by (simp add: report_so_far_def after_metrics_def)
  qed
qed

lemma services_wp:
  "report_so_far C config names result \<Longrightarrow>
     wp (performServiceDiagnostics h config result) (\<lambda>r _. report_so_far C config names (degraded_if r)) s"
  unfolding performServiceDiagnostics_def wp_bind wp_return
  by (rule wpI, rule wpI) (simp add: report_so_far_def degraded_if_def)

lemma at_levels_wp:
  "(eh_Level config \<in> set levels \<Longrightarrow> wp (m result) Q s) \<Longrightarrow> (eh_Level config \<notin> set levels \<Longrightarrow> Q result s) \<Longrightarrow>
     wp (at_levels levels config m result) Q s"
  by (simp add: at_levels_def wp_simps)

definition expected_names :: "EnhancedHealthCheckConfig \<Rightarrow> string list" where
  "expected_names config = basic_names @
     (if eh_Level config = HealthCheckDeep \<or> eh_Level config = HealthCheckFull then deep_names else [])"

lemma CheckEnhanced_wp:
  assumes "\<And>s. wp (checkContainerStatus h (eh_Subdomain config)) (\<lambda>r _. \<exists>cs. r = Inr cs \<and> C (outline cs)) s"
  shows "wp (CheckEnhanced h (Some config)) (\<lambda>r _. \<exists>res. r = Inr res \<and> report_so_far C config (expected_names config) res) s"
proof -
  let ?n = "expected_names config"
  have services: "wp (at_levels [HealthCheckServices, HealthCheckFull] config
      (\<lambda>result. do { r \<leftarrow> performServiceDiagnostics h config result; ret (degraded_if r) }) result)
      (\<lambda>r _. report_so_far C config ?n r) s" if "report_so_far C config ?n result" for result s
    by (rule at_levels_wp) (auto simp: wp_bind_return that intro!: services_wp)
  have metrics: "wp (at_levels [HealthCheckMetrics, HealthCheckFull] config
      (\<lambda>result. do { r \<leftarrow> collectMetrics h config result; ret (after_metrics r) }) result)
      (\<lambda>r _. report_so_far C config ?n r) s" if "report_so_far C config ?n result" for result s
    by (rule at_levels_wp) (auto simp: wp_bind_return that intro!: metrics_wp)
  have deep: "wp (at_levels [HealthCheckDeep, HealthCheckFull] config
      (\<lambda>result. do { r \<leftarrow> performDeepChecks h config result; ret (degraded_if r) }) result)
      (\<lambda>r _. report_so_far C config ?n r) s" if "report_so_far C config basic_names result" for result s
    using deep_wp [OF that] that
    by (intro at_levels_wp) (auto simp: wp_bind_return expected_names_def)
  show ?thesis
    unfolding CheckEnhanced_def option.case Let_def
    unfolding wp_bind wp_return
    apply (rule wpI)
    apply (rule wp_mono [OF assms], elim exE conjE, simp only:)
    apply (rule wp_mono [OF basic_wp [where C = C, OF _ refl]], assumption)
    apply (rule wp_mono [OF deep], assumption)
    apply (rule wp_mono [OF metrics], assumption)
    apply (rule wp_mono [OF services], assumption)
    apply (rule wpI)
    apply (simp add: report_so_far_def)
    done
qed

section \<open>Properties\<close>

text \<open>The seven containers that every report lists.\<close>

definition names_of :: "string \<Rightarrow> string list" where
  "names_of sub = map (\<lambda>suf. sub @ suf) container_suffixes"

lemma containers_wp:
  assumes "\<And>suf s. wp (checkSingleContainer h (sub @ suf)) (\<lambda>c _. R suf c) s"
  shows "wp (checkContainerStatus h sub) (\<lambda>r _. \<exists>cs. r = Inr cs \<and> list_all2 R container_suffixes cs) s"
  unfolding checkContainerStatus_def wp_bind_return
  by (rule wp_mono, rule map_io_wp, rule assms) auto

lemma single_container_name: "wp (checkSingleContainer h name) (\<lambda>c _. es_Name c = name) s"
  unfolding checkSingleContainer_def wp_bind wp_if wp_return
  by (rule wpI) (auto simp: wp_def no_container_def read_inspect_def time_now_def split: list.splits)


text \<open>
  The check looks for the container \<^verbatim>\<open><subdomain>-realtime\<close>, while the gateway of the same agent sends
  the requests to \<^verbatim>\<open>realtime-dev.<subdomain>-realtime\<close>. On a machine without a container of the first name
  no report is ever healthy, at no level and whatever else runs.
\<close>

theorem enhanced_misses_realtime:
  assumes "\<And>s. cr_status (fst (hexec h [] [''sudo'', ''docker'', ''inspect'', eh_Subdomain config @ ''-realtime'',
    ''--format'', inspect_format] [] s)) \<noteq> None"
  shows "\<exists>r s'. run_state (CheckEnhanced h (Some config)) s = (Inr r, s') \<and> en_OverallStatus r = ''degraded''"
proof -
  let ?sub = "eh_Subdomain config" and ?C = "\<lambda>l. (True \<in> snd ` set l)"
  have "wp (checkSingleContainer h (?sub @ suf)) (\<lambda>c _. suf = ''-realtime'' \<longrightarrow> sick c) s" for suf s
  proof (cases "suf = ''-realtime''")
    case True
    with assms [of s] show ?thesis
      by (auto simp: checkSingleContainer_def wp_def run_exec_cmd sick_def split: prod.splits)
  qed (simp add: wp_def split: prod.splits)
  then have "wp (checkContainerStatus h ?sub) (\<lambda>r _. \<exists>cs. r = Inr cs \<and> ?C (outline cs)) s" for s
    by (intro wp_mono [OF containers_wp [where R = "\<lambda>suf c. suf = ''-realtime'' \<longrightarrow> sick c"]])
      (auto simp: outline_def container_suffixes_def list_all2_Cons1)
  then have "wp (CheckEnhanced h (Some config)) (\<lambda>r _. \<exists>res. r = Inr res \<and> report_so_far ?C config (expected_names config) res) s"
    by (rule CheckEnhanced_wp)
  then show ?thesis
    by (auto simp: wp_def report_so_far_def outline_def list_all_iff split: prod.splits)
qed

section \<open>The units of Docker\<close>

lemma trim_dec:
  assumes "u \<noteq> []" and "\<not> is_space (last u)"
  shows "trim_space (dec n @ u) = dec n @ u"
proof (rule trim_space_id)
  have "is_digit (hd (dec n))" using dec_digits [of n] by (cases "dec n") auto
  then have "\<not> is_space (hd (dec n))" by (auto simp: is_digit_def is_space_def)
  then show "dec n @ u = [] \<or> \<not> is_space (hd (dec n @ u)) \<and> \<not> is_space (last (dec n @ u))" using assms by simp
qed

lemma dec_no_suffix: "\<not> is_digit c \<Longrightarrow> p \<noteq> [] \<Longrightarrow> last p = c \<Longrightarrow> trim_suffix (dec n) p = dec n"
proof -
  assume p: "\<not> is_digit c" "p \<noteq> []" "last p = c"
  have "is_digit (last (dec n))" using dec_digits [of n] by (simp add: list_all_iff)
  then have "\<not> has_suffix (dec n) p" using p by (auto simp: has_suffix_iff suffix_def)
  then show ?thesis by (simp add: trim_suffix_def)
qed

text \<open>
  A memory use that Docker gives in KiB is reported as that many GiB, a million times too much: it is
  multiplied by 1024 where it should be divided. Network traffic that Docker gives in kB, its
  usual unit, is reported as zero, because only \<^verbatim>\<open>KB\<close> is known and the rest is not a number.
\<close>

theorem docker_units_misread:
  assumes "n < 2 ^ 43"
  shows "parseMemorySize (dec n @ ''KiB'') = 1024 * int n \<and> parseMemorySize (dec n @ ''GiB'') = 1024 * int n
    \<and> parseMemorySize (dec n @ ''MiB'') = int n \<and> parseNetworkSize (dec n @ ''kB'') = Fin 0"
proof -
  have pf: "ParseFloat (dec n) = (Fin (of_nat n), None)" using assms by (intro ParseFloat_dec) simp
  have f: "float_of_int k = Fin (of_int k)" if "\<bar>k\<bar> \<le> 1024" for k
    unfolding float_of_int_def using that by (intro round64_of_int) simp
  have m: "int_of_float (fmul (Fin (of_nat n)) (float_of_int k)) = k * int n" if "0 \<le> k" "k \<le> 1024" for k
  proof -
    have kn: "k * int n < 2 ^ 53" "0 \<le> k * int n"
      using that assms mult_mono [of k 1024 "int n" "2 ^ 43 - 1"] by auto
    then have "round64 (of_int (k * int n)) = Fin (of_int (k * int n))" by (intro round64_of_int) simp
    then have "fmul (Fin (of_nat n)) (float_of_int k) = Fin (of_int (k * int n))"
      using that by (simp add: f mult.commute)
    moreover have "int_of_float (Fin (of_int (k * int n))) = k * int n" using kn by (intro int_of_float_of_int) auto
    ultimately show ?thesis by simp
  qed
  have t: "trim_suffix (dec n) p = dec n" if "p \<in> {''GB'', ''MB'', ''KB''}" for p
    using that by (intro dec_no_suffix [of "CHR ''B''"]) (auto simp: is_digit_def)
  note units = trim_dec t pf m [of 1024, simplified] m [of 1, simplified] is_space_def
  have suf: "has_suffix (dec n @ u) p \<longleftrightarrow> has_suffix u p" if "length p \<le> length u" for u p
    using that by (auto simp: has_suffix_iff suffix_def append_eq_append_conv2)
  have "ParseFloat (dec n @ ''k'') = (Fin 0, Some NumSyntax)"
    by (rule ParseFloat_dec_junk) (simp_all add: is_digit_def)
  moreover have "trim_suffix (dec n @ ''kB'') ''B'' = dec n @ ''k''"
    using trim_suffix_append [of "dec n @ ''k''" "''B''"] by simp
  ultimately show ?thesis
    by (simp add: parseMemorySize_def parseNetworkSize_def units suf has_suffix_def)
qed

theorem docker_units_misread_witness:
  "parseMemorySize ''512KiB'' = 524288 \<and> parseNetworkSize ''656kB'' = Fin 0"
proof -
  have "dec 512 = ''512''" "dec 656 = ''656''" by code_simp+
  then show ?thesis using docker_units_misread [of 512] docker_units_misread [of 656] by simp
qed

text \<open>A machine on which every container of the instance runs, the realtime service under the name the gateway uses.\<close>

definition all_up :: "unit host" where
  "all_up = (command_host (\<lambda>argv s.
     (if argv ! 3 = ''a-realtime'' then fail_res ''Error: No such object: a-realtime'' ''exit status 1''
      else if ''pg_isready'' \<in> set argv then ok_res ''accepting connections''
      else ok_res ''true|healthy|2024-02-29T12:34:56Z|0'', s)))
     \<lparr>hhttp := \<lambda>meth url body s. (Inr (200, []), s)\<rparr>"

definition up_config :: EnhancedHealthCheckConfig where
  "up_config = \<lparr>eh_InstanceID = ''i'', eh_Subdomain = ''a'', eh_BaseDir = ''/opt/supabase'', eh_Level = HealthCheckBasic,
     eh_Timeout = 30\<rparr>"

theorem enhanced_misses_realtime_witness:
  "\<exists>r s'. run_state (CheckEnhanced all_up (Some up_config)) (start_sys [] ()) = (Inr r, s') \<and> en_OverallStatus r = ''degraded''"
  by (rule enhanced_misses_realtime) (simp add: all_up_def up_config_def command_host_def fail_res_def)

end
