(* ===== verification/Meminfo.thy ===== *)
theory Meminfo
  imports Floats
begin

text \<open>
  The lines of \<^verbatim>\<open>/proc/meminfo\<close> and the share of the memory in use, which the diagnosis
  (\<^verbatim>\<open>internal/diagnose\<close>) and the metrics (\<^verbatim>\<open>internal/daemon/handlers\<close>) compute in the same way.
\<close>

definition parseMeminfoValue :: "string \<Rightarrow> int" where
  "parseMeminfoValue line = (case Prelude.fields line of
     _ # v # _ \<Rightarrow> fst (atoi v)
   | _ \<Rightarrow> 0)"

text \<open>The last line of each of the two kinds counts.\<close>

definition scan_meminfo :: "string \<Rightarrow> int \<times> int" where
  "scan_meminfo content = foldl (\<lambda>(tot, avail) line.
     if has_prefix line ''MemTotal:'' then (parseMeminfoValue line, avail)
     else if has_prefix line ''MemAvailable:'' then (tot, parseMeminfoValue line)
     else (tot, avail)) (0, 0) (scan_lines content)"

definition percent_used :: "int \<Rightarrow> int \<Rightarrow> int" where
  "percent_used usedKB totalKB = int_of_float (fmul (fdiv (float_of_int usedKB) (float_of_int totalKB)) (Fin 100))"

section \<open>How far the percentage is from the exact one\<close>

text \<open>\<open>y\<close> is within \<open>k\<close> roundings of the number \<open>x\<close>.\<close>

definition eps :: rat where "eps = 1 / 2 ^ 53"

lemma eps_bounds: "0 < eps" "eps \<le> 1 / 1000000"
  by (simp_all add: eps_def)

definition near :: "rat \<Rightarrow> rat \<Rightarrow> rat \<Rightarrow> bool" where
  "near k x y \<longleftrightarrow> x * (1 - k * eps) \<le> y \<and> y \<le> x * (1 + k * eps)"

lemma near_rounded:
  assumes "0 \<le> x" and "x = 0 \<or> pow2 (- 1022) \<le> x"
  shows "near 1 x (rounded x)"
proof -
  have "\<bar>rounded x - x\<bar> \<le> \<bar>x\<bar> * eps" using rounded_relative [of x] assms by (auto simp: eps_def)
  then have "rounded x - x \<le> x * eps" "x - rounded x \<le> x * eps" using assms(1) by (simp_all add: abs_le_iff)
  then show ?thesis by (simp add: near_def right_diff_distrib distrib_left)
qed

lemma near_trans:
  assumes n: "near k x y" "near 1 y z" and x: "0 \<le> x" and k: "0 \<le> k" "k \<le> 100"
  shows "near (k + 2) x z"
proof -
  note e = eps_bounds
  have y: "x * (1 - k * eps) \<le> y" "y \<le> x * (1 + k * eps)" and z: "y * (1 - eps) \<le> z" "z \<le> y * (1 + eps)"
    using n by (simp_all add: near_def)
  have ke: "0 \<le> k * eps" "k * eps \<le> 1"
    using e k mult_mono [of k 100 eps "1 / 1000000"] by simp_all
  then have kee: "0 \<le> k * eps * eps" "k * eps * eps \<le> eps"
    using e mult_right_mono [of "k * eps" 1 eps] by simp_all
  have "z \<le> x * (1 + k * eps) * (1 + eps)"
    using z(2) mult_right_mono [OF y(2), of "1 + eps"] e by linarith
  also have "\<dots> = x * (1 + (k + 1) * eps + k * eps * eps)" by (simp add: algebra_simps)
  also have "\<dots> \<le> x * (1 + (k + 2) * eps)" using kee by (intro mult_left_mono [OF _ x]) (simp add: algebra_simps)
  finally have up: "z \<le> x * (1 + (k + 2) * eps)" .
  have "x * (1 - (k + 2) * eps) \<le> x * (1 - (k + 1) * eps + k * eps * eps)"
    using kee e by (intro mult_left_mono [OF _ x]) (simp add: algebra_simps)
  also have "\<dots> = x * (1 - k * eps) * (1 - eps)" by (simp add: algebra_simps)
  also have "\<dots> \<le> z" using z(1) mult_right_mono [OF y(1), of "1 - eps"] e by linarith
  finally show ?thesis using up by (simp add: near_def)
qed

lemma near_quotient:
  assumes n: "near 1 a x" "near 1 b y" and ab: "0 \<le> a" "0 < b"
  shows "near 3 (a / b) (x / y)"
proof -
  note e = eps_bounds
  have x: "a * (1 - eps) \<le> x" "x \<le> a * (1 + eps)" and y: "b * (1 - eps) \<le> y" "y \<le> b * (1 + eps)"
    using n by (simp_all add: near_def)
  have "0 < b * (1 - eps)" using ab e by simp
  then have y0: "0 < y" using y(1) by linarith
  have ee: "0 \<le> eps * eps" "eps * eps \<le> eps / 1000000" using e mult_left_mono [of eps "1 / 1000000" eps] by simp_all
  have c: "(1 - 3 * eps) * (1 + eps) \<le> 1 - eps" "1 + eps \<le> (1 + 3 * eps) * (1 - eps)"
    using e ee by (simp_all add: algebra_simps)
  have k: "0 \<le> a / b * (1 - 3 * eps)" "0 \<le> a / b * (1 + 3 * eps)" using ab e by simp_all
  have "a / b * (1 - 3 * eps) * y \<le> a / b * (1 - 3 * eps) * (b * (1 + eps))" by (rule mult_left_mono [OF y(2) k(1)])
  also have "\<dots> = a * ((1 - 3 * eps) * (1 + eps))" using ab by simp
  also have "\<dots> \<le> a * (1 - eps)" by (rule mult_left_mono [OF c(1) ab(1)])
  finally have lo: "a / b * (1 - 3 * eps) * y \<le> x" using x(1) by linarith
  have "x \<le> a * ((1 + 3 * eps) * (1 - eps))" using x(2) mult_left_mono [OF c(2) ab(1)] by linarith
  also have "\<dots> = a / b * (1 + 3 * eps) * (b * (1 - eps))" using ab by simp
  also have "\<dots> \<le> a / b * (1 + 3 * eps) * y" by (rule mult_left_mono [OF y(1) k(2)])
  finally have hi: "x \<le> a / b * (1 + 3 * eps) * y" .
  show ?thesis unfolding near_def using lo hi y0 by (simp only: pos_le_divide_eq pos_divide_le_eq simp_thms)
qed

lemma near_bounds:
  assumes "near k x y" and "0 \<le> x" and "0 \<le> k" and "k \<le> 10"
  shows "x - x / 1000 \<le> y" and "y \<le> x + x / 1000"
proof -
  have "k * eps \<le> 1 / 1000" using mult_mono [of k 10 eps "1 / 1000000"] eps_bounds assms by simp
  then have "x * (k * eps) \<le> x / 1000" using mult_left_mono [of "k * eps" "1 / 1000" x] assms by simp
  moreover have "x - x * (k * eps) \<le> y" "y \<le> x + x * (k * eps)"
    using assms(1) by (simp_all add: near_def right_diff_distrib distrib_left)
  ultimately show "x - x / 1000 \<le> y" "y \<le> x + x / 1000" by linarith+
qed

text \<open>
  The percentage is a percentage, and at most one away from the exact one: the rounding can push the
  quotient below or above an integer.
\<close>

lemma percent_used_bounds:
  assumes "0 \<le> u" and "u \<le> t" and "0 < t" and "t < 2 ^ 63"
  shows "0 \<le> percent_used u t" and "percent_used u t \<le> 100" and "\<bar>percent_used u t - 100 * u div t\<bar> \<le> 1"
proof -
  have tiny: "pow2 (- 1022) \<le> (1 / 2 ^ 70 :: rat)" using pow2_mono [of "- 1022" "- 70"] by (simp add: pow2_def [of "- 70"])
  have huge: "(2 ^ 70 :: rat) < pow2 1024" using pow2_less [of 70 1024] by (simp add: pow2_def [of 70])
  define a b where "a = (of_int u :: rat)" and "b = (of_int t :: rat)"
  have ab: "0 \<le> a" "a \<le> b" "1 \<le> b" "b < 2 ^ 63"
  proof -
    show "0 \<le> a" "a \<le> b" using assms by (simp_all add: a_def b_def)
    have "(of_int 1 :: rat) \<le> of_int t" using assms by (subst of_int_le_iff) simp
    then show "1 \<le> b" by (simp add: b_def)
    have "(of_int t :: rat) < of_int (2 ^ 63)" using assms by (subst of_int_less_iff)
    then show "b < 2 ^ 63" by (simp add: b_def)
  qed
  have a01: "a = 0 \<or> 1 \<le> a"
  proof (cases "u = 0")
    case False
    then have "(of_int 1 :: rat) \<le> of_int u" using assms by (subst of_int_le_iff) simp
    then show ?thesis by (simp add: a_def)
  qed (simp add: a_def)
  have na: "near 1 a (rounded a)" and nb: "near 1 b (rounded b)"
    using ab a01 tiny by (auto intro!: near_rounded intro: order_trans)
  note ba = near_bounds [OF na ab(1)] and bb = near_bounds [OF nb]
  have ra: "0 \<le> rounded a" "rounded a \<le> 2 * b" and rb: "b / 2 \<le> rounded b" "rounded b \<le> 2 * b"
    using ba bb ab rounded_nonneg [of a] by linarith+
  define q where "q = rounded a / rounded b"
  have rb0: "0 < rounded b" using rb ab by linarith
  have nq: "near 3 (a / b) q" unfolding q_def using na nb ab by (intro near_quotient) auto
  have ab1: "0 \<le> a / b" "a / b \<le> 1" using ab by (simp_all add: divide_le_eq)
  note bq = near_bounds [OF nq ab1(1)]
  have q: "0 \<le> q" "q \<le> 2" using bq ab1 ra rb0 by (auto simp: q_def)
  have small: "a / b = 0 \<or> 1 / 2 ^ 63 \<le> a / b"
  proof (cases "a = 0")
    case False
    then have "1 \<le> a" using a01 by blast
    then have "1 / 2 ^ 63 * b \<le> a" using ab(4) by simp
    then have "1 / 2 ^ 63 \<le> a / b" using ab(3) by (subst pos_le_divide_eq) auto
    then show ?thesis ..
  qed simp
  have q0: "q = 0 \<or> 1 / 2 ^ 64 \<le> q" using bq small by auto
  have nr: "near 1 q (rounded q)" using q q0 tiny by (intro near_rounded) auto
  define r where "r = rounded q"
  have nr5: "near 5 (a / b) r" using near_trans [OF nq nr] ab1 by (simp add: r_def)
  note br = near_bounds [OF nr5 ab1(1)]
  have r: "0 \<le> r" "r \<le> 2" using br ab1 rounded_nonneg [OF q(1)] by (auto simp: r_def)
  have r0: "r = 0 \<or> 1 / 2 ^ 65 \<le> r" using br small by auto
  have np: "near 1 (r * 100) (rounded (r * 100))" using r r0 tiny by (intro near_rounded) auto
  have n100: "near 5 (100 * (a / b)) (r * 100)"
  proof -
    have "100 * (a / b * (1 - 5 * eps)) \<le> 100 * r" "100 * r \<le> 100 * (a / b * (1 + 5 * eps))"
      using nr5 by (simp_all add: near_def)
    then show ?thesis by (simp add: near_def mult.assoc mult.commute [of r])
  qed
  define p where "p = rounded (r * 100)"
  have n7: "near 7 (100 * (a / b)) p" using near_trans [OF n100 np] ab1 by (simp add: p_def)
  have p: "\<bar>p - 100 * (a / b)\<bar> \<le> 1 / 2" 
  proof -
    define x where "x = a / b"
    have "0 \<le> 100 * x" "x \<le> 1" using ab1 by (simp_all add: x_def)
    moreover have "100 * x - 100 * x / 1000 \<le> p" "p \<le> 100 * x + 100 * x / 1000"
      using near_bounds [OF n7] ab1(1) unfolding x_def by auto
    ultimately show ?thesis unfolding x_def [symmetric] abs_le_iff by linarith
  qed
  have p0: "0 \<le> p" unfolding p_def using r by (intro rounded_nonneg) simp
  have fin: "float_of_int u = Fin (rounded a)" "float_of_int t = Fin (rounded b)"
    using ra rb ab huge by (auto simp: float_of_int_def a_def [symmetric] b_def [symmetric] intro!: round64_Fin)
  have finq: "round64 q = Fin r" using r huge by (auto simp: r_def intro!: round64_Fin)
  have "p \<le> 101" using p ab1 unfolding abs_le_iff by linarith
  then have finp: "round64 (r * 100) = Fin p" using p0 huge by (auto simp: p_def intro!: round64_Fin)
  have "\<lfloor>p\<rfloor> \<le> 101" using \<open>p \<le> 101\<close> floor_mono by fastforce
  then have trunc: "percent_used u t = \<lfloor>p\<rfloor>"
    using rb0 p0 finp finq fin by (simp add: percent_used_def q_def [symmetric] int_of_float_def truncated_def)
  show "0 \<le> percent_used u t" using p0 trunc by simp
  have "p < 101" using p ab1 unfolding abs_le_iff by linarith
  then show "percent_used u t \<le> 100" unfolding trunc by (simp add: floor_le_iff)
  have exact: "100 * u div t = \<lfloor>100 * (a / b)\<rfloor>"
    using floor_divide_of_int_eq [of "100 * u" t, where 'a = rat] by (simp add: a_def b_def)
  show "\<bar>percent_used u t - 100 * u div t\<bar> \<le> 1"
  proof -
    have "\<lfloor>p\<rfloor> \<le> \<lfloor>100 * (a / b) + 1\<rfloor>" "\<lfloor>100 * (a / b)\<rfloor> \<le> \<lfloor>p + 1\<rfloor>"
      using p unfolding abs_le_iff by (intro floor_mono; linarith)+
    then show ?thesis unfolding trunc exact by simp
  qed
qed

end
