(* ===== verification/Diagnose.thy ===== *)
theory Diagnose
  imports Calendar Meminfo AgentTypes Steps
begin

text \<open>
  \<^verbatim>\<open>internal/diagnose/diagnose.go\<close>: twelve checks of the machine and of one instance, each with a status
  \<^verbatim>\<open>pass\<close>, \<^verbatim>\<open>warn\<close> or \<^verbatim>\<open>fail\<close>, and the worst of them as the overall status. The number of processors and the
  version of the agent are parameters.
\<close>

section \<open>Checks of the containers\<close>

definition diag :: "string \<Rightarrow> string \<Rightarrow> string \<Rightarrow> string \<Rightarrow> DiagnosticCheck" where
  "diag name status detail duration = \<lparr>dk_Name = name, dk_Status = status, dk_Detail = detail, dk_Duration = duration\<rparr>"

definition since :: "nat \<Rightarrow> ('x, string) io" where
  "since start = do { t \<leftarrow> time_now; ret (dur_string (t - start)) }"

definition diag_docker :: "'x host \<Rightarrow> ('x, DiagnosticCheck) io" where
  "diag_docker h = do {
     start \<leftarrow> time_now;
     r \<leftarrow> exec_cmd h [''sudo'', ''docker'', ''info'', ''--format'', ''{{.ServerVersion}}''];
     duration \<leftarrow> since start;
     ret (if cr_status r \<noteq> None then diag ''docker_daemon'' ''fail'' ''Docker daemon not running'' duration
       else diag ''docker_daemon'' ''pass'' (''Docker '' @ trim_space (cr_out r) @ '' running'') duration)
   }"

definition diag_suffixes :: "string list" where
  "diag_suffixes = [''-postgres'', ''-kong'', ''-studio'', ''-auth'', ''-rest'', ''-realtime'', ''-storage'']"

fun count_running :: "'x host \<Rightarrow> string list \<Rightarrow> ('x, nat) io" where
  "count_running h [] = ret 0"
| "count_running h (name # names) = do {
     r \<leftarrow> exec_cmd h [''sudo'', ''docker'', ''inspect'', name, ''--format'', ''{{.State.Running}}''];
     n \<leftarrow> count_running h names;
     ret (if cr_status r = None \<and> trim_space (cr_out r) = ''true'' then Suc n else n)
   }"

definition diag_containers :: "'x host \<Rightarrow> string \<Rightarrow> ('x, DiagnosticCheck) io" where
  "diag_containers h subdomain = do {
     start \<leftarrow> time_now;
     let expected = map (\<lambda>suf. subdomain @ suf) diag_suffixes;
     running \<leftarrow> count_running h expected;
     duration \<leftarrow> since start;
     let detail = dec running @ ''/'' @ dec (length expected) @ '' running'';
     ret (diag ''containers''
       (if running = length expected then ''pass'' else if running = 0 then ''fail'' else ''warn'') detail duration)
   }"

fun restarted_containers :: "'x host \<Rightarrow> string \<Rightarrow> string list \<Rightarrow> ('x, string list) io" where
  "restarted_containers h subdomain [] = ret []"
| "restarted_containers h subdomain (name # names) = do {
     r \<leftarrow> exec_cmd h [''sudo'', ''docker'', ''inspect'', name, ''--format'', ''{{.RestartCount}}''];
     rest \<leftarrow> restarted_containers h subdomain names;
     ret (case (cr_status r, atoi (trim_space (cr_out r))) of
         (None, (count, None)) \<Rightarrow>
           (if 0 < count then (trim_prefix name (subdomain @ ''-'') @ ''('' @ itoa count @ '')'') # rest else rest)
       | _ \<Rightarrow> rest)
   }"

definition diag_restarts :: "'x host \<Rightarrow> string \<Rightarrow> ('x, DiagnosticCheck) io" where
  "diag_restarts h subdomain = do {
     start \<leftarrow> time_now;
     restarted \<leftarrow> restarted_containers h subdomain (map (\<lambda>suf. subdomain @ suf) diag_suffixes);
     duration \<leftarrow> since start;
     ret (if restarted = [] then diag ''container_restarts'' ''pass'' ''no restarts detected'' duration
       else diag ''container_restarts'' ''warn'' (''restarts: '' @ join '', '' restarted) duration)
   }"

section \<open>Checks of the machine\<close>

text \<open>The limits that the use of the disk and of the memory share.\<close>

definition usage_status :: "int \<Rightarrow> string" where
  "usage_status pct = (if 95 \<le> pct then ''fail'' else if 80 \<le> pct then ''warn'' else ''pass'')"

definition read_df :: "string \<Rightarrow> string \<times> string" where
  "read_df out = (case split_char NL (trim_space out) of
     _ # line # _ \<Rightarrow>
       (case Prelude.fields line of
          f0 # f1 # f2 # _ \<Rightarrow>
            (let pct = fst (atoi (trim_suffix f0 ''%'')); totalKB = fst (atoi f1); usedKB = fst (atoi f2) in
             (usage_status pct, itoa pct @ ''% used ('' @ itoa (quot usedKB 1048576) @ ''GB/'' @
                itoa (quot totalKB 1048576) @ ''GB)''))
        | _ \<Rightarrow> (''warn'', ''unexpected df format''))
   | _ \<Rightarrow> (''warn'', ''unexpected df output''))"

definition diag_disk :: "'x host \<Rightarrow> ('x, DiagnosticCheck) io" where
  "diag_disk h = do {
     start \<leftarrow> time_now;
     r \<leftarrow> exec_cmd h [''df'', ''--output=pcent,size,used'', ''/''];
     duration \<leftarrow> since start;
     ret (case cr_status r of
         Some e \<Rightarrow> diag ''disk_usage'' ''warn'' (''could not check: '' @ e) duration
       | None \<Rightarrow> (case read_df (cr_out r) of (status, detail) \<Rightarrow> diag ''disk_usage'' status detail duration))
   }"

definition parseMemInfoValue :: "string \<Rightarrow> int" where
  "parseMemInfoValue line = parseMeminfoValue line"

definition memory_use :: "string \<Rightarrow> string \<times> string" where
  "memory_use content = (case scan_meminfo content of (memTotal, memAvailable) \<Rightarrow>
     if memTotal = 0 then (''warn'', ''could not parse memory info'')
     else let usedKB = memTotal - memAvailable; pct = percent_used usedKB memTotal in
       (usage_status pct, itoa pct @ ''% used ('' @ itoa (quot usedKB 1024) @ ''MB/'' @ itoa (quot memTotal 1024) @ ''MB)''))"

definition diag_memory :: "'x host \<Rightarrow> ('x, DiagnosticCheck) io" where
  "diag_memory h = do {
     start \<leftarrow> time_now;
     r \<leftarrow> os_read h ''/proc/meminfo'';
     duration \<leftarrow> since start;
     ret (case r of
         Inl e \<Rightarrow> diag ''memory'' ''warn'' (''could not read /proc/meminfo: '' @ err_text e) duration
       | Inr content \<Rightarrow> (case memory_use content of (status, detail) \<Rightarrow> diag ''memory'' status detail duration))
   }"

definition load_status :: "float64 \<Rightarrow> int \<Rightarrow> string" where
  "load_status load1m nproc =
     (if fless (fmul (float_of_int nproc) (float_of_int 2)) load1m then ''fail''
      else if fless (float_of_int nproc) load1m then ''warn'' else ''pass'')"

definition diag_cpu :: "'x host \<Rightarrow> int \<Rightarrow> ('x, DiagnosticCheck) io" where
  "diag_cpu h nproc = do {
     start \<leftarrow> time_now;
     r \<leftarrow> os_read h ''/proc/loadavg'';
     duration \<leftarrow> since start;
     ret (case r of
         Inl e \<Rightarrow> diag ''cpu_load'' ''warn'' (''could not read /proc/loadavg: '' @ err_text e) duration
       | Inr content \<Rightarrow> (case Prelude.fields content of
           [] \<Rightarrow> diag ''cpu_load'' ''warn'' ''could not parse load average'' duration
         | f # _ \<Rightarrow> (let load1m = fst (ParseFloat f) in
             diag ''cpu_load'' (load_status load1m nproc)
               (''1m avg '' @ format_f 2 load1m @ '' ('' @ itoa nproc @ '' cores)'') duration)))
   }"

section \<open>Checks of the services\<close>

definition diag_nginx :: "'x host \<Rightarrow> ('x, DiagnosticCheck) io" where
  "diag_nginx h = do {
     start \<leftarrow> time_now;
     r \<leftarrow> exec_cmd h [''sudo'', ''nginx'', ''-t''];
     duration \<leftarrow> since start;
     ret (case cr_status r of
         Some e \<Rightarrow> (let detail = trim_space (cr_all r) in
           diag ''nginx_config'' ''fail'' (if detail = [] then e else detail) duration)
       | None \<Rightarrow> diag ''nginx_config'' ''pass'' ''configuration valid'' duration)
   }"

definition cert_status :: "int \<Rightarrow> string" where
  "cert_status daysLeft = (if daysLeft < 7 then ''fail'' else if daysLeft < 30 then ''warn'' else ''pass'')"

text \<open>The two layouts of the code differ in the number of spaces only, which \<^verbatim>\<open>time.Parse\<close> ignores.\<close>

definition read_enddate :: "string \<Rightarrow> nat \<Rightarrow> string \<times> string" where
  "read_enddate out t = (case cut_char CHR ''='' (trim_space out) of
     None \<Rightarrow> (''warn'', ''could not parse cert expiry'')
   | Some (_, date) \<Rightarrow> (case parse_openssl_date date of
       None \<Rightarrow> (''warn'', ''could not parse date: '' @ date)
     | Some expiry \<Rightarrow> (let daysLeft = dur_days (clamp64 (expiry - int t)) in
         (cert_status daysLeft, ''expires in '' @ itoa daysLeft @ '' days''))))"

definition diag_tls :: "'x host \<Rightarrow> string \<Rightarrow> ('x, DiagnosticCheck) io" where
  "diag_tls h subdomain = do {
     start \<leftarrow> time_now;
     r \<leftarrow> exec_cmd h [''sudo'', ''openssl'', ''x509'', ''-enddate'', ''-noout'', ''-in'',
       ''/etc/letsencrypt/live/'' @ subdomain @ ''/fullchain.pem''];
     duration \<leftarrow> since start;
     t \<leftarrow> time_now;
     ret (case cr_status r of
         Some e \<Rightarrow> diag ''tls_certs'' ''warn'' (''could not read cert: '' @ e) duration
       | None \<Rightarrow> (case read_enddate (cr_out r) t of (status, detail) \<Rightarrow> diag ''tls_certs'' status detail duration))
   }"

definition log_suffixes :: "string list" where
  "log_suffixes = [''-postgres'', ''-kong'', ''-auth'', ''-rest'', ''-realtime'', ''-storage'']"

definition has_trouble :: "string \<Rightarrow> bool" where
  "has_trouble out \<longleftrightarrow> (let l = to_lower out in
     str_contains l ''error'' \<or> str_contains l ''fatal'' \<or> str_contains l ''panic'')"

fun with_errors :: "'x host \<Rightarrow> string \<Rightarrow> string list \<Rightarrow> ('x, string list) io" where
  "with_errors h subdomain [] = ret []"
| "with_errors h subdomain (name # names) = do {
     r \<leftarrow> exec_cmd h [''sudo'', ''docker'', ''logs'', ''--tail'', ''50'', ''--since'', ''1h'', name];
     rest \<leftarrow> with_errors h subdomain names;
     ret (if cr_status r = None \<and> has_trouble (cr_all r) then trim_prefix name (subdomain @ ''-'') # rest else rest)
   }"

definition diag_logs :: "'x host \<Rightarrow> string \<Rightarrow> ('x, DiagnosticCheck) io" where
  "diag_logs h subdomain = do {
     start \<leftarrow> time_now;
     bad \<leftarrow> with_errors h subdomain (map (\<lambda>suf. subdomain @ suf) log_suffixes);
     duration \<leftarrow> since start;
     ret (if bad = [] then diag ''docker_logs_errors'' ''pass'' ''no recent errors in logs'' duration
       else diag ''docker_logs_errors'' ''warn'' (''recent errors in: '' @ join '', '' bad) duration)
   }"

definition curl_gateway :: "string list" where
  "curl_gateway = [''curl'', ''-sf'', ''-o'', ''/dev/null'', ''-w'', ''%{http_code}'', ''--max-time'', ''5'', ''http://localhost:8000/'']"

definition diag_gateway :: "'x host \<Rightarrow> ('x, DiagnosticCheck) io" where
  "diag_gateway h = do {
     start \<leftarrow> time_now;
     r \<leftarrow> exec_cmd h curl_gateway;
     duration \<leftarrow> since start;
     let httpCode = trim_space (cr_out r);
     ret (if cr_status r \<noteq> None \<and> httpCode = [] then diag ''health_endpoint'' ''fail'' ''Kong gateway not responding'' duration
       else if httpCode \<noteq> [] then diag ''health_endpoint'' ''pass'' (''Kong responding (HTTP '' @ httpCode @ '')'') duration
       else diag ''health_endpoint'' ''fail'' ''no response from Kong'' duration)
   }"

definition diag_postgres :: "'x host \<Rightarrow> string \<Rightarrow> ('x, DiagnosticCheck) io" where
  "diag_postgres h subdomain = do {
     start \<leftarrow> time_now;
     r \<leftarrow> exec_cmd h [''sudo'', ''docker'', ''exec'', ''-i'', subdomain @ ''-postgres'', ''pg_isready'', ''-h'', ''localhost'',
       ''-p'', ''5432''];
     duration \<leftarrow> since start;
     ret (if cr_status r \<noteq> None then diag ''postgres_connectivity'' ''fail'' (''not ready: '' @ trim_space (cr_all r)) duration
       else diag ''postgres_connectivity'' ''pass'' ''accepting connections'' duration)
   }"

definition diag_backups :: "'x host \<Rightarrow> string \<Rightarrow> string \<Rightarrow> ('x, DiagnosticCheck) io" where
  "diag_backups h subdomain baseDir = do {
     start \<leftarrow> time_now;
     r \<leftarrow> exec_cmd h [''sudo'', ''find'', baseDir @ ''/'' @ subdomain @ ''/backups'', ''-name'', ''*.sql.gz'', ''-mtime'', ''-7'',
       ''-type'', ''f''];
     duration \<leftarrow> since start;
     let found = trim_space (cr_out r);
     ret (if cr_status r \<noteq> None then diag ''backup_status'' ''warn'' ''no backup directory found'' duration
       else if found = [] then diag ''backup_status'' ''warn'' ''no backups in last 7 days'' duration
       else diag ''backup_status'' ''pass'' (dec (length (split_char NL found)) @ '' backup(s) in last 7 days'') duration)
   }"

section \<open>The diagnosis\<close>

definition diag_checks :: "'x host \<Rightarrow> int \<Rightarrow> DiagnoseConfig \<Rightarrow> ('x, DiagnosticCheck) io list" where
  "diag_checks h nproc config =
     (let sub = dg_Subdomain config in
      [diag_docker h, diag_containers h sub, diag_restarts h sub, diag_disk h, diag_memory h, diag_cpu h nproc, diag_nginx h,
       diag_tls h sub, diag_logs h sub, diag_gateway h, diag_postgres h sub, diag_backups h sub (dg_BaseDir config)])"

definition overall_after :: "string \<Rightarrow> string \<Rightarrow> string" where
  "overall_after overall status =
     (if status = ''fail'' then ''fail''
      else if status = ''warn'' \<and> overall = ''pass'' then ''warn'' else overall)"

fun run_diag :: "('x, DiagnosticCheck) io list \<Rightarrow> string \<Rightarrow> ('x, DiagnosticCheck list \<times> string) io" where
  "run_diag [] overall = ret ([], overall)"
| "run_diag (checkFn # fns) overall = do {
     check \<leftarrow> checkFn;
     (checks, final) \<leftarrow> run_diag fns (overall_after overall (dk_Status check));
     ret (check # checks, final)
   }"

definition Diagnose :: "'x host \<Rightarrow> int \<Rightarrow> string \<Rightarrow> DiagnoseConfig option \<Rightarrow> ('x, error + DiagnoseResult) io" where
  "Diagnose h nproc version cfg = (case cfg of None \<Rightarrow> ret (Inl ''config cannot be nil'')
     | Some config \<Rightarrow> do {
         startTime \<leftarrow> time_now;
         (checks, overall) \<leftarrow> run_diag (diag_checks h nproc config) ''pass'';
         duration \<leftarrow> since startTime;
         ret (Inr \<lparr>di_InstanceID = dg_InstanceID config, di_OverallStatus = overall, di_Checks = checks,
           di_Timestamp = rfc3339 startTime, di_Duration = duration, di_AgentVersion = version\<rparr>)
       })"

section \<open>Properties\<close>

text \<open>The worst status of a list, as one would define it without a loop.\<close>

definition worst :: "string list \<Rightarrow> string" where
  "worst sts = (if ''fail'' \<in> set sts then ''fail'' else if ''warn'' \<in> set sts then ''warn'' else ''pass'')"

definition check_names :: "string list" where
  "check_names = [''docker_daemon'', ''containers'', ''container_restarts'', ''disk_usage'', ''memory'', ''cpu_load'', ''nginx_config'',
     ''tls_certs'', ''docker_logs_errors'', ''health_endpoint'', ''postgres_connectivity'', ''backup_status'']"

definition proper :: "string \<Rightarrow> DiagnosticCheck \<Rightarrow> bool" where
  "proper name c \<longleftrightarrow> dk_Name c = name \<and> dk_Status c \<in> {''pass'', ''warn'', ''fail''}"

lemma overall_fold:
  "overall \<in> {''pass'', ''warn'', ''fail''} \<Longrightarrow> foldl overall_after overall sts =
     (if overall = ''fail'' \<or> ''fail'' \<in> set sts then ''fail''
      else if overall = ''warn'' \<or> ''warn'' \<in> set sts then ''warn'' else ''pass'')"
  by (induction sts arbitrary: overall) (auto simp: overall_after_def)

lemma run_diag_wp:
  assumes "list_all2 (\<lambda>fn name. \<forall>s. wp fn (\<lambda>c _. proper name c) s) fns names"
  shows "wp (run_diag fns overall)
    (\<lambda>(cs, final) _. list_all2 proper names cs \<and> final = foldl overall_after overall (map dk_Status cs)) s"
  using assms
proof (induction fns names arbitrary: overall s rule: list_all2_induct)
  case Nil
  then show ?case by (simp add: wp_simps)
next
  case (Cons fn fns name names)
  show ?case
    unfolding run_diag.simps wp_bind
  proof (rule wp_mono [OF Cons.hyps(1) [rule_format]])
    fix c s'
    assume "proper name c"
    then show "wp (run_diag fns (overall_after overall (dk_Status c)))
        (\<lambda>a. wp (case a of (checks, final) \<Rightarrow> ret (c # checks, final))
          (\<lambda>(cs, final) _. list_all2 proper (name # names) cs \<and> final = foldl overall_after overall (map dk_Status cs))) s'"
      by (intro wp_mono [OF Cons.IH]) (auto simp: wp_simps)
  qed
qed

lemma checks_proper:
  "list_all2 (\<lambda>fn name. \<forall>s. wp fn (\<lambda>c _. proper name c) s) (diag_checks h nproc config) check_names"
proof -
  have u: "usage_status p \<in> {''pass'', ''warn'', ''fail''}" "load_status x n \<in> {''pass'', ''warn'', ''fail''}"
    "cert_status k \<in> {''pass'', ''warn'', ''fail''}" for p x n k
    by (simp_all add: usage_status_def load_status_def cert_status_def)
  have df: "fst (read_df out) \<in> {''pass'', ''warn'', ''fail''}" for out
    using u by (auto simp: read_df_def Let_def split: list.split)
  have mem: "fst (memory_use content) \<in> {''pass'', ''warn'', ''fail''}" for content
    using u by (auto simp: memory_use_def Let_def split: prod.split)
  have tls: "fst (read_enddate out t) \<in> {''pass'', ''warn'', ''fail''}" for out t
    using u by (auto simp: read_enddate_def Let_def split: option.split)
  have bind: "wp (State_Monad.bind m f) Q s" if "\<And>a s. wp (f a) Q s" for m :: "('x, 'z) io" and f Q s
    using that by (auto simp: wp_bind intro: wpI)
  note defs = diag_docker_def diag_containers_def diag_restarts_def diag_disk_def diag_memory_def diag_cpu_def diag_nginx_def
    diag_tls_def diag_logs_def diag_gateway_def diag_postgres_def diag_backups_def
  show ?thesis
    unfolding diag_checks_def check_names_def Let_def list_all2_Cons list_all2_Nil2 defs
    using u df mem tls
    by (intro conjI allI bind refl; auto simp: wp_return proper_def diag_def Let_def case_prod_beta split: option.split sum.split list.split)
qed

text \<open>
  C35: A diagnosis always comes to its end with the twelve checks in their order, and the status that the
  loop keeps is the worst of theirs: \<^verbatim>\<open>fail\<close> exactly when some check failed, \<^verbatim>\<open>warn\<close> exactly when none failed
  and some warned.
\<close>

theorem diagnose_worst:
  "\<exists>r s'. run_state (Diagnose h nproc version (Some config)) s = (Inr r, s')
     \<and> list_all2 proper check_names (di_Checks r)
     \<and> di_OverallStatus r = worst (map dk_Status (di_Checks r))"
proof -
  have "wp (Diagnose h nproc version (Some config)) (\<lambda>r _. \<exists>d. r = Inr d \<and> list_all2 proper check_names (di_Checks d)
      \<and> di_OverallStatus d = worst (map dk_Status (di_Checks d))) s"
    unfolding Diagnose_def option.case wp_bind
    by (rule wpI, rule wp_mono [OF run_diag_wp [OF checks_proper]], rule wpI)
      (auto simp: wp_simps since_def overall_fold worst_def split: prod.splits intro: wpI)
  then show ?thesis by (auto simp: wp_def split: prod.splits)
qed

text \<open>
  The check of the gateway passes whatever \<^verbatim>\<open>curl\<close> reports. With \<^verbatim>\<open>-w\<close> it prints a status code also when
  nothing answers, \<^verbatim>\<open>000\<close>, and the code takes any output for a response.
\<close>

theorem diagnose_gateway_blind:
  assumes "\<And>s. trim_space (cr_out (fst (hexec h [] curl_gateway [] s))) \<noteq> []"
  shows "dk_Status (fst (run_state (diag_gateway h) s)) = ''pass''"
  using assms [of s]
  by (auto simp: diag_gateway_def since_def diag_def run_exec_cmd Let_def split: prod.splits)

text \<open>Nothing listens on the port.\<close>

definition dead_gateway :: "unit host" where
  "dead_gateway = command_host (\<lambda>argv s.
     (\<lparr>cr_out = ''000'', cr_err = [], cr_all = ''000'', cr_status = Some ''exit status 7''\<rparr>, s))"

theorem diagnose_gateway_blind_witness:
  "dk_Status (fst (run_state (diag_gateway dead_gateway) (start_sys [] ()))) = ''pass''"
  by (rule diagnose_gateway_blind) (simp add: dead_gateway_def; code_simp)

text \<open>
  The percentage of memory in use, which is computed in floating point, is between 0 and 100 and at
  most one away from the exact one cut to an integer, for every size of memory. It need not be the
  exact one: 29 of 100 give 28.
\<close>

theorem memory_percentage:
  assumes "0 \<le> avail" and "avail \<le> tot" and "0 < tot" and "tot < 2 ^ 63"
  shows "0 \<le> percent_used (tot - avail) tot \<and> percent_used (tot - avail) tot \<le> 100
    \<and> \<bar>percent_used (tot - avail) tot - 100 * (tot - avail) div tot\<bar> \<le> 1"
  using percent_used_bounds [of "tot - avail" tot] assms by simp

lemma percent_29: "percent_used 29 100 = 28"
proof -
  have i: "float_of_int 29 = Fin 29" "float_of_int 100 = Fin 100"
    using round64_of_int [of 29] round64_of_int [of 100] by (simp_all add: float_of_int_def)
  have fin: "round64 x = Fin (rounded x)" if "0 \<le> rounded x" "rounded x < 2 ^ 53" for x
    using that pow2_less [of 53 1024] by (intro round64_Fin) (simp add: pow2_def [of 53])
  have q: "rounded (29 / 100) = 5224175567749775 / 18014398509481984"
    by (subst rounded_eval [of "- 2"]) (simp_all add: pow2_def nearest_even_def Let_def floor_rat_numeral)
  have p: "rounded (5224175567749775 / 18014398509481984 * 100) = 8162774324609023 / 281474976710656"
    by (subst rounded_eval [of 4]) (simp_all add: pow2_def nearest_even_def Let_def floor_rat_numeral)
  have "fmul (fdiv (float_of_int 29) (float_of_int 100)) (Fin 100) = Fin (8162774324609023 / 281474976710656)"
    using fin [of "29 / 100"] fin [of "5224175567749775 / 18014398509481984 * 100"] q p by (simp add: i)
  then show ?thesis by (simp add: percent_used_def int_of_float_def truncated_def floor_rat_numeral)
qed

theorem memory_percentage_witness:
  "0 \<le> percent_used (100 - 71) 100 \<and> percent_used (100 - 71) 100 = 28 \<and> 100 * (100 - 71) div 100 = (29 :: int)"
  using memory_percentage [of 71 100] percent_29 by simp

end
