(* ===== verification/Wire.thy ===== *)
theory Wire
  imports Enhanced Calendar "HOL-Library.AList" "HOL-Library.List_Lexorder" "HOL-Library.Char_ord"
begin

text \<open>
  The configurations and results of \<^verbatim>\<open>pkg/types/types.go\<close> as JSON: a decoder per configuration, an
  encoder per result, with the names, the order and the \<^verbatim>\<open>omitempty\<close> of the tags. Decoding follows
  \<^verbatim>\<open>json.Unmarshal\<close>: a slice that is given twice reuses its elements for \<^verbatim>\<open>null\<close>, a map that is given
  twice is merged, and \<^verbatim>\<open>null\<close> resets both. The keys of a map are written in order.
\<close>

section \<open>Slices and maps\<close>

definition given :: "string \<Rightarrow> (string \<times> json) list \<Rightarrow> json list" where
  "given name ms = map snd (filter (\<lambda>(k, v). to_lower k = to_lower name) ms)"

fun absorb :: "(json \<Rightarrow> 's \<Rightarrow> 's option) \<Rightarrow> json list \<Rightarrow> 's \<Rightarrow> 's option" where
  "absorb f [] s = Some s"
| "absorb f (j # js) s = (case f j s of None \<Rightarrow> None | Some s' \<Rightarrow> absorb f js s')"

fun refill :: "(json \<Rightarrow> 'a option) \<Rightarrow> 'a \<Rightarrow> json list \<Rightarrow> 'a list \<Rightarrow> 'a list option" where
  "refill dcd dflt [] old = Some old"
| "refill dcd dflt (j # js) old =
     (let (x, rest) = (case old of [] \<Rightarrow> (dflt, []) | x # xs \<Rightarrow> (x, xs)) in
      case (if j = JNull then Some x else dcd j, refill dcd dflt js rest) of
        (Some y, Some ys) \<Rightarrow> Some (y # ys)
      | _ \<Rightarrow> None)"

text \<open>A slice with the elements behind its end that a longer one can bring back.\<close>

definition slice_of :: "(json \<Rightarrow> 'a option) \<Rightarrow> 'a \<Rightarrow> json \<Rightarrow> 'a list \<times> nat \<Rightarrow> ('a list \<times> nat) option" where
  "slice_of dcd dflt j s = (case j of
     JNull \<Rightarrow> Some ([], 0)
   | JArr js \<Rightarrow> (if js = [] then Some ([], 0)
       else map_option (\<lambda>xs. (xs, length js)) (refill dcd dflt js (fst s)))
   | _ \<Rightarrow> None)"

definition map_into :: "(json \<Rightarrow> 'a option) \<Rightarrow> 'a \<Rightarrow> json \<Rightarrow> (string \<times> 'a) list \<Rightarrow> (string \<times> 'a) list option" where
  "map_into dcd dflt j m = (case j of
     JNull \<Rightarrow> Some []
   | JObj ms \<Rightarrow> map_option (\<lambda>kvs. fold (\<lambda>(k, v). AList.update k v) kvs m) (dec_map dcd dflt (JObj ms))
   | _ \<Rightarrow> None)"

definition list_field :: "(json \<Rightarrow> 'a option) \<Rightarrow> 'a \<Rightarrow> string \<Rightarrow> (string \<times> json) list \<Rightarrow> error + 'a list" where
  "list_field dcd dflt name ms = (case absorb (slice_of dcd dflt) (given name ms) ([], 0) of
     None \<Rightarrow> Inl (''json: cannot unmarshal field '' @ name)
   | Some (xs, n) \<Rightarrow> Inr (take n xs))"

definition map_field :: "string \<Rightarrow> (string \<times> json) list \<Rightarrow> error + (string \<times> string) list" where
  "map_field name ms = (case absorb (map_into dec_str []) (given name ms) [] of
     None \<Rightarrow> Inl (''json: cannot unmarshal field '' @ name)
   | Some m \<Rightarrow> Inr m)"

definition strs_field :: "string \<Rightarrow> (string \<times> json) list \<Rightarrow> error + string list" where
  "strs_field = list_field dec_str []"

section \<open>Configurations\<close>

text \<open>The maps of a deployment are given in the order in which Go iterates over them.\<close>

definition dec_DeployConfig ::
  "((string \<times> string) list \<Rightarrow> (string \<times> string) list) \<Rightarrow> (string \<times> json) list \<Rightarrow> error + DeployConfig" where
  "dec_DeployConfig order ms =
     sbind (str_field ''instance_id'' ms) (\<lambda>inst. sbind (str_field ''subdomain'' ms) (\<lambda>sub.
     sbind (str_field ''domain'' ms) (\<lambda>dom. sbind (str_field ''studio_domain'' ms) (\<lambda>studio.
     sbind (str_field ''base_dir'' ms) (\<lambda>base. sbind (bool_field ''enable_tls'' ms) (\<lambda>tls.
     sbind (str_field ''vm_user'' ms) (\<lambda>user. sbind (int_field ''kong_port'' ms) (\<lambda>kong.
     sbind (int_field ''postgres_port'' ms) (\<lambda>pg. sbind (int_field ''studio_port'' ms) (\<lambda>sport.
     sbind (str_field ''postgres_password'' ms) (\<lambda>pass. sbind (str_field ''jwt_secret'' ms) (\<lambda>jwt.
     sbind (str_field ''publishable_key'' ms) (\<lambda>pub. sbind (str_field ''secret_key'' ms) (\<lambda>sec.
     sbind (str_field ''pgsodium_key'' ms) (\<lambda>sodium. sbind (str_field ''dashboard_username'' ms) (\<lambda>duser.
     sbind (str_field ''dashboard_password'' ms) (\<lambda>dpass. sbind (bool_field ''is_first_instance'' ms) (\<lambda>first.
     sbind (str_field ''cert_pem'' ms) (\<lambda>cert. sbind (str_field ''key_pem'' ms) (\<lambda>key.
     sbind (str_field ''postgres_image'' ms) (\<lambda>img. sbind (str_field ''compose_content'' ms) (\<lambda>compose.
     sbind (str_field ''env_content'' ms) (\<lambda>env. sbind (str_field ''kong_content'' ms) (\<lambda>kongc.
     sbind (strs_field ''services'' ms) (\<lambda>services. sbind (str_field ''postgres_container'' ms) (\<lambda>pgc.
     sbind (map_field ''init_sql_files'' ms) (\<lambda>inits. sbind (map_field ''volume_config_files'' ms) (\<lambda>vols.
     sbind (map_field ''supabase_extras'' ms) (\<lambda>extras. sbind (map_field ''environment'' ms) (\<lambda>envm.
     Inr \<lparr>dc_InstanceID = inst, dc_Subdomain = sub, dc_Domain = dom, dc_StudioDomain = studio, dc_BaseDir = base,
       dc_EnableTLS = tls, dc_VMUser = user, dc_KongPort = kong, dc_PostgresPort = pg, dc_StudioPort = sport,
       dc_PostgresPassword = pass, dc_JWTSecret = jwt, dc_PublishableKey = pub, dc_SecretKey = sec,
       dc_PgsodiumKey = sodium, dc_DashboardUsername = duser, dc_DashboardPassword = dpass, dc_IsFirstInstance = first,
       dc_CertPEM = cert, dc_KeyPEM = key, dc_PostgresImage = img, dc_ComposeContent = compose, dc_EnvContent = env,
       dc_KongContent = kongc, dc_Services = services, dc_PostgresContainer = pgc, dc_InitSQLFiles = order inits,
       dc_VolumeConfigFiles = order vols, dc_SupabaseExtras = order extras, dc_Environment = order envm\<rparr>
     ))))))))))))))))))))))))))))))"

definition dec_HardenConfig :: "(string \<times> json) list \<Rightarrow> error + HardenConfig" where
  "dec_HardenConfig ms =
     sbind (str_field ''vm_user'' ms) (\<lambda>user. sbind (int_field ''ssh_port'' ms) (\<lambda>port.
     sbind (str_field ''ssh_public_key'' ms) (\<lambda>key. sbind (strs_field ''extra_authorized_keys'' ms) (\<lambda>extra.
     sbind (bool_field ''enable_firewall'' ms) (\<lambda>fw. sbind (bool_field ''enable_fail2ban'' ms) (\<lambda>f2b.
     sbind (bool_field ''enable_auto_updates'' ms) (\<lambda>upd.
     Inr \<lparr>hc_VMUser = user, hc_SSHPort = port, hc_SSHPublicKey = key, hc_ExtraAuthorizedKeys = extra,
       hc_EnableFirewall = fw, hc_EnableFail2Ban = f2b, hc_EnableAutoUpdates = upd\<rparr>)))))))"

definition dec_CleanupConfig :: "(string \<times> json) list \<Rightarrow> error + CleanupConfig" where
  "dec_CleanupConfig ms =
     sbind (str_field ''level'' ms) (\<lambda>level. sbind (int_field ''pre_hardening_ssh_port'' ms) (\<lambda>port.
     sbind (str_field ''pre_hardening_ssh_user'' ms) (\<lambda>user. sbind (bool_field ''restore_password_auth'' ms) (\<lambda>pass.
     sbind (bool_field ''disable_firewall'' ms) (\<lambda>fw.
     Inr \<lparr>cl_Level = level, cl_PreHardeningSSHPort = port, cl_PreHardeningSSHUser = user,
       cl_RestorePasswordAuth = pass, cl_DisableFirewall = fw\<rparr>)))))"

definition dec_DestroyConfig :: "(string \<times> json) list \<Rightarrow> error + DestroyConfig" where
  "dec_DestroyConfig ms =
     sbind (str_field ''instance_id'' ms) (\<lambda>inst. sbind (str_field ''subdomain'' ms) (\<lambda>sub.
     sbind (str_field ''base_dir'' ms) (\<lambda>base. sbind (int_field ''postgres_port'' ms) (\<lambda>port.
     Inr \<lparr>de_InstanceID = inst, de_Subdomain = sub, de_BaseDir = base, de_PostgresPort = port\<rparr>))))"

definition dec_BackupConfig :: "(string \<times> json) list \<Rightarrow> error + BackupConfig" where
  "dec_BackupConfig ms =
     sbind (str_field ''instance_id'' ms) (\<lambda>inst. sbind (str_field ''subdomain'' ms) (\<lambda>sub.
     sbind (str_field ''base_dir'' ms) (\<lambda>base. sbind (str_field ''upload_url'' ms) (\<lambda>url.
     sbind (str_field ''storage_upload_url'' ms) (\<lambda>surl. sbind (bool_field ''include_storage'' ms) (\<lambda>storage.
     Inr \<lparr>bc_InstanceID = inst, bc_Subdomain = sub, bc_BaseDir = base, bc_UploadURL = url,
       bc_StorageUploadURL = surl, bc_IncludeStorage = storage\<rparr>))))))"

definition dec_RestoreConfig :: "(string \<times> json) list \<Rightarrow> error + RestoreConfig" where
  "dec_RestoreConfig ms =
     sbind (str_field ''instance_id'' ms) (\<lambda>inst. sbind (str_field ''subdomain'' ms) (\<lambda>sub.
     sbind (str_field ''base_dir'' ms) (\<lambda>base. sbind (str_field ''download_url'' ms) (\<lambda>url.
     sbind (str_field ''storage_download_url'' ms) (\<lambda>surl. sbind (bool_field ''stop_instance'' ms) (\<lambda>stop.
     sbind (bool_field ''verify_checksum'' ms) (\<lambda>verify. sbind (str_field ''expected_checksum'' ms) (\<lambda>sum.
     Inr \<lparr>rc_InstanceID = inst, rc_Subdomain = sub, rc_BaseDir = base, rc_DownloadURL = url,
       rc_StorageDownloadURL = surl, rc_StopInstance = stop, rc_VerifyChecksum = verify, rc_ExpectedChecksum = sum\<rparr>))))))))"

definition dec_UpgradeConfig :: "(string \<times> json) list \<Rightarrow> error + UpgradeConfig" where
  "dec_UpgradeConfig ms =
     sbind (str_field ''instance_id'' ms) (\<lambda>inst. sbind (str_field ''subdomain'' ms) (\<lambda>sub.
     sbind (str_field ''base_dir'' ms) (\<lambda>base. sbind (str_field ''current_version'' ms) (\<lambda>cur.
     sbind (str_field ''target_version'' ms) (\<lambda>target. sbind (bool_field ''backup_before_upgrade'' ms) (\<lambda>backup.
     sbind (bool_field ''rollback_on_failure'' ms) (\<lambda>rollback. sbind (str_field ''backup_upload_url'' ms) (\<lambda>url.
     sbind (str_field ''storage_upload_url'' ms) (\<lambda>surl. sbind (str_field ''compose_content'' ms) (\<lambda>compose.
     sbind (str_field ''env_content'' ms) (\<lambda>env.
     Inr \<lparr>uc_InstanceID = inst, uc_Subdomain = sub, uc_BaseDir = base, uc_CurrentVersion = cur,
       uc_TargetVersion = target, uc_BackupBeforeUpgrade = backup, uc_RollbackOnFailure = rollback,
       uc_BackupUploadURL = url, uc_StorageUploadURL = surl, uc_ComposeContent = compose, uc_EnvContent = env\<rparr>)))))))))))"

definition dec_VerifyBackupConfig :: "(string \<times> json) list \<Rightarrow> error + VerifyBackupConfig" where
  "dec_VerifyBackupConfig ms =
     sbind (str_field ''backup_id'' ms) (\<lambda>i. sbind (str_field ''download_url'' ms) (\<lambda>url.
     sbind (str_field ''expected_checksum'' ms) (\<lambda>sum. sbind (bool_field ''deep_verify'' ms) (\<lambda>deep.
     sbind (str_field ''subdomain'' ms) (\<lambda>sub. sbind (str_field ''base_dir'' ms) (\<lambda>base.
     Inr \<lparr>vc_BackupID = i, vc_DownloadURL = url, vc_ExpectedChecksum = sum, vc_DeepVerify = deep,
       vc_Subdomain = sub, vc_BaseDir = base\<rparr>))))))"

definition dec_EnhancedHealthCheckConfig :: "(string \<times> json) list \<Rightarrow> error + EnhancedHealthCheckConfig" where
  "dec_EnhancedHealthCheckConfig ms =
     sbind (str_field ''instance_id'' ms) (\<lambda>inst. sbind (str_field ''subdomain'' ms) (\<lambda>sub.
     sbind (str_field ''base_dir'' ms) (\<lambda>base. sbind (str_field ''level'' ms) (\<lambda>level.
     sbind (int_field ''timeout'' ms) (\<lambda>timeout.
     Inr \<lparr>eh_InstanceID = inst, eh_Subdomain = sub, eh_BaseDir = base, eh_Level = level, eh_Timeout = timeout\<rparr>)))))"

definition dec_EnableTLSConfig :: "(string \<times> json) list \<Rightarrow> error + EnableTLSConfig" where
  "dec_EnableTLSConfig ms =
     sbind (str_field ''instance_id'' ms) (\<lambda>inst. sbind (str_field ''subdomain'' ms) (\<lambda>sub.
     sbind (str_field ''domain'' ms) (\<lambda>dom. sbind (str_field ''studio_domain'' ms) (\<lambda>studio.
     sbind (str_field ''base_dir'' ms) (\<lambda>base. sbind (str_field ''cert_pem'' ms) (\<lambda>cert.
     sbind (str_field ''key_pem'' ms) (\<lambda>key. sbind (int_field ''kong_port'' ms) (\<lambda>kong.
     sbind (int_field ''studio_port'' ms) (\<lambda>sport. sbind (str_field ''dashboard_username'' ms) (\<lambda>user.
     sbind (str_field ''dashboard_password'' ms) (\<lambda>pass.
     Inr \<lparr>et_InstanceID = inst, et_Subdomain = sub, et_Domain = dom, et_StudioDomain = studio, et_BaseDir = base,
       et_CertPEM = cert, et_KeyPEM = key, et_KongPort = kong, et_StudioPort = sport,
       et_DashboardUsername = user, et_DashboardPassword = pass\<rparr>)))))))))))"

definition dec_RotateCredentialsConfig :: "(string \<times> json) list \<Rightarrow> error + RotateCredentialsConfig" where
  "dec_RotateCredentialsConfig ms =
     sbind (str_field ''instance_id'' ms) (\<lambda>inst. sbind (str_field ''credential_type'' ms) (\<lambda>type.
     sbind (str_field ''postgres_password'' ms) (\<lambda>pass. sbind (str_field ''jwt_secret'' ms) (\<lambda>jwt.
     sbind (str_field ''publishable_key'' ms) (\<lambda>pub. sbind (str_field ''secret_key'' ms) (\<lambda>sec.
     sbind (str_field ''base_dir'' ms) (\<lambda>base.
     Inr \<lparr>ro_InstanceID = inst, ro_CredentialType = type, ro_PostgresPassword = pass, ro_JWTSecret = jwt,
       ro_PublishableKey = pub, ro_SecretKey = sec, ro_BaseDir = base\<rparr>)))))))"

definition dec_DiagnoseConfig :: "(string \<times> json) list \<Rightarrow> error + DiagnoseConfig" where
  "dec_DiagnoseConfig ms =
     sbind (str_field ''instance_id'' ms) (\<lambda>inst. sbind (str_field ''subdomain'' ms) (\<lambda>sub.
     sbind (str_field ''base_dir'' ms) (\<lambda>base. sbind (int_field ''timeout'' ms) (\<lambda>timeout.
     Inr \<lparr>dg_InstanceID = inst, dg_Subdomain = sub, dg_BaseDir = base, dg_Timeout = timeout\<rparr>))))"

definition dec_OpenPortConfig :: "(string \<times> json) list \<Rightarrow> error + OpenPortConfig" where
  "dec_OpenPortConfig ms =
     sbind (int_field ''port'' ms) (\<lambda>port. sbind (str_field ''protocol'' ms) (\<lambda>protocol.
     sbind (strs_field ''source_cidrs'' ms) (\<lambda>cidrs.
     Inr \<lparr>op_Port = port, op_Protocol = protocol, op_SourceCIDRs = cidrs\<rparr>)))"

definition dec_UpdateAllowlistConfig :: "(string \<times> json) list \<Rightarrow> error + UpdateAllowlistConfig" where
  "dec_UpdateAllowlistConfig ms =
     sbind (int_field ''port'' ms) (\<lambda>port. sbind (str_field ''protocol'' ms) (\<lambda>protocol.
     sbind (strs_field ''source_cidrs'' ms) (\<lambda>cidrs.
     Inr \<lparr>ua_Port = port, ua_Protocol = protocol, ua_SourceCIDRs = cidrs\<rparr>)))"

definition dec_ResetVMConfig :: "(string \<times> json) list \<Rightarrow> error + ResetVMConfig" where
  "dec_ResetVMConfig ms =
     sbind (str_field ''base_dir'' ms) (\<lambda>base. sbind (list_field dec_int 0 ''allowed_ports'' ms) (\<lambda>ports.
     Inr \<lparr>rv_BaseDir = base, rv_AllowedPorts = ports\<rparr>))"

section \<open>Results\<close>

text \<open>
  Members of an object, left out when they are empty for those marked \<^verbatim>\<open>omitempty\<close>. \<open>zero\<close> says that a
  result was written as a literal that leaves its slices out, which are then \<^verbatim>\<open>null\<close>.
\<close>

type_synonym member = "string \<times> json"

definition str_m :: "string \<Rightarrow> string \<Rightarrow> member list" where "str_m k s = [(k, JStr s)]"
definition bool_m :: "string \<Rightarrow> bool \<Rightarrow> member list" where "bool_m k b = [(k, JBool b)]"
definition int_m :: "string \<Rightarrow> int \<Rightarrow> member list" where "int_m k i = [(k, json_int i)]"
definition stamp_m :: "string \<Rightarrow> stamp \<Rightarrow> member list" where "stamp_m k t = str_m k (stamp_text t)"

definition opt_str :: "string \<Rightarrow> string \<Rightarrow> member list" where "opt_str k s = (if s = [] then [] else str_m k s)"
definition opt_bool :: "string \<Rightarrow> bool \<Rightarrow> member list" where "opt_bool k b = (if b then bool_m k b else [])"
definition opt_int :: "string \<Rightarrow> int \<Rightarrow> member list" where "opt_int k i = (if i = 0 then [] else int_m k i)"

definition list_m :: "bool \<Rightarrow> string \<Rightarrow> ('a \<Rightarrow> json) \<Rightarrow> 'a list \<Rightarrow> member list" where
  "list_m zero k f xs = [(k, if zero \<and> xs = [] then JNull else JArr (map f xs))]"

definition opt_list :: "string \<Rightarrow> ('a \<Rightarrow> json) \<Rightarrow> 'a list \<Rightarrow> member list" where
  "opt_list k f xs = (if xs = [] then [] else [(k, JArr (map f xs))])"

definition slice_m :: "string \<Rightarrow> ('a \<Rightarrow> json) \<Rightarrow> 'a slice \<Rightarrow> member list" where
  "slice_m k f s = [(k, case s of None \<Rightarrow> JNull | Some xs \<Rightarrow> JArr (map f xs))]"

definition json_map :: "('a \<Rightarrow> json) \<Rightarrow> (string \<times> 'a) list \<Rightarrow> json" where
  "json_map f m = JObj (map (\<lambda>(k, v). (k, f v)) (sort_key fst m))"

definition enc_StepResult :: "StepResult \<Rightarrow> json" where
  "enc_StepResult st = JObj (str_m ''name'' (st_Name st) @ str_m ''status'' (st_Status st) @ opt_str ''message'' (st_Message st) @
     stamp_m ''start_time'' (st_StartTime st) @ opt_str ''end_time'' (stamp_text (st_EndTime st)) @
     opt_str ''duration'' (st_Duration st))"

definition steps_m :: "bool \<Rightarrow> StepResult list \<Rightarrow> member list" where
  "steps_m zero = list_m zero ''steps'' enc_StepResult"

text \<open>The results that have an instance, steps, an error and a failed step, and no more.\<close>

definition enc_plain :: "bool \<Rightarrow> bool \<Rightarrow> string \<Rightarrow> StepResult list \<Rightarrow> string \<Rightarrow> string \<Rightarrow> json" where
  "enc_plain zero success inst steps msg failed =
     JObj (bool_m ''success'' success @ str_m ''instance_id'' inst @ steps_m zero steps @
       opt_str ''error_message'' msg @ opt_str ''failed_step'' failed)"

definition enc_DeployResult :: "bool \<Rightarrow> DeployResult \<Rightarrow> json" where
  "enc_DeployResult zero r = enc_plain zero (dr_Success r) (dr_InstanceID r) (dr_Steps r) (dr_ErrorMessage r) (dr_FailedStep r)"

definition enc_DestroyResult :: "bool \<Rightarrow> DestroyResult \<Rightarrow> json" where
  "enc_DestroyResult zero r = enc_plain zero (ds_Success r) (ds_InstanceID r) (ds_Steps r) (ds_ErrorMessage r) (ds_FailedStep r)"

definition enc_RestoreResult :: "bool \<Rightarrow> RestoreResult \<Rightarrow> json" where
  "enc_RestoreResult zero r = enc_plain zero (rr_Success r) (rr_InstanceID r) (rr_Steps r) (rr_ErrorMessage r) (rr_FailedStep r)"

definition enc_EnableTLSResult :: "bool \<Rightarrow> EnableTLSResult \<Rightarrow> json" where
  "enc_EnableTLSResult zero r = enc_plain zero (er_Success r) (er_InstanceID r) (er_Steps r) (er_ErrorMessage r) (er_FailedStep r)"

definition enc_RotateCredentialsResult :: "bool \<Rightarrow> RotateCredentialsResult \<Rightarrow> json" where
  "enc_RotateCredentialsResult zero r =
     enc_plain zero (rs_Success r) (rs_InstanceID r) (rs_Steps r) (rs_ErrorMessage r) (rs_FailedStep r)"

definition enc_ContainerStatus :: "ContainerStatus \<Rightarrow> json" where
  "enc_ContainerStatus c = JObj (str_m ''name'' (cs_Name c) @ str_m ''state'' (cs_State c) @
     opt_str ''health'' (cs_Health c) @ opt_str ''uptime'' (cs_Uptime c))"

definition enc_InstanceStatus :: "InstanceStatus \<Rightarrow> json" where
  "enc_InstanceStatus st = JObj (str_m ''instance_id'' (is_InstanceID st) @ str_m ''state'' (is_State st) @
     slice_m ''containers'' enc_ContainerStatus (is_Containers st) @
     [(''health_checks'', case is_HealthChecks st of None \<Rightarrow> JNull | Some m \<Rightarrow> json_map JBool m)] @
     stamp_m ''last_checked'' (is_LastChecked st))"

definition enc_HardenResult :: "bool \<Rightarrow> HardenResult \<Rightarrow> json" where
  "enc_HardenResult zero r = JObj (bool_m ''success'' (hr_Success r) @ steps_m zero (hr_Steps r) @
     opt_str ''error_message'' (hr_ErrorMessage r) @ opt_str ''failed_step'' (hr_FailedStep r) @
     opt_bool ''rollback_applied'' (hr_RollbackApplied r) @ opt_str ''rollback_details'' (hr_RollbackDetails r))"

definition enc_CleanupResult :: "bool \<Rightarrow> CleanupResult \<Rightarrow> json" where
  "enc_CleanupResult zero r = JObj (bool_m ''success'' (cr_Success r) @ str_m ''level'' (cr_Level r) @
     steps_m zero (cr_Steps r) @ opt_str ''error_message'' (cr_ErrorMessage r) @ opt_str ''failed_step'' (cr_FailedStep r) @
     opt_int ''restored_ssh_port'' (cr_RestoredSSHPort r) @ opt_str ''restored_ssh_user'' (cr_RestoredSSHUser r))"

definition enc_BackupMetadata :: "BackupMetadata \<Rightarrow> json" where
  "enc_BackupMetadata m = JObj (str_m ''backup_id'' (bm_BackupID m) @ str_m ''instance_id'' (bm_InstanceID m) @
     str_m ''subdomain'' (bm_Subdomain m) @ str_m ''supabase_version'' (bm_SupabaseVersion m) @
     stamp_m ''timestamp'' (bm_Timestamp m) @ int_m ''size_bytes'' (bm_SizeBytes m) @ str_m ''checksum'' (bm_Checksum m) @
     opt_int ''storage_size_bytes'' (bm_StorageSizeBytes m) @ opt_str ''storage_checksum'' (bm_StorageChecksum m) @
     str_m ''status'' (bm_Status m))"

text \<open>A struct is never empty: its \<^verbatim>\<open>omitempty\<close> has no effect.\<close>

definition enc_BackupResult :: "bool \<Rightarrow> BackupResult \<Rightarrow> json" where
  "enc_BackupResult zero r = JObj (bool_m ''success'' (br_Success r) @ opt_str ''backup_id'' (br_BackupID r) @
     str_m ''instance_id'' (br_InstanceID r) @ steps_m zero (br_Steps r) @
     [(''metadata'', enc_BackupMetadata (br_Metadata r))] @
     opt_str ''error_message'' (br_ErrorMessage r) @ opt_str ''failed_step'' (br_FailedStep r))"

definition enc_UpgradeResult :: "bool \<Rightarrow> UpgradeResult \<Rightarrow> json" where
  "enc_UpgradeResult zero r = JObj (bool_m ''success'' (ur_Success r) @ str_m ''instance_id'' (ur_InstanceID r) @
     opt_str ''upgraded_from'' (ur_UpgradedFrom r) @ opt_str ''upgraded_to'' (ur_UpgradedTo r) @
     steps_m zero (ur_Steps r) @ bool_m ''rollback_applied'' (ur_RollbackApplied r) @ opt_str ''backup_id'' (ur_BackupID r) @
     opt_str ''error_message'' (ur_ErrorMessage r) @ opt_str ''failed_step'' (ur_FailedStep r))"

definition enc_VerificationCheck :: "VerificationCheck \<Rightarrow> json" where
  "enc_VerificationCheck c = JObj (str_m ''name'' (vk_Name c) @ str_m ''status'' (vk_Status c) @
     str_m ''message'' (vk_Message c) @ opt_str ''duration'' (vk_Duration c))"

definition enc_VerifyBackupResult :: "bool \<Rightarrow> VerifyBackupResult \<Rightarrow> json" where
  "enc_VerifyBackupResult zero r = JObj (bool_m ''success'' (vr_Success r) @ str_m ''backup_id'' (vr_BackupID r) @
     stamp_m ''verified_at'' (vr_VerifiedAt r) @ list_m zero ''checks'' enc_VerificationCheck (vr_Checks r) @
     str_m ''overall_status'' (vr_OverallStatus r) @ opt_str ''error_message'' (vr_ErrorMessage r) @
     str_m ''duration'' (vr_Duration r))"

definition enc_DiagnosticCheck :: "DiagnosticCheck \<Rightarrow> json" where
  "enc_DiagnosticCheck c = JObj (str_m ''name'' (dk_Name c) @ str_m ''status'' (dk_Status c) @
     str_m ''detail'' (dk_Detail c) @ opt_str ''duration'' (dk_Duration c))"

definition enc_DiagnoseResult :: "bool \<Rightarrow> DiagnoseResult \<Rightarrow> json" where
  "enc_DiagnoseResult zero r = JObj (str_m ''instance_id'' (di_InstanceID r) @ str_m ''overall_status'' (di_OverallStatus r) @
     list_m zero ''checks'' enc_DiagnosticCheck (di_Checks r) @ stamp_m ''timestamp'' (di_Timestamp r) @
     str_m ''duration'' (di_Duration r) @ str_m ''agent_version'' (di_AgentVersion r))"

definition enc_OpenPortResult :: "OpenPortResult \<Rightarrow> json" where
  "enc_OpenPortResult r = JObj (bool_m ''success'' (or_Success r) @ int_m ''port'' (or_Port r) @
     str_m ''protocol'' (or_Protocol r) @ opt_list ''allowed_cidrs'' JStr (or_AllowedCIDRs r) @
     opt_str ''error_message'' (or_ErrorMessage r))"

definition enc_UpdateAllowlistResult :: "UpdateAllowlistResult \<Rightarrow> json" where
  "enc_UpdateAllowlistResult r = JObj (bool_m ''success'' (ul_Success r) @ int_m ''port'' (ul_Port r) @
     str_m ''protocol'' (ul_Protocol r) @ opt_list ''allowed_cidrs'' JStr (ul_AllowedCIDRs r) @
     opt_list ''added_cidrs'' JStr (ul_AddedCIDRs r) @ opt_list ''removed_cidrs'' JStr (ul_RemovedCIDRs r) @
     opt_str ''error_message'' (ul_ErrorMessage r))"

definition enc_ResetVMResult :: "bool \<Rightarrow> ResetVMResult \<Rightarrow> json" where
  "enc_ResetVMResult zero r = JObj (bool_m ''success'' (rx_Success r) @ steps_m zero (rx_Steps r) @
     opt_list ''purged_instances'' JStr (rx_PurgedInstances r) @ opt_list ''removed_ufw_rules'' json_int (rx_RemovedUFWRules r) @
     opt_list ''removed_config_files'' JStr (rx_RemovedConfigFiles r) @
     opt_str ''error_message'' (rx_ErrorMessage r) @ opt_str ''failed_step'' (rx_FailedStep r))"

text \<open>A number that is infinite or not a number cannot be written: \<^const>\<open>None\<close>.\<close>

definition float_m :: "bool \<Rightarrow> string \<Rightarrow> float64 \<Rightarrow> member list option" where
  "float_m omit k x = (if omit \<and> x = Fin 0 then Some [] else map_option (\<lambda>t. [(k, JNum t)]) (format_json x))"

definition enc_ContainerMetrics :: "ContainerMetrics \<Rightarrow> json option" where
  "enc_ContainerMetrics m = map_option (\<lambda>parts. JObj (concat parts)) (those
     [Some (str_m ''name'' (cm_Name m)), float_m False ''cpu_percent'' (cm_CPUPercent m),
      Some (int_m ''memory_mb'' (cm_MemoryMB m)), float_m False ''memory_percent'' (cm_MemoryPercent m),
      Some (opt_int ''disk_mb'' (cm_DiskMB m)), float_m True ''network_rx_mb'' (cm_NetworkRxMB m),
      float_m True ''network_tx_mb'' (cm_NetworkTxMB m)])"

definition enc_EnhancedContainerStatus :: "EnhancedContainerStatus \<Rightarrow> json option" where
  "enc_EnhancedContainerStatus c = map_option
     (\<lambda>metrics. JObj (str_m ''name'' (es_Name c) @ str_m ''status'' (es_Status c) @ opt_str ''health'' (es_Health c) @
        opt_str ''uptime'' (es_Uptime c) @ int_m ''restarts'' (es_Restarts c) @ metrics))
     (case es_Metrics c of None \<Rightarrow> Some []
      | Some m \<Rightarrow> map_option (\<lambda>j. [(''metrics'', j)]) (enc_ContainerMetrics m))"

definition enc_ServiceDiagnostics :: "ServiceDiagnostics \<Rightarrow> json" where
  "enc_ServiceDiagnostics d = JObj (str_m ''name'' (sg_Name d) @ str_m ''status'' (sg_Status d) @
     opt_int ''response_time_ms'' (sg_ResponseTimeMS d) @
     (if sg_Details d = [] then [] else [(''details'', json_map JStr (sg_Details d))]) @
     opt_list ''errors'' JStr (sg_Errors d))"

definition enc_HealthCheck :: "HealthCheck \<Rightarrow> json" where
  "enc_HealthCheck c = JObj (str_m ''name'' (hk_Name c) @ str_m ''status'' (hk_Status c) @
     str_m ''message'' (hk_Message c) @ int_m ''duration_ms'' (hk_DurationMS c))"

definition enc_EnhancedHealthCheckResult :: "bool \<Rightarrow> EnhancedHealthCheckResult \<Rightarrow> json option" where
  "enc_EnhancedHealthCheckResult zero r = map_option
     (\<lambda>containers. JObj (str_m ''instance_id'' (en_InstanceID r) @ str_m ''overall_status'' (en_OverallStatus r) @
        stamp_m ''timestamp'' (en_Timestamp r) @ list_m zero ''containers'' id containers @
        opt_list ''services'' enc_ServiceDiagnostics (en_Services r) @ list_m zero ''checks'' enc_HealthCheck (en_Checks r) @
        str_m ''duration'' (en_Duration r) @ str_m ''level'' (en_Level r)))
     (those (map enc_EnhancedContainerStatus (en_Containers r)))"

section \<open>Every result can be written\<close>

text \<open>Floating-point numbers are written as JSON numbers.\<close>

definition int_digits :: "string \<Rightarrow> bool" where
  "int_digits i \<longleftrightarrow> i = ''0'' \<or> i \<noteq> [] \<and> list_all is_digit i \<and> hd i \<noteq> CHR ''0''"

definition no_digit_next :: "string \<Rightarrow> bool" where
  "no_digit_next r \<longleftrightarrow> r = [] \<or> \<not> is_digit (hd r)"

lemma take_digits_ok:
  "list_all is_digit d \<Longrightarrow> d \<noteq> [] \<Longrightarrow> no_digit_next r \<Longrightarrow> take_digits (d @ r) = Some (d, r)"
proof -
  assume d: "list_all is_digit d" "d \<noteq> []" and r: "no_digit_next r"
  have "takeWhile is_digit r = []" using r by (cases r) (auto simp: no_digit_next_def)
  then have "takeWhile is_digit (d @ r) = d" using d(1) by (simp add: list_all_iff takeWhile_append)
  then show ?thesis using d(2) by (simp add: take_digits_def Let_def)
qed

lemma num_int_ok: "int_digits i \<Longrightarrow> no_digit_next r \<Longrightarrow> num_int (i @ r) = Some (i, r)"
  using take_digits_ok [of i r] by (cases i) (auto simp: int_digits_def num_int_def)

lemma json_num_shape:
  assumes i: "int_digits i"
    and f: "f = [] \<or> (\<exists>ds. f = CHR ''.'' # ds \<and> ds \<noteq> [] \<and> list_all is_digit ds)"
    and x: "x = [] \<or> (\<exists>g ds. x = CHR ''e'' # g # ds \<and> (g = CHR ''+'' \<or> g = CHR ''-'') \<and> ds \<noteq> [] \<and> list_all is_digit ds)"
    and sign: "sign = [] \<or> sign = ''-''"
  shows "json_num (sign @ i @ f @ x) = Some (sign @ i @ f @ x, [])"
proof -
  have nx: "no_digit_next x" "no_digit_next (f @ x)"
    using f x by (auto simp: no_digit_next_def is_digit_def)
  have "num_int (i @ f @ x) = Some (i, f @ x)" using num_int_ok [OF i nx(2)] .
  moreover have "num_frac (f @ x) = Some (f, x)"
    using f x take_digits_ok [OF _ _ nx(1)] by (auto simp: num_frac_def)
  moreover have "num_exp x = Some (x, [])"
    using x take_digits_ok [of _ "[]"] by (auto simp: num_exp_def no_digit_next_def)
  moreover have "\<not> has_prefix (i @ f @ x) ''-''"
    using i by (cases i) (auto simp: int_digits_def is_digit_def)
  ultimately show ?thesis using sign by (auto simp: json_num_def Let_def)
qed


lemma idec_digits: "list_all is_digit (idec n)" and idec_hd: "1 \<le> n \<Longrightarrow> hd (idec n) \<noteq> CHR ''0''" and idec_ne: "idec n \<noteq> []"
proof (induction n rule: idec.induct)
  case (1 n)
  {
    case 1
    show ?case using "1.IH"(1) by (subst idec.simps) (simp add: is_digit_digit)
  next
    case 2
    show ?case
    proof (cases "n < 10")
      case True
      then have "nat n < 10" using 2 by simp
      then have "digit (nat n) \<noteq> CHR ''0''" using digit_zero [of "nat n"] 2 by auto
      with True show ?thesis by (subst idec.simps) simp
    next
      case False
      then show ?thesis using "1.IH"(2,3) by (subst idec.simps) (simp add: hd_append)
    qed
  next
    case 3
    show ?case by (subst idec.simps) simp
  }
qed

lemma trimmed_digits:
  assumes "1 \<le> m" and t: "t = trim_right (\<lambda>c. c = CHR ''0'') (idec m)"
  shows "t \<noteq> []" and "list_all is_digit t" and "hd t \<noteq> CHR ''0''"
proof -
  let ?z = "\<lambda>c. c = CHR ''0''"
  define z where "z = rev (takeWhile ?z (rev (idec m)))"
  have "rev (idec m) = takeWhile ?z (rev (idec m)) @ dropWhile ?z (rev (idec m))" by simp
  then have split: "idec m = t @ z"
    unfolding t trim_right_def z_def by (metis rev_append rev_rev_ident)
  have z: "c = CHR ''0''" if "c \<in> set z" for c using that set_takeWhileD unfolding z_def by fastforce
  show ne: "t \<noteq> []"
  proof
    assume "t = []"
    then have "idec m = z" using split by simp
    then have "hd (idec m) \<in> set z" using idec_ne [of m] by simp
    with z idec_hd [OF assms(1)] show False by blast
  qed
  then show "hd t \<noteq> CHR ''0''" using idec_hd [OF assms(1)] unfolding split by simp
  show "list_all is_digit t" using idec_digits [of m] unfolding split by simp
qed

lemma plain_decimal_json:
  assumes ds: "ds \<noteq> []" "list_all is_digit ds" "hd ds \<noteq> CHR ''0''" and sign: "sign = [] \<or> sign = ''-''"
  shows "json_num (sign @ plain_decimal ds e) = Some (sign @ plain_decimal ds e, [])"
proof -
  note shape = json_num_shape [OF _ _ _ sign, of _ _ "[]"]
  have take: "int_digits (take n ds)" if "0 < n" for n
    using ds that by (cases ds; cases n) (auto simp: int_digits_def list_all_iff dest: in_set_takeD)
  have drop: "list_all is_digit (drop n ds)" for n using ds(2) by (auto simp: list_all_iff dest: in_set_dropD)
  consider (whole) "0 \<le> e" | (mixed) "e < 0" "nat (- e) < length ds" | (small) "e < 0" "length ds \<le> nat (- e)" by linarith
  then show ?thesis
  proof cases
    case whole
    have "int_digits (ds @ replicate (nat e) (CHR ''0''))"
      using ds by (cases ds) (auto simp: int_digits_def list_all_iff is_digit_def)
    with shape [of "ds @ replicate (nat e) (CHR ''0'')" "[]"] whole show ?thesis by (simp add: plain_decimal_def)
  next
    case mixed
    with shape [of "take (length ds - nat (- e)) ds" "CHR ''.'' # drop (length ds - nat (- e)) ds"] take drop
    show ?thesis by (simp add: plain_decimal_def Let_def)
  next
    case small
    have "list_all is_digit (replicate n (CHR ''0'') @ ds)" for n
      using ds(2) by (auto simp: list_all_iff is_digit_def)
    with shape [of "''0''" "CHR ''.'' # replicate (nat (- e) - length ds) (CHR ''0'') @ ds"] ds small
    show ?thesis by (simp add: plain_decimal_def Let_def int_digits_def)
  qed
qed

lemma exp_decimal_json:
  assumes ds: "ds \<noteq> []" "list_all is_digit ds" "hd ds \<noteq> CHR ''0''" and sign: "sign = [] \<or> sign = ''-''"
  shows "json_num (sign @ exp_decimal ds e) = Some (sign @ exp_decimal ds e, [])"
proof -
  let ?x = "e + int (length ds) - 1"
  obtain c cs where c: "ds = c # cs" using ds(1) by (cases ds) auto
  have "json_num (sign @ [c] @ (if cs = [] then [] else CHR ''.'' # cs) @
      (CHR ''e'' # (if ?x < 0 then CHR ''-'' else CHR ''+'') # idec \<bar>?x\<bar>)) = Some (sign @ [c] @ (if cs = [] then [] else CHR ''.'' # cs) @
      (CHR ''e'' # (if ?x < 0 then CHR ''-'' else CHR ''+'') # idec \<bar>?x\<bar>), [])"
    using ds c idec_digits [of "\<bar>?x\<bar>"] idec_ne [of "\<bar>?x\<bar>"] by (intro json_num_shape sign) (auto simp: int_digits_def)
  moreover have "exp_decimal ds e = [c] @ (if cs = [] then [] else CHR ''.'' # cs) @
      (CHR ''e'' # (if ?x < 0 then CHR ''-'' else CHR ''+'') # idec \<bar>?x\<bar>)"
    by (simp add: exp_decimal_def c Let_def)
  ultimately show ?thesis by simp
qed

lemma shortest_pos: "0 < x \<Longrightarrow> 1 \<le> fst (shortest x)"
proof -
  assume x: "0 < x"
  have "1 \<le> m" if "with_exp x e = Some (m, e')" for e m e'
  proof -
    define lo where "lo = \<lfloor>x / pow10 e\<rfloor>"
    have "0 \<le> lo" using x by (simp add: lo_def pow10_def)
    moreover have "\<not> reads_as x 0 e" using x round64_of_int [of 0] by (simp add: reads_as_def)
    then have "lo \<noteq> 0" if "reads_as x lo e" using that by metis
    moreover have "m = lo + 1 \<or> m = lo \<and> reads_as x lo e"
      using that unfolding with_exp_def lo_def [symmetric] Let_def by (simp split: if_splits)
    ultimately show ?thesis by linarith
  qed
  then have "1 \<le> fst (shortest_from n x e)" for n e
    by (induction n x e rule: shortest_from.induct) (auto split: option.splits)
  then show ?thesis by (simp add: shortest_def)
qed

lemma format_json_renderable: "format_json x = Some t \<Longrightarrow> renderable (JNum t)"
proof (cases x)
  case (Fin a)
  assume t: "format_json x = Some t"
  obtain m e where me: "shortest \<bar>a\<bar> = (m, e)" by force
  define ds where "ds = trim_right (\<lambda>c. c = CHR ''0'') (idec m)"
  show ?thesis
  proof (cases "a = 0")
    case True
    with t Fin have "t = ''0''" by (simp add: format_json_def)
    then show ?thesis using json_num_shape [of "''0''" "[]" "[]" "[]"] by (simp add: int_digits_def)
  next
    case False
    then have "1 \<le> m" using shortest_pos [of "\<bar>a\<bar>"] me by simp
    note ds = trimmed_digits [OF this ds_def]
    have sign: "(if a < 0 then ''-'' else []) = [] \<or> (if a < 0 then ''-'' else []) = ''-''" by simp
    show ?thesis
      using t Fin False plain_decimal_json [OF ds sign] exp_decimal_json [OF ds sign]
      by (auto simp: format_json_def me Let_def ds_def [symmetric] split: if_splits)
  qed
qed (simp_all add: format_json_def)

text \<open>The members of an object, one after the other.\<close>

definition writable :: "member list \<Rightarrow> bool" where
  "writable ms \<longleftrightarrow> list_all (\<lambda>(k, v). renderable v) ms"

lemma renderable_obj [simp]: "renderable (JObj ms) = writable ms"
  by (simp add: writable_def)

declare renderable.simps(3) [simp del]

lemma writable_simps [simp]:
  "writable []" "writable (m # ms) \<longleftrightarrow> renderable (snd m) \<and> writable ms"
  "writable (ms @ ns) \<longleftrightarrow> writable ms \<and> writable ns"
  "writable (str_m k s)" "writable (bool_m k b)" "writable (int_m k i)" "writable (stamp_m k t)"
  "writable (opt_str k s)" "writable (opt_bool k b)" "writable (opt_int k i)"
  by (auto simp: writable_def str_m_def bool_m_def int_m_def stamp_m_def opt_str_def opt_bool_def opt_int_def)

lemma writable_lists [simp]:
  "writable (list_m zero k f xs) \<longleftrightarrow> list_all (\<lambda>x. renderable (f x)) xs"
  "writable (opt_list k f xs) \<longleftrightarrow> list_all (\<lambda>x. renderable (f x)) xs"
  "writable (slice_m k f s) \<longleftrightarrow> list_all (\<lambda>x. renderable (f x)) (elems s)"
  by (auto simp: list_m_def opt_list_def slice_m_def list_all_iff split: option.split)

lemma renderable_map [simp]: "renderable (json_map f m) \<longleftrightarrow> list_all (\<lambda>(k, v). renderable (f v)) m"
  by (auto simp: json_map_def writable_def list_all_iff)

lemma all_pairs [simp]: "list_all (\<lambda>(k, v). True) m"
  by (simp add: list_all_iff)

lemma renderable_parts [simp]:
  "renderable (enc_StepResult st)" "renderable (enc_ContainerStatus c)" "renderable (enc_BackupMetadata m)"
  "renderable (enc_VerificationCheck vc)" "renderable (enc_DiagnosticCheck dc)" "renderable (enc_HealthCheck hc)"
  "writable (steps_m zero steps)" "renderable (enc_plain zero ok inst steps msg failed)"
  by (simp_all add: enc_StepResult_def enc_ContainerStatus_def enc_BackupMetadata_def enc_VerificationCheck_def
      enc_DiagnosticCheck_def enc_HealthCheck_def steps_m_def enc_plain_def list.pred_True)

lemma renderable_services [simp]: "renderable (enc_ServiceDiagnostics d)"
  by (simp add: enc_ServiceDiagnostics_def list.pred_True)

lemma renderable_results [simp]:
  "renderable (enc_DeployResult zero r1)" "renderable (enc_DestroyResult zero r2)" "renderable (enc_RestoreResult zero r3)"
  "renderable (enc_EnableTLSResult zero r4)" "renderable (enc_RotateCredentialsResult zero r5)"
  "renderable (enc_InstanceStatus r6)" "renderable (enc_HardenResult zero r7)" "renderable (enc_CleanupResult zero r8)"
  "renderable (enc_BackupResult zero r9)" "renderable (enc_UpgradeResult zero r10)"
  "renderable (enc_VerifyBackupResult zero r11)" "renderable (enc_DiagnoseResult zero r12)"
  "renderable (enc_OpenPortResult r13)" "renderable (enc_UpdateAllowlistResult r14)" "renderable (enc_ResetVMResult zero r15)"
  by (simp_all add: enc_DeployResult_def enc_DestroyResult_def enc_RestoreResult_def enc_EnableTLSResult_def
      enc_RotateCredentialsResult_def enc_InstanceStatus_def enc_HardenResult_def enc_CleanupResult_def enc_BackupResult_def
      enc_UpgradeResult_def enc_VerifyBackupResult_def enc_DiagnoseResult_def enc_OpenPortResult_def
      enc_UpdateAllowlistResult_def enc_ResetVMResult_def list.pred_True split: option.split)

lemma those_all: "those (map f xs) = Some ys \<Longrightarrow> (\<And>x y. f x = Some y \<Longrightarrow> P y) \<Longrightarrow> list_all P ys"
  by (induction xs arbitrary: ys) (auto split: option.splits)

lemma writable_float: "float_m omit k x = Some ms \<Longrightarrow> writable ms"
  using format_json_renderable [of x] by (auto simp: float_m_def split: if_splits)

lemma renderable_metrics: "enc_ContainerMetrics m = Some j \<Longrightarrow> renderable j"
  by (auto simp: enc_ContainerMetrics_def split: option.splits dest!: writable_float)

lemma renderable_enhanced:
  assumes "enc_EnhancedHealthCheckResult zero r = Some j"
  shows "renderable j"
proof -
  from assms obtain cs where cs: "those (map enc_EnhancedContainerStatus (en_Containers r)) = Some cs"
    by (auto simp: enc_EnhancedHealthCheckResult_def)
  have "list_all renderable cs"
    by (rule those_all [OF cs]) (auto simp: enc_EnhancedContainerStatus_def renderable_metrics split: option.splits)
  with assms cs show ?thesis by (auto simp: enc_EnhancedHealthCheckResult_def list_all_iff)
qed

end
