(* ===== verification/Handlers.thy ===== *)
theory Handlers
  imports Wire Daemon Tls Diagnose OpenPort RotateCreds SelfUpgrade Harden Phases
begin

text \<open>
  \<^verbatim>\<open>internal/daemon/handlers\<close>: what the daemon runs for each method of the gateway. A handler decodes
  its parameters, calls an operation and gives its result as JSON, or an error. The context of a
  request is not cancelled; what a cancelled command answers is the machine's choice.
\<close>

section \<open>The agent on its machine\<close>

text \<open>
  The machine and what the agent takes from libraries and from its build: digests, the order in which
  a map is iterated, gzip, the number of processors, the version, and its own executable.
\<close>

record 'x agent =
  ag_host :: "'x host"
  ag_sha1 :: "string \<Rightarrow> string"
  ag_digest :: "string \<Rightarrow> string"
  ag_order :: "(string \<times> string) list \<Rightarrow> (string \<times> string) list"
  ag_NumCPU :: int
  ag_Version :: string
  ag_gunzip :: "string \<Rightarrow> error + string \<times> error option"
  ag_Executable :: "error + string"
  ag_EvalSymlinks :: "string \<Rightarrow> string option"
  ag_GOARCH :: string

text \<open>\<^verbatim>\<open>json.Unmarshal(params, &cfg)\<close>; missing parameters are an empty text.\<close>

definition with_params ::
  "((string \<times> json) list \<Rightarrow> error + 'a) \<Rightarrow> ('a \<Rightarrow> ('x, error + json option) io) \<Rightarrow> 'x handler" where
  "with_params dcd run params =
     (case (case params of None \<Rightarrow> Inl ''unexpected end of JSON input'' | Some j \<Rightarrow> decode_struct dcd j) of
        Inl e \<Rightarrow> ret (Inl (''invalid params: '' @ e))
      | Inr cfg \<Rightarrow> run cfg)"

text \<open>A result that reports failure becomes an error, and its steps are dropped.\<close>

definition outcome :: "string \<Rightarrow> bool \<Rightarrow> string \<Rightarrow> json \<Rightarrow> error + json option" where
  "outcome what success msg result = (if success then Inr (Some result) else Inl (what @ '' failed: '' @ msg))"

section \<open>The operations of the packages\<close>

definition HealthCheck_handler :: "'x agent \<Rightarrow> 'x handler" where
  "HealthCheck_handler a = with_params dec_EnhancedHealthCheckConfig (\<lambda>cfg. do {
     r \<leftarrow> CheckEnhanced (ag_host a) (Some cfg);
     ret (case r of Inl e \<Rightarrow> Inl e | Inr result \<Rightarrow> Inr (enc_EnhancedHealthCheckResult False result))
   })"

definition VMHarden :: "'x agent \<Rightarrow> 'x handler" where
  "VMHarden a = with_params dec_HardenConfig (\<lambda>cfg. do {
     r \<leftarrow> Harden (ag_host a) cfg;
     ret (outcome ''harden'' (hr_Success r) (hr_ErrorMessage r) (enc_HardenResult False r))
   })"

definition VMOpenPort :: "'x agent \<Rightarrow> 'x handler" where
  "VMOpenPort a = with_params dec_OpenPortConfig (\<lambda>cfg. do {
     r \<leftarrow> OpenPort (ag_host a) cfg;
     ret (outcome ''open-port'' (or_Success r) (or_ErrorMessage r) (enc_OpenPortResult r))
   })"

text \<open>Nothing sets the version of the diagnosis when the daemon runs it.\<close>

definition VMDiagnose :: "'x agent \<Rightarrow> 'x handler" where
  "VMDiagnose a = with_params dec_DiagnoseConfig (\<lambda>cfg. do {
     r \<leftarrow> Diagnose (ag_host a) (ag_NumCPU a) ''unknown'' (Some cfg);
     ret (case r of Inl e \<Rightarrow> Inl e | Inr result \<Rightarrow> Inr (Some (enc_DiagnoseResult False result)))
   })"

definition KamalDeploy :: "'x agent \<Rightarrow> 'x handler" where
  "KamalDeploy a = with_params (dec_DeployConfig (ag_order a)) (\<lambda>cfg. do {
     r \<leftarrow> Deploy (ag_host a) (ag_sha1 a) (ag_order a) cfg;
     ret (outcome ''deploy'' (dr_Success r) (dr_ErrorMessage r) (enc_DeployResult False r))
   })"

definition TLSIssue :: "'x agent \<Rightarrow> 'x handler" where
  "TLSIssue a = with_params dec_EnableTLSConfig (\<lambda>cfg. do {
     r \<leftarrow> EnableTLS (ag_host a) (ag_sha1 a) (ag_order a) cfg;
     ret (outcome ''tls'' (er_Success r) (er_ErrorMessage r) (enc_EnableTLSResult False r))
   })"

definition CredsRotate :: "'x agent \<Rightarrow> 'x handler" where
  "CredsRotate a = with_params dec_RotateCredentialsConfig (\<lambda>cfg. do {
     r \<leftarrow> RotateCredentials (ag_host a) (ag_order a) cfg;
     ret (outcome ''rotate-credentials'' (rs_Success r) (rs_ErrorMessage r) (enc_RotateCredentialsResult False r))
   })"

definition dec_UpConfig :: "(string \<times> json) list \<Rightarrow> error + UpConfig" where
  "dec_UpConfig ms =
     sbind (str_field ''binary_url'' ms) (\<lambda>url. sbind (str_field ''sha256'' ms) (\<lambda>sha.
     sbind (str_field ''version'' ms) (\<lambda>version. sbind (str_field ''service'' ms) (\<lambda>service.
     Inr \<lparr>su_BinaryURL = url, su_SHA256 = sha, su_Version = version, su_Service = service\<rparr>))))"

definition enc_UpResult :: "UpResult \<Rightarrow> json" where
  "enc_UpResult r = JObj (bool_m ''success'' (sr_Success r) @ opt_str ''old_version'' (sr_OldVersion r) @
     opt_str ''new_version'' (sr_NewVersion r) @ opt_str ''binary_url'' (sr_BinaryURL r) @
     opt_str ''message'' (sr_Message r) @ opt_str ''error'' (sr_Error r))"

definition agent_options :: "'x agent \<Rightarrow> Options" where
  "agent_options a = \<lparr>so_CurrentVersion = ag_Version a, so_ExecutablePath = [], so_Executable = ag_Executable a,
     so_EvalSymlinks = ag_EvalSymlinks a, so_GOARCH = ag_GOARCH a\<rparr>"

definition AgentUpgrade :: "'x agent \<Rightarrow> 'x handler" where
  "AgentUpgrade a = with_params dec_UpConfig (\<lambda>cfg. do {
     res \<leftarrow> Run (ag_host a) (ag_digest a) (scheduleSystemctlRestart (ag_host a)) cfg (agent_options a);
     ret (outcome ''agent upgrade'' (sr_Success res) (sr_Error res) (enc_UpResult res))
   })"

section \<open>Stopping the containers of an environment\<close>

record containersStopResult =
  cp_Stopped :: "string slice"
  cp_Errors :: "string list"

definition enc_containersStopResult :: "containersStopResult \<Rightarrow> json" where
  "enc_containersStopResult r = JObj (slice_m ''stopped'' JStr (cp_Stopped r) @ opt_list ''errors'' JStr (cp_Errors r))"

definition env_id_char :: "char \<Rightarrow> bool" where
  "env_id_char c \<longleftrightarrow> is_digit c \<or> c = CHR ''-'' \<or>
     97 \<le> byte_val c \<and> byte_val c \<le> 122 \<or> 65 \<le> byte_val c \<and> byte_val c \<le> 90"

definition envIDRe :: "string \<Rightarrow> bool" where
  "envIDRe s \<longleftrightarrow> 1 \<le> length s \<and> length s \<le> 64 \<and> list_all env_id_char s"

definition containerNameRe :: "string \<Rightarrow> bool" where
  "containerNameRe s \<longleftrightarrow> s \<noteq> [] \<and> list_all (\<lambda>c. env_id_char c \<or> c = CHR ''_'' \<or> c = CHR ''.'') s"

definition container_names :: "string \<Rightarrow> string list" where
  "container_names out = filter (\<lambda>n. n \<noteq> []) (map trim_space (split_char NL (trim_space out)))"

text \<open>The stopped and removed containers and the errors.\<close>

fun stop_all :: "'x host \<Rightarrow> string list \<Rightarrow> ('x, string list \<times> string list) io" where
  "stop_all h [] = ret ([], [])"
| "stop_all h (name # names) = do {
     r \<leftarrow> exec_cmd h [''sudo'', ''docker'', ''stop'', name];
     if cr_status r \<noteq> None then do {
       (stopped, errs) \<leftarrow> stop_all h names;
       ret (stopped, (''stop '' @ name @ '': '' @ trim_space (cr_all r)) # errs)
     } else do {
       r \<leftarrow> exec_cmd h [''sudo'', ''docker'', ''rm'', name];
       (stopped, errs) \<leftarrow> stop_all h names;
       ret (if cr_status r \<noteq> None then (stopped, (''rm '' @ name @ '': '' @ trim_space (cr_all r)) # errs)
            else (name # stopped, errs))
     }
   }"

definition dec_environment_id :: "(string \<times> json) list \<Rightarrow> error + string" where
  "dec_environment_id ms = str_field ''environment_id'' ms"

definition ContainersStop :: "'x agent \<Rightarrow> 'x handler" where
  "ContainersStop a = with_params dec_environment_id (\<lambda>envID.
     if \<not> envIDRe envID then ret (Inl (''invalid environment_id: '' @ go_quoted envID))
     else do {
       r \<leftarrow> exec_cmd (ag_host a) [''sudo'', ''docker'', ''ps'', ''-a'', ''--filter'', ''label=vmkit.environment_id='' @ envID,
         ''--format'', ''{{.Names}}''];
       case cr_status r of
         Some e \<Rightarrow> ret (Inl (''docker ps failed: '' @ e))
       | None \<Rightarrow> (let names = container_names (cr_out r) in
           if names = [] then ret (Inr (Some (enc_containersStopResult \<lparr>cp_Stopped = Some [], cp_Errors = []\<rparr>)))
           else do {
             (stopped, errs) \<leftarrow> stop_all (ag_host a) names;
             ret (Inr (Some (enc_containersStopResult
               \<lparr>cp_Stopped = (if stopped = [] then None else Some stopped), cp_Errors = errs\<rparr>)))
           })
     })"

section \<open>Logs of a container\<close>

record logsFetchParams =
  lf_Container :: string
  lf_Tail :: int
  lf_EnvironmentID :: string

record logsFetchResult =
  lr_Lines :: "string list"
  lr_Container :: string
  lr_Tail :: int
  lr_Error :: string

definition dec_logsFetchParams :: "(string \<times> json) list \<Rightarrow> error + logsFetchParams" where
  "dec_logsFetchParams ms =
     sbind (str_field ''container'' ms) (\<lambda>c. sbind (int_field ''tail'' ms) (\<lambda>t.
     sbind (str_field ''environment_id'' ms) (\<lambda>env.
     Inr \<lparr>lf_Container = c, lf_Tail = t, lf_EnvironmentID = env\<rparr>)))"

definition enc_logsFetchResult :: "logsFetchResult \<Rightarrow> json" where
  "enc_logsFetchResult r = JObj (opt_list ''lines'' JStr (lr_Lines r) @ opt_str ''container'' (lr_Container r) @
     opt_int ''tail'' (lr_Tail r) @ opt_str ''error'' (lr_Error r))"

definition defaultLogsTail :: int where "defaultLogsTail = 200"
definition maxLogsTail :: int where "maxLogsTail = 1000"

definition docker_ps :: "'x host \<Rightarrow> string list \<Rightarrow> ('x, cmdres) io" where
  "docker_ps h filters = exec_cmd h ([''sudo'', ''docker'', ''ps''] @ concat (map (\<lambda>f. [''--filter'', f]) filters) @
     [''--filter'', ''status=running'', ''--format'', ''{{.Names}}''])"

text \<open>The first name of the output that is not the proxy.\<close>

definition pick_name :: "cmdres \<Rightarrow> string option" where
  "pick_name r =
     (if cr_status r \<noteq> None then None
      else find (\<lambda>n. n \<noteq> [] \<and> n \<noteq> ''kamal-proxy'') (map trim_space (split_char NL (trim_space (cr_out r)))))"

text \<open>Ask for each list of filters in turn until one of them names a container.\<close>

fun first_named :: "'x host \<Rightarrow> string list list \<Rightarrow> string \<Rightarrow> ('x, string) io" where
  "first_named h [] dflt = ret dflt"
| "first_named h (filters # rest) dflt = do {
     r \<leftarrow> docker_ps h filters;
     case pick_name r of Some n \<Rightarrow> ret n | None \<Rightarrow> first_named h rest dflt
   }"

definition resolveContainer :: "'x host \<Rightarrow> string \<Rightarrow> string \<Rightarrow> ('x, string) io" where
  "resolveContainer h requested envID = do {
     r \<leftarrow> docker_ps h [''name='' @ requested];
     if cr_status r = None \<and> list_ex (\<lambda>line. trim_space line = requested) (split_char NL (trim_space (cr_out r)))
     then ret requested
     else (let role = ''label=role='' @ (if requested = ''app'' then ''web'' else requested) in
       first_named h
         ((if envID \<noteq> [] \<and> envIDRe envID then [[''label=vmkit.environment_id='' @ envID, role]] else []) @
          [[role]] @ (if requested = ''app'' then [[''label=service'']] else []))
         requested)
   }"

definition clamp_tail :: "int \<Rightarrow> int" where
  "clamp_tail t = (let t = (if t \<le> 0 then defaultLogsTail else t) in if maxLogsTail < t then maxLogsTail else t)"

definition log_lines :: "string \<Rightarrow> string list" where
  "log_lines out = (let lines = split_char NL (trim_right (\<lambda>c. c = NL) out) in if lines = [[]] then [] else lines)"

definition LogsFetch :: "'x agent \<Rightarrow> 'x handler" where
  "LogsFetch a = with_params dec_logsFetchParams (\<lambda>p.
     let wanted = (if lf_Container p = [] then ''app'' else lf_Container p) in
     if \<not> containerNameRe wanted then
       ret (Inr (Some (enc_logsFetchResult \<lparr>lr_Lines = [], lr_Container = [], lr_Tail = 0,
         lr_Error = ''invalid container name: '' @ go_quoted wanted\<rparr>)))
     else do {
       container \<leftarrow> resolveContainer (ag_host a) wanted (lf_EnvironmentID p);
       let tail = clamp_tail (lf_Tail p);
       r \<leftarrow> exec_cmd (ag_host a) [''sudo'', ''docker'', ''logs'', ''--tail'', itoa tail, container];
       ret (Inr (Some (enc_logsFetchResult (case cr_status r of
           Some e \<Rightarrow> \<lparr>lr_Lines = [], lr_Container = container, lr_Tail = tail,
             lr_Error = (if trim_space (cr_all r) = [] then e else trim_space (cr_all r))\<rparr>
         | None \<Rightarrow> \<lparr>lr_Lines = log_lines (cr_all r), lr_Container = container, lr_Tail = tail, lr_Error = []\<rparr>))))
     })"

section \<open>Metrics of the machine\<close>

record diskMetric =
  dm_Used :: string
  dm_Total :: string
  dm_Pct :: int
  dm_Error :: string

record memoryMetric =
  mm_UsedMB :: int
  mm_TotalMB :: int
  mm_Pct :: int
  mm_Error :: string

record metricsResult =
  me_Disk :: diskMetric
  me_Memory :: memoryMetric
  me_Load :: "float64 list"
  me_LoadError :: string

definition disk_error :: "string \<Rightarrow> diskMetric" where
  "disk_error e = \<lparr>dm_Used = [], dm_Total = [], dm_Pct = 0, dm_Error = e\<rparr>"

definition memory_error :: "string \<Rightarrow> memoryMetric" where
  "memory_error e = \<lparr>mm_UsedMB = 0, mm_TotalMB = 0, mm_Pct = 0, mm_Error = e\<rparr>"

definition parseDisk :: "string \<Rightarrow> diskMetric" where
  "parseDisk dfOutput = (case split_char NL (trim_space dfOutput) of
     _ # line # _ \<Rightarrow>
       (case Prelude.fields line of
          _ # f1 # f2 # _ # f4 # _ \<Rightarrow>
            (case atoi (trim_suffix f4 ''%'') of
               (pct, None) \<Rightarrow> \<lparr>dm_Used = f2, dm_Total = f1, dm_Pct = pct, dm_Error = []\<rparr>
             | _ \<Rightarrow> disk_error (''could not parse disk percent '' @ go_quoted f4))
        | _ \<Rightarrow> disk_error ''unexpected df format'')
   | _ \<Rightarrow> disk_error ''unexpected df output'')"

definition parseMemory :: "string \<Rightarrow> memoryMetric" where
  "parseMemory meminfo = (case scan_meminfo meminfo of (memTotalKB, memAvailKB) \<Rightarrow>
     if memTotalKB = 0 then memory_error ''could not parse MemTotal from /proc/meminfo''
     else let usedKB = memTotalKB - memAvailKB in
       \<lparr>mm_UsedMB = quot usedKB 1024, mm_TotalMB = quot memTotalKB 1024, mm_Pct = percent_used usedKB memTotalKB, mm_Error = []\<rparr>)"

fun parse_loads :: "string list \<Rightarrow> error + float64 list" where
  "parse_loads [] = Inr []"
| "parse_loads (f # rest) = (case ParseFloat f of
     (v, None) \<Rightarrow> (case parse_loads rest of Inl e \<Rightarrow> Inl e | Inr vs \<Rightarrow> Inr (v # vs))
   | _ \<Rightarrow> Inl (''could not parse load value '' @ go_quoted f))"

definition parseLoad :: "string \<Rightarrow> float64 list \<times> string" where
  "parseLoad loadavg =
     (let words = Prelude.fields loadavg in
      if length words < 3 then ([], ''could not parse load average from /proc/loadavg'')
      else case parse_loads (take 3 words) of Inl e \<Rightarrow> ([], e) | Inr load \<Rightarrow> (load, []))"

definition enc_metricsResult :: "metricsResult \<Rightarrow> json option" where
  "enc_metricsResult r = map_option
     (\<lambda>load. JObj
       ([(''disk'', JObj (opt_str ''used'' (dm_Used (me_Disk r)) @ opt_str ''total'' (dm_Total (me_Disk r)) @
           int_m ''pct'' (dm_Pct (me_Disk r)) @ opt_str ''error'' (dm_Error (me_Disk r)))),
         (''memory'', JObj (int_m ''used_mb'' (mm_UsedMB (me_Memory r)) @ int_m ''total_mb'' (mm_TotalMB (me_Memory r)) @
           int_m ''pct'' (mm_Pct (me_Memory r)) @ opt_str ''error'' (mm_Error (me_Memory r))))] @
        opt_list ''load'' JNum load @ opt_str ''load_error'' (me_LoadError r)))
     (those (map format_json (me_Load r)))"

text \<open>The payload may be missing; if it is there it has to be an object of JSON values or \<^verbatim>\<open>null\<close>.\<close>

definition payload_error :: "json option \<Rightarrow> error option" where
  "payload_error params = (case params of
     None \<Rightarrow> None
   | Some JNull \<Rightarrow> None
   | Some (JObj ms) \<Rightarrow> (if numbers_fit (JObj ms) then None else Some ''json: cannot unmarshal number'')
   | Some _ \<Rightarrow> Some ''json: cannot unmarshal into Go value of type map[string]interface {}'')"

definition MetricsCollect :: "'x agent \<Rightarrow> 'x handler" where
  "MetricsCollect a params = (case payload_error params of
     Some e \<Rightarrow> ret (Inl (''invalid params: '' @ e))
   | None \<Rightarrow> do {
       r \<leftarrow> exec_cmd (ag_host a) [''df'', ''-h'', ''/''];
       let disk = (case cr_status r of Some e \<Rightarrow> disk_error (''df failed: '' @ e) | None \<Rightarrow> parseDisk (cr_out r));
       m \<leftarrow> os_read (ag_host a) ''/proc/meminfo'';
       let memory = (case m of Inl e \<Rightarrow> memory_error (''could not read /proc/meminfo: '' @ err_text e) | Inr t \<Rightarrow> parseMemory t);
       l \<leftarrow> os_read (ag_host a) ''/proc/loadavg'';
       let (load, loadErr) = (case l of Inl e \<Rightarrow> ([], ''could not read /proc/loadavg: '' @ err_text e) | Inr t \<Rightarrow> parseLoad t);
       ret (Inr (enc_metricsResult \<lparr>me_Disk = disk, me_Memory = memory, me_Load = load, me_LoadError = loadErr\<rparr>))
     })"

section \<open>The table of the methods\<close>

definition RegisterAll :: "'x agent \<Rightarrow> (string \<times> 'x handler) list" where
  "RegisterAll a =
     [(''health.check'', HealthCheck_handler a), (''vm.harden'', VMHarden a), (''vm.openport'', VMOpenPort a),
      (''vm.upgrade'', AgentUpgrade a), (''vm.diagnose'', VMDiagnose a), (''kamal.deploy'', KamalDeploy a),
      (''tls.issue'', TLSIssue a), (''creds.rotate'', CredsRotate a), (''logs.fetch'', LogsFetch a),
      (''metrics.collect'', MetricsCollect a), (''containers.stop'', ContainersStop a)]"

section \<open>Every response can be read\<close>

definition answers_json :: "error + json option \<Rightarrow> bool" where
  "answers_json r \<longleftrightarrow> (case r of Inr (Some j) \<Rightarrow> renderable j | _ \<Rightarrow> True)"

lemma answers_json_simps [simp]:
  "answers_json (Inl e)" "answers_json (Inr None)" "answers_json (Inr (Some j)) \<longleftrightarrow> renderable j"
  "answers_json (outcome what ok msg j) \<longleftrightarrow> ok \<longrightarrow> renderable j"
  by (simp_all add: answers_json_def outcome_def)

lemma yields_params: "(\<And>cfg. yields answers_json (run cfg)) \<Longrightarrow> yields answers_json (with_params dcd run params)"
  unfolding with_params_def by (intro yields_intros) simp_all

lemma renderable_handlers [simp]:
  "renderable (enc_UpResult u)" "renderable (enc_containersStopResult c)" "renderable (enc_logsFetchResult l)"
  by (simp_all add: enc_UpResult_def enc_containersStopResult_def enc_logsFetchResult_def list.pred_True)

lemma renderable_metricsResult: "enc_metricsResult r = Some j \<Longrightarrow> renderable j"
proof -
  assume j: "enc_metricsResult r = Some j"
  then obtain load where load: "those (map format_json (me_Load r)) = Some load" by (auto simp: enc_metricsResult_def)
  have "list_all (\<lambda>t. renderable (JNum t)) load" by (rule those_all [OF load format_json_renderable])
  with j load show ?thesis by (auto simp: enc_metricsResult_def)
qed

lemma handlers_json: "list_all (\<lambda>(m, handler). yields answers_json (handler params)) (RegisterAll a)"
proof -
  have ops: "yields answers_json (HealthCheck_handler a params)" "yields answers_json (VMHarden a params)"
    "yields answers_json (VMOpenPort a params)" "yields answers_json (AgentUpgrade a params)"
    "yields answers_json (VMDiagnose a params)" "yields answers_json (KamalDeploy a params)"
    "yields answers_json (TLSIssue a params)" "yields answers_json (CredsRotate a params)"
    unfolding HealthCheck_handler_def VMHarden_def VMOpenPort_def AgentUpgrade_def VMDiagnose_def KamalDeploy_def
      TLSIssue_def CredsRotate_def
    by (intro yields_params yields_bind yields_return;
        auto simp: answers_json_def outcome_def renderable_enhanced split: sum.split option.split)+
  have "yields answers_json (LogsFetch a params)"
    unfolding LogsFetch_def Let_def by (intro yields_params yields_if yields_bind yields_return) simp_all
  moreover have "yields answers_json (ContainersStop a params)"
    unfolding ContainersStop_def Let_def
    by (intro yields_params) (auto intro!: yields_intros split: prod.splits)
  moreover have "yields answers_json (MetricsCollect a params)"
    unfolding MetricsCollect_def Let_def
    by (intro yields_intros) (auto intro!: yields_intros simp: answers_json_def renderable_metricsResult split: option.splits prod.splits)
  ultimately show ?thesis using ops by (simp add: RegisterAll_def)
qed

text \<open>
  C39: Whatever method the gateway asks for, with whatever parameters and on whatever machine, the text
  that answers the request reads back as a response with the id of the request and with either a
  result or an error. No handler produces JSON that cannot be written.
\<close>

theorem every_response_reads:
  "\<exists>resp. unmarshal dec_response (fst (run_state (handleRequest (RegisterAll a) meth params i) s)) = Inr resp
     \<and> rp_ID resp = i \<and> (rp_Result resp = None) = (rp_Error resp \<noteq> None)"
proof (cases "map_of (RegisterAll a) meth")
  case None
  then show ?thesis by (simp add: handleRequest_def error_reads_back)
next
  case (Some handler)
  obtain r s' where r: "run_state (handler params) s = (r, s')" by force
  have "yields answers_json (handler params)"
    using handlers_json [of params a] map_of_SomeD [OF Some] by (auto simp: list_all_iff)
  from yieldsD [OF this r] have "answers_json r" .
  then show ?thesis
    by (cases r) (auto simp: handleRequest_def Some r result_reads_back error_reads_back split: option.split)
qed

section \<open>What logs.fetch can run\<close>

definition log_filter :: "string \<Rightarrow> bool" where
  "log_filter f \<longleftrightarrow>
     (\<exists>n. containerNameRe n \<and> (f = ''name='' @ n \<or> f = ''label=role='' @ n))
     \<or> (\<exists>e. envIDRe e \<and> f = ''label=vmkit.environment_id='' @ e) \<or> f = ''label=service''"

definition log_command :: "string list \<Rightarrow> bool" where
  "log_command argv \<longleftrightarrow>
     (\<exists>filters. list_all log_filter filters \<and> argv = [''sudo'', ''docker'', ''ps''] @ concat (map (\<lambda>f. [''--filter'', f]) filters) @
        [''--filter'', ''status=running'', ''--format'', ''{{.Names}}''])
     \<or> (\<exists>t container. 1 \<le> t \<and> t \<le> maxLogsTail \<and> argv = [''sudo'', ''docker'', ''logs'', ''--tail'', itoa t, container])"

definition runs_log_commands :: "event \<Rightarrow> bool" where
  "runs_log_commands e \<longleftrightarrow> (case e of EvExec dir argv \<Rightarrow> dir = [] \<and> log_command argv | _ \<Rightarrow> False)"

lemma clamp_tail_bounds: "1 \<le> clamp_tail t" "clamp_tail t \<le> maxLogsTail"
  by (simp_all add: clamp_tail_def defaultLogsTail_def maxLogsTail_def Let_def)

lemma emits_docker_ps: "list_all log_filter filters \<Longrightarrow> emits runs_log_commands (docker_ps h filters)"
  unfolding docker_ps_def by (rule emits_exec_cmd) (auto simp: runs_log_commands_def log_command_def)

lemma emits_first_named: "list_all (list_all log_filter) fss \<Longrightarrow> emits runs_log_commands (first_named h fss dflt)"
  by (induction fss) (auto intro!: emits_intros emits_docker_ps split: option.split)

text \<open>
  C40: Whatever the gateway sends, \<^verbatim>\<open>logs.fetch\<close> runs nothing but listings of running containers, whose
  filters are a validated name, role or environment and cannot smuggle in another one, and
  \<^verbatim>\<open>docker logs\<close> with between one and a thousand lines.
\<close>

theorem logs_fetch_confined: "emits runs_log_commands (LogsFetch a params)"
proof -
  have resolve: "emits runs_log_commands (resolveContainer h n env)" if n: "containerNameRe n" for h n env
  proof -
    have "containerNameRe ''web''" by code_simp
    with n have "log_filter (''name='' @ n)" "log_filter (''label=role='' @ (if n = ''app'' then ''web'' else n))"
      unfolding log_filter_def by auto
    moreover have "log_filter (''label=vmkit.environment_id='' @ env)" if "envIDRe env" using that log_filter_def by blast
    moreover have "log_filter ''label=service''" by (simp add: log_filter_def)
    ultimately show ?thesis
      unfolding resolveContainer_def Let_def
      by (intro emits_bind emits_if emits_docker_ps emits_first_named emits_return) auto
  qed
  have logs: "emits runs_log_commands (exec_cmd h [''sudo'', ''docker'', ''logs'', ''--tail'', itoa (clamp_tail t), c])" for h t c
    by (rule emits_exec_cmd) (use clamp_tail_bounds in \<open>auto simp: runs_log_commands_def log_command_def\<close>)
  show ?thesis
    unfolding LogsFetch_def with_params_def Let_def
    by (auto intro!: emits_sum emits_return emits_bind resolve logs split: if_splits)
qed

end
