(* ===== verification/Config.thy ===== *)
theory Config
  imports Wire
begin

text \<open>
  \<^verbatim>\<open>internal/config/config.go\<close>: loading the configuration of a deployment from a file. The maps of the
  configuration come in the order in which Go iterates over them, a parameter.
\<close>

text \<open>The fields that have to be there.\<close>

definition missing_field :: "DeployConfig \<Rightarrow> string option" where
  "missing_field c =
     (if dc_InstanceID c = [] then Some ''instance_id''
      else if dc_Subdomain c = [] then Some ''subdomain''
      else if dc_Domain c = [] then Some ''domain''
      else if dc_PostgresPassword c = [] then Some ''postgres_password''
      else if dc_JWTSecret c = [] then Some ''jwt_secret'' else None)"

definition with_defaults :: "DeployConfig \<Rightarrow> DeployConfig" where
  "with_defaults c = c\<lparr>dc_BaseDir := (if dc_BaseDir c = [] then ''/opt/supabase'' else dc_BaseDir c),
     dc_KongPort := (if dc_KongPort c = 0 then 8000 else dc_KongPort c),
     dc_PostgresPort := (if dc_PostgresPort c = 0 then 5432 else dc_PostgresPort c),
     dc_StudioPort := (if dc_StudioPort c = 0 then 3000 else dc_StudioPort c)\<rparr>"

definition Load ::
  "'x host \<Rightarrow> ((string \<times> string) list \<Rightarrow> (string \<times> string) list) \<Rightarrow> string \<Rightarrow> ('x, error + DeployConfig) io" where
  "Load h order path = do {
     r \<leftarrow> os_read h path;
     ret (case r of
         Inl e \<Rightarrow> Inl (''failed to read config file: '' @ err_text e)
       | Inr text \<Rightarrow> (case unmarshal (dec_DeployConfig order) text of
           Inl e \<Rightarrow> Inl (''failed to parse config: '' @ e)
         | Inr config \<Rightarrow> (case missing_field config of
             Some f \<Rightarrow> Inl (f @ '' is required'')
           | None \<Rightarrow> Inr (with_defaults config))))
   }"

end
