(* ===== verification/Instance.thy ===== *)
theory Instance
  imports Compose "HOL-Library.AList"
begin

text \<open>
  \<^verbatim>\<open>internal/instance/instance.go\<close>: the state of an instance, and starting, stopping and restarting it.
\<close>

definition instance_BaseDir :: string where "instance_BaseDir = ''/opt/supabase''"

definition instance_fileExists :: "'x host \<Rightarrow> string \<Rightarrow> ('x, bool) io" where
  "instance_fileExists h path = do {
     err \<leftarrow> run_status h [''test'', ''-f'', path];
     ret (err = None)
   }"

text \<open>The map of the health checks, where a later container of the same name wins.\<close>

definition running_checks :: "ContainerStatus list \<Rightarrow> (string \<times> bool) list" where
  "running_checks containers =
     fold (\<lambda>c m. AList.update (cs_Name c) (cs_State c = ''running'') m) containers []"

definition state_of :: "ContainerStatus list \<Rightarrow> string" where
  "state_of containers =
     (if containers = [] then ''stopped''
      else if list_all (\<lambda>c. cs_State c = ''running'') containers then ''running''
      else if list_ex (\<lambda>c. cs_State c = ''running'') containers then ''degraded''
      else ''stopped'')"

text \<open>A status, if there is one, and an error, if there is one.\<close>

definition Status :: "'x host \<Rightarrow> string \<Rightarrow> string \<Rightarrow> ('x, InstanceStatus option \<times> error option) io" where
  "Status h instanceID subdomain =
     (if subdomain = [] then ret (None, Some ''subdomain is required'')
      else do {
        t \<leftarrow> time_now;
        let status = \<lparr>is_InstanceID = instanceID, is_State = [], is_Containers = Some [], is_HealthChecks = Some [], is_LastChecked = rfc3339 t\<rparr>;
        r \<leftarrow> GetContainerStatus h (compose_New subdomain instance_BaseDir);
        ret (case r of
            Inl e \<Rightarrow> (Some (status\<lparr>is_State := ''error''\<rparr>), Some (''failed to get container statuses: '' @ e))
          | Inr containers \<Rightarrow> (Some (status\<lparr>is_Containers := containers, is_State := state_of (elems containers),
              is_HealthChecks := Some (running_checks (elems containers))\<rparr>), None))
      })"

text \<open>The three operations check for the compose file and run one command of compose.\<close>

definition with_instance ::
  "'x host \<Rightarrow> string \<Rightarrow> string \<Rightarrow> (Compose \<Rightarrow> ('x, error option) io) \<Rightarrow> ('x, error option) io" where
  "with_instance h subdomain what f =
     (if subdomain = [] then ret (Some ''subdomain is required'')
      else do {
        exists \<leftarrow> instance_fileExists h (path_join [path_join [instance_BaseDir, subdomain], ''docker-compose.yml'']);
        if \<not> exists then ret (Some (''instance not found: '' @ subdomain))
        else check_then (''failed to '' @ what @ '' instance: '') (f (compose_New subdomain instance_BaseDir)) (ret None)
      })"

definition instance_Start :: "'x host \<Rightarrow> string \<Rightarrow> ('x, error option) io" where
  "instance_Start h subdomain = with_instance h subdomain ''start'' (compose_Start h)"

definition instance_Stop :: "'x host \<Rightarrow> string \<Rightarrow> ('x, error option) io" where
  "instance_Stop h subdomain = with_instance h subdomain ''stop'' (compose_Stop h)"

definition instance_Restart :: "'x host \<Rightarrow> string \<Rightarrow> ('x, error option) io" where
  "instance_Restart h subdomain = with_instance h subdomain ''restart'' (compose_Restart h)"

definition instance_Logs :: "'x host \<Rightarrow> string \<Rightarrow> string \<Rightarrow> int \<Rightarrow> bool \<Rightarrow> ('x, error option) io" where
  "instance_Logs h subdomain containerName tail follow =
     (if subdomain = [] then ret (Some ''subdomain is required'')
      else do {
        r \<leftarrow> run_cmd h (path_join [instance_BaseDir, subdomain])
          ([''sudo'', ''docker'', ''compose'', ''logs''] @ (if 0 < tail then [''--tail'', itoa tail] else [])
            @ (if follow then [''-f''] else [])
            @ (if containerName \<noteq> [] then [trim_prefix containerName (subdomain @ ''-'')] else [])) [];
        ret (cr_status r)
      })"

end
