(* ===== verification/CommandLine.thy ===== *)
theory CommandLine
  imports Handlers Config Instance VerifyBackup Upgrade Cleanup ResetVM
begin

text \<open>
  \<^verbatim>\<open>cmd/vmkit-agent/main.go\<close>: the commands of the agent. A command parses its flags as Go's package
  \<^verbatim>\<open>flag\<close> does, loads its configuration, runs an operation, prints the result as one line of JSON and
  exits with a status. A process is what it prints and its status; the overview of the flags that the
  package prints after an error is left out.
\<close>

section \<open>Flags\<close>

text \<open>\<^verbatim>\<open>strconv.ParseInt(s, 0, 64)\<close>: the base is told by the prefix, and digits may be grouped by \<^verbatim>\<open>_\<close>.\<close>

definition digit_value :: "char \<Rightarrow> int option" where
  "digit_value c = (let n = int (byte_val c) in
     if 48 \<le> n \<and> n \<le> 57 then Some (n - 48)
     else if 97 \<le> n \<and> n \<le> 122 then Some (n - 87)
     else if 65 \<le> n \<and> n \<le> 90 then Some (n - 55) else None)"

fun read_digits :: "int \<Rightarrow> string \<Rightarrow> int \<Rightarrow> num_err + int" where
  "read_digits base [] n = Inr n"
| "read_digits base (c # cs) n =
     (if c = CHR ''_'' then read_digits base cs n
      else case digit_value c of
        None \<Rightarrow> Inl NumSyntax
      | Some d \<Rightarrow> (if base \<le> d then Inl NumSyntax
          else if 2 ^ 64 \<le> n * base + d then Inl NumRange else read_digits base cs (n * base + d)))"

text \<open>Every underscore stands between digits; the prefix of a base counts as one.\<close>

fun grouped :: "bool \<Rightarrow> string \<Rightarrow> bool" where
  "grouped after_digit [] = after_digit"
| "grouped after_digit (c # cs) = (if c = CHR ''_'' then after_digit \<and> grouped False cs else grouped True cs)"

definition base_prefix :: "string \<Rightarrow> int \<times> string \<times> bool" where
  "base_prefix s = (case s of
     z # p # rest \<Rightarrow>
       (if z = CHR ''0'' then
          (let l = lower_char p in
           if rest \<noteq> [] \<and> l = CHR ''b'' then (2, rest, True)
           else if rest \<noteq> [] \<and> l = CHR ''o'' then (8, rest, True)
           else if rest \<noteq> [] \<and> l = CHR ''x'' then (16, rest, True)
           else (8, p # rest, False))
        else (10, s, False))
   | [z] \<Rightarrow> if z = CHR ''0'' then (8, [], False) else (10, s, False)
   | [] \<Rightarrow> (10, [], False))"

definition ParseInt :: "string \<Rightarrow> num_err + int" where
  "ParseInt s =
     (let (neg, u) = atoi_parts s; (base, ds, prefixed) = base_prefix u in
      if u = [] then Inl NumSyntax
      else case read_digits base ds 0 of
        Inl e \<Rightarrow> Inl e
      | Inr n \<Rightarrow>
          (if CHR ''_'' \<in> set ds \<and> \<not> (if prefixed then grouped True ds else grouped False u) then Inl NumSyntax
           else if \<not> neg \<and> 2 ^ 63 \<le> n \<or> neg \<and> 2 ^ 63 < n then Inl NumRange
           else Inr (if neg then - n else n)))"

datatype flag_value = FStr string | FInt int

datatype flags = Parsed "(string \<times> flag_value) list" | UsageWanted | BadFlags error

definition set_flag :: "flag_value \<Rightarrow> string \<Rightarrow> error + flag_value" where
  "set_flag old v = (case old of
     FStr _ \<Rightarrow> Inr (FStr v)
   | FInt _ \<Rightarrow> (case ParseInt v of
         Inl NumSyntax \<Rightarrow> Inl ''parse error''
       | Inl NumRange \<Rightarrow> Inl ''value out of range''
       | Inr i \<Rightarrow> Inr (FInt i)))"

text \<open>The name of a flag and the value written after an equals sign; \<^const>\<open>None\<close> for an argument that ends the flags.\<close>

definition split_flag :: "string \<Rightarrow> (error + string \<times> string option) option" where
  "split_flag s =
     (if length s < 2 \<or> hd s \<noteq> CHR ''-'' \<or> s = ''--'' then None
      else let name = (if s ! 1 = CHR ''-'' then drop 2 s else drop 1 s) in
        if name = [] \<or> hd name = CHR ''-'' \<or> hd name = CHR ''='' then Some (Inl (''bad flag syntax: '' @ s))
        else Some (Inr (case cut_char (CHR ''='') name of
            Some (n, v) \<Rightarrow> (n, Some v) | None \<Rightarrow> (name, None))))"

definition take_value :: "string option \<Rightarrow> string list \<Rightarrow> (string \<times> string list) option" where
  "take_value v args = (case v of
     Some v \<Rightarrow> Some (v, args)
   | None \<Rightarrow> (case args of [] \<Rightarrow> None | x # rest \<Rightarrow> Some (x, rest)))"

lemma take_value_length: "take_value v args = Some (x, rest) \<Longrightarrow> length rest \<le> length args"
  by (auto simp: take_value_def split: option.splits list.splits)

function parse_flags :: "(string \<times> flag_value) list \<Rightarrow> string list \<Rightarrow> flags" where
  "parse_flags vs [] = Parsed vs"
| "parse_flags vs (s # args) =
     (case split_flag s of
        None \<Rightarrow> Parsed vs
      | Some (Inl e) \<Rightarrow> BadFlags e
      | Some (Inr (name, value)) \<Rightarrow>
          (case map_of vs name of
             None \<Rightarrow> (if name = ''help'' \<or> name = ''h'' then UsageWanted
               else BadFlags (''flag provided but not defined: -'' @ name))
           | Some old \<Rightarrow>
               (case take_value value args of
                  None \<Rightarrow> BadFlags (''flag needs an argument: -'' @ name)
                | Some (v, rest) \<Rightarrow>
                    (case set_flag old v of
                       Inl e \<Rightarrow> BadFlags (''invalid value '' @ go_quoted v @ '' for flag -'' @ name @ '': '' @ e)
                     | Inr x \<Rightarrow> parse_flags (AList.update name x vs) rest))))"
  by pat_completeness auto
termination
  by (relation "measure (\<lambda>(vs, args). length args)") (auto dest: take_value_length)

definition str_flag :: "(string \<times> flag_value) list \<Rightarrow> string \<Rightarrow> string" where
  "str_flag vs name = (case map_of vs name of Some (FStr s) \<Rightarrow> s | _ \<Rightarrow> [])"

definition int_flag :: "(string \<times> flag_value) list \<Rightarrow> string \<Rightarrow> int" where
  "int_flag vs name = (case map_of vs name of Some (FInt i) \<Rightarrow> i | _ \<Rightarrow> 0)"

section \<open>Processes\<close>

record process =
  pr_Stdout :: string
  pr_Stderr :: string
  pr_Code :: nat

definition complains :: "string \<Rightarrow> process" where
  "complains msg = \<lparr>pr_Stdout = [], pr_Stderr = msg @ [NL], pr_Code = 1\<rparr>"

text \<open>\<^verbatim>\<open>json.NewEncoder(os.Stdout).Encode\<close>, which prints nothing when the result cannot be written.\<close>

definition prints :: "bool \<Rightarrow> json option \<Rightarrow> process" where
  "prints ok j = \<lparr>pr_Stdout = (case j of None \<Rightarrow> [] | Some j \<Rightarrow> render j @ [NL]), pr_Stderr = [], pr_Code = (if ok then 0 else 1)\<rparr>"

text \<open>\<^verbatim>\<open>fs.Parse(os.Args[2:])\<close> with \<^verbatim>\<open>flag.ExitOnError\<close>.\<close>

definition with_flags ::
  "(string \<times> flag_value) list \<Rightarrow> string list \<Rightarrow> ((string \<times> flag_value) list \<Rightarrow> ('x, process) io) \<Rightarrow> ('x, process) io" where
  "with_flags defaults args k = (case parse_flags defaults args of
     Parsed vs \<Rightarrow> k vs
   | UsageWanted \<Rightarrow> ret \<lparr>pr_Stdout = [], pr_Stderr = [], pr_Code = 0\<rparr>
   | BadFlags e \<Rightarrow> ret \<lparr>pr_Stdout = [], pr_Stderr = e @ [NL], pr_Code = 2\<rparr>)"

section \<open>Commands with a configuration\<close>

definition config_command ::
  "'x agent \<Rightarrow> string \<Rightarrow> ((string \<times> json) list \<Rightarrow> error + 'c) \<Rightarrow> (string \<Rightarrow> json) \<Rightarrow> ('c \<Rightarrow> ('x, bool \<times> json) io)
     \<Rightarrow> string list \<Rightarrow> ('x, process) io" where
  "config_command a name dcd failed run args = with_flags [(''config'', FStr [])] args (\<lambda>vs.
     let configFile = str_flag vs ''config'' in
     if configFile = [] then ret (complains (''Error: --config is required for '' @ name @ '' command''))
     else do {
       r \<leftarrow> os_read (ag_host a) configFile;
       case r of
         Inl e \<Rightarrow> ret (prints False (Some (failed (''Failed to read config file: '' @ err_text e))))
       | Inr text \<Rightarrow> (case unmarshal dcd text of
           Inl e \<Rightarrow> ret (prints False (Some (failed (''Failed to parse config: '' @ e))))
         | Inr cfg \<Rightarrow> do {
             (ok, j) \<leftarrow> run cfg;
             ret (prints ok (Some j))
           })
     })"

definition handleHarden :: "'x agent \<Rightarrow> string list \<Rightarrow> ('x, process) io" where
  "handleHarden a = config_command a ''harden'' dec_HardenConfig
     (\<lambda>msg. enc_HardenResult True \<lparr>hr_Success = False, hr_Steps = [], hr_ErrorMessage = msg, hr_FailedStep = [], hr_RollbackApplied = False,
        hr_RollbackDetails = []\<rparr>)
     (\<lambda>cfg. do {
        r \<leftarrow> Harden (ag_host a) cfg;
        ret (hr_Success r, enc_HardenResult False r)
      })"

definition handleCleanup :: "'x agent \<Rightarrow> string list \<Rightarrow> ('x, process) io" where
  "handleCleanup a = config_command a ''cleanup'' dec_CleanupConfig
     (\<lambda>msg. enc_CleanupResult True \<lparr>cr_Success = False, cr_Level = [], cr_Steps = [], cr_ErrorMessage = msg, cr_FailedStep = [],
        cr_RestoredSSHPort = 0, cr_RestoredSSHUser = []\<rparr>)
     (\<lambda>cfg. do {
        r \<leftarrow> Cleanup (ag_host a) cfg;
        ret (cr_Success r, enc_CleanupResult False r)
      })"

definition handleDestroy :: "'x agent \<Rightarrow> string list \<Rightarrow> ('x, process) io" where
  "handleDestroy a = config_command a ''destroy'' dec_DestroyConfig
     (\<lambda>msg. enc_DestroyResult True \<lparr>ds_Success = False, ds_InstanceID = [], ds_Steps = [], ds_ErrorMessage = msg, ds_FailedStep = []\<rparr>)
     (\<lambda>cfg. do {
        r \<leftarrow> Destroy (ag_host a) cfg;
        ret (ds_Success r, enc_DestroyResult False r)
      })"

definition no_metadata :: BackupMetadata where
  "no_metadata = \<lparr>bm_BackupID = [], bm_InstanceID = [], bm_Subdomain = [], bm_SupabaseVersion = [], bm_Timestamp = None,
     bm_SizeBytes = 0, bm_Checksum = [], bm_StorageSizeBytes = 0, bm_StorageChecksum = [], bm_Status = []\<rparr>"

definition handleBackup :: "'x agent \<Rightarrow> string list \<Rightarrow> ('x, process) io" where
  "handleBackup a = config_command a ''backup'' dec_BackupConfig
     (\<lambda>msg. enc_BackupResult True \<lparr>br_Success = False, br_BackupID = [], br_InstanceID = [], br_Steps = [], br_Metadata = no_metadata,
        br_ErrorMessage = msg, br_FailedStep = []\<rparr>)
     (\<lambda>cfg. do {
        r \<leftarrow> Backup (ag_host a) (ag_digest a) cfg;
        ret (br_Success r, enc_BackupResult False r)
      })"

definition handleRestore :: "'x agent \<Rightarrow> string list \<Rightarrow> ('x, process) io" where
  "handleRestore a = config_command a ''restore'' dec_RestoreConfig
     (\<lambda>msg. enc_RestoreResult True \<lparr>rr_Success = False, rr_InstanceID = [], rr_Steps = [], rr_ErrorMessage = msg, rr_FailedStep = []\<rparr>)
     (\<lambda>cfg. do {
        r \<leftarrow> Restore (ag_host a) (ag_digest a) cfg;
        ret (rr_Success r, enc_RestoreResult False r)
      })"

definition handleVerify :: "'x agent \<Rightarrow> string list \<Rightarrow> ('x, process) io" where
  "handleVerify a = config_command a ''verify'' dec_VerifyBackupConfig
     (\<lambda>msg. enc_VerifyBackupResult True \<lparr>vr_Success = False, vr_BackupID = [], vr_VerifiedAt = None, vr_Checks = [], vr_OverallStatus = [],
        vr_ErrorMessage = msg, vr_Duration = []\<rparr>)
     (\<lambda>cfg. do {
        r \<leftarrow> Verify (ag_host a) (ag_digest a) (ag_gunzip a) cfg;
        ret (vr_Success r, enc_VerifyBackupResult False r)
      })"

definition handleUpgrade :: "'x agent \<Rightarrow> string list \<Rightarrow> ('x, process) io" where
  "handleUpgrade a = config_command a ''upgrade'' dec_UpgradeConfig
     (\<lambda>msg. enc_UpgradeResult True \<lparr>ur_Success = False, ur_InstanceID = [], ur_UpgradedFrom = [], ur_UpgradedTo = [], ur_Steps = [],
        ur_RollbackApplied = False, ur_BackupID = [], ur_ErrorMessage = msg, ur_FailedStep = []\<rparr>)
     (\<lambda>cfg. do {
        r \<leftarrow> Upgrade (ag_host a) (ag_digest a) cfg;
        ret (ur_Success r, enc_UpgradeResult False r)
      })"

definition handleEnableTLS :: "'x agent \<Rightarrow> string list \<Rightarrow> ('x, process) io" where
  "handleEnableTLS a = config_command a ''enable-tls'' dec_EnableTLSConfig
     (\<lambda>msg. enc_EnableTLSResult True \<lparr>er_Success = False, er_InstanceID = [], er_Steps = [], er_ErrorMessage = msg, er_FailedStep = []\<rparr>)
     (\<lambda>cfg. do {
        r \<leftarrow> EnableTLS (ag_host a) (ag_sha1 a) (ag_order a) cfg;
        ret (er_Success r, enc_EnableTLSResult False r)
      })"

definition handleRotateCredentials :: "'x agent \<Rightarrow> string list \<Rightarrow> ('x, process) io" where
  "handleRotateCredentials a = config_command a ''rotate-credentials'' dec_RotateCredentialsConfig
     (\<lambda>msg. enc_RotateCredentialsResult True \<lparr>rs_Success = False, rs_InstanceID = [], rs_Steps = [], rs_ErrorMessage = msg, rs_FailedStep = []\<rparr>)
     (\<lambda>cfg. do {
        r \<leftarrow> RotateCredentials (ag_host a) (ag_order a) cfg;
        ret (rs_Success r, enc_RotateCredentialsResult False r)
      })"

definition handleOpenPort :: "'x agent \<Rightarrow> string list \<Rightarrow> ('x, process) io" where
  "handleOpenPort a = config_command a ''open-port'' dec_OpenPortConfig
     (\<lambda>msg. enc_OpenPortResult \<lparr>or_Success = False, or_Port = 0, or_Protocol = [], or_AllowedCIDRs = [], or_ErrorMessage = msg\<rparr>)
     (\<lambda>cfg. do {
        r \<leftarrow> OpenPort (ag_host a) cfg;
        ret (or_Success r, enc_OpenPortResult r)
      })"

definition handleUpdateAllowlist :: "'x agent \<Rightarrow> string list \<Rightarrow> ('x, process) io" where
  "handleUpdateAllowlist a = config_command a ''update-allowlist'' dec_UpdateAllowlistConfig
     (\<lambda>msg. enc_UpdateAllowlistResult \<lparr>ul_Success = False, ul_Port = 0, ul_Protocol = [], ul_AllowedCIDRs = [], ul_AddedCIDRs = [],
        ul_RemovedCIDRs = [], ul_ErrorMessage = msg\<rparr>)
     (\<lambda>cfg. do {
        r \<leftarrow> UpdateAllowlist (ag_host a) cfg;
        ret (ul_Success r, enc_UpdateAllowlistResult r)
      })"

text \<open>The configuration of \<^verbatim>\<open>reset-vm\<close> may be left out.\<close>

definition handleResetVM :: "'x agent \<Rightarrow> string list \<Rightarrow> ('x, process) io" where
  "handleResetVM a args = with_flags [(''config'', FStr [])] args (\<lambda>vs.
     let configFile = str_flag vs ''config'';
         load_failed = (\<lambda>msg. enc_ResetVMResult True \<lparr>rx_Success = False, rx_Steps = [], rx_PurgedInstances = [],
           rx_RemovedUFWRules = [], rx_RemovedConfigFiles = [], rx_ErrorMessage = msg, rx_FailedStep = ''load_config''\<rparr>);
         reset = (\<lambda>cfg. do { r \<leftarrow> Reset (ag_host a) cfg; ret (prints (rx_Success r) (Some (enc_ResetVMResult False r))) }) in
     if configFile = [] then reset \<lparr>rv_BaseDir = [], rv_AllowedPorts = []\<rparr>
     else do {
       r \<leftarrow> os_read (ag_host a) configFile;
       case r of
         Inl e \<Rightarrow> ret (prints False (Some (load_failed (''Failed to read config file: '' @ err_text e))))
       | Inr text \<Rightarrow> (case unmarshal dec_ResetVMConfig text of
           Inl e \<Rightarrow> ret (prints False (Some (load_failed (''Failed to parse config: '' @ e))))
         | Inr cfg \<Rightarrow> reset cfg)
     })"

text \<open>An update is a deployment.\<close>

definition deploy_command :: "'x agent \<Rightarrow> string \<Rightarrow> string list \<Rightarrow> ('x, process) io" where
  "deploy_command a name args = with_flags [(''config'', FStr [])] args (\<lambda>vs.
     let configFile = str_flag vs ''config'' in
     if configFile = [] then ret (complains (''Error: --config is required for '' @ name @ '' command''))
     else do {
       cfg \<leftarrow> Load (ag_host a) (ag_order a) configFile;
       case cfg of
         Inl e \<Rightarrow> ret (prints False (Some (enc_DeployResult True \<lparr>dr_Success = False, dr_InstanceID = [], dr_Steps = [],
           dr_ErrorMessage = ''Failed to load config: '' @ e, dr_FailedStep = []\<rparr>)))
       | Inr cfg \<Rightarrow> do {
           r \<leftarrow> Deploy (ag_host a) (ag_sha1 a) (ag_order a) cfg;
           ret (prints (dr_Success r) (Some (enc_DeployResult False r)))
         }
     })"

definition handleDeploy :: "'x agent \<Rightarrow> string list \<Rightarrow> ('x, process) io" where
  "handleDeploy a = deploy_command a ''deploy''"

definition handleUpdate :: "'x agent \<Rightarrow> string list \<Rightarrow> ('x, process) io" where
  "handleUpdate a = deploy_command a ''update''"

section \<open>Commands on an instance\<close>

text \<open>The instance and its subdomain: one of them has to be given.\<close>

definition instance_flags :: "(string \<times> flag_value) list" where
  "instance_flags = [(''instance-id'', FStr []), (''subdomain'', FStr [])]"

definition with_subdomain ::
  "(string \<times> flag_value) list \<Rightarrow> string list \<Rightarrow> ((string \<times> flag_value) list \<Rightarrow> string \<Rightarrow> string \<Rightarrow> ('x, process) io)
     \<Rightarrow> ('x, process) io" where
  "with_subdomain defaults args k = with_flags defaults args (\<lambda>vs.
     let instanceID = str_flag vs ''instance-id''; subdomain = str_flag vs ''subdomain'' in
     if instanceID = [] \<and> subdomain = [] then ret (complains ''Error: --instance-id or --subdomain is required'')
     else k vs instanceID (if subdomain = [] then instanceID else subdomain))"

definition handleStatus :: "'x agent \<Rightarrow> string list \<Rightarrow> ('x, process) io" where
  "handleStatus a args = with_subdomain instance_flags args (\<lambda>vs instanceID subdomain. do {
     (st, err) \<leftarrow> Status (ag_host a) instanceID subdomain;
     let st = (case st of Some st \<Rightarrow> st
       | None \<Rightarrow> \<lparr>is_InstanceID = instanceID, is_State = ''error'', is_Containers = None,
           is_HealthChecks = None, is_LastChecked = None\<rparr>);
     ret ((prints (is_State st \<noteq> ''error'') (Some (enc_InstanceStatus st)))
       \<lparr>pr_Stderr := (case err of None \<Rightarrow> [] | Some e \<Rightarrow> ''Error: '' @ e @ [NL])\<rparr>)
   })"

definition level_of :: "string \<Rightarrow> HealthCheckLevel option" where
  "level_of s =
     (if s = ''basic'' then Some HealthCheckBasic else if s = ''deep'' then Some HealthCheckDeep
      else if s = ''metrics'' then Some HealthCheckMetrics else if s = ''services'' then Some HealthCheckServices
      else if s = ''full'' then Some HealthCheckFull else None)"

definition handleHealth :: "'x agent \<Rightarrow> string list \<Rightarrow> ('x, process) io" where
  "handleHealth a args = with_subdomain
     (instance_flags @ [(''base-dir'', FStr ''/opt/supabase''), (''level'', FStr ''basic''), (''timeout'', FInt 30)]) args
     (\<lambda>vs instanceID subdomain.
        let instanceID = (if instanceID = [] then subdomain else instanceID); levelStr = str_flag vs ''level'' in
        case level_of levelStr of
          None \<Rightarrow> ret (complains (''Error: invalid level '' @ [CHR 0x27] @ levelStr @ [CHR 0x27] @
            ''. Valid levels: basic, deep, metrics, services, full''))
        | Some level \<Rightarrow> do {
            r \<leftarrow> CheckEnhanced (ag_host a) (Some \<lparr>eh_InstanceID = instanceID, eh_Subdomain = subdomain,
              eh_BaseDir = str_flag vs ''base-dir'', eh_Level = level, eh_Timeout = int_flag vs ''timeout''\<rparr>);
            ret (case r of
                Inl e \<Rightarrow> (prints False (enc_EnhancedHealthCheckResult True \<lparr>en_InstanceID = instanceID,
                  en_OverallStatus = ''unhealthy'', en_Timestamp = None, en_Containers = [], en_Services = [], en_Checks = [],
                  en_Duration = [], en_Level = levelStr\<rparr>))\<lparr>pr_Stderr := ''Error: '' @ e @ [NL]\<rparr>
              | Inr result \<Rightarrow> prints (en_OverallStatus result = ''healthy'') (enc_EnhancedHealthCheckResult False result))
          })"

definition handleDiagnose :: "'x agent \<Rightarrow> string list \<Rightarrow> ('x, process) io" where
  "handleDiagnose a args = with_subdomain
     (instance_flags @ [(''base-dir'', FStr ''/opt/supabase''), (''timeout'', FInt 60)]) args
     (\<lambda>vs instanceID subdomain. do {
        let instanceID = (if instanceID = [] then subdomain else instanceID);
        r \<leftarrow> Diagnose (ag_host a) (ag_NumCPU a) (ag_Version a) (Some \<lparr>dg_InstanceID = instanceID, dg_Subdomain = subdomain,
          dg_BaseDir = str_flag vs ''base-dir'', dg_Timeout = int_flag vs ''timeout''\<rparr>);
        ret (case r of
            Inl e \<Rightarrow> (prints False (Some (enc_DiagnoseResult True \<lparr>di_InstanceID = instanceID, di_OverallStatus = ''fail'',
              di_Checks = [], di_Timestamp = None, di_Duration = [], di_AgentVersion = ag_Version a\<rparr>)))
              \<lparr>pr_Stderr := ''Error: '' @ e @ [NL]\<rparr>
          | Inr result \<Rightarrow> prints (di_OverallStatus result = ''pass'') (Some (enc_DiagnoseResult False result)))
      })"

text \<open>The keys of a map are printed in order.\<close>

definition instance_command ::
  "(string \<Rightarrow> ('x, error option) io) \<Rightarrow> string \<Rightarrow> string list \<Rightarrow> ('x, process) io" where
  "instance_command f done_text args = with_subdomain instance_flags args (\<lambda>vs instanceID subdomain. do {
     err \<leftarrow> f subdomain;
     ret (case err of
         Some e \<Rightarrow> prints False (Some (JObj [(''error'', JStr e), (''success'', JBool False)]))
       | None \<Rightarrow> prints True (Some (JObj [(''message'', JStr (''Instance '' @ subdomain @ done_text)), (''success'', JBool True)])))
   })"

definition handleStart :: "'x agent \<Rightarrow> string list \<Rightarrow> ('x, process) io" where
  "handleStart a = instance_command (instance_Start (ag_host a)) '' started successfully''"

definition handleStop :: "'x agent \<Rightarrow> string list \<Rightarrow> ('x, process) io" where
  "handleStop a = instance_command (instance_Stop (ag_host a)) '' stopped successfully''"

section \<open>The daemon\<close>

text \<open>A command ends, or the process serves the gateway with a configuration and the handlers.\<close>

datatype command_end = Exits process | Serves daemon_config

definition daemon_flags :: "(string \<times> flag_value) list" where
  "daemon_flags = [(''gateway-url'', FStr []), (''instance-id'', FStr []), (''token-file'', FStr ''/etc/vmkit/token''),
     (''session-file'', FStr ''/etc/vmkit/session''), (''log-level'', FStr ''info'')]"

definition handleDaemon :: "'x agent \<Rightarrow> string list \<Rightarrow> command_end" where
  "handleDaemon a args = (case parse_flags daemon_flags args of
     UsageWanted \<Rightarrow> Exits \<lparr>pr_Stdout = [], pr_Stderr = [], pr_Code = 0\<rparr>
   | BadFlags e \<Rightarrow> Exits \<lparr>pr_Stdout = [], pr_Stderr = e @ [NL], pr_Code = 2\<rparr>
   | Parsed vs \<Rightarrow>
       (if str_flag vs ''gateway-url'' = [] then Exits (complains ''Error: --gateway-url is required'')
        else if str_flag vs ''instance-id'' = [] then Exits (complains ''Error: --instance-id is required'')
        else if str_flag vs ''log-level'' \<notin> {''debug'', ''info'', ''warn'', ''error''}
          then Exits (complains (''Error: invalid log level '' @ go_quoted (str_flag vs ''log-level'')))
        else Serves \<lparr>dc_GatewayURL = str_flag vs ''gateway-url'', dc_InstanceID = str_flag vs ''instance-id'',
          dc_BootstrapPath = str_flag vs ''token-file'', dc_SessionPath = str_flag vs ''session-file'', dc_Version = ag_Version a\<rparr>))"

section \<open>The command line\<close>

definition usage_text :: string where
  "usage_text = unlines
     [''vmkit-agent - VM deployment agent'',
      [],
      ''Usage:'',
      ''  vmkit-agent <command> [options]'',
      [],
      ''Commands:'',
      ''  version              Show version'',
      ''  daemon               Run as a persistent daemon with WS uplink to the gateway'',
      ''  deploy               Deploy a Supabase instance'',
      ''  harden               Harden VM security (SSH, firewall, fail2ban)'',
      ''  cleanup              Cleanup VM and optionally restore original settings'',
      ''  destroy              Destroy an instance and clean up resources'',
      ''  status               Check instance status (basic)'',
      ''  health               Enhanced health check with diagnostics'',
      ''  diagnose             Comprehensive instance troubleshooting'',
      ''  start                Start an instance'',
      ''  stop                 Stop an instance'',
      ''  update               Update an instance'',
      ''  backup               Backup an instance database and storage'',
      ''  restore              Restore an instance from backup'',
      ''  verify               Verify backup integrity and restorability'',
      ''  upgrade              Upgrade instance to a new Supabase version'',
      ''  enable-tls           Enable TLS for an existing instance'',
      ''  rotate-credentials   Rotate instance credentials'',
      ''  open-port            Open a firewall port (UFW)'',
      ''  update-allowlist     Reconcile UFW source-IP allowlist for a port'',
      ''  reset-vm             Restore a shared VM to just-hardened baseline (purge instances + UFW reset)'',
      [],
      ''Options:'',
      ''  --config FILE        Configuration file (required for deploy/update/harden/cleanup/destroy/backup/restore)'',
      ''  --instance-id ID     Instance ID (required for status/start/stop/health)'',
      ''  --subdomain NAME     Instance subdomain (optional, defaults to instance-id)'',
      ''  --level LEVEL        Health check level: basic, deep, metrics, services, full (default: basic)'',
      [],
      ''Examples:'',
      ''  vmkit-agent deploy --config /tmp/deploy.json'',
      ''  vmkit-agent harden --config /tmp/harden.json'',
      ''  vmkit-agent cleanup --config /tmp/cleanup.json'',
      ''  vmkit-agent destroy --config /tmp/destroy.json'',
      ''  vmkit-agent status --instance-id abc-123'',
      ''  vmkit-agent health --instance-id abc-123 --level full'',
      ''  vmkit-agent health --subdomain my-instance --level deep'',
      ''  vmkit-agent diagnose --instance-id abc-123 --subdomain my-instance'',
      ''  vmkit-agent start --instance-id abc-123'',
      ''  vmkit-agent backup --config /tmp/backup.json'',
      ''  vmkit-agent restore --config /tmp/restore.json'',
      ''  vmkit-agent verify --config /tmp/verify.json'',
      ''  vmkit-agent upgrade --config /tmp/upgrade.json'',
      ''  vmkit-agent enable-tls --config /tmp/tls.json'',
      ''  vmkit-agent rotate-credentials --config /tmp/rotate.json'',
      ''  vmkit-agent reset-vm --config /tmp/reset-vm.json'']"

definition commands :: "'x agent \<Rightarrow> (string \<times> (string list \<Rightarrow> ('x, process) io)) list" where
  "commands a =
     [(''deploy'', handleDeploy a), (''harden'', handleHarden a), (''cleanup'', handleCleanup a), (''destroy'', handleDestroy a),
      (''status'', handleStatus a), (''health'', handleHealth a), (''diagnose'', handleDiagnose a), (''start'', handleStart a),
      (''stop'', handleStop a), (''update'', handleUpdate a), (''backup'', handleBackup a), (''restore'', handleRestore a),
      (''verify'', handleVerify a), (''upgrade'', handleUpgrade a), (''enable-tls'', handleEnableTLS a),
      (''rotate-credentials'', handleRotateCredentials a), (''open-port'', handleOpenPort a),
      (''update-allowlist'', handleUpdateAllowlist a), (''reset-vm'', handleResetVM a)]"

text \<open>The arguments do not include the name of the program.\<close>

definition main_command :: "'x agent \<Rightarrow> string list \<Rightarrow> ('x, command_end) io" where
  "main_command a argv = (case argv of
     [] \<Rightarrow> ret (Exits \<lparr>pr_Stdout = usage_text, pr_Stderr = [], pr_Code = 1\<rparr>)
   | command # args \<Rightarrow>
       (if command = ''version'' then
          ret (Exits \<lparr>pr_Stdout = ''vmkit-agent version '' @ ag_Version a @ [NL], pr_Stderr = [], pr_Code = 0\<rparr>)
        else if command = ''daemon'' then ret (handleDaemon a args)
        else case map_of (commands a) command of
          Some f \<Rightarrow> do { p \<leftarrow> f args; ret (Exits p) }
        | None \<Rightarrow> ret (Exits \<lparr>pr_Stdout = usage_text, pr_Stderr = ''Unknown command: '' @ command @ [NL], pr_Code = 1\<rparr>)))"

section \<open>The exit status tells what the output says\<close>

text \<open>Whether the result of a command reports success, by the member that its callers look at.\<close>

definition said :: "string \<Rightarrow> json \<Rightarrow> bool option" where
  "said name j = (case j of
     JObj ms \<Rightarrow>
       (if name = ''status'' then map_option (\<lambda>v. v \<noteq> JStr ''error'') (map_of ms ''state'')
        else if name = ''health'' then map_option (\<lambda>v. v = JStr ''healthy'') (map_of ms ''overall_status'')
        else if name = ''diagnose'' then map_option (\<lambda>v. v = JStr ''pass'') (map_of ms ''overall_status'')
        else map_option (\<lambda>v. v = JBool True) (map_of ms ''success''))
   | _ \<Rightarrow> None)"

definition truthful :: "string \<Rightarrow> process \<Rightarrow> bool" where
  "truthful name p \<longleftrightarrow> pr_Stdout p = [] \<or>
     (\<exists>j. parse_json (pr_Stdout p) = Some j \<and> said name j = Some (pr_Code p = 0))"

definition special :: "string \<Rightarrow> bool" where
  "special name \<longleftrightarrow> name = ''status'' \<or> name = ''health'' \<or> name = ''diagnose''"

lemma truthful_simps [simp]:
  "truthful name (complains msg)" "truthful name (prints ok None)" "truthful name \<lparr>pr_Stdout = [], pr_Stderr = e, pr_Code = c\<rparr>"
  "truthful name (p\<lparr>pr_Stderr := e\<rparr>) = truthful name p"
  by (simp_all add: truthful_def complains_def prints_def)

lemma truthful_prints: "renderable j \<Longrightarrow> said name j = Some ok \<Longrightarrow> truthful name (prints ok (Some j))"
  by (simp add: truthful_def prints_def parse_render_line)

lemma said_success:
  "\<not> special name \<Longrightarrow> said name (JObj (bool_m ''success'' ok @ ms)) = Some ok"
  by (simp add: said_def special_def bool_m_def)

lemma said_results:
  assumes "\<not> special name"
  shows "said name (enc_DeployResult zero r1) = Some (dr_Success r1)" "said name (enc_HardenResult zero r2) = Some (hr_Success r2)"
    "said name (enc_CleanupResult zero r3) = Some (cr_Success r3)" "said name (enc_DestroyResult zero r4) = Some (ds_Success r4)"
    "said name (enc_BackupResult zero r5) = Some (br_Success r5)" "said name (enc_RestoreResult zero r6) = Some (rr_Success r6)"
    "said name (enc_VerifyBackupResult zero r7) = Some (vr_Success r7)" "said name (enc_UpgradeResult zero r8) = Some (ur_Success r8)"
    "said name (enc_EnableTLSResult zero r9) = Some (er_Success r9)"
    "said name (enc_RotateCredentialsResult zero r10) = Some (rs_Success r10)"
    "said name (enc_OpenPortResult r11) = Some (or_Success r11)" "said name (enc_UpdateAllowlistResult r12) = Some (ul_Success r12)"
    "said name (enc_ResetVMResult zero r13) = Some (rx_Success r13)"
  by (simp_all add: enc_DeployResult_def enc_HardenResult_def enc_CleanupResult_def enc_DestroyResult_def enc_BackupResult_def
      enc_RestoreResult_def enc_VerifyBackupResult_def enc_UpgradeResult_def enc_EnableTLSResult_def enc_RotateCredentialsResult_def
      enc_OpenPortResult_def enc_UpdateAllowlistResult_def enc_ResetVMResult_def enc_plain_def said_success [OF assms])

lemma yields_with_flags: "(\<And>vs. yields (truthful name) (k vs)) \<Longrightarrow> yields (truthful name) (with_flags defaults args k)"
  unfolding with_flags_def by (auto intro!: yields_return split: flags.split)

lemma yields_with_subdomain:
  "(\<And>vs i d. yields (truthful name) (k vs i d)) \<Longrightarrow> yields (truthful name) (with_subdomain defaults args k)"
  unfolding with_subdomain_def Let_def by (intro yields_with_flags yields_if yields_return) simp_all

lemma yields_prints: "renderable j \<Longrightarrow> said name j = Some ok \<Longrightarrow> yields (truthful name) (ret (prints ok (Some j)))"
  by (intro yields_return truthful_prints)

lemma yields_config_command:
  assumes "\<And>msg. renderable (failed msg) \<and> said name (failed msg) = Some False"
    and "\<And>cfg. yields (\<lambda>(ok, j). renderable j \<and> said name j = Some ok) (run cfg)"
  shows "yields (truthful name) (config_command a name dcd failed run args)"
proof -
  have run: "yields (truthful name) (run cfg \<bind> (\<lambda>(ok, j). ret (prints ok (Some j))))" for cfg
    by (rule yields_bind_res [OF assms(2)]) (auto intro: yields_prints)
  show ?thesis
    unfolding config_command_def Let_def
    by (intro yields_with_flags yields_if yields_return yields_bind yields_sum yields_prints run truthful_simps(1))
      (use assms(1) in auto)
qed

lemma yields_deploy_command: "\<not> special name \<Longrightarrow> yields (truthful name) (deploy_command a command args)"
  unfolding deploy_command_def Let_def
  by (intro yields_with_flags yields_if yields_return yields_bind yields_sum yields_prints truthful_simps(1))
    (simp_all add: said_results)

lemma yields_reset: "\<not> special name \<Longrightarrow> yields (truthful name) (handleResetVM a args)"
  unfolding handleResetVM_def Let_def
  by (intro yields_with_flags yields_if yields_return yields_bind yields_sum yields_prints)
    (simp_all add: said_results)

lemma yields_instance_command: "\<not> special name \<Longrightarrow> yields (truthful name) (instance_command f t args)"
  unfolding instance_command_def
  by (intro yields_with_subdomain yields_bind yields_return)
    (auto intro!: truthful_prints simp: said_def special_def split: option.split)

lemma truthful_status: "truthful ''status'' (prints (is_State st \<noteq> ''error'') (Some (enc_InstanceStatus st)))"
  by (rule truthful_prints) (simp, simp add: said_def enc_InstanceStatus_def str_m_def)

lemma yields_status: "yields (truthful ''status'') (handleStatus a args)"
  unfolding handleStatus_def Let_def
  by (intro yields_with_subdomain yields_bind) (auto intro!: yields_return truthful_status)

lemma said_health:
  "enc_EnhancedHealthCheckResult zero r = Some j \<Longrightarrow> said ''health'' j = Some (en_OverallStatus r = ''healthy'')"
  by (auto simp: enc_EnhancedHealthCheckResult_def said_def str_m_def)

lemma yields_health: "yields (truthful ''health'') (handleHealth a args)"
proof -
  have "truthful ''health'' (prints (en_OverallStatus r = ''healthy'') (enc_EnhancedHealthCheckResult zero r))" for zero r
    using said_health [of zero r] renderable_enhanced [of zero r]
    by (cases "enc_EnhancedHealthCheckResult zero r") (auto intro: truthful_prints)
  moreover have "truthful ''health'' (prints False (enc_EnhancedHealthCheckResult zero r))" if "en_OverallStatus r \<noteq> ''healthy''" for zero r
    using that calculation [of r zero] by simp
  ultimately show ?thesis
    unfolding handleHealth_def Let_def
    by (intro yields_with_subdomain yields_option yields_return yields_bind) (auto split: sum.split)
qed

lemma truthful_diagnose: "ok = (di_OverallStatus r = ''pass'') \<Longrightarrow> truthful ''diagnose'' (prints ok (Some (enc_DiagnoseResult zero r)))"
  by (rule truthful_prints) (simp, simp add: said_def enc_DiagnoseResult_def str_m_def)

lemma yields_diagnose: "yields (truthful ''diagnose'') (handleDiagnose a args)"
  unfolding handleDiagnose_def Let_def
  by (intro yields_with_subdomain yields_return yields_bind) (auto intro!: truthful_diagnose split: sum.split)

lemma yields_pair: "yields (\<lambda>(ok, j). P ok j) (ret (x, y)) \<longleftrightarrow> P x y"
  by (simp add: yields_def)


end
